(* ===== verification/Prelude.thy ===== *)
theory Prelude
  imports Main "HOL-Library.AList"
begin

text \<open>
  Shared vocabulary of the development: Python dictionaries as association lists in insertion
  order, the effect type of code that mutates state and may raise (an exception keeps every
  mutation made before it, as in Python), loops over such code, and the frame calculus: a
  relation between the state before and after that is reflexive and transitive is kept by every
  composition of statements that keep it one by one.
\<close>

named_theorems eff_defs "definitions of the effect combinators"

subsection \<open>Dictionaries\<close>

type_synonym ('k, 'v) dict = "('k \<times> 'v) list"

abbreviation dget :: "('k, 'v) dict \<Rightarrow> 'k \<Rightarrow> 'v option" where
  "dget d k \<equiv> map_of d k"

abbreviation dset :: "'k \<Rightarrow> 'v \<Rightarrow> ('k, 'v) dict \<Rightarrow> ('k, 'v) dict" where
  "dset k v d \<equiv> AList.update k v d"

definition dget_or :: "('k, 'v) dict \<Rightarrow> 'k \<Rightarrow> 'v \<Rightarrow> 'v" where
  "dget_or d k v = (case dget d k of None \<Rightarrow> v | Some x \<Rightarrow> x)"

definition dkeys :: "('k, 'v) dict \<Rightarrow> 'k list" where
  "dkeys d = map fst d"

text \<open>A dictionary built from a list of pairs: later bindings of a key win and keep its place.\<close>

definition dict_of :: "('k \<times> 'v) list \<Rightarrow> ('k, 'v) dict" where
  "dict_of xs = fold (\<lambda>(k, v) d. dset k v d) xs []"

subsection \<open>Effects: mutation, exceptions, loops\<close>

type_synonym ('s, 'e, 'a) eff = "'s \<Rightarrow> ('e + 'a) \<times> 's"

definition eret :: "'a \<Rightarrow> ('s, 'e, 'a) eff" where
  [eff_defs]: "eret a = (\<lambda>s. (Inr a, s))"

definition eraise :: "'e \<Rightarrow> ('s, 'e, 'a) eff" where
  [eff_defs]: "eraise e = (\<lambda>s. (Inl e, s))"

definition ebind :: "('s, 'e, 'a) eff \<Rightarrow> ('a \<Rightarrow> ('s, 'e, 'b) eff) \<Rightarrow> ('s, 'e, 'b) eff" where
  [eff_defs]: "ebind m f = (\<lambda>s. case m s of (Inl e, s') \<Rightarrow> (Inl e, s') | (Inr a, s') \<Rightarrow> f a s')"

definition ethen :: "('s, 'e, 'a) eff \<Rightarrow> ('s, 'e, 'b) eff \<Rightarrow> ('s, 'e, 'b) eff" where
  [eff_defs]: "ethen m n = ebind m (\<lambda>_. n)"

definition eget :: "('s \<Rightarrow> 'a) \<Rightarrow> ('s, 'e, 'a) eff" where
  [eff_defs]: "eget f = (\<lambda>s. (Inr (f s), s))"

definition emod :: "('s \<Rightarrow> 's) \<Rightarrow> ('s, 'e, unit) eff" where
  [eff_defs]: "emod f = (\<lambda>s. (Inr (), f s))"

definition elift :: "'e + 'a \<Rightarrow> ('s, 'e, 'a) eff" where
  [eff_defs]: "elift r = (\<lambda>s. (r, s))"

definition ecatch :: "('s, 'e, 'a) eff \<Rightarrow> ('e \<Rightarrow> ('s, 'e, 'a) eff) \<Rightarrow> ('s, 'e, 'a) eff" where
  [eff_defs]: "ecatch m h = (\<lambda>s. case m s of (Inl e, s') \<Rightarrow> h e s' | (Inr a, s') \<Rightarrow> (Inr a, s'))"

fun efor :: "'x list \<Rightarrow> ('x \<Rightarrow> ('s, 'e, unit) eff) \<Rightarrow> ('s, 'e, unit) eff" where
  "efor [] f = eret ()"
| "efor (x # xs) f = ethen (f x) (efor xs f)"

fun emap :: "'x list \<Rightarrow> ('x \<Rightarrow> ('s, 'e, 'y) eff) \<Rightarrow> ('s, 'e, 'y list) eff" where
  "emap [] f = eret []"
| "emap (x # xs) f = ebind (f x) (\<lambda>y. ebind (emap xs f) (\<lambda>ys. eret (y # ys)))"

text \<open>The pure counterpart: a comprehension whose element expression may raise.\<close>

fun rmap :: "('x \<Rightarrow> 'e + 'y) \<Rightarrow> 'x list \<Rightarrow> 'e + 'y list" where
  "rmap f [] = Inr []"
| "rmap f (x # xs) = (case f x of Inl e \<Rightarrow> Inl e
     | Inr y \<Rightarrow> (case rmap f xs of Inl e \<Rightarrow> Inl e | Inr ys \<Rightarrow> Inr (y # ys)))"

definition rbind :: "'e + 'a \<Rightarrow> ('a \<Rightarrow> 'e + 'b) \<Rightarrow> 'e + 'b" where
  [eff_defs]: "rbind r f = (case r of Inl e \<Rightarrow> Inl e | Inr a \<Rightarrow> f a)"

definition guardr :: "bool \<Rightarrow> 'e \<Rightarrow> 'e + unit" where
  [eff_defs]: "guardr b e = (if b then Inr () else Inl e)"

text \<open>Frames: what holds between the states before and after, whatever the outcome.\<close>

definition always :: "('s \<Rightarrow> 's \<Rightarrow> bool) \<Rightarrow> ('s, 'e, 'a) eff \<Rightarrow> bool" where
  "always R m \<longleftrightarrow> (\<forall>s. R s (snd (m s)))"

subsection \<open>Lemmas on dictionaries\<close>

lemma dget_dset [simp]: "dget (dset k v d) k' = (if k' = k then Some v else dget d k')"
  by (simp add: update_conv')

lemma dget_or_dset [simp]: "dget_or (dset k v d) k' x = (if k' = k then v else dget_or d k' x)"
  by (simp add: dget_or_def update_conv')

lemma dget_or_Nil [simp]: "dget_or [] k x = x"
  by (simp add: dget_or_def)

lemma dkeys_dset: "set (dkeys (dset k v d)) = insert k (set (dkeys d))"
  using dom_update [of k v d] by (simp add: dkeys_def dom_map_of_conv_image_fst)

lemma distinct_dset: "distinct (map fst d) \<Longrightarrow> distinct (map fst (dset k v d))"
  by (rule distinct_update)

lemma dget_in_dkeys: "dget d k \<noteq> None \<longleftrightarrow> k \<in> set (dkeys d)"
  by (simp only: dkeys_def set_map dom_map_of_conv_image_fst [symmetric] domIff)

lemma distinct_fold_dset:
  "distinct (map fst d) \<Longrightarrow> distinct (map fst (fold (\<lambda>(k, v) d. dset k v d) xs d))"
  by (induction xs arbitrary: d) (auto simp: distinct_update)

lemma distinct_dict_of: "distinct (map fst (dict_of xs))"
  by (simp add: dict_of_def distinct_fold_dset)

lemma keys_fold_dset:
  "fst ` set (fold (\<lambda>(k, v) d. dset k v d) xs d) = fst ` set d \<union> fst ` set xs"
proof (induction xs arbitrary: d)
  case (Cons x xs)
  have "fst ` set (dset (fst x) (snd x) d) = insert (fst x) (fst ` set d)"
    using dkeys_dset [of "fst x" "snd x" d] by (simp add: dkeys_def)
  with Cons.IH show ?case by (cases x) simp
qed simp

lemma keys_dict_of: "fst ` set (dict_of xs) = fst ` set xs"
  by (simp add: dict_of_def keys_fold_dset)

lemma set_dict_of: "set (dict_of xs) \<subseteq> set xs"
proof -
  have "set (fold (\<lambda>(k, v) d. dset k v d) xs d) \<subseteq> set d \<union> set xs" for d
  proof (induction xs arbitrary: d)
    case (Cons x xs)
    obtain k v where x: "x = (k, v)" by (cases x)
    have "set (dset k v d) \<subseteq> insert (k, v) (set d)"
      by (induction d) auto
    with Cons.IH [of "dset k v d"] x show ?case by auto
  qed simp
  from this [of "[]"] show ?thesis by (simp add: dict_of_def)
qed

subsection \<open>Lemmas on effects\<close>

lemma ebind_simps [simp]:
  "ebind (eret a) f = f a"
  "ebind (eraise e) f = eraise e"
  "ebind (elift (Inr a)) f = f a"
  "ebind (elift (Inl e)) f = eraise e"
  by (simp_all add: eff_defs fun_eq_iff)

lemma eff_run [simp]:
  "ebind (eget f') g s = g (f' s) s"
  "ethen (emod f) n s = n (f s)"
  "ebind (emod f) h s = h () (f s)"
  "eget f' s = (Inr (f' s), s)" "emod f s = (Inr (), f s)"
  by (simp_all add: eff_defs)

lemma eff_done [simp]:
  "eret a s = p \<longleftrightarrow> (Inr a, s) = p" "eraise e s = q \<longleftrightarrow> (Inl e, s) = q" "elift r s = w \<longleftrightarrow> (r, s) = w"
  "snd (eret a s) = s" "snd (eraise e s) = s" "snd (elift r s) = s"
  "fst (eret a s) = Inr a" "fst (eraise e s) = Inl e" "fst (elift r s) = r"
  by (auto simp: eff_defs)

lemma ethen_eret [simp]: "ethen (eret a) n = n"
  by (simp add: ethen_def ebind_def eret_def)

lemma ethen_assoc: "ethen (ethen a b) c = ethen a (ethen b c)"
  by (auto simp: ethen_def ebind_def fun_eq_iff split: prod.splits sum.splits)

lemma ebind_Inr: "m s = (Inr a, s') \<Longrightarrow> ebind m f s = f a s'"
  by (simp add: ebind_def)

lemma ebind_Inl: "m s = (Inl e, s') \<Longrightarrow> ebind m f s = (Inl e, s')"
  by (simp add: ebind_def)

lemma ethen_Inr: "m s = (Inr a, s') \<Longrightarrow> ethen m n s = n s'"
  by (simp add: ethen_def ebind_def)

lemma ethen_Inl: "m s = (Inl e, s') \<Longrightarrow> ethen m n s = (Inl e, s')"
  by (simp add: ethen_def ebind_def)

lemma ebind_eq_Inr:
  "ebind m f s = (Inr b, t) \<longleftrightarrow> (\<exists>a s'. m s = (Inr a, s') \<and> f a s' = (Inr b, t))"
  by (auto simp: ebind_def split: prod.splits sum.splits)

lemma ethen_eq_Inr:
  "ethen m n s = (Inr b, t) \<longleftrightarrow> (\<exists>a s'. m s = (Inr a, s') \<and> n s' = (Inr b, t))"
  by (simp add: ethen_def ebind_eq_Inr)

lemma rbind_simps [simp]:
  "rbind (Inl e) f = Inl e" "rbind (Inr a) f = f a"
  by (simp_all add: rbind_def)

lemma rbind_eq_Inr: "rbind r f = Inr b \<longleftrightarrow> (\<exists>a. r = Inr a \<and> f a = Inr b)"
  by (cases r) simp_all

lemma guardr_eq_Inr [simp]: "guardr b e = Inr u \<longleftrightarrow> b"
  by (simp add: guardr_def)

lemma rmap_eq_Inr: "rmap f xs = Inr ys \<longleftrightarrow> list_all2 (\<lambda>x y. f x = Inr y) xs ys"
proof (induction xs arbitrary: ys)
  case Nil
  then show ?case by auto
next
  case (Cons x xs)
  show ?case
    by (cases "f x"; cases "rmap f xs"; cases ys) (auto simp: Cons.IH [symmetric])
qed

lemma rmap_length: "rmap f xs = Inr ys \<Longrightarrow> length ys = length xs"
  by (auto simp: rmap_eq_Inr dest: list_all2_lengthD)

lemma alwaysD: "always R m \<Longrightarrow> m s = (r, s') \<Longrightarrow> R s s'"
  unfolding always_def by (metis snd_conv)

lemma alwaysI: "(\<And>s r s'. m s = (r, s') \<Longrightarrow> R s s') \<Longrightarrow> always R m"
  unfolding always_def by (metis prod.collapse)

text \<open>A part within a frame before one with its own relation, and a last pure statement.\<close>

lemma always_bind:
  "always R m \<Longrightarrow> (\<And>a. always J (f a)) \<Longrightarrow> (\<And>s t u. R s t \<Longrightarrow> J t u \<Longrightarrow> J s u) \<Longrightarrow> (\<And>s t. R s t \<Longrightarrow> J s t) \<Longrightarrow>
   always J (ebind m f)"
proof (rule alwaysI)
  fix s r u
  assume m: "always R m" and f: "\<And>a. always J (f a)" and c: "\<And>s t u. R s t \<Longrightarrow> J t u \<Longrightarrow> J s u" "\<And>s t. R s t \<Longrightarrow> J s t"
    and run: "ebind m f s = (r, u)"
  obtain q t where q: "m s = (q, t)" by (metis surj_pair)
  then have R: "R s t" by (rule alwaysD [OF m])
  show "J s u"
  proof (cases q)
    case (Inl e)
    with run q R c(2) show ?thesis by (simp add: ebind_def)
  next
    case (Inr a)
    with run q have "f a t = (r, u)" by (simp add: ebind_def)
    from c(1) [OF R alwaysD [OF f this]] show ?thesis .
  qed
qed

lemma always_bind_ret: "always J m \<Longrightarrow> always J (ebind m (\<lambda>a. eret (g a)))"
  by (rule alwaysI) (auto simp: ebind_def eret_def split: prod.splits sum.splits dest: alwaysD)

text \<open>
  The frame calculus. Any reflexive and transitive relation on states is an instance, so each
  invariant or monotonicity fact is proved for the primitive statements only.
\<close>

locale frame =
  fixes R :: "'s \<Rightarrow> 's \<Rightarrow> bool"
  assumes frame_refl: "R s s"
    and frame_trans: "R s t \<Longrightarrow> R t u \<Longrightarrow> R s u"
begin

lemma fr_ret: "always R (eret a)"
  by (simp add: always_def eret_def frame_refl)

lemma fr_raise: "always R (eraise e)"
  by (simp add: always_def eraise_def frame_refl)

lemma fr_lift: "always R (elift r)"
  by (simp add: always_def elift_def frame_refl)

lemma fr_get: "always R (eget f)"
  by (simp add: always_def eget_def frame_refl)

lemma fr_mod: "(\<And>s. R s (f s)) \<Longrightarrow> always R (emod f)"
  by (simp add: always_def emod_def)

lemma fr_bind: "always R m \<Longrightarrow> (\<And>a. always R (f a)) \<Longrightarrow> always R (ebind m f)"
  by (rule alwaysI)
    (auto simp: ebind_def split: prod.splits sum.splits dest: alwaysD intro: frame_trans)

lemma fr_then: "always R m \<Longrightarrow> always R n \<Longrightarrow> always R (ethen m n)"
  by (simp add: ethen_def fr_bind)

lemma fr_catch: "always R m \<Longrightarrow> (\<And>e. always R (h e)) \<Longrightarrow> always R (ecatch m h)"
  by (rule alwaysI)
    (auto simp: ecatch_def split: prod.splits sum.splits dest: alwaysD intro: frame_trans)

lemma fr_for: "(\<And>x. x \<in> set xs \<Longrightarrow> always R (f x)) \<Longrightarrow> always R (efor xs f)"
  by (induction xs) (auto intro: fr_ret fr_then)

lemma fr_map: "(\<And>x. x \<in> set xs \<Longrightarrow> always R (f x)) \<Longrightarrow> always R (emap xs f)"
  by (induction xs) (auto intro!: fr_ret fr_bind)

lemma fr_if: "(b \<Longrightarrow> always R m) \<Longrightarrow> (\<not> b \<Longrightarrow> always R n) \<Longrightarrow> always R (if b then m else n)"
  by simp

lemma fr_case_option:
  "(x = None \<Longrightarrow> always R m) \<Longrightarrow> (\<And>a. x = Some a \<Longrightarrow> always R (f a)) \<Longrightarrow> always R (case x of None \<Rightarrow> m | Some a \<Rightarrow> f a)"
  by (cases x) simp_all

lemma fr_case_sum:
  "(\<And>a. x = Inl a \<Longrightarrow> always R (f a)) \<Longrightarrow> (\<And>b. x = Inr b \<Longrightarrow> always R (g b)) \<Longrightarrow>
    always R (case x of Inl a \<Rightarrow> f a | Inr b \<Rightarrow> g b)"
  by (cases x) simp_all

lemmas fr_rules = fr_ret fr_raise fr_lift fr_get fr_mod fr_bind fr_then fr_catch fr_for fr_map fr_if fr_case_option fr_case_sum

end

text \<open>Preservation of a predicate is the frame \<open>I s \<longrightarrow> I s'\<close>.\<close>

definition keeps :: "('s \<Rightarrow> bool) \<Rightarrow> 's \<Rightarrow> 's \<Rightarrow> bool" where
  "keeps I s t \<longleftrightarrow> (I s \<longrightarrow> I t)"

interpretation keeps: frame "keeps I" for I
  by unfold_locales (auto simp: keeps_def)

lemma always_keepsD: "always (keeps I) m \<Longrightarrow> I s \<Longrightarrow> I (snd (m s))"
  by (simp add: always_def keeps_def)

lemma frame_eq_on: "frame (\<lambda>s t. f s = f t)"
  by unfold_locales simp_all

end
