(* ===== verification/Py_String.thy ===== *)
theory Py_String
  imports Prelude "HOL-Library.Sublist" "HOL-Library.Char_ord" "HOL-Library.List_Lexorder"
begin

text \<open>
  The operations of Python's \<open>str\<close> that the program uses, on \<open>string\<close>. A character stands for
  one code point; the alphabet of the model is the 256 code points of \<open>char\<close>, and the two
  characters of the program's own literals outside it (the em dash and the ellipsis in prompts)
  are written as the single character \<open>sub_char\<close>, so that lengths are kept. Slices, searches
  and the UTF-8 length follow the interpreter.
\<close>

abbreviation nl :: char where "nl \<equiv> CHR 0x0A"
abbreviation tab :: char where "tab \<equiv> CHR 0x09"
abbreviation dquote :: char where "dquote \<equiv> CHR 0x22"
abbreviation squote :: char where "squote \<equiv> CHR 0x27"
abbreviation backslash :: char where "backslash \<equiv> CHR 0x5C"
abbreviation sub_char :: char where "sub_char \<equiv> CHR 0x1A"

abbreviation code_of :: "char \<Rightarrow> nat" where "code_of \<equiv> of_char"

subsection \<open>Character classes\<close>

definition is_space :: "char \<Rightarrow> bool" where
  "is_space c = (let n = code_of c in (9 \<le> n \<and> n \<le> 13) \<or> (28 \<le> n \<and> n \<le> 32) \<or> n = 133 \<or> n = 160)"

definition is_upper :: "char \<Rightarrow> bool" where
  "is_upper c = (let n = code_of c in 65 \<le> n \<and> n \<le> 90)"

definition is_lower :: "char \<Rightarrow> bool" where
  "is_lower c = (let n = code_of c in 97 \<le> n \<and> n \<le> 122)"

definition is_digit :: "char \<Rightarrow> bool" where
  "is_digit c = (let n = code_of c in 48 \<le> n \<and> n \<le> 57)"

definition is_alpha :: "char \<Rightarrow> bool" where
  "is_alpha c = (is_upper c \<or> is_lower c)"

definition lower_char :: "char \<Rightarrow> char" where
  "lower_char c = (let n = code_of c in
     if (65 \<le> n \<and> n \<le> 90) \<or> (192 \<le> n \<and> n \<le> 222 \<and> n \<noteq> 215) then char_of (n + 32) else c)"

definition lower :: "string \<Rightarrow> string" where
  "lower s = map lower_char s"

subsection \<open>Trimming, slicing, joining\<close>

definition lstrip_by :: "(char \<Rightarrow> bool) \<Rightarrow> string \<Rightarrow> string" where
  "lstrip_by p s = dropWhile p s"

definition rstrip_by :: "(char \<Rightarrow> bool) \<Rightarrow> string \<Rightarrow> string" where
  "rstrip_by p s = rev (dropWhile p (rev s))"

definition strip_by :: "(char \<Rightarrow> bool) \<Rightarrow> string \<Rightarrow> string" where
  "strip_by p s = rstrip_by p (lstrip_by p s)"

definition strip :: "string \<Rightarrow> string" where
  "strip s = strip_by is_space s"

definition rstrip :: "string \<Rightarrow> string" where
  "rstrip s = rstrip_by is_space s"

fun split_on :: "char \<Rightarrow> string \<Rightarrow> string list" where
  "split_on c [] = [[]]"
| "split_on c (x # xs) =
     (if x = c then [] # split_on c xs
      else (case split_on c xs of [] \<Rightarrow> [[x]] | p # ps \<Rightarrow> (x # p) # ps))"

fun join :: "string \<Rightarrow> string list \<Rightarrow> string" where
  "join sep [] = []"
| "join sep [s] = s"
| "join sep (s # ss) = s @ sep @ join sep ss"

subsection \<open>Searching and replacing\<close>

fun find_sub :: "string \<Rightarrow> string \<Rightarrow> nat option" where
  "find_sub pat [] = (if pat = [] then Some 0 else None)"
| "find_sub pat (x # xs) =
     (if prefix pat (x # xs) then Some 0 else map_option Suc (find_sub pat xs))"

definition contains :: "string \<Rightarrow> string \<Rightarrow> bool" where
  "contains pat s = (find_sub pat s \<noteq> None)"

text \<open>\<open>s.count(pat)\<close> for a non-empty pattern: non-overlapping occurrences from the left.\<close>

fun count_sub :: "string \<Rightarrow> string \<Rightarrow> nat" where
  "count_sub pat [] = 0"
| "count_sub pat (x # xs) =
     (if prefix pat (x # xs) then Suc (count_sub pat (drop (length pat - 1) xs))
      else count_sub pat xs)"

text \<open>\<open>s.replace(old, new, 1)\<close>.\<close>

fun replace_first :: "string \<Rightarrow> string \<Rightarrow> string \<Rightarrow> string" where
  "replace_first old new [] = (if old = [] then new else [])"
| "replace_first old new (x # xs) =
     (if prefix old (x # xs) then new @ drop (length old) (x # xs)
      else x # replace_first old new xs)"

text \<open>\<open>s.replace(c, d)\<close> for single characters.\<close>

definition replace_char :: "char \<Rightarrow> char \<Rightarrow> string \<Rightarrow> string" where
  "replace_char c d s = map (\<lambda>x. if x = c then d else x) s"

fun find_char :: "char \<Rightarrow> string \<Rightarrow> nat option" where
  "find_char c [] = None"
| "find_char c (x # xs) = (if x = c then Some 0 else map_option Suc (find_char c xs))"

fun rfind_char :: "char \<Rightarrow> string \<Rightarrow> nat option" where
  "rfind_char c [] = None"
| "rfind_char c (x # xs) = (case rfind_char c xs of Some i \<Rightarrow> Some (Suc i)
     | None \<Rightarrow> if x = c then Some 0 else None)"

text \<open>\<open>s.rsplit(c, 1)[-1]\<close>.\<close>

definition after_last :: "char \<Rightarrow> string \<Rightarrow> string" where
  "after_last c s = last (split_on c s)"

subsection \<open>Numbers and quoting\<close>

fun str_of_nat :: "nat \<Rightarrow> string" where
  "str_of_nat n = (if n < 10 then [char_of (48 + n)]
                   else str_of_nat (n div 10) @ [char_of (48 + n mod 10)])"

declare str_of_nat.simps [simp del]

definition str_of_int :: "int \<Rightarrow> string" where
  "str_of_int i = (if i < 0 then CHR ''-'' # str_of_nat (nat (- i)) else str_of_nat (nat i))"

definition hex_digit :: "nat \<Rightarrow> char" where
  "hex_digit n = (if n < 10 then char_of (48 + n) else char_of (87 + n))"

definition repr_char :: "char \<Rightarrow> char \<Rightarrow> string" where
  "repr_char q c = (let n = code_of c in
     if c = q \<or> c = backslash then [backslash, c]
     else if n = 10 then [backslash, CHR ''n'']
     else if n = 13 then [backslash, CHR ''r'']
     else if n = 9 then [backslash, CHR ''t'']
     else if n < 32 \<or> (127 \<le> n \<and> n \<le> 160) \<or> n = 173
       then [backslash, CHR ''x'', hex_digit (n div 16), hex_digit (n mod 16)]
     else [c])"

definition py_repr :: "string \<Rightarrow> string" where
  "py_repr s = (let q = (if squote \<in> set s \<and> dquote \<notin> set s then dquote else squote)
                in [q] @ concat (map (repr_char q) s) @ [q])"

text \<open>\<open>len(s.encode())\<close>.\<close>

definition utf8_len :: "string \<Rightarrow> nat" where
  "utf8_len s = sum_list (map (\<lambda>c. if code_of c < 128 then 1 else 2) s)"

subsection \<open>Lemmas\<close>

lemma split_on_ne [simp]: "split_on c s \<noteq> []"
  by (induction s) (auto split: list.splits)

lemma split_on_no_sep: "p \<in> set (split_on c s) \<Longrightarrow> c \<notin> set p"
proof (induction s arbitrary: p)
  case (Cons x xs)
  then show ?case by (auto split: if_splits list.splits)
qed simp

lemma join_Cons: "ss \<noteq> [] \<Longrightarrow> join sep (s # ss) = s @ sep @ join sep ss"
  by (cases ss) auto

lemma join_split: "join [c] (split_on c s) = s"
proof (induction s)
  case (Cons x xs)
  then show ?case
    by (cases "split_on c xs") (auto simp: join_Cons, (cases "tl (split_on c xs)"; simp)+)
qed simp

lemma split_on_free: "c \<notin> set s \<Longrightarrow> split_on c s = [s]"
  by (induction s) auto

lemma split_append_sep: "c \<notin> set p \<Longrightarrow> split_on c (p @ c # s) = p # split_on c s"
  by (induction p) auto

lemma split_join:
  "ss \<noteq> [] \<Longrightarrow> (\<And>p. p \<in> set ss \<Longrightarrow> c \<notin> set p) \<Longrightarrow> split_on c (join [c] ss) = ss"
proof (induction "[c]" ss rule: join.induct)
  case (2 s)
  then show ?case by (simp add: split_on_free)
next
  case (3 s s' ss)
  then show ?case by (simp add: split_append_sep)
qed simp

lemma find_sub_Some_iff:
  "find_sub pat s = Some i \<longleftrightarrow>
     i \<le> length s \<and> prefix pat (drop i s) \<and> (\<forall>j < i. \<not> prefix pat (drop j s))"
proof (induction s arbitrary: i)
  case (Cons x xs)
  have "(\<exists>z. i = Suc z \<and> find_sub pat xs = Some z) \<longleftrightarrow>
      (\<exists>z. i = Suc z \<and> z \<le> length xs \<and> prefix pat (drop z xs) \<and> (\<forall>j<z. \<not> prefix pat (drop j xs)))"
    by (simp add: Cons.IH)
  then show ?case
    by (cases i) (auto simp: All_less_Suc2)
qed auto

lemma contains_iff: "contains pat s \<longleftrightarrow> sublist pat s"
proof -
  have "find_sub pat s \<noteq> None \<longleftrightarrow> sublist pat s"
    by (induction s) (auto simp: sublist_Cons_right)
  then show ?thesis by (simp add: contains_def)
qed

lemma replace_first_eq:
  "replace_first old new s =
     (case find_sub old s of None \<Rightarrow> s | Some i \<Rightarrow> take i s @ new @ drop (i + length old) s)"
  by (induction s) (auto split: option.splits)

lemma count_sub_0_iff: "pat \<noteq> [] \<Longrightarrow> count_sub pat s = 0 \<longleftrightarrow> \<not> contains pat s"
  by (induction pat s rule: count_sub.induct) (auto simp: contains_def)

lemma length_rstrip_by: "length (rstrip_by p s) \<le> length s"
  unfolding rstrip_by_def by (metis length_dropWhile_le length_rev)

lemma length_strip: "length (strip s) \<le> length s"
  unfolding strip_def strip_by_def lstrip_by_def
  using length_rstrip_by length_dropWhile_le le_trans by blast

lemma set_rstrip_by: "set (rstrip_by p s) \<subseteq> set s"
  unfolding rstrip_by_def using set_dropWhileD by fastforce

lemma set_strip_by: "set (strip_by p s) \<subseteq> set s"
  unfolding strip_by_def lstrip_by_def using set_rstrip_by set_dropWhileD by fastforce

lemma length_utf8: "length s \<le> utf8_len s \<and> utf8_len s \<le> 2 * length s"
  by (induction s) (auto simp: utf8_len_def)

lemma length_str_of_nat_pos: "0 < length (str_of_nat n)"
  by (subst str_of_nat.simps) simp

end
