(* ===== verification/Regex.thy ===== *)
theory Regex
  imports Py_String
begin

text \<open>
  The part of Python's \<open>re\<close> that the program's patterns use: a backtracking matcher that lists the
  ways a pattern matches at a position in the order the engine tries them (greedy repetitions
  longest first, lazy ones shortest first, alternatives and options left to right), so that the
  first element is the match \<open>re\<close> reports; then \<open>search\<close>, \<open>finditer\<close> and \<open>sub\<close>. Repetition is over
  single characters, as in every pattern of the program, and no pattern of the program matches the
  empty string.
\<close>

datatype regex =
    RClass "char \<Rightarrow> bool"
  | RRep bool nat "char \<Rightarrow> bool"
  | RSeq regex regex
  | RAlt regex regex
  | ROpt regex
  | RGroup string regex
  | RBol
  | REol
  | RWordB

type_synonym captures = "(string \<times> string) list"

definition greedy :: bool where "greedy = True"
definition lazy :: bool where "lazy = False"

text \<open>\<open>\w\<close> on the model's alphabet: letters, digits, numerics and the underscore.\<close>

definition is_word :: "char \<Rightarrow> bool" where
  "is_word c = (let n = code_of c in is_alpha c \<or> is_digit c \<or> n = 95 \<or> n \<in> {170, 178, 179, 181, 185, 186}
     \<or> (188 \<le> n \<and> n \<le> 190) \<or> (192 \<le> n \<and> n \<noteq> 215 \<and> n \<noteq> 247))"

definition at_word_boundary :: "string \<Rightarrow> nat \<Rightarrow> bool" where
  "at_word_boundary s i =
     ((0 < i \<and> is_word (s ! (i - 1))) \<noteq> (i < length s \<and> is_word (s ! i)))"

definition slice :: "string \<Rightarrow> nat \<Rightarrow> nat \<Rightarrow> string" where
  "slice s i j = take (j - i) (drop i s)"

fun re_match :: "regex \<Rightarrow> string \<Rightarrow> nat \<Rightarrow> (nat \<times> captures) list" where
  "re_match (RClass P) s i = (if i < length s \<and> P (s ! i) then [(Suc i, [])] else [])"
| "re_match (RRep g n P) s i = (
     let run = length (takeWhile P (drop i s));
         ends = [i + n ..< Suc (i + run)]
     in map (\<lambda>j. (j, [])) (if g then rev ends else ends))"
| "re_match (RSeq r q) s i =
     concat (map (\<lambda>(j, c). map (\<lambda>(k, d). (k, c @ d)) (re_match q s j)) (re_match r s i))"
| "re_match (RAlt r q) s i = re_match r s i @ re_match q s i"
| "re_match (ROpt r) s i = re_match r s i @ [(i, [])]"
| "re_match (RGroup g r) s i = map (\<lambda>(j, c). (j, (g, slice s i j) # c)) (re_match r s i)"
| "re_match RBol s i = (if i = 0 \<or> (i \<le> length s \<and> s ! (i - 1) = nl) then [(i, [])] else [])"
| "re_match REol s i = (if i = length s \<or> (i < length s \<and> s ! i = nl) then [(i, [])] else [])"
| "re_match RWordB s i = (if at_word_boundary s i then [(i, [])] else [])"

record found =
  m_start :: nat
  m_end :: nat
  m_groups :: captures

definition group :: "found \<Rightarrow> string \<Rightarrow> string" where
  "group m g = (case map_of (m_groups m) g of None \<Rightarrow> [] | Some t \<Rightarrow> t)"

definition re_search :: "regex \<Rightarrow> string \<Rightarrow> nat \<Rightarrow> found option" where
  "re_search r s i = (case List.find (\<lambda>j. re_match r s j \<noteq> []) [i..<Suc (length s)] of
     None \<Rightarrow> None
   | Some j \<Rightarrow> Some \<lparr>m_start = j, m_end = fst (hd (re_match r s j)),
                    m_groups = snd (hd (re_match r s j))\<rparr>)"

lemma re_match_le: "(j, c) \<in> set (re_match r s i) \<Longrightarrow> i \<le> j"
proof (induction r arbitrary: i j c)
  case (RSeq r q)
  then obtain k d e where "(k, d) \<in> set (re_match r s i)" "(j, e) \<in> set (re_match q s k)" by auto
  with RSeq.IH show ?case by (meson le_trans)
qed (auto simp: Let_def split: if_splits)

lemma re_search_start:
  assumes "re_search r s i = Some m" shows "i \<le> m_start m" "m_start m \<le> length s" "m_start m \<le> m_end m"
proof -
  from assms obtain j where j: "List.find (\<lambda>j. re_match r s j \<noteq> []) [i..<Suc (length s)] = Some j"
    and m: "m = \<lparr>m_start = j, m_end = fst (hd (re_match r s j)), m_groups = snd (hd (re_match r s j))\<rparr>"
    by (auto simp: re_search_def split: option.splits)
  from j have "j \<in> set [i..<Suc (length s)]" and ne: "re_match r s j \<noteq> []"
    by (auto simp: find_Some_iff simp del: upt_Suc)
  then show "i \<le> m_start m" "m_start m \<le> length s" by (auto simp: m)
  show "m_start m \<le> m_end m"
    using re_match_le [of "fst (hd (re_match r s j))" "snd (hd (re_match r s j))" r s j] ne
    by (simp add: m)
qed

function finditer :: "regex \<Rightarrow> string \<Rightarrow> nat \<Rightarrow> found list" where
  "finditer r s i = (case re_search r s i of None \<Rightarrow> []
     | Some m \<Rightarrow> m # finditer r s (if m_end m > m_start m then m_end m else Suc (m_end m)))"
  by pat_completeness auto
termination
proof (relation "measure (\<lambda>(r, s, i). Suc (length s) - i)")
  fix r s i m
  assume "re_search r s i = Some m"
  from re_search_start [OF this]
  show "((r, s, if m_end m > m_start m then m_end m else Suc (m_end m)), r, s, i)
      \<in> measure (\<lambda>(r, s, i). Suc (length s) - i)" by auto
qed simp

declare finditer.simps [simp del]

text \<open>\<open>pattern.sub(repl, s)\<close> for a literal replacement.\<close>

fun splice :: "string \<Rightarrow> string \<Rightarrow> nat \<Rightarrow> found list \<Rightarrow> string" where
  "splice repl s i [] = drop i s"
| "splice repl s i (m # ms) = slice s i (m_start m) @ repl @ splice repl s (m_end m) ms"

definition re_sub :: "regex \<Rightarrow> string \<Rightarrow> string \<Rightarrow> string" where
  "re_sub r repl s = splice repl s 0 (finditer r s 0)"

subsection \<open>Building patterns\<close>

fun rlit :: "string \<Rightarrow> regex" where
  "rlit [] = ROpt (RClass (\<lambda>_. False))"
| "rlit [c] = RClass (\<lambda>x. x = c)"
| "rlit (c # cs) = RSeq (RClass (\<lambda>x. x = c)) (rlit cs)"

fun rlit_nocase :: "string \<Rightarrow> regex" where
  "rlit_nocase [] = ROpt (RClass (\<lambda>_. False))"
| "rlit_nocase [c] = RClass (\<lambda>x. lower_char x = lower_char c)"
| "rlit_nocase (c # cs) = RSeq (RClass (\<lambda>x. lower_char x = lower_char c)) (rlit_nocase cs)"

fun rseq :: "regex list \<Rightarrow> regex" where
  "rseq [] = ROpt (RClass (\<lambda>_. False))"
| "rseq [r] = r"
| "rseq (r # rs) = RSeq r (rseq rs)"

definition any_char :: "char \<Rightarrow> bool" where "any_char c = True"

subsection \<open>Facts\<close>

text \<open>A pattern that needs a character never reports an empty match.\<close>

fun consumes :: "regex \<Rightarrow> bool" where
  "consumes (RClass P) = True"
| "consumes (RRep g n P) = (0 < n)"
| "consumes (RSeq r q) = (consumes r \<or> consumes q)"
| "consumes (RAlt r q) = (consumes r \<and> consumes q)"
| "consumes (ROpt r) = False"
| "consumes (RGroup g r) = consumes r"
| "consumes RBol = False"
| "consumes REol = False"
| "consumes RWordB = False"

lemma consumes_advances: "consumes r \<Longrightarrow> (j, c) \<in> set (re_match r s i) \<Longrightarrow> i < j"
proof (induction r arbitrary: i j c)
  case (RSeq r q)
  then obtain k d e where k: "(k, d) \<in> set (re_match r s i)" and j: "(j, e) \<in> set (re_match q s k)" by auto
  show ?case
  proof (cases "consumes r")
    case True
    with RSeq.IH(1) k re_match_le [OF j] show ?thesis by fastforce
  next
    case False
    with RSeq.IH(2) RSeq.prems(1) j re_match_le [OF k] show ?thesis by fastforce
  qed
qed (auto simp: Let_def split: if_splits)

lemma length_slice: "length (slice s i j) \<le> length s"
  by (simp add: slice_def)

lemma set_slice: "set (slice s i j) \<subseteq> set s"
  unfolding slice_def by (meson set_drop_subset set_take_subset subset_trans)

end
