(* ===== verification/Artifacts.thy ===== *)
theory Artifacts
  imports Regex
begin

text \<open>
  \<^verbatim>\<open>core/artifacts.py\<close>: the extraction of labelled files from model output and the check of the
  paths models supply. Model output is untrusted input. An \<open>UnsafeArtifactPath\<close> exception is \<open>Inl\<close>
  of its text, which the tools hand back to the model.
\<close>

definition MAX_ARTIFACT_BYTES :: nat where "MAX_ARTIFACT_BYTES = 1000000"
definition MAX_PATH_LENGTH :: nat where "MAX_PATH_LENGTH = 400"

definition FENCE :: regex where
  "FENCE = rseq [RBol, rlit ''```'',
     RGroup ''lang'' (RRep greedy 0 (\<lambda>c. is_alpha c \<or> is_digit c \<or> c \<in> {CHR ''_'', CHR ''+'', CHR ''-''})),
     RRep greedy 1 (\<lambda>c. c = CHR '' '' \<or> c = tab),
     RGroup ''attrs'' (rseq [RRep greedy 0 (\<lambda>c. c \<noteq> nl), rlit ''path='', RRep greedy 0 (\<lambda>c. c \<noteq> nl)]),
     rlit [nl],
     RGroup ''body'' (RRep lazy 0 any_char),
     ROpt (rlit [nl]), RBol, rlit ''```'', RRep greedy 0 (\<lambda>c. c = CHR '' '' \<or> c = tab), REol]"

definition TAG :: regex where
  "TAG = rseq [rlit_nocase ''<artifact'', RRep greedy 1 is_space,
     RGroup ''attrs'' (RRep greedy 0 (\<lambda>c. c \<noteq> CHR ''>'')), rlit ''>'', ROpt (rlit [nl]),
     RGroup ''body'' (RRep lazy 0 any_char), rlit_nocase ''</artifact>'']"

definition ATTR :: regex where
  "ATTR = rseq [RGroup ''key'' (RRep greedy 1 (\<lambda>c. is_alpha c \<or> c = CHR ''_'')),
     RRep greedy 0 is_space, rlit ''='', RRep greedy 0 is_space, ROpt (rlit [dquote]),
     RGroup ''value'' (RRep greedy 1 (\<lambda>c. c \<noteq> dquote \<and> \<not> is_space c)), ROpt (rlit [dquote])]"

definition LANG_KIND :: "(string, string) dict" where
  "LANG_KIND = [(''md'', ''markdown''), (''markdown'', ''markdown''), (''json'', ''json''),
     (''yaml'', ''yaml''), (''yml'', ''yaml''), (''csv'', ''csv''), (''sql'', ''sql''),
     (''html'', ''html''), (''txt'', ''text''), ('''', ''text'')]"

record extracted_artifact =
  ea_path :: string
  ea_kind :: string
  ea_language :: "string option"
  ea_content :: string

definition size_bytes :: "extracted_artifact \<Rightarrow> nat" where
  "size_bytes a = utf8_len (ea_content a)"

definition parse_attrs :: "string \<Rightarrow> (string, string) dict" where
  "parse_attrs text = dict_of (map (\<lambda>m. (lower (group m ''key''), group m ''value'')) (finditer ATTR text 0))"

text \<open>The loop of \<open>sanitise_path\<close> over the components.\<close>

fun safe_parts :: "string \<Rightarrow> string list \<Rightarrow> string + string list" where
  "safe_parts raw [] = Inr []"
| "safe_parts raw (part # ps) =
     (if part \<in> {'''', ''.''} then safe_parts raw ps
      else if part = ''..'' then Inl (''path traversal is not allowed: '' @ py_repr raw)
      else (case safe_parts raw ps of Inl e \<Rightarrow> Inl e | Inr qs \<Rightarrow> Inr (part # qs)))"

definition has_drive :: "string \<Rightarrow> bool" where
  "has_drive p = (case p of c # CHR '':'' # _ \<Rightarrow> is_alpha c | _ \<Rightarrow> False)"

definition sanitise_path :: "string \<Rightarrow> string + string" where
  "sanitise_path raw = (
     let path = replace_char backslash (CHR ''/'') (strip_by (\<lambda>c. c = dquote \<or> c = squote) (strip raw))
     in if path = [] then Inl ''empty artifact path''
        else if length path > MAX_PATH_LENGTH then Inl ''artifact path is too long''
        else if CHR 0x00 \<in> set path then Inl ''artifact path contains a NUL byte''
        else if hd path = CHR ''/'' \<or> has_drive path
          then Inl (''absolute artifact path is not allowed: '' @ py_repr raw)
        else rbind (safe_parts raw (split_on (CHR ''/'') path)) (\<lambda>parts.
          if parts = [] then Inl (''artifact path resolves to nothing: '' @ py_repr raw)
          else Inr (join ''/'' parts)))"

definition kind_for :: "string option \<Rightarrow> string \<Rightarrow> string" where
  "kind_for language path = (
     if language \<noteq> None \<and> the language \<noteq> []
     then (case dget LANG_KIND (lower (the language)) of Some k \<Rightarrow> k | None \<Rightarrow> ''code'')
     else (let suffix = (if CHR ''.'' \<in> set path then lower (after_last (CHR ''.'') path) else [])
           in dget_or LANG_KIND suffix ''text''))"

text \<open>\<open>a or b\<close> on optional strings: the empty string is false.\<close>

definition or_str :: "string option \<Rightarrow> string option \<Rightarrow> string option" where
  "or_str a b = (if a \<noteq> None \<and> a \<noteq> Some [] then a else b)"

definition add_tag :: "found \<Rightarrow> (string, extracted_artifact) dict \<Rightarrow> (string, extracted_artifact) dict" where
  "add_tag m acc = (
     let attrs = parse_attrs (group m ''attrs'');
         raw_path = or_str (dget attrs ''path'') (dget attrs ''name'')
     in if raw_path = None \<or> raw_path = Some [] then acc
        else (case sanitise_path (the raw_path) of Inl _ \<Rightarrow> acc
          | Inr path \<Rightarrow>
              let language = or_str (dget attrs ''lang'') (dget attrs ''language'');
                  body = strip_by (\<lambda>c. c = nl) (group m ''body'')
              in dset path \<lparr>ea_path = path,
                   ea_kind = (case or_str (dget attrs ''kind'') None of Some k \<Rightarrow> k
                              | None \<Rightarrow> kind_for language path),
                   ea_language = language, ea_content = take MAX_ARTIFACT_BYTES body\<rparr> acc))"

definition add_fence :: "found \<Rightarrow> (string, extracted_artifact) dict \<Rightarrow> (string, extracted_artifact) dict" where
  "add_fence m acc = (
     let attrs = parse_attrs (group m ''attrs''); raw_path = dget attrs ''path''
     in if raw_path = None \<or> raw_path = Some [] then acc
        else (case sanitise_path (the raw_path) of Inl _ \<Rightarrow> acc
          | Inr path \<Rightarrow>
              let language = or_str (Some (group m ''lang'')) None;
                  body = strip_by (\<lambda>c. c = nl) (group m ''body'')
              in dset path \<lparr>ea_path = path, ea_kind = kind_for language path,
                   ea_language = language, ea_content = take MAX_ARTIFACT_BYTES body\<rparr> acc))"

definition extract_artifacts :: "string \<Rightarrow> extracted_artifact list" where
  "extract_artifacts text = map snd (fold add_fence (finditer FENCE text 0) (fold add_tag (finditer TAG text 0) []))"

subsection \<open>Safe paths\<close>

definition safe_path :: "string \<Rightarrow> bool" where
  "safe_path p \<longleftrightarrow> p \<noteq> [] \<and> length p \<le> MAX_PATH_LENGTH \<and> CHR 0x00 \<notin> set p \<and> backslash \<notin> set p \<and>
     (\<forall>c \<in> set (split_on (CHR ''/'') p). c \<notin> {'''', ''.'', ''..''})"

lemma safe_parts_eq:
  "safe_parts raw ps =
     (if ''..'' \<in> set ps then Inl (''path traversal is not allowed: '' @ py_repr raw)
      else Inr (filter (\<lambda>p. p \<notin> {'''', ''.''}) ps))"
  by (induction ps) simp_all

lemma length_join_filter: "length (join sep (filter P ss)) \<le> length (join sep ss)"
proof (induction ss)
  case (Cons s ss)
  show ?case
  proof (cases "filter P ss = []")
    case True
    then show ?thesis by (cases ss) auto
  next
    case False
    then have "ss \<noteq> []" by auto
    with False Cons.IH show ?thesis by (auto simp: join_Cons)
  qed
qed simp

lemma set_join: "set (join sep ss) \<subseteq> set sep \<union> (\<Union>s \<in> set ss. set s)"
  by (induction sep ss rule: join.induct) auto

lemma set_split_on: "p \<in> set (split_on c s) \<Longrightarrow> set p \<subseteq> set s"
proof (induction s arbitrary: p)
  case (Cons x xs)
  show ?case
  proof (cases "split_on c xs")
    case Nil
    then show ?thesis by simp
  next
    case (Cons q qs)
    with Cons.IH Cons.prems show ?thesis by (auto split: if_splits) blast+
  qed
qed simp

lemma sanitise_path_safe:
  assumes "sanitise_path raw = Inr p" shows "safe_path p"
proof -
  define path where
    "path = replace_char backslash (CHR ''/'') (strip_by (\<lambda>c. c = dquote \<or> c = squote) (strip raw))"
  define parts where "parts = filter (\<lambda>q. q \<notin> {'''', ''.''}) (split_on (CHR ''/'') path)"
  from assms have len: "length path \<le> MAX_PATH_LENGTH" and nul: "CHR 0x00 \<notin> set path"
    and dots: "''..'' \<notin> set (split_on (CHR ''/'') path)" and ne: "parts \<noteq> []" and p: "p = join ''/'' parts"
    by (auto simp: sanitise_path_def Let_def path_def [symmetric] rbind_eq_Inr safe_parts_eq parts_def
        split: if_splits)
  have split: "split_on (CHR ''/'') p = parts"
    unfolding p using ne by (intro split_join) (auto simp: parts_def dest: split_on_no_sep)
  have "set p \<subseteq> {CHR ''/''} \<union> set path"
    unfolding p using set_join [of "''/''" parts] set_split_on [of _ "CHR ''/''" path]
    by (fastforce simp: parts_def)
  moreover have "backslash \<notin> set path" by (auto simp: path_def replace_char_def)
  moreover have "length p \<le> MAX_PATH_LENGTH"
    using length_join_filter [of "''/''"] len unfolding p parts_def by (metis join_split le_trans)
  moreover have "p \<noteq> []"
  proof
    assume "p = []"
    then have "[] \<in> set parts" unfolding split [symmetric] by simp
    then show False by (simp add: parts_def)
  qed
  ultimately show ?thesis using split nul dots by (auto simp: safe_path_def parts_def)
qed

lemma safe_path_relative:
  assumes "safe_path p" shows "hd p \<noteq> CHR ''/''"
proof
  assume "hd p = CHR ''/''"
  with assms obtain q where "p = CHR ''/'' # q" by (cases p) (simp_all add: safe_path_def)
  then have "[] \<in> set (split_on (CHR ''/'') p)" by simp
  with assms show False unfolding safe_path_def by blast
qed

subsection \<open>Extraction\<close>

definition found_ok :: "(string, extracted_artifact) dict \<Rightarrow> bool" where
  "found_ok acc \<longleftrightarrow> distinct (map fst acc) \<and>
     (\<forall>(p, a) \<in> set acc. ea_path a = p \<and> safe_path p \<and> length (ea_content a) \<le> MAX_ARTIFACT_BYTES)"

lemma set_dset_subset: "set (dset k v d) \<subseteq> insert (k, v) (set d)"
  by (induction d) auto

lemma found_ok_dset:
  assumes "found_ok acc" "safe_path p" "ea_path a = p" "length (ea_content a) \<le> MAX_ARTIFACT_BYTES"
  shows "found_ok (dset p a acc)"
  using assms set_dset_subset [of p a acc] by (fastforce simp: found_ok_def distinct_dset)

lemma found_ok_add_tag: "found_ok acc \<Longrightarrow> found_ok (add_tag m acc)"
  by (auto simp: add_tag_def Let_def split: sum.splits dest: sanitise_path_safe intro!: found_ok_dset)

lemma found_ok_add_fence: "found_ok acc \<Longrightarrow> found_ok (add_fence m acc)"
  by (auto simp: add_fence_def Let_def split: sum.splits dest: sanitise_path_safe intro!: found_ok_dset)

lemma fold_invariant: "I a \<Longrightarrow> (\<And>x a. I a \<Longrightarrow> I (f x a)) \<Longrightarrow> I (fold f xs a)"
  by (induction xs arbitrary: a) auto

lemma extract_found_ok: "\<exists>acc. extract_artifacts text = map snd acc \<and> found_ok acc"
proof -
  have "found_ok []" by (simp add: found_ok_def)
  then have "found_ok (fold add_tag (finditer TAG text 0) [])"
    by (rule fold_invariant [where I = found_ok]) (rule found_ok_add_tag)
  then have "found_ok (fold add_fence (finditer FENCE text 0) (fold add_tag (finditer TAG text 0) []))"
    by (rule fold_invariant [where I = found_ok]) (rule found_ok_add_fence)
  moreover have "extract_artifacts text
      = map snd (fold add_fence (finditer FENCE text 0) (fold add_tag (finditer TAG text 0) []))"
    by (simp only: extract_artifacts_def)
  ultimately show ?thesis by blast
qed

end
