(* ===== verification/Json.thy ===== *)
theory Json
  imports Complex_Main Py_String
begin

text \<open>
  JSON-shaped Python values (\<open>dict[str, Any]\<close> and what it holds): workflow graphs, model replies,
  tool arguments and event payloads. A float carries its value and its \<open>repr\<close> text, since the
  program prints floats but only compares and truncates their value; the non-finite floats are
  outside the model. Truth value, \<open>str()\<close>, \<open>int()\<close> and hashing follow the interpreter.
\<close>

datatype json =
    JNull
  | JBool bool
  | JInt int
  | JFloat rat string
  | JStr string
  | JList "json list"
  | JObj "(string \<times> json) list"

type_synonym jobj = "(string \<times> json) list"

definition jget :: "jobj \<Rightarrow> string \<Rightarrow> json" where
  "jget d k = (case dget d k of None \<Rightarrow> JNull | Some v \<Rightarrow> v)"

text \<open>Truth value testing (\<open>if v\<close>, \<open>v or w\<close>, \<open>not v\<close>).\<close>

fun truthy :: "json \<Rightarrow> bool" where
  "truthy JNull = False"
| "truthy (JBool b) = b"
| "truthy (JInt i) = (i \<noteq> 0)"
| "truthy (JFloat q r) = (q \<noteq> 0)"
| "truthy (JStr s) = (s \<noteq> [])"
| "truthy (JList xs) = (xs \<noteq> [])"
| "truthy (JObj d) = (d \<noteq> [])"

fun j_repr :: "json \<Rightarrow> string" where
  "j_repr JNull = ''None''"
| "j_repr (JBool b) = (if b then ''True'' else ''False'')"
| "j_repr (JInt i) = str_of_int i"
| "j_repr (JFloat q r) = r"
| "j_repr (JStr s) = py_repr s"
| "j_repr (JList xs) = ''['' @ join '', '' (map j_repr xs) @ '']''"
| "j_repr (JObj d) = ''{'' @ join '', '' (map (\<lambda>(k, v). py_repr k @ '': '' @ j_repr v) d) @ ''}''"

fun j_str :: "json \<Rightarrow> string" where
  "j_str (JStr s) = s"
| "j_str v = j_repr v"

text \<open>
  Dictionary and set membership compare hashable values by equality, where \<open>1\<close>, \<open>1.0\<close> and
  \<open>True\<close> are one key; lists and dictionaries are unhashable and raise \<open>TypeError\<close>.
\<close>

datatype hkey = HNone | HNum rat | HStr string

fun hash_key :: "json \<Rightarrow> hkey option" where
  "hash_key JNull = Some HNone"
| "hash_key (JBool b) = Some (HNum (if b then 1 else 0))"
| "hash_key (JInt i) = Some (HNum (of_int i))"
| "hash_key (JFloat q r) = Some (HNum q)"
| "hash_key (JStr s) = Some (HStr s)"
| "hash_key (JList xs) = None"
| "hash_key (JObj d) = None"

text \<open>\<open>int(s)\<close> on a string: surrounding white space, a sign, digits with single underscores between.\<close>

fun digits_val :: "nat \<Rightarrow> string \<Rightarrow> nat" where
  "digits_val acc [] = acc"
| "digits_val acc (c # cs) = digits_val (10 * acc + (code_of c - 48)) cs"

definition int_literal :: "string \<Rightarrow> int option" where
  "int_literal s = (
     let t = strip s;
         neg = (t \<noteq> [] \<and> hd t = CHR ''-'');
         body = (if t \<noteq> [] \<and> hd t \<in> {CHR ''-'', CHR ''+''} then tl t else t);
         groups = split_on (CHR ''_'') body
     in if list_all (\<lambda>g. g \<noteq> [] \<and> list_all is_digit g) groups
        then Some ((if neg then - 1 else 1) * int (digits_val 0 (concat groups)))
        else None)"

definition trunc_rat :: "rat \<Rightarrow> int" where
  "trunc_rat q = (if 0 \<le> q then \<lfloor>q\<rfloor> else \<lceil>q\<rceil>)"

datatype int_error = IntTypeError | IntValueError

fun py_int :: "json \<Rightarrow> int_error + int" where
  "py_int (JInt i) = Inr i"
| "py_int (JBool b) = Inr (if b then 1 else 0)"
| "py_int (JFloat q r) = Inr (trunc_rat q)"
| "py_int (JStr s) = (case int_literal s of Some i \<Rightarrow> Inr i | None \<Rightarrow> Inl IntValueError)"
| "py_int v = Inl IntTypeError"

text \<open>\<open>isinstance(v, str)\<close>, with the string.\<close>

definition as_str :: "json \<Rightarrow> string option" where
  "as_str v = (case v of JStr s \<Rightarrow> Some s | _ \<Rightarrow> None)"

definition is_list :: "json \<Rightarrow> bool" where
  "is_list v = (case v of JList _ \<Rightarrow> True | _ \<Rightarrow> False)"

lemma jget_dset [simp]: "jget (dset k v d) k' = (if k' = k then v else jget d k')"
  by (simp add: jget_def)

lemma as_str_Some [simp]: "as_str v = Some s \<longleftrightarrow> v = JStr s"
  by (cases v) (simp_all add: as_str_def)

lemma as_str_JStr [simp]: "as_str (JStr s) = Some s"
  by (simp add: as_str_def)

lemma hash_key_None_iff: "hash_key v = None \<longleftrightarrow> (\<exists>xs. v = JList xs) \<or> (\<exists>d. v = JObj d)"
  by (cases v) auto

lemma hash_key_HStr: "hash_key v = Some (HStr s) \<longleftrightarrow> v = JStr s"
  by (cases v) auto

end
