(* ===== verification/Errors.thy ===== *)
theory Errors
  imports Json
begin

text \<open>
  The exceptions of the program as values. Exceptions whose text is only shown to a person carry
  the data the text is built from; those whose text flows on (into a prompt, a tool result) carry
  the text.
\<close>

text \<open>\<^verbatim>\<open>core/orchestration/budget.py\<close>: the reasons of \<open>RunAborted\<close>.\<close>

datatype budget_reason = StepLimit int | CostLimit int

text \<open>\<^verbatim>\<open>core/orchestration/presets.py\<close>: what \<open>WorkflowConfigError\<close> reports.\<close>

datatype config_error =
    MissingKey string
  | UnknownAgent string json
  | NotAnInteger string
  | OutOfRange string int int
  | NotAList string
  | NodeNeedsAgent nat
  | NodeNeedsId nat
  | DuplicateNode json
  | NodeWithoutAgent json
  | StartNotInNodes string
  | EdgeShape
  | EdgeFromUnknown json
  | EdgeToUnknown json
  | TooFewDebaters
  | NoUsableTasks
  | UnknownNode json
  | RouterNoEdges json
  | UnknownPreset string

datatype exn =
    RunCancelled
  | BudgetExceeded budget_reason
  | RunTimedOut rat
  | WorkflowConfigError config_error
  | KeyResolutionError string
  | UnknownModelError string
  | RefusalError "string option" "string option"
  | ContextWindowExceeded string
  | RetryableLLMError string
  | LLMError string
  | ToolError string
  | ValueError string
  | TypeError
  | KeyError
  | AttributeError
  | CryptoError string
  | InvalidTag
  | IntegrityError
  | TimeoutError
  | CancelledError
  | OtherError string

text \<open>\<open>RunAborted\<close> and its subclasses; \<open>LLMError\<close> and its subclasses; \<open>ValueError\<close> and its subclasses.\<close>

fun is_run_aborted :: "exn \<Rightarrow> bool" where
  "is_run_aborted RunCancelled = True"
| "is_run_aborted (BudgetExceeded _) = True"
| "is_run_aborted (RunTimedOut _) = True"
| "is_run_aborted _ = False"

fun is_llm_error :: "exn \<Rightarrow> bool" where
  "is_llm_error (RefusalError _ _) = True"
| "is_llm_error (ContextWindowExceeded _) = True"
| "is_llm_error (RetryableLLMError _) = True"
| "is_llm_error (LLMError _) = True"
| "is_llm_error _ = False"

definition as_value_error :: "exn \<Rightarrow> string option" where
  "as_value_error e = (case e of ValueError m \<Rightarrow> Some m | _ \<Rightarrow> None)"

text \<open>Subclasses of \<open>Exception\<close>: everything but \<open>asyncio.CancelledError\<close>.\<close>

definition is_exception :: "exn \<Rightarrow> bool" where
  "is_exception e = (e \<noteq> CancelledError)"

text \<open>\<open>type(exc).__name__\<close>.\<close>

fun exn_name :: "exn \<Rightarrow> string" where
  "exn_name RunCancelled = ''RunCancelled''"
| "exn_name (BudgetExceeded _) = ''BudgetExceeded''"
| "exn_name (RunTimedOut _) = ''RunTimedOut''"
| "exn_name (WorkflowConfigError _) = ''WorkflowConfigError''"
| "exn_name (KeyResolutionError _) = ''KeyResolutionError''"
| "exn_name (UnknownModelError _) = ''UnknownModelError''"
| "exn_name (RefusalError _ _) = ''RefusalError''"
| "exn_name (ContextWindowExceeded _) = ''ContextWindowExceeded''"
| "exn_name (RetryableLLMError _) = ''RetryableLLMError''"
| "exn_name (LLMError _) = ''LLMError''"
| "exn_name (ToolError _) = ''ToolError''"
| "exn_name (ValueError _) = ''ValueError''"
| "exn_name TypeError = ''TypeError''"
| "exn_name KeyError = ''KeyError''"
| "exn_name AttributeError = ''AttributeError''"
| "exn_name (CryptoError _) = ''CryptoError''"
| "exn_name InvalidTag = ''InvalidTag''"
| "exn_name IntegrityError = ''IntegrityError''"
| "exn_name TimeoutError = ''TimeoutError''"
| "exn_name CancelledError = ''CancelledError''"
| "exn_name (OtherError n) = n"

type_synonym 'a res = "exn + 'a"

definition int_or_raise :: "json \<Rightarrow> int res" where
  "int_or_raise v = (case py_int v of Inr i \<Rightarrow> Inr i
     | Inl IntTypeError \<Rightarrow> Inl TypeError
     | Inl IntValueError \<Rightarrow> Inl (ValueError (''invalid literal for int() with base 10: '' @ j_repr v)))"

end
