(* ===== verification/Run_State.thy ===== *)
theory Run_State
  imports Errors
begin

text \<open>
  \<^verbatim>\<open>core/orchestration/state.py\<close>: the shared board, the artifact index and the transcript that
  every prompt is built from.
\<close>

record agent_spec =
  as_id :: string
  as_name :: string
  as_role :: string
  as_system_prompt :: string
  as_model :: string
  as_effort :: string
  as_max_tokens :: int
  as_tools :: "json list"

record board_entry =
  be_agent_id :: string
  be_agent_name :: string
  be_role :: string
  be_content :: string
  be_step_index :: nat
  be_visible_to :: "string list option"

record artifact_ref =
  ar_path :: string
  ar_version :: nat
  ar_kind :: string
  ar_size_bytes :: nat
  ar_produced_by :: string

record run_state =
  user_input :: string
  board :: "board_entry list"
  artifacts :: "(string, string) dict"
  artifact_versions :: "(string, nat) dict"
  artifact_log :: "artifact_ref list"
  final_output :: "string option"
  step_index :: nat
  rs_notes :: jobj

definition new_run_state :: "string \<Rightarrow> run_state" where
  "new_run_state inp = \<lparr>user_input = inp, board = [], artifacts = [], artifact_versions = [],
     artifact_log = [], final_output = None, step_index = 0, rs_notes = []\<rparr>"

definition is_visible_to :: "board_entry \<Rightarrow> string \<Rightarrow> bool" where
  "is_visible_to e aid = (case be_visible_to e of None \<Rightarrow> True | Some vs \<Rightarrow> aid \<in> set vs)"

definition append_entry :: "run_state \<Rightarrow> agent_spec \<Rightarrow> string \<Rightarrow> string list option \<Rightarrow> run_state" where
  "append_entry st agent content vis =
     st\<lparr>board := board st @ [\<lparr>be_agent_id = as_id agent, be_agent_name = as_name agent,
        be_role = as_role agent, be_content = content, be_step_index = step_index st,
        be_visible_to = vis\<rparr>]\<rparr>"

definition record_artifact ::
    "run_state \<Rightarrow> string \<Rightarrow> string \<Rightarrow> string \<Rightarrow> string \<Rightarrow> nat \<times> run_state" where
  "record_artifact st path content kind produced_by = (
     let version = dget_or (artifact_versions st) path 0 + 1 in
     (version,
      st\<lparr>artifact_versions := dset path version (artifact_versions st),
         artifacts := dset path content (artifacts st),
         artifact_log := artifact_log st @ [\<lparr>ar_path = path, ar_version = version, ar_kind = kind,
           ar_size_bytes = utf8_len content, ar_produced_by = produced_by\<rparr>]\<rparr>))"

definition visible_board :: "run_state \<Rightarrow> string \<Rightarrow> board_entry list" where
  "visible_board st aid = filter (\<lambda>e. is_visible_to e aid) (board st)"

definition headline :: "string \<Rightarrow> nat \<Rightarrow> string" where
  "headline text limit = (
     let stripped = strip text in
     if length stripped \<le> limit then stripped
     else rstrip (take limit stripped) @ [nl, sub_char] @ '' ['' @ str_of_nat (length stripped - limit)
            @ '' more characters omitted]'')"

definition entry_header :: "board_entry \<Rightarrow> string" where
  "entry_header e = ''### ['' @ str_of_nat (be_step_index e) @ ''] '' @ be_agent_name e
     @ '' ('' @ be_role e @ '')''"

definition omitted_marker :: string where
  "omitted_marker = ''### (earlier contributions omitted)''"

text \<open>
  The loop of \<open>transcript\<close> over the entries newest first: \<open>pos\<close> is the position, \<open>tot\<close> the
  characters rendered so far. The result lists the blocks in the order they are rendered.
\<close>

fun render_blocks :: "nat \<Rightarrow> int \<Rightarrow> nat \<Rightarrow> int \<Rightarrow> board_entry list \<Rightarrow> string list" where
  "render_blocks keep max_chars pos tot [] = []"
| "render_blocks keep max_chars pos tot (e # es) = (
     let body = (if pos \<ge> keep \<or> tot + int (length (be_content e)) > max_chars
                 then headline (be_content e) 600 else be_content e);
         block = entry_header e @ [nl] @ body;
         tot' = tot + int (length block)
     in if tot' > max_chars then [block, omitted_marker]
        else block # render_blocks keep max_chars (Suc pos) tot' es)"

definition transcript :: "run_state \<Rightarrow> string option \<Rightarrow> int \<Rightarrow> nat \<Rightarrow> string" where
  "transcript st agent_id max_chars keep_recent = (
     let entries = (case agent_id of Some aid \<Rightarrow> if aid \<noteq> [] then visible_board st aid else board st
                    | None \<Rightarrow> board st)
     in if entries = [] then ''(no prior contributions)''
        else join [nl, nl] (rev (render_blocks keep_recent max_chars 0 0 (rev entries))))"

definition artifact_index :: "run_state \<Rightarrow> string res" where
  "artifact_index st = (
     if artifacts st = [] then Inr ''(no artifacts yet)''
     else rbind (rmap (\<lambda>(path, content). case dget (artifact_versions st) path of
            None \<Rightarrow> Inl KeyError
          | Some v \<Rightarrow> Inr (''- '' @ path @ '' (v'' @ str_of_nat v @ '', '' @ str_of_nat (utf8_len content)
              @ '' bytes)'')) (sort_key fst (artifacts st)))
        (\<lambda>lines. Inr (join [nl] lines)))"

definition last_output :: "run_state \<Rightarrow> string" where
  "last_output st = (if board st = [] then user_input st else be_content (last (board st)))"

subsection \<open>The artifact store\<close>

text \<open>
  The log is the history of the store: the recorded version of a path is the number of its entries
  in the log, these entries are numbered 1, 2, \<dots> in order, and a content is held exactly for the
  paths that have a version.
\<close>

definition log_of :: "run_state \<Rightarrow> string \<Rightarrow> artifact_ref list" where
  "log_of st p = filter (\<lambda>r. ar_path r = p) (artifact_log st)"

definition artifacts_ok :: "run_state \<Rightarrow> bool" where
  "artifacts_ok st \<longleftrightarrow>
     (\<forall>p. dget_or (artifact_versions st) p 0 = length (log_of st p)) \<and>
     (\<forall>p. map ar_version (log_of st p) = [1..<Suc (length (log_of st p))]) \<and>
     (\<forall>p. dget (artifacts st) p = None \<longleftrightarrow> dget (artifact_versions st) p = None) \<and>
     distinct (map fst (artifacts st)) \<and>
     (\<forall>p c. dget (artifacts st) p = Some c \<longrightarrow> log_of st p \<noteq> []
        \<and> ar_size_bytes (last (log_of st p)) = utf8_len c)"

lemma artifacts_ok_new: "artifacts_ok (new_run_state inp)"
  by (simp add: artifacts_ok_def new_run_state_def log_of_def)

lemma artifacts_ok_cong:
  "artifacts st' = artifacts st \<Longrightarrow> artifact_versions st' = artifact_versions st \<Longrightarrow>
   artifact_log st' = artifact_log st \<Longrightarrow> artifacts_ok st' = artifacts_ok st"
  by (simp add: artifacts_ok_def log_of_def)

lemma log_of_record:
  "record_artifact st p c k a = (v, st') \<Longrightarrow>
   log_of st' q = log_of st q @ (if q = p then [\<lparr>ar_path = p, ar_version = v, ar_kind = k,
     ar_size_bytes = utf8_len c, ar_produced_by = a\<rparr>] else [])"
  by (auto simp: record_artifact_def log_of_def Let_def)

lemma record_artifact_simps:
  assumes "record_artifact st p c k a = (v, st')"
  shows "v = dget_or (artifact_versions st) p 0 + 1"
    and "artifact_versions st' = dset p v (artifact_versions st)"
    and "artifacts st' = dset p c (artifacts st)"
    and "board st' = board st" "step_index st' = step_index st" "rs_notes st' = rs_notes st"
    and "user_input st' = user_input st" "final_output st' = final_output st"
  using assms by (auto simp: record_artifact_def Let_def)

lemma record_artifact_ok:
  assumes "artifacts_ok st" and r: "record_artifact st p c k a = (v, st')"
  shows "artifacts_ok st'"
proof -
  note s = record_artifact_simps [OF r] and l = log_of_record [OF r]
  have v: "v = Suc (length (log_of st p))" using assms(1) s(1) by (simp add: artifacts_ok_def)
  show ?thesis
    using assms(1) unfolding artifacts_ok_def
    by (auto simp: s(2,3) l v distinct_dset)
qed

lemma sorted_items_lookup:
  assumes "artifacts_ok st" "(p, c) \<in> set (sort_key fst (artifacts st))"
  shows "\<exists>v. dget (artifact_versions st) p = Some v"
proof -
  have "(p, c) \<in> set (artifacts st)" using assms(2) by simp
  then have "dget (artifacts st) p \<noteq> None" by (metis weak_map_of_SomeI option.distinct(1))
  with assms(1) show ?thesis by (auto simp: artifacts_ok_def)
qed

lemma rmap_total: "(\<And>x. x \<in> set xs \<Longrightarrow> \<exists>y. f x = Inr y) \<Longrightarrow> \<exists>ys. rmap f xs = Inr ys"
proof (induction xs)
  case (Cons x xs)
  then obtain y ys where "f x = Inr y" "rmap f xs = Inr ys" by force
  then show ?case by simp
qed simp

lemma artifact_index_total: "artifacts_ok st \<Longrightarrow> \<exists>s. artifact_index st = Inr s"
proof -
  assume ok: "artifacts_ok st"
  let ?f = "\<lambda>(path, content). case dget (artifact_versions st) path of None \<Rightarrow> Inl KeyError
     | Some v \<Rightarrow> Inr (''- '' @ path @ '' (v'' @ str_of_nat v @ '', '' @ str_of_nat (utf8_len content)
              @ '' bytes)'')"
  have "\<exists>y. ?f x = Inr y" if "x \<in> set (sort_key fst (artifacts st))" for x
    using sorted_items_lookup [OF ok, of "fst x" "snd x"] that by (cases x) auto
  then obtain ys where "rmap ?f (sort_key fst (artifacts st)) = Inr ys" using rmap_total by blast
  then show ?thesis by (simp add: artifact_index_def)
qed

subsection \<open>The transcript\<close>

lemma length_headline:
  "length (headline t n) \<le> n + 29 + length (str_of_nat (length (strip t) - n))"
proof -
  have "length (rstrip (take n (strip t))) \<le> n"
    unfolding rstrip_def using length_rstrip_by [of is_space "take n (strip t)"] by simp
  then show ?thesis by (simp add: headline_def Let_def)
qed

text \<open>
  The characters rendered never exceed the limit by more than one compacted block and the marker.
\<close>

lemma render_blocks_bound:
  assumes "\<And>e. e \<in> set es \<Longrightarrow>
      length (entry_header e) + length (headline (be_content e) 600) \<le> H"
    and "\<And>e. e \<in> set es \<Longrightarrow> length (entry_header e) \<le> H"
    and "tot \<le> max_chars"
  shows "tot + int (sum_list (map length (render_blocks k max_chars pos tot es)))
           \<le> max_chars + int H + 1 + int (length omitted_marker)"
  using assms
proof (induction es arbitrary: pos tot)
  case (Cons e es)
  let ?body = "if pos \<ge> k \<or> tot + int (length (be_content e)) > max_chars
                 then headline (be_content e) 600 else be_content e"
  let ?block = "entry_header e @ [nl] @ ?body"
  have b: "tot + int (length ?block) \<le> max_chars + int H + 1"
  proof (cases "pos \<ge> k \<or> tot + int (length (be_content e)) > max_chars")
    case True
    then show ?thesis using Cons.prems(1) [of e] Cons.prems(3) by simp
  next
    case False
    then show ?thesis using Cons.prems(2) [of e] by simp
  qed
  show ?case
  proof (cases "tot + int (length ?block) > max_chars")
    case True
    with b show ?thesis by (simp add: Let_def)
  next
    case False
    have "tot + int (length ?block) + int (sum_list (map length
        (render_blocks k max_chars (Suc pos) (tot + int (length ?block)) es)))
        \<le> max_chars + int H + 1 + int (length omitted_marker)"
      using Cons.prems False by (intro Cons.IH) auto
    with False show ?thesis by (simp add: Let_def)
  qed
qed simp

lemma length_render_blocks: "length (render_blocks k m pos tot es) \<le> Suc (length es)"
  by (induction es arbitrary: pos tot) (auto simp: Let_def)

lemma length_join: "length (join sep ss) \<le> sum_list (map length ss) + length ss * length sep"
  by (induction sep ss rule: join.induct) auto

lemma render_blocks_first:
  assumes "0 < k" "int (length (be_content e)) \<le> m"
  shows "hd (render_blocks k m 0 0 (e # es)) = entry_header e @ [nl] @ be_content e"
  using assms by (auto simp: Let_def)

end
