(* ===== verification/Float64.thy ===== *)
theory Float64
  imports Complex_Main "HOL-Library.Log_Nat"
begin

text \<open>
  Python's \<open>float\<close> where the program computes money with it: IEEE double rounding to nearest, ties
  to even, as an executable function on rationals (53 significant bits; overflow and subnormal
  values do not occur for token counts and prices), and \<open>round()\<close>, which rounds ties to even too.
\<close>

definition pow2 :: "int \<Rightarrow> rat" where
  "pow2 e = (if 0 \<le> e then 2 ^ nat e else 1 / 2 ^ nat (- e))"

definition round_even :: "rat \<Rightarrow> int" where
  "round_even x = (let f = \<lfloor>x\<rfloor>; d = x - of_int f in
     if d < 1 / 2 then f else if 1 / 2 < d then f + 1 else if even f then f else f + 1)"

text \<open>The exponent \<open>e\<close> with \<open>2^e \<le> x < 2^(e+1)\<close> of a positive rational.\<close>

definition expo :: "rat \<Rightarrow> int" where
  "expo x = (if 1 \<le> x then int (floorlog 2 (nat \<lfloor>x\<rfloor>)) - 1
             else - int (floorlog 2 (nat (\<lceil>1 / x\<rceil> - 1))))"

definition flpos :: "rat \<Rightarrow> rat" where
  "flpos x = (let u = pow2 (expo x - 52) in of_int (round_even (x / u)) * u)"

definition fl :: "rat \<Rightarrow> rat" where
  "fl x = (if x = 0 then 0 else if x < 0 then - flpos (- x) else flpos x)"

subsection \<open>Rounding to an integer\<close>

lemma round_even_cases: "round_even x = \<lfloor>x\<rfloor> \<or> round_even x = \<lfloor>x\<rfloor> + 1"
  by (simp add: round_even_def Let_def)

lemma round_even_mono: "x \<le> y \<Longrightarrow> round_even x \<le> round_even y"
proof (cases "\<lfloor>x\<rfloor> = \<lfloor>y\<rfloor>")
  case True
  moreover assume "x \<le> y"
  ultimately show ?thesis by (simp add: round_even_def Let_def)
next
  case False
  assume "x \<le> y"
  with False have "\<lfloor>x\<rfloor> + 1 \<le> \<lfloor>y\<rfloor>" using floor_mono [of x y] by linarith
  then show ?thesis using round_even_cases [of x] round_even_cases [of y] by linarith
qed

lemma round_even_of_int [simp]: "round_even (of_int n) = n"
  by (simp add: round_even_def)

lemma round_even_numeral [simp]: "round_even (numeral k) = numeral k"
  using round_even_of_int [of "numeral k"] by simp

lemma round_even_0 [simp]: "round_even 0 = 0"
  using round_even_of_int [of 0] by simp

subsection \<open>Powers of two and exponents\<close>

lemma pow2_pos [simp]: "0 < pow2 e"
  by (simp add: pow2_def)

lemma pow2_nonneg [simp]: "0 \<le> pow2 e"
  by (simp add: less_imp_le)

lemma pow2_uminus: "pow2 (- int j) = 1 / 2 ^ j"
  by (cases "j = 0") (simp_all add: pow2_def)

lemma pow2_powi: "pow2 e = 2 powi e"
  by (simp add: pow2_def power_int_def inverse_eq_divide power_divide)

lemma pow2_add: "pow2 (a + b) = pow2 a * pow2 b"
  by (simp add: pow2_powi power_int_add)

lemma pow2_mono: "a \<le> b \<Longrightarrow> pow2 a \<le> pow2 b"
  by (simp add: pow2_powi power_int_increasing)

lemma floorlog_bounds:
  assumes "0 < n" shows "2 ^ (floorlog 2 n - 1) \<le> n" "n < 2 ^ floorlog 2 n" "0 < floorlog 2 n"
  using floorlog_bounds [of n 2] assms by (auto simp: floorlog_def)

lemma expo_ge_1:
  assumes "1 \<le> x" shows "pow2 (expo x) \<le> x" "x < pow2 (expo x + 1)"
proof -
  let ?n = "nat \<lfloor>x\<rfloor>" let ?k = "floorlog 2 ?n"
  have n: "0 < ?n" and f: "int ?n = \<lfloor>x\<rfloor>" using assms by (simp_all add: le_floor_iff)
  have e: "expo x = int (?k - 1)" "expo x + 1 = int ?k"
    using floorlog_bounds(3) [OF n] assms by (simp_all add: expo_def)
  have "(of_nat (2 ^ (?k - 1)) :: rat) \<le> of_nat ?n"
    using floorlog_bounds(1) [OF n] by (simp only: of_nat_le_iff)
  moreover have nx: "(of_nat ?n :: rat) = of_int \<lfloor>x\<rfloor>" using f by (metis of_int_of_nat_eq)
  ultimately have "(2 ^ (?k - 1) :: rat) \<le> of_int \<lfloor>x\<rfloor>" by simp
  then have "(2 ^ (?k - 1) :: rat) \<le> x" using of_int_floor_le [of x] by (rule order_trans)
  then show "pow2 (expo x) \<le> x" by (simp add: e(1) pow2_def)
  have "(of_nat (?n + 1) :: rat) \<le> of_nat (2 ^ ?k)"
    using floorlog_bounds(2) [OF n] by (metis Suc_eq_plus1 Suc_leI of_nat_le_iff)
  then have "of_int \<lfloor>x\<rfloor> + 1 \<le> (2 ^ ?k :: rat)" using nx by simp
  moreover have "x < of_int \<lfloor>x\<rfloor> + 1" by linarith
  ultimately show "x < pow2 (expo x + 1)" by (simp add: e(2) pow2_def)
qed

lemma expo_lt_1:
  assumes "0 < x" "x < 1" shows "pow2 (expo x) \<le> x" "x < pow2 (expo x + 1)"
proof -
  let ?y = "1 / x" let ?n = "nat (\<lceil>?y\<rceil> - 1)" let ?k = "floorlog 2 ?n"
  have y: "1 < ?y" using assms by simp
  then have "1 < \<lceil>?y\<rceil>" unfolding less_ceiling_iff of_int_1 .
  then have c: "0 < \<lceil>?y\<rceil> - 1" by linarith
  then have n: "0 < ?n" by (simp only: zero_less_nat_eq)
  have f: "int ?n = \<lceil>?y\<rceil> - 1" using c by (metis int_nat_eq less_imp_le)
  have e: "expo x = - int ?k" "expo x + 1 = - int (?k - 1)"
    using floorlog_bounds(3) [OF n] assms by (simp_all add: expo_def)
  have nx: "(of_nat ?n :: rat) = of_int \<lceil>?y\<rceil> - 1" using f by (metis of_int_1 of_int_diff of_int_of_nat_eq)
  have "(of_nat (?n + 1) :: rat) \<le> of_nat (2 ^ ?k)"
    using floorlog_bounds(2) [OF n] by (metis Suc_eq_plus1 Suc_leI of_nat_le_iff)
  then have "of_int \<lceil>?y\<rceil> \<le> (2 ^ ?k :: rat)" using nx by simp
  with le_of_int_ceiling have "?y \<le> 2 ^ ?k" by (rule order_trans)
  then show "pow2 (expo x) \<le> x"
    using assms unfolding e(1) pow2_uminus by (simp add: field_simps)
  have "(of_nat (2 ^ (?k - 1)) :: rat) \<le> of_nat ?n"
    using floorlog_bounds(1) [OF n] by (simp only: of_nat_le_iff)
  moreover have "of_int \<lceil>?y\<rceil> - 1 < ?y" by linarith
  ultimately have "2 ^ (?k - 1) < ?y" using nx unfolding of_nat_power of_nat_numeral by linarith
  then show "x < pow2 (expo x + 1)"
    using assms unfolding e(2) pow2_uminus by (simp add: field_simps)
qed

lemma expo_bounds:
  assumes "0 < x" shows "pow2 (expo x) \<le> x" "x < pow2 (expo x + 1)"
  using assms expo_ge_1 [of x] expo_lt_1 [of x] by (cases "1 \<le> x"; simp)+

lemma expo_mono:
  assumes "0 < x" "x \<le> y" shows "expo x \<le> expo y"
proof (rule ccontr)
  assume "\<not> expo x \<le> expo y"
  then have "pow2 (expo y + 1) \<le> pow2 (expo x)" by (intro pow2_mono) simp
  with expo_bounds [of x] expo_bounds [of y] assms show False by linarith
qed

subsection \<open>Rounding to a double\<close>

lemma flpos_range:
  assumes "0 < x" shows "pow2 (expo x) \<le> flpos x" "flpos x \<le> pow2 (expo x + 1)"
proof -
  let ?u = "pow2 (expo x - 52)"
  have u: "0 < ?u" by simp
  have p: "pow2 52 = 2 ^ 52" "pow2 53 = 2 ^ 53" by (simp_all add: pow2_def)
  have lo: "pow2 (expo x) = 2 ^ 52 * ?u" and hi: "pow2 (expo x + 1) = 2 ^ 53 * ?u"
    using pow2_add [of 52 "expo x - 52"] pow2_add [of 53 "expo x - 52"] p by (simp_all add: add.commute)
  have "2 ^ 52 \<le> x / ?u" using expo_bounds(1) [OF assms] lo u by (simp add: pos_le_divide_eq)
  then have a: "2 ^ 52 \<le> round_even (x / ?u)"
    using round_even_mono [of "of_int (2 ^ 52)" "x / ?u"] by simp
  have "x / ?u \<le> 2 ^ 53" using expo_bounds(2) [OF assms] hi u by (simp add: pos_divide_le_eq)
  then have b: "round_even (x / ?u) \<le> 2 ^ 53"
    using round_even_mono [of "x / ?u" "of_int (2 ^ 53)"] by simp
  have "of_int (2 ^ 52) \<le> (of_int (round_even (x / ?u)) :: rat)" using a by (simp only: of_int_le_iff)
  then show "pow2 (expo x) \<le> flpos x"
    unfolding lo flpos_def Let_def by (intro mult_right_mono) simp_all
  have "(of_int (round_even (x / ?u)) :: rat) \<le> of_int (2 ^ 53)" using b by (simp only: of_int_le_iff)
  then show "flpos x \<le> pow2 (expo x + 1)"
    unfolding hi flpos_def Let_def by (intro mult_right_mono) simp_all
qed

lemma flpos_pos: "0 < x \<Longrightarrow> 0 < flpos x"
  using flpos_range(1) [of x] pow2_pos [of "expo x"] by linarith

lemma flpos_mono:
  assumes "0 < x" "x \<le> y" shows "flpos x \<le> flpos y"
proof (cases "expo x = expo y")
  case True
  have "x / pow2 (expo y - 52) \<le> y / pow2 (expo y - 52)"
    using assms by (intro divide_right_mono) (simp_all add: less_imp_le)
  then have "round_even (x / pow2 (expo y - 52)) \<le> round_even (y / pow2 (expo y - 52))"
    by (rule round_even_mono)
  then have "(of_int (round_even (x / pow2 (expo y - 52))) :: rat)
      \<le> of_int (round_even (y / pow2 (expo y - 52)))" by (simp only: of_int_le_iff)
  with True show ?thesis
    unfolding flpos_def Let_def by (simp add: mult_right_mono less_imp_le)
next
  case False
  with expo_mono [OF assms] have "expo x + 1 \<le> expo y" by simp
  then have "pow2 (expo x + 1) \<le> pow2 (expo y)" by (rule pow2_mono)
  with flpos_range(2) [of x] flpos_range(1) [of y] assms show ?thesis by linarith
qed

lemma fl_0 [simp]: "fl 0 = 0"
  by (simp add: fl_def)

lemma fl_nonneg: "0 \<le> x \<Longrightarrow> 0 \<le> fl x"
  using flpos_pos [of x] by (auto simp: fl_def)

lemma fl_mono: "x \<le> y \<Longrightarrow> fl x \<le> fl y"
proof -
  assume le: "x \<le> y"
  consider "x < 0" "y < 0" | "x < 0" "0 \<le> y" | "x = 0" | "0 < x" by linarith
  then show ?thesis
  proof cases
    case 1
    with flpos_mono [of "- y" "- x"] le show ?thesis by (simp add: fl_def)
  next
    case 2
    with flpos_pos [of "- x"] fl_nonneg [of y] show ?thesis by (simp add: fl_def)
  next
    case 3
    with le fl_nonneg [of y] show ?thesis by simp
  next
    case 4
    with flpos_mono [of x y] le show ?thesis by (simp add: fl_def)
  qed
qed

text \<open>Integers of up to 53 bits are exact.\<close>

lemma fl_of_int:
  assumes "0 \<le> n" "n < 2 ^ 53" shows "fl (of_int n) = of_int n"
proof (cases "n = 0")
  case False
  let ?x = "of_int n :: rat"
  have x: "0 < ?x" using False assms by simp
  have "pow2 (expo ?x) < pow2 53"
    using expo_bounds(1) [OF x] assms(2) by (simp add: pow2_def)
  then have "expo ?x < 53" using pow2_mono [of 53 "expo ?x"] by linarith
  then have u: "pow2 (expo ?x - 52) = 1 / 2 ^ nat (52 - expo ?x)"
    by (auto simp: pow2_def)
  have "?x / pow2 (expo ?x - 52) = of_int (n * 2 ^ nat (52 - expo ?x))"
    by (simp add: u)
  then have "round_even (?x / pow2 (expo ?x - 52)) = n * 2 ^ nat (52 - expo ?x)"
    by (simp only: round_even_of_int)
  then show ?thesis using x by (simp add: fl_def flpos_def u Let_def)
qed simp

text \<open>
  What the money computations rely on: a monotone rounding that fixes zero. The arithmetic of
  prices and margins is proved for any such rounding and interpreted on \<open>fl\<close>.
\<close>

locale rounding =
  fixes rnd :: "rat \<Rightarrow> rat"
  assumes rnd_mono: "x \<le> y \<Longrightarrow> rnd x \<le> rnd y"
    and rnd_0: "rnd 0 = 0"
begin

lemma rnd_nonneg: "0 \<le> x \<Longrightarrow> 0 \<le> rnd x"
  using rnd_mono [of 0 x] by (simp add: rnd_0)

lemma rnd_prod_mono: "0 \<le> c \<Longrightarrow> x \<le> y \<Longrightarrow> rnd (rnd x * c) \<le> rnd (rnd y * c)"
  by (intro rnd_mono mult_right_mono)

lemma rnd_sum_mono: "x \<le> x' \<Longrightarrow> y \<le> y' \<Longrightarrow> rnd (x + y) \<le> rnd (x' + y')"
  by (intro rnd_mono add_mono)

lemma round_rnd_mono: "x \<le> y \<Longrightarrow> round_even (rnd x) \<le> round_even (rnd y)"
  by (intro round_even_mono rnd_mono)

end

interpretation f64: rounding fl
  by unfold_locales (simp_all add: fl_mono)

subsection \<open>Evaluation\<close>

text \<open>Code equations that count in binary, so that a rounding evaluates in as many steps as it
  has bits; they recurse on numerals only, so that an unknown argument blocks them.\<close>

definition ilog :: "int \<Rightarrow> int" where
  "ilog n = int (floorlog 2 (nat n))"

definition ipow2 :: "int \<Rightarrow> int" where
  "ipow2 e = 2 ^ nat e"

primrec bits :: "num \<Rightarrow> int" where
  "bits num.One = 1"
| "bits (num.Bit0 n) = 1 + bits n"
| "bits (num.Bit1 n) = 1 + bits n"

primrec npow2 :: "num \<Rightarrow> int" where
  "npow2 num.One = 2"
| "npow2 (num.Bit0 n) = (let y = npow2 n in y * y)"
| "npow2 (num.Bit1 n) = (let y = npow2 n in 2 * y * y)"

lemma bits_floorlog: "bits n = int (floorlog 2 (numeral n))"
proof (induction n)
  case One
  show ?case by (subst compute_floorlog) (simp add: floorlog_def)
next
  case (Bit0 n)
  then show ?case by (subst compute_floorlog) simp
next
  case (Bit1 n)
  then show ?case by (subst compute_floorlog) simp
qed

lemma npow2_power: "npow2 n = 2 ^ numeral n"
proof (induction n)
  case (Bit0 n)
  then show ?case by (simp only: npow2.simps Let_def numeral_Bit0 power_add)
next
  case (Bit1 n)
  then show ?case by (simp only: npow2.simps Let_def numeral_Bit1 power_add power_one_right mult_ac)
qed simp

lemma ilog_code [code]:
  "ilog 0 = 0" "ilog (Int.Pos n) = bits n" "ilog (Int.Neg n) = 0"
  by (simp_all add: ilog_def bits_floorlog floorlog_def [of 2 0])

lemma ipow2_code [code]:
  "ipow2 0 = 1" "ipow2 (Int.Pos n) = npow2 n" "ipow2 (Int.Neg n) = 1"
  by (simp_all add: ipow2_def npow2_power)

lemma expo_code [code]: "expo x = (if 1 \<le> x then ilog \<lfloor>x\<rfloor> - 1 else - ilog (\<lceil>1 / x\<rceil> - 1))"
  by (simp add: expo_def ilog_def)

lemma pow2_code [code]: "pow2 e = (if 0 \<le> e then of_int (ipow2 e) else 1 / of_int (ipow2 (- e)))"
  by (simp add: pow2_def ipow2_def)

text \<open>Rounding waits for its argument to be a fraction.\<close>

fun fl_frac :: "int \<times> int \<Rightarrow> rat" where
  "fl_frac (n, d) = (let x = of_int n / of_int d in if x = 0 then 0 else if x < 0 then - flpos (- x) else flpos x)"

lemma fl_code [code]: "fl x = fl_frac (quotient_of x)"
proof -
  obtain n d where q: "quotient_of x = (n, d)" by (cases "quotient_of x")
  then have "x = of_int n / of_int d" by (rule quotient_of_div)
  with q show ?thesis by (simp add: fl_def Let_def)
qed

end
