(* ===== verification/Registry.thy ===== *)
theory Registry
  imports Errors Float64
begin

text \<open>
  \<^verbatim>\<open>core/llm/registry.py\<close> and the neutral request and reply types of \<^verbatim>\<open>core/llm/providers/base.py\<close>.
  A price literal is the double nearest to the decimal written in the source.
\<close>

datatype provider = Anthropic | OpenAI | XAI | Google | OpenRouter

fun provider_value :: "provider \<Rightarrow> string" where
  "provider_value Anthropic = ''anthropic''"
| "provider_value OpenAI = ''openai''"
| "provider_value XAI = ''xai''"
| "provider_value Google = ''google''"
| "provider_value OpenRouter = ''openrouter''"

definition all_providers :: "provider list" where
  "all_providers = [Anthropic, OpenAI, XAI, Google, OpenRouter]"

datatype effort_style = EffortAnthropic | EffortOpenAI | EffortGoogle | EffortNone

definition EFFORT_LEVELS :: "string list" where
  "EFFORT_LEVELS = [''low'', ''medium'', ''high'', ''xhigh'', ''max'']"

definition OPENAI_EFFORT :: "(string, string) dict" where
  "OPENAI_EFFORT = [(''low'', ''low''), (''medium'', ''medium''), (''high'', ''high''),
     (''xhigh'', ''high''), (''max'', ''high'')]"

definition GOOGLE_THINKING_BUDGET :: "(string, int) dict" where
  "GOOGLE_THINKING_BUDGET = [(''low'', 1024), (''medium'', 8192), (''high'', 24576),
     (''xhigh'', - 1), (''max'', - 1)]"

record model_spec =
  ms_id :: string
  ms_provider :: provider
  ms_display_name :: string
  ms_input_per_mtok :: rat
  ms_output_per_mtok :: rat
  ms_max_output_tokens :: int
  ms_context_window :: int
  ms_effort_style :: effort_style
  ms_cached_input_per_mtok :: "rat option"
  ms_supports_prompt_cache :: bool
  ms_supports_json_mode :: bool
  ms_price_verified_at :: "nat \<times> nat \<times> nat"
  ms_aliases :: "string list"

definition mk_spec ::
    "string \<Rightarrow> provider \<Rightarrow> string \<Rightarrow> rat \<Rightarrow> rat \<Rightarrow> int \<Rightarrow> int \<Rightarrow> effort_style \<Rightarrow> rat option \<Rightarrow> bool \<Rightarrow> model_spec" where
  "mk_spec i p d ip op mo cw es ci pc = \<lparr>ms_id = i, ms_provider = p, ms_display_name = d,
     ms_input_per_mtok = ip, ms_output_per_mtok = op, ms_max_output_tokens = mo, ms_context_window = cw,
     ms_effort_style = es, ms_cached_input_per_mtok = ci, ms_supports_prompt_cache = pc,
     ms_supports_json_mode = True, ms_price_verified_at = (2026, 8, 14), ms_aliases = []\<rparr>"

definition MODEL_LIST :: "model_spec list" where
  "MODEL_LIST = [
   mk_spec ''claude-opus-5'' Anthropic ''Claude Opus 5'' (fl 5.00) (fl 25.00) 128000 1000000 EffortAnthropic (Some (fl 0.50)) True,
   mk_spec ''claude-sonnet-5'' Anthropic ''Claude Sonnet 5'' (fl 3.00) (fl 15.00) 128000 1000000 EffortAnthropic (Some (fl 0.30)) True,
   mk_spec ''claude-haiku-4-5'' Anthropic ''Claude Haiku 4.5'' (fl 1.00) (fl 5.00) 64000 200000 EffortNone (Some (fl 0.10)) True,
   mk_spec ''claude-opus-4-8'' Anthropic ''Claude Opus 4.8'' (fl 5.00) (fl 25.00) 128000 1000000 EffortAnthropic (Some (fl 0.50)) True,
   mk_spec ''gpt-5'' OpenAI ''GPT-5'' (fl 1.25) (fl 10.00) 128000 400000 EffortOpenAI (Some (fl 0.125)) True,
   mk_spec ''gpt-5-mini'' OpenAI ''GPT-5 mini'' (fl 0.25) (fl 2.00) 128000 400000 EffortOpenAI (Some (fl 0.025)) True,
   mk_spec ''grok-4'' XAI ''Grok 4'' (fl 3.00) (fl 15.00) 64000 256000 EffortNone (None) False,
   mk_spec ''grok-4-fast'' XAI ''Grok 4 Fast'' (fl 0.20) (fl 0.50) 32000 2000000 EffortNone (None) False,
   mk_spec ''grok-3-mini'' XAI ''Grok 3 mini'' (fl 0.30) (fl 0.50) 32000 131072 EffortOpenAI (None) False,
   mk_spec ''gemini-2.5-pro'' Google ''Gemini 2.5 Pro'' (fl 1.25) (fl 10.00) 65536 1048576 EffortGoogle (Some (fl 0.31)) True,
   mk_spec ''gemini-2.5-flash'' Google ''Gemini 2.5 Flash'' (fl 0.30) (fl 2.50) 65536 1048576 EffortGoogle (Some (fl 0.075)) True
]"

definition MODELS :: "(string, model_spec) dict" where
  "MODELS = fold (\<lambda>spec d. fold (\<lambda>a d. dset a spec d) (ms_aliases spec) d) MODEL_LIST
     (dict_of (map (\<lambda>spec. (ms_id spec, spec)) MODEL_LIST))"

definition get_spec :: "string \<Rightarrow> model_spec res" where
  "get_spec model = (case dget MODELS model of Some s \<Rightarrow> Inr s | None \<Rightarrow> Inl (UnknownModelError model))"

definition provider_for :: "string \<Rightarrow> provider res" where
  "provider_for model = rbind (get_spec model) (\<lambda>s. Inr (ms_provider s))"

definition list_models :: "provider option \<Rightarrow> model_spec list" where
  "list_models p = (
     let seen = fold (\<lambda>spec d. case p of
                   Some q \<Rightarrow> if ms_provider spec \<noteq> q then d else dset (ms_id spec) spec d
                 | None \<Rightarrow> dset (ms_id spec) spec d) (map snd MODELS) []
     in sort_key (\<lambda>s. provider_value (ms_provider s)) (sort_key ms_id (map snd seen)))"

definition normalise_effort :: "string \<Rightarrow> string" where
  "normalise_effort effort = (if effort \<in> set EFFORT_LEVELS then effort else ''medium'')"

subsection \<open>Requests and replies\<close>

record tool_call_request =
  tcr_id :: string
  tcr_name :: string
  tcr_arguments :: jobj

record tool_result_part =
  trp_tool_call_id :: string
  trp_name :: string
  trp_content :: string
  trp_is_error :: bool

record message =
  msg_role :: string
  msg_content :: string
  msg_tool_calls :: "tool_call_request list"
  msg_tool_results :: "tool_result_part list"

record tool_spec =
  ts_name :: string
  ts_description :: string
  ts_parameters :: json

record completion_request =
  cr_spec :: model_spec
  cr_system :: string
  cr_messages :: "message list"
  cr_max_tokens :: int
  cr_effort :: string
  cr_json_mode :: bool
  cr_timeout_seconds :: rat
  cr_tools :: "tool_spec list"
  cr_cache_system_prompt :: bool

record usage =
  us_input_tokens :: int
  us_output_tokens :: int
  us_cached_input_tokens :: int
  us_reasoning_tokens :: int

definition fresh_input_tokens :: "usage \<Rightarrow> int" where
  "fresh_input_tokens u = max (us_input_tokens u - us_cached_input_tokens u) 0"

record llm_result =
  lr_text :: string
  lr_model :: string
  lr_provider :: string
  lr_usage :: usage
  lr_stop_reason :: "string option"
  lr_tool_calls :: "tool_call_request list"

definition wants_tools :: "llm_result \<Rightarrow> bool" where
  "wants_tools r = (lr_tool_calls r \<noteq> [])"

subsection \<open>Facts of the table\<close>

lemma no_aliases: "s \<in> set MODEL_LIST \<Longrightarrow> ms_aliases s = []"
  by (auto simp: MODEL_LIST_def mk_spec_def)

lemma MODELS_eq: "MODELS = dict_of (map (\<lambda>s. (ms_id s, s)) MODEL_LIST)"
proof -
  have "fold (\<lambda>spec d. fold (\<lambda>a d. dset a spec d) (ms_aliases spec) d) xs d = d"
    if "\<forall>s \<in> set xs. ms_aliases s = []" for xs d
    using that by (induction xs) simp_all
  from this [of MODEL_LIST] show ?thesis by (simp add: MODELS_def no_aliases)
qed

lemma MODELS_in: "(m, s) \<in> set MODELS \<Longrightarrow> s \<in> set MODEL_LIST \<and> ms_id s = m"
  using set_dict_of [of "map (\<lambda>s. (ms_id s, s)) MODEL_LIST"] by (auto simp: MODELS_eq)

lemma get_spec_id: "get_spec m = Inr s \<Longrightarrow> ms_id s = m"
  by (auto simp: get_spec_def split: option.splits dest!: map_of_SomeD MODELS_in)

text \<open>Every price of the table is non-negative and a cached read is never dearer than a fresh one.\<close>

definition prices_ok :: "model_spec \<Rightarrow> bool" where
  "prices_ok s \<longleftrightarrow> 0 \<le> ms_input_per_mtok s \<and> 0 \<le> ms_output_per_mtok s \<and>
     (case ms_cached_input_per_mtok s of None \<Rightarrow> True | Some c \<Rightarrow> 0 \<le> c \<and> c \<le> ms_input_per_mtok s)"

lemma MODELS_prices_ok: "get_spec m = Inr s \<Longrightarrow> prices_ok s"
proof -
  have "\<forall>s \<in> set MODEL_LIST. prices_ok s"
    by (simp add: MODEL_LIST_def mk_spec_def prices_ok_def fl_nonneg fl_mono)
  then show "get_spec m = Inr s \<Longrightarrow> prices_ok s"
    by (auto simp: get_spec_def split: option.splits dest!: map_of_SomeD MODELS_in)
qed

lemma normalise_effort_known: "normalise_effort e \<in> set EFFORT_LEVELS"
  by (simp add: normalise_effort_def EFFORT_LEVELS_def)

end
