(* ===== verification/Json_Loads.thy ===== *)
theory Json_Loads
  imports Json Float64
begin

text \<open>
  \<^verbatim>\<open>json.loads\<close> of the standard library, which reads model replies, tool arguments and settings: white
  space, literals, numbers, strings with escapes, arrays and objects (a repeated key keeps its
  place and takes the last value). Not read: \<open>NaN\<close> and the infinities (the model has finite
  floats only) and nesting past the interpreter's recursion limit. An escape for a code point
  above 255 reads as the substitute character. \<open>float_repr\<close> is the shortest decimal that reads
  back as the same double, in the layout \<open>repr\<close> uses.
\<close>

subsection \<open>Floats as text\<close>

definition pow10 :: "int \<Rightarrow> rat" where
  "pow10 k = (if 0 \<le> k then 10 ^ nat k else 1 / 10 ^ nat (- k))"

text \<open>Smallest \<open>k\<close> from the starting guess with \<open>x < 10 ^ k\<close>; the guess bounds the search.\<close>

fun dec_expo :: "nat \<Rightarrow> int \<Rightarrow> rat \<Rightarrow> int" where
  "dec_expo 0 k x = k"
| "dec_expo (Suc n) k x = (if x < pow10 (k - 1) then dec_expo n (k - 1) x else k)"

definition decpt :: "rat \<Rightarrow> int" where
  "decpt x = (let k0 = int (length (str_of_nat (nat \<lfloor>x\<rfloor>))) in dec_expo 350 k0 x)"

fun shortest :: "nat \<Rightarrow> nat \<Rightarrow> int \<Rightarrow> rat \<Rightarrow> int" where
  "shortest 0 d k x = round_even (x * pow10 (17 - k))"
| "shortest (Suc n) d k x = (
     let m = round_even (x * pow10 (int d - k)) in
     if fl (of_int m * pow10 (k - int d)) = x then m * 10 ^ (17 - d) else shortest n (Suc d) k x)"

definition float_repr :: "rat \<Rightarrow> string" where
  "float_repr q = (
     if q = 0 then ''0.0'' else
     let x = \<bar>q\<bar>;
         k0 = decpt x;
         m = nat (shortest 16 1 k0 x);
         k = k0 + (int (length (str_of_nat m)) - 17);
         ds = rev (dropWhile (\<lambda>c. c = CHR ''0'') (rev (str_of_nat m)));
         n = int (length ds);
         body = (if - 4 < k \<and> k \<le> 0 then ''0.'' @ replicate (nat (- k)) (CHR ''0'') @ ds
                 else if 0 < k \<and> k \<le> 16 then
                   (if n \<le> k then ds @ replicate (nat (k - n)) (CHR ''0'') @ ''.0''
                    else take (nat k) ds @ ''.'' @ drop (nat k) ds)
                 else let e = k - 1;
                          es = str_of_nat (nat \<bar>e\<bar>)
                      in (if n = 1 then ds else take 1 ds @ ''.'' @ drop 1 ds) @ ''e''
                         @ (if e < 0 then ''-'' else ''+'') @ (if length es = 1 then ''0'' else []) @ es)
     in (if q < 0 then ''-'' else []) @ body)"

definition jfloat :: "rat \<Rightarrow> json" where
  "jfloat q = JFloat q (float_repr q)"

subsection \<open>The scanner\<close>

definition json_ws :: "string \<Rightarrow> string" where
  "json_ws s = dropWhile (\<lambda>c. c \<in> {CHR '' '', tab, nl, CHR 0x0D}) s"

definition hex_val :: "char \<Rightarrow> nat option" where
  "hex_val c = (let n = code_of c in
     if is_digit c then Some (n - 48)
     else if 97 \<le> n \<and> n \<le> 102 then Some (n - 87)
     else if 65 \<le> n \<and> n \<le> 70 then Some (n - 55) else None)"

definition hex4 :: "char \<Rightarrow> char \<Rightarrow> char \<Rightarrow> char \<Rightarrow> char option" where
  "hex4 a b c d = (case (hex_val a, hex_val b, hex_val c, hex_val d) of
     (Some w, Some x, Some y, Some z) \<Rightarrow>
        let n = ((w * 16 + x) * 16 + y) * 16 + z in Some (if n < 256 then char_of n else sub_char)
   | _ \<Rightarrow> None)"

definition simple_escape :: "char \<Rightarrow> char option" where
  "simple_escape c = map_of [(dquote, dquote), (backslash, backslash), (CHR ''/'', CHR ''/''),
     (CHR ''b'', CHR 0x08), (CHR ''f'', CHR 0x0C), (CHR ''n'', nl), (CHR ''r'', CHR 0x0D), (CHR ''t'', tab)] c"

fun json_string :: "string \<Rightarrow> (string \<times> string) option" where
  "json_string [] = None"
| "json_string (c # cs) = (
     if c = dquote then Some ([], cs)
     else if c = backslash then
       (case cs of
          [] \<Rightarrow> None
        | e # r \<Rightarrow>
            if e = CHR ''u'' then
              (case r of
                 h1 # h2 # h3 # h4 # r' \<Rightarrow>
                   (case hex4 h1 h2 h3 h4 of None \<Rightarrow> None
                    | Some x \<Rightarrow> map_option (\<lambda>(t, q). (x # t, q)) (json_string r'))
               | _ \<Rightarrow> None)
            else (case simple_escape e of None \<Rightarrow> None
                  | Some x \<Rightarrow> map_option (\<lambda>(t, q). (x # t, q)) (json_string r)))
     else if code_of c < (32 :: nat) then None
     else map_option (\<lambda>(t, q). (c # t, q)) (json_string cs))"

definition json_number :: "string \<Rightarrow> (json \<times> string) option" where
  "json_number s = (
     let neg = (s \<noteq> [] \<and> hd s = CHR ''-'');
         s1 = (if neg then tl s else s);
         ip = (if s1 \<noteq> [] \<and> hd s1 = CHR ''0'' then ''0'' else takeWhile is_digit s1);
         s2 = drop (length ip) s1;
         fp = (if s2 \<noteq> [] \<and> hd s2 = CHR ''.'' then takeWhile is_digit (tl s2) else []);
         s3 = (if fp \<noteq> [] then drop (Suc (length fp)) s2 else s2);
         has_e = (s3 \<noteq> [] \<and> hd s3 \<in> {CHR ''e'', CHR ''E''});
         sg = (if has_e \<and> tl s3 \<noteq> [] \<and> hd (tl s3) \<in> {CHR ''-'', CHR ''+''} then [hd (tl s3)] else []);
         ed = (if has_e then takeWhile is_digit (drop (Suc (length sg)) s3) else []);
         s4 = (if ed \<noteq> [] then drop (1 + length sg + length ed) s3 else s3);
         sign = (if neg then - 1 else 1 :: int)
     in if ip = [] then None
        else if fp = [] \<and> ed = [] then Some (JInt (sign * int (digits_val 0 ip)), s4)
        else let e = (if sg = ''-'' then - 1 else 1) * int (digits_val 0 ed);
                 v = of_int (sign * int (digits_val 0 (ip @ fp))) * pow10 (e - int (length fp))
             in Some (jfloat (fl v), s4))"

definition json_lit :: "string \<Rightarrow> (json \<times> string) option" where
  "json_lit s = (
     if take 4 s = ''null'' then Some (JNull, drop 4 s)
     else if take 4 s = ''true'' then Some (JBool True, drop 4 s)
     else if take 5 s = ''false'' then Some (JBool False, drop 5 s)
     else json_number s)"

text \<open>
  One unit of fuel per nested call; a value or an element list is entered at most twice per
  character, so \<open>2 * length + 2\<close> units are enough for every text.
\<close>

fun json_value :: "nat \<Rightarrow> string \<Rightarrow> (json \<times> string) option"
  and json_elems :: "nat \<Rightarrow> string \<Rightarrow> (json list \<times> string) option"
  and json_members :: "nat \<Rightarrow> string \<Rightarrow> (jobj \<times> string) option" where
  "json_value 0 s = None"
| "json_value (Suc n) s = (
     case s of
       [] \<Rightarrow> None
     | c # cs \<Rightarrow>
         if c = dquote then map_option (\<lambda>(t, r). (JStr t, r)) (json_string cs)
         else if c = CHR ''['' then
           (let r = json_ws cs in
            if r \<noteq> [] \<and> hd r = CHR '']'' then Some (JList [], tl r)
            else map_option (\<lambda>(vs, r). (JList vs, r)) (json_elems n r))
         else if c = CHR ''{'' then
           (let r = json_ws cs in
            if r \<noteq> [] \<and> hd r = CHR ''}'' then Some (JObj [], tl r)
            else map_option (\<lambda>(ms, r). (JObj (dict_of ms), r)) (json_members n r))
         else json_lit s)"
| "json_elems 0 s = None"
| "json_elems (Suc n) s = (
     case json_value n s of None \<Rightarrow> None
     | Some (v, r) \<Rightarrow>
         (let r = json_ws r in
          if r = [] then None
          else if hd r = CHR '']'' then Some ([v], tl r)
          else if hd r = CHR '','' then map_option (\<lambda>(vs, q). (v # vs, q)) (json_elems n (json_ws (tl r)))
          else None))"
| "json_members 0 s = None"
| "json_members (Suc n) s = (
     if s = [] \<or> hd s \<noteq> dquote then None
     else case json_string (tl s) of None \<Rightarrow> None
     | Some (k, r) \<Rightarrow>
         (let r = json_ws r in
          if r = [] \<or> hd r \<noteq> CHR '':'' then None
          else case json_value n (json_ws (tl r)) of None \<Rightarrow> None
          | Some (v, r) \<Rightarrow>
              (let r = json_ws r in
               if r = [] then None
               else if hd r = CHR ''}'' then Some ([(k, v)], tl r)
               else if hd r = CHR '','' then
                 map_option (\<lambda>(ms, q). ((k, v) # ms, q)) (json_members n (json_ws (tl r)))
               else None)))"

definition json_loads :: "string \<Rightarrow> json option" where
  "json_loads s = (case json_value (2 * length s + 2) (json_ws s) of
     Some (v, r) \<Rightarrow> if json_ws r = [] then Some v else None
   | None \<Rightarrow> None)"

end
