(* ===== verification/Tools.thy ===== *)
theory Tools
  imports Artifacts Run_State Registry Config
begin

text \<open>
  \<^verbatim>\<open>core/tools\<close>: the contract of a tool (argument checks, failures as results, bounded results), the
  artifact tools and the registry. A tool acts on the state of its caller, of any type \<open>'s\<close>, only
  through its context: the live artifact store, the live version map and the writer. The two
  network tools answer through the argument \<open>web\<close>.
\<close>

subsection \<open>The contract (base.py)\<close>

definition MAX_RESULT_CHARS :: nat where "MAX_RESULT_CHARS = 60000"

datatype side_effect = ReadOnly | Network | Write

record tool_result =
  tr_content :: string
  tr_is_error :: bool
  tr_metadata :: jobj

definition omission_note :: "nat \<Rightarrow> string" where
  "omission_note omitted = [nl, nl] @ ''[... '' @ str_of_nat omitted
     @ '' characters omitted; the result was too large to return in full. Narrow the request and try again.]''"

definition truncated :: "nat \<Rightarrow> tool_result \<Rightarrow> tool_result" where
  "truncated limit r = (
     if length (tr_content r) \<le> limit then r
     else let omitted = length (tr_content r) - limit in
       \<lparr>tr_content = take limit (tr_content r) @ omission_note omitted,
        tr_is_error = tr_is_error r,
        tr_metadata = dset ''truncated_chars'' (JInt (int omitted)) (tr_metadata r)\<rparr>)"

record 's tool_context =
  tc_run_id :: string
  tc_org_id :: json
  tc_agent_id :: string
  tc_agent_name :: string
  tc_step_index :: nat
  tc_artifacts :: "'s \<Rightarrow> (string, string) dict"
  tc_read_artifact_version :: "'s \<Rightarrow> (string, nat) dict"
  tc_write_artifact :: "string \<Rightarrow> string \<Rightarrow> string \<Rightarrow> ('s, exn, nat) eff"

datatype tool = ListArtifacts | ReadArtifact | WriteArtifact | EditArtifact | WebFetch | WebSearch

fun tool_name :: "tool \<Rightarrow> string" where
  "tool_name ListArtifacts = ''list_artifacts''"
| "tool_name ReadArtifact = ''read_artifact''"
| "tool_name WriteArtifact = ''write_artifact''"
| "tool_name EditArtifact = ''edit_artifact''"
| "tool_name WebFetch = ''web_fetch''"
| "tool_name WebSearch = ''web_search''"

fun tool_side_effect :: "tool \<Rightarrow> side_effect" where
  "tool_side_effect ListArtifacts = ReadOnly"
| "tool_side_effect ReadArtifact = ReadOnly"
| "tool_side_effect WriteArtifact = Write"
| "tool_side_effect EditArtifact = Write"
| "tool_side_effect WebFetch = Network"
| "tool_side_effect WebSearch = Network"

fun tool_timeout :: "tool \<Rightarrow> string" where
  "tool_timeout WebFetch = ''25''"
| "tool_timeout WebSearch = ''20''"
| "tool_timeout _ = ''30''"

text \<open>The class attributes of each tool, as the schema handed to a model.\<close>

definition quoted :: "string \<Rightarrow> string" where
  "quoted s = [squote] @ s @ [squote]"

definition prop_schema :: "string \<Rightarrow> string \<Rightarrow> json" where
  "prop_schema ty d = JObj [(''type'', JStr ty), (''description'', JStr d)]"

definition object_schema :: "(string \<times> json) list \<Rightarrow> string list \<Rightarrow> json" where
  "object_schema props required = JObj [(''type'', JStr ''object''), (''properties'', JObj props),
     (''required'', JList (map JStr required))]"

definition LIST_ARTIFACTS :: tool_spec where
  "LIST_ARTIFACTS = \<lparr>ts_name = ''list_artifacts'',
     ts_description = ''List every file produced so far in this run, with its size and current version. Use it before reading or writing to see what already exists.'',
     ts_parameters = object_schema
     [(''prefix'', prop_schema ''string'' (''Optional path prefix to filter by, e.g. '' @ quoted ''src/'' @ ''.''))] []\<rparr>"

definition READ_ARTIFACT :: tool_spec where
  "READ_ARTIFACT = \<lparr>ts_name = ''read_artifact'',
     ts_description = ''Read the current contents of a file produced in this run. Optionally read a line range instead of the whole file.'',
     ts_parameters = object_schema
     [(''path'', prop_schema ''string'' (''Relative path, e.g. '' @ quoted ''src/app.py'' @ ''.'')),
      (''start_line'', prop_schema ''integer'' ''First line to return, 1-indexed. Defaults to the start.''),
      (''line_count'', prop_schema ''integer'' ''How many lines to return. Defaults to the whole file.'')] [''path'']\<rparr>"

definition WRITE_ARTIFACT :: tool_spec where
  "WRITE_ARTIFACT = \<lparr>ts_name = ''write_artifact'',
     ts_description = ''Create or replace a file in this run. Always write the complete file '' @ [sub_char] @ '' the contents replace the previous version rather than merging with it. Each write creates a new version; earlier versions are kept.'',
     ts_parameters = object_schema
     [(''path'', prop_schema ''string'' (''Relative path, e.g. '' @ quoted ''src/app.py'' @ ''.'')),
      (''content'', prop_schema ''string'' ''The complete file contents.''),
      (''kind'', prop_schema ''string'' ''Optional content kind: code, markdown, json, text.'')] [''path'', ''content'']\<rparr>"

definition EDIT_ARTIFACT :: tool_spec where
  "EDIT_ARTIFACT = \<lparr>ts_name = ''edit_artifact'',
     ts_description = ''Replace an exact substring in an existing file. Cheaper and safer than rewriting the whole file. The old text must appear exactly once.'',
     ts_parameters = object_schema
     [(''path'', prop_schema ''string'' ''Relative path of the file to edit.''),
      (''old_text'', prop_schema ''string'' ''Exact text to replace, including indentation. Must be unique.''),
      (''new_text'', prop_schema ''string'' ''Replacement text.'')] [''path'', ''old_text'', ''new_text'']\<rparr>"

definition WEB_FETCH :: tool_spec where
  "WEB_FETCH = \<lparr>ts_name = ''web_fetch'',
     ts_description = ''Fetch a public web page or API response and return it as text. Use it to read a specific URL you already know. HTML is converted to readable text.'',
     ts_parameters = object_schema
     [(''url'', prop_schema ''string'' ''Absolute http or https URL.''),
      (''max_chars'', prop_schema ''integer'' ''Truncate the response to this many characters (default 20000).'')] [''url'']\<rparr>"

definition WEB_SEARCH :: tool_spec where
  "WEB_SEARCH = \<lparr>ts_name = ''web_search'',
     ts_description = ''Search the public web and return ranked results with snippets. Use it when the answer depends on current information you do not already have; follow up with web_fetch to read a result in full.'',
     ts_parameters = object_schema
     [(''query'', prop_schema ''string'' ''The search query.''),
      (''count'', prop_schema ''integer'' ''How many results to return (1-10, default 5).'')] [''query'']\<rparr>"

fun tool_schema :: "tool \<Rightarrow> tool_spec" where
  "tool_schema ListArtifacts = LIST_ARTIFACTS"
| "tool_schema ReadArtifact = READ_ARTIFACT"
| "tool_schema WriteArtifact = WRITE_ARTIFACT"
| "tool_schema EditArtifact = EDIT_ARTIFACT"
| "tool_schema WebFetch = WEB_FETCH"
| "tool_schema WebSearch = WEB_SEARCH"

definition tool_description :: "tool \<Rightarrow> string" where
  "tool_description t = ts_description (tool_schema t)"

definition require_str :: "jobj \<Rightarrow> string \<Rightarrow> nat \<Rightarrow> string res" where
  "require_str args key max_length = (
     case as_str (jget args key) of
       Some v \<Rightarrow>
         if strip v = [] then Inl (ToolError (''`'' @ key @ ''` is required and must be a non-empty string''))
         else if length v > max_length
           then Inl (ToolError (''`'' @ key @ ''` must be at most '' @ str_of_nat max_length @ '' characters''))
         else Inr (strip v)
     | None \<Rightarrow> Inl (ToolError (''`'' @ key @ ''` is required and must be a non-empty string'')))"

definition optional_int :: "jobj \<Rightarrow> string \<Rightarrow> int \<Rightarrow> int \<Rightarrow> int \<Rightarrow> int res" where
  "optional_int args key dflt low high = (
     case py_int (dget_or args key (JInt dflt)) of
       Inl _ \<Rightarrow> Inl (ToolError (''`'' @ key @ ''` must be an integer''))
     | Inr number \<Rightarrow> Inr (max low (min high number)))"

subsection \<open>The artifact tools (artifacts.py)\<close>

definition MAX_WRITE_CHARS :: nat where "MAX_WRITE_CHARS = 400000"

definition EXTENSION_KINDS :: "(string, string) dict" where
  "EXTENSION_KINDS = [(''md'', ''markdown''), (''markdown'', ''markdown''), (''json'', ''json''),
     (''yaml'', ''yaml''), (''yml'', ''yaml''), (''csv'', ''csv''), (''txt'', ''text''), (''sql'', ''sql''),
     (''html'', ''html'')]"

definition tool_kind_for :: "string \<Rightarrow> string" where
  "tool_kind_for path = (
     let suffix = (if CHR ''.'' \<in> set path then lower (after_last (CHR ''.'') path) else [])
     in dget_or EXTENSION_KINDS suffix (if suffix \<noteq> [] then ''code'' else ''text''))"

definition tool_safe_path :: "string \<Rightarrow> string res" where
  "tool_safe_path raw = (case sanitise_path raw of Inl m \<Rightarrow> Inl (ToolError m) | Inr p \<Rightarrow> Inr p)"

definition list_artifacts_run :: "jobj \<Rightarrow> 's tool_context \<Rightarrow> ('s, exn, tool_result) eff" where
  "list_artifacts_run args ctx = (\<lambda>s.
     case as_str (if truthy (jget args ''prefix'') then jget args ''prefix'' else JStr []) of
       Some pre \<Rightarrow>
         let matches = filter (\<lambda>(path, content). take (length pre) path = pre)
                         (sort_key fst (tc_artifacts ctx s));
             lines = map (\<lambda>(path, content). path @ ''  (v''
                         @ str_of_nat (dget_or (tc_read_artifact_version ctx s) path 1) @ '', ''
                         @ str_of_nat (utf8_len content) @ '' bytes, ''
                         @ str_of_nat (count_sub [nl] content + 1) @ '' lines)'') matches
         in (Inr (if matches = [] then
                    \<lparr>tr_content = (if pre = [] then ''No artifacts yet.''
                       else ''No artifacts under '' @ py_repr pre @ ''.''),
                     tr_is_error = False, tr_metadata = [(''count'', JInt 0)]\<rparr>
                  else \<lparr>tr_content = join [nl] lines, tr_is_error = False,
                        tr_metadata = [(''count'', JInt (int (length matches)))]\<rparr>), s)
     | None \<Rightarrow> (Inl (ToolError ''`prefix` must be a string''), s))"

definition has_arg :: "jobj \<Rightarrow> string \<Rightarrow> bool" where
  "has_arg args key = (dget args key \<noteq> None)"

definition numbered :: "nat \<Rightarrow> string list \<Rightarrow> string" where
  "numbered start window = join [nl] (map (\<lambda>(i, line). str_of_nat (start + i) @ [tab] @ line)
     (enumerate 0 window))"

definition read_artifact_run :: "jobj \<Rightarrow> 's tool_context \<Rightarrow> ('s, exn, tool_result) eff" where
  "read_artifact_run args ctx =
     ebind (elift (rbind (require_str args ''path'' 400) tool_safe_path)) (\<lambda>path s.
       case dget (tc_artifacts ctx s) path of
         None \<Rightarrow>
           let listed = join '', '' (take 20 (sort (map fst (tc_artifacts ctx s)))) in
           (Inl (ToolError (''No artifact at '' @ py_repr path @ ''. Existing artifacts: ''
              @ (if listed = [] then ''(none)'' else listed))), s)
       | Some content \<Rightarrow>
           let lines = split_on nl content; n = int (length lines) in
           if \<not> has_arg args ''start_line'' \<and> \<not> has_arg args ''line_count'' then
             (Inr \<lparr>tr_content = content, tr_is_error = False,
                   tr_metadata = [(''path'', JStr path), (''lines'', JInt n)]\<rparr>, s)
           else
             (rbind (optional_int args ''start_line'' 1 1 n) (\<lambda>start.
              rbind (optional_int args ''line_count'' n 1 n) (\<lambda>count.
                let window = take (nat count) (drop (nat (start - 1)) lines) in
                Inr \<lparr>tr_content = numbered (nat start) window, tr_is_error = False,
                     tr_metadata = [(''path'', JStr path), (''start_line'', JInt start),
                       (''returned_lines'', JInt (int (length window)))]\<rparr>)), s))"

definition wrote_result :: "string \<Rightarrow> string \<Rightarrow> nat \<Rightarrow> tool_result" where
  "wrote_result path content version =
     \<lparr>tr_content = ''Wrote '' @ path @ '' (v'' @ str_of_nat version @ '', ''
        @ str_of_nat (utf8_len content) @ '' bytes).'',
      tr_is_error = False,
      tr_metadata = [(''path'', JStr path), (''version'', JInt (int version)),
        (''size_bytes'', JInt (int (utf8_len content)))]\<rparr>"

definition write_artifact_run :: "jobj \<Rightarrow> 's tool_context \<Rightarrow> ('s, exn, tool_result) eff" where
  "write_artifact_run args ctx =
     ebind (elift (rbind (require_str args ''path'' 400) tool_safe_path)) (\<lambda>path.
       case as_str (jget args ''content'') of
         Some content \<Rightarrow>
           if length content > MAX_WRITE_CHARS then
             eraise (ToolError (''`content` is '' @ str_of_nat (length content)
               @ '' characters; the limit is '' @ str_of_nat MAX_WRITE_CHARS @ ''. Split the file into smaller ones.''))
           else if jget args ''kind'' \<noteq> JNull \<and> as_str (jget args ''kind'') = None
             then eraise (ToolError ''`kind` must be a string'')
           else
             let kind = (case as_str (jget args ''kind'') of Some k \<Rightarrow> if k \<noteq> [] then k else tool_kind_for path
                         | None \<Rightarrow> tool_kind_for path)
             in ebind (tc_write_artifact ctx path content kind) (\<lambda>version. eret (wrote_result path content version))
       | None \<Rightarrow> eraise (ToolError ''`content` is required and must be a string''))"

definition edited_result :: "string \<Rightarrow> nat \<Rightarrow> tool_result" where
  "edited_result path version = \<lparr>tr_content = ''Edited '' @ path @ '' (v'' @ str_of_nat version @ '').'',
     tr_is_error = False,
     tr_metadata = [(''path'', JStr path), (''version'', JInt (int version))]\<rparr>"

definition edit_artifact_run :: "jobj \<Rightarrow> 's tool_context \<Rightarrow> ('s, exn, tool_result) eff" where
  "edit_artifact_run args ctx =
     ebind (elift (rbind (require_str args ''path'' 400) tool_safe_path)) (\<lambda>path.
     ebind (elift (require_str args ''old_text'' MAX_WRITE_CHARS)) (\<lambda>old_text.
       case as_str (jget args ''new_text'') of
         Some new_text \<Rightarrow>
           ebind (eget (tc_artifacts ctx)) (\<lambda>arts.
             case dget arts path of
               None \<Rightarrow> eraise (ToolError (''No artifact at '' @ py_repr path @ ''.''))
             | Some content \<Rightarrow>
                 let occurrences = count_sub old_text content in
                 if occurrences = 0 then
                   eraise (ToolError (''`old_text` does not appear in '' @ path
                     @ ''. Read the file and copy the text exactly, including indentation.''))
                 else if occurrences > 1 then
                   eraise (ToolError (''`old_text` appears '' @ str_of_nat occurrences @ '' times in '' @ path
                     @ ''; it must be unique. Include more surrounding context to disambiguate.''))
                 else
                   ebind (tc_write_artifact ctx path (replace_first old_text new_text content) (tool_kind_for path))
                     (\<lambda>version. eret (edited_result path version)))
       | None \<Rightarrow> eraise (ToolError ''`new_text` is required and must be a string'')))"

subsection \<open>Running a tool\<close>

fun tool_run ::
    "(tool \<Rightarrow> jobj \<Rightarrow> tool_result res) \<Rightarrow> tool \<Rightarrow> jobj \<Rightarrow> 's tool_context \<Rightarrow> ('s, exn, tool_result) eff" where
  "tool_run web ListArtifacts args ctx = list_artifacts_run args ctx"
| "tool_run web ReadArtifact args ctx = read_artifact_run args ctx"
| "tool_run web WriteArtifact args ctx = write_artifact_run args ctx"
| "tool_run web EditArtifact args ctx = edit_artifact_run args ctx"
| "tool_run web WebFetch args ctx = elift (web WebFetch args)"
| "tool_run web WebSearch args ctx = elift (web WebSearch args)"

definition failure_result :: "tool \<Rightarrow> exn \<Rightarrow> tool_result" where
  "failure_result t e = (case e of
     TimeoutError \<Rightarrow> \<lparr>tr_content = ''Error: '' @ tool_name t @ '' timed out after '' @ tool_timeout t @ ''s.'',
                       tr_is_error = True, tr_metadata = []\<rparr>
   | ToolError m \<Rightarrow> \<lparr>tr_content = ''Error: '' @ m, tr_is_error = True, tr_metadata = []\<rparr>
   | _ \<Rightarrow> \<lparr>tr_content = ''Error: '' @ tool_name t @ '' failed unexpectedly ('' @ exn_name e @ '').'',
            tr_is_error = True, tr_metadata = [(''exception'', JStr (exn_name e))]\<rparr>)"

definition tool_invoke ::
    "(tool \<Rightarrow> jobj \<Rightarrow> tool_result res) \<Rightarrow> tool \<Rightarrow> jobj \<Rightarrow> 's tool_context \<Rightarrow> ('s, exn, tool_result) eff" where
  "tool_invoke web t args ctx =
     ecatch (ebind (tool_run web t args ctx) (\<lambda>r. eret (truncated MAX_RESULT_CHARS r)))
       (\<lambda>e. if is_exception e then eret (failure_result t e) else eraise e)"

subsection \<open>The registry (registry.py)\<close>

definition ALL_TOOLS :: "tool list" where
  "ALL_TOOLS = [ListArtifacts, ReadArtifact, WriteArtifact, EditArtifact, WebFetch, WebSearch]"

definition TOOLS_BY_NAME :: "(string, tool) dict" where
  "TOOLS_BY_NAME = dict_of (map (\<lambda>t. (tool_name t, t)) ALL_TOOLS)"

record tool_info =
  ti_name :: string
  ti_description :: string
  ti_side_effect :: side_effect
  ti_available :: bool
  ti_unavailable_reason :: "string option"

definition is_available :: "settings \<Rightarrow> tool \<Rightarrow> bool \<times> string option" where
  "is_available s t = (
     if tool_name t = ''web_search'' \<and> cfg_search_provider s = ''none''
       then (False, Some ''no search provider is configured on this deployment'')
     else if tool_name t \<in> {''web_fetch'', ''web_search''} \<and> \<not> cfg_tools_network_enabled s
       then (False, Some ''network tools are disabled on this deployment'')
     else (True, None))"

definition catalogue :: "settings \<Rightarrow> tool_info list" where
  "catalogue s = map (\<lambda>t. \<lparr>ti_name = tool_name t, ti_description = tool_description t,
     ti_side_effect = tool_side_effect t, ti_available = fst (is_available s t),
     ti_unavailable_reason = snd (is_available s t)\<rparr>) ALL_TOOLS"

definition known_names :: "string set" where
  "known_names = set (map fst TOOLS_BY_NAME)"

definition get_tool :: "string \<Rightarrow> tool option" where
  "get_tool name = dget TOOLS_BY_NAME name"

definition resolve_tools :: "settings \<Rightarrow> string list \<Rightarrow> tool list" where
  "resolve_tools s names = [t. name \<leftarrow> names, t \<leftarrow> (case get_tool name of None \<Rightarrow> [] | Some t \<Rightarrow>
     if fst (is_available s t) then [t] else [])]"

definition schemas :: "tool list \<Rightarrow> tool_spec list" where
  "schemas ts = map tool_schema ts"


subsection \<open>Failures and sizes\<close>

text \<open>Whatever the tool does, the only exception that leaves \<open>invoke\<close> is a cancellation.\<close>

lemma invoke_raises_only_cancel:
  "tool_invoke web t args ctx s = (Inl e, s') \<Longrightarrow> e = CancelledError"
  by (auto simp: tool_invoke_def eff_defs is_exception_def split: prod.splits sum.splits if_splits)

lemma length_truncated:
  "length (tr_content (truncated n r)) \<le> n + length (omission_note (length (tr_content r) - n))"
  by (simp add: truncated_def Let_def)

lemma truncated_small: "length (tr_content r) \<le> n \<Longrightarrow> truncated n r = r"
  by (simp add: truncated_def)

lemma truncated_error [simp]: "tr_is_error (truncated n r) = tr_is_error r"
  by (simp add: truncated_def Let_def)

lemma failure_is_error [simp]: "tr_is_error (failure_result t e)"
  by (cases e) (simp_all add: failure_result_def)

lemma require_str_ok:
  assumes "require_str args k n = Inr v"
  obtains w where "jget args k = JStr w" "v = strip w" "strip w \<noteq> []" "length w \<le> n"
  using assms by (auto simp: require_str_def split: option.splits if_splits)

lemma optional_int_bounds: "optional_int args k d lo hi = Inr i \<Longrightarrow> lo \<le> hi \<Longrightarrow> lo \<le> i \<and> i \<le> hi"
  by (auto simp: optional_int_def split: sum.splits)

lemma tool_safe_path_ok: "tool_safe_path raw = Inr p \<Longrightarrow> safe_path p"
  by (auto simp: tool_safe_path_def split: sum.splits dest: sanitise_path_safe)

lemma resolve_tools_spec:
  "t \<in> set (resolve_tools s names) \<longleftrightarrow> fst (is_available s t) \<and> tool_name t \<in> set names"
proof -
  have *: "get_tool n = Some t \<longleftrightarrow> tool_name t = n" for n t
    by (cases t) (auto simp: get_tool_def TOOLS_BY_NAME_def dict_of_def ALL_TOOLS_def)
  have **: "Some t = get_tool n \<longleftrightarrow> tool_name t = n" for n t using * by metis
  show ?thesis by (auto simp: resolve_tools_def * ** split: option.splits if_splits)
qed

subsection \<open>The artifact store behind the tools\<close>

text \<open>
  What the artifact tools rely on in the caller: a write stores the content under its path and
  leaves the other paths alone, returning the next version; when it raises, the store has the
  content already. The lemmas of the tools are proved from these laws; the engine's writer is an
  instance (theory \<open>Engine_Invariants\<close>).
\<close>

locale artifact_store =
  fixes ctx :: "'s tool_context"
  assumes write_stores: "tc_write_artifact ctx p c k s = (r, s') \<Longrightarrow> tc_artifacts ctx s' = dset p c (tc_artifacts ctx s)"
    and write_version: "tc_write_artifact ctx p c k s = (Inr v, s') \<Longrightarrow>
      v = dget_or (tc_read_artifact_version ctx s) p 0 + 1 \<and>
      tc_read_artifact_version ctx s' = dset p v (tc_read_artifact_version ctx s)"
begin

lemma read_pure: "snd (read_artifact_run args ctx s) = s" "snd (list_artifacts_run args ctx s) = s"
  by (auto simp: read_artifact_run_def list_artifacts_run_def eff_defs Let_def
      split: sum.splits option.splits)

lemma write_ok:
  assumes run: "write_artifact_run args ctx s = (Inr r, s')"
  obtains p c where "rbind (require_str args ''path'' 400) tool_safe_path = Inr p"
    and "jget args ''content'' = JStr c" "length c \<le> MAX_WRITE_CHARS"
    and "tc_artifacts ctx s' = dset p c (tc_artifacts ctx s)"
    and "tc_read_artifact_version ctx s' = dset p (dget_or (tc_read_artifact_version ctx s) p 0 + 1)
           (tc_read_artifact_version ctx s)"
proof -
  obtain p where p: "rbind (require_str args ''path'' 400) tool_safe_path = Inr p"
    using run by (auto simp: write_artifact_run_def ebind_eq_Inr elift_def)
  obtain c where c: "jget args ''content'' = JStr c"
    using run p by (cases "as_str (jget args ''content'')") (simp_all add: write_artifact_run_def eraise_def)
  have len: "length c \<le> MAX_WRITE_CHARS"
    using run p c by (cases "length c \<le> MAX_WRITE_CHARS") (simp_all add: write_artifact_run_def eraise_def)
  obtain kind v where "tc_write_artifact ctx p c kind s = (Inr v, s')"
    using run p c len
    by (auto simp: write_artifact_run_def eraise_def eret_def ebind_eq_Inr Let_def split: if_splits)
  with p c len that show ?thesis using write_stores write_version by metis
qed

lemma read_after_write:
  assumes "write_artifact_run args ctx s = (Inr r, s')" and "jget args ''content'' = JStr c"
    and "jget args' ''path'' = jget args ''path''" "\<not> has_arg args' ''start_line''" "\<not> has_arg args' ''line_count''"
  shows "\<exists>m. read_artifact_run args' ctx s' = (Inr \<lparr>tr_content = c, tr_is_error = False, tr_metadata = m\<rparr>, s')"
proof -
  obtain p where p: "rbind (require_str args ''path'' 400) tool_safe_path = Inr p"
    and st: "tc_artifacts ctx s' = dset p c (tc_artifacts ctx s)"
    using write_ok [OF assms(1)] assms(2) by (metis json.inject(4))
  have "rbind (require_str args' ''path'' 400) tool_safe_path = Inr p"
    using p assms(3) by (simp add: require_str_def)
  then show ?thesis
    using assms(4,5) by (simp add: read_artifact_run_def st Let_def)
qed

lemma edit_write:
  assumes run: "edit_artifact_run args ctx s = (Inr r, s')"
  obtains p old new content where "rbind (require_str args ''path'' 400) tool_safe_path = Inr p"
    and "require_str args ''old_text'' MAX_WRITE_CHARS = Inr old" "jget args ''new_text'' = JStr new"
    and "dget (tc_artifacts ctx s) p = Some content" "count_sub old content = 1"
    and "tc_artifacts ctx s' = dset p (replace_first old new content) (tc_artifacts ctx s)"
proof -
  obtain p where p: "rbind (require_str args ''path'' 400) tool_safe_path = Inr p"
    using run by (auto simp: edit_artifact_run_def ebind_eq_Inr elift_def)
  obtain old where old: "require_str args ''old_text'' MAX_WRITE_CHARS = Inr old"
    using run p by (auto simp: edit_artifact_run_def ebind_eq_Inr elift_def)
  obtain new where new: "jget args ''new_text'' = JStr new"
    using run p old by (cases "as_str (jget args ''new_text'')") (simp_all add: edit_artifact_run_def eraise_def)
  obtain content where c: "dget (tc_artifacts ctx s) p = Some content"
    using run p old new by (cases "dget (tc_artifacts ctx s) p")
      (simp_all add: edit_artifact_run_def)
  have one: "count_sub old content = 1"
    using run p old new c
    by (cases "count_sub old content = 0"; cases "count_sub old content > 1")
      (simp_all add: edit_artifact_run_def Let_def)
  obtain v where "tc_write_artifact ctx p (replace_first old new content) (tool_kind_for p) s = (Inr v, s')"
    using run p old new c one
    by (auto simp: edit_artifact_run_def ebind_eq_Inr Let_def)
  with that p old new c one write_stores show ?thesis by metis
qed

lemma edit_ok:
  assumes "edit_artifact_run args ctx s = (Inr r, s')"
  obtains p old new a b where "rbind (require_str args ''path'' 400) tool_safe_path = Inr p"
    and "require_str args ''old_text'' MAX_WRITE_CHARS = Inr old" "jget args ''new_text'' = JStr new"
    and "dget (tc_artifacts ctx s) p = Some (a @ old @ b)" "count_sub old (a @ old @ b) = 1"
    and "tc_artifacts ctx s' = dset p (a @ new @ b) (tc_artifacts ctx s)"
proof -
  obtain p old new content where p: "rbind (require_str args ''path'' 400) tool_safe_path = Inr p"
    and old: "require_str args ''old_text'' MAX_WRITE_CHARS = Inr old" and new: "jget args ''new_text'' = JStr new"
    and c: "dget (tc_artifacts ctx s) p = Some content" and one: "count_sub old content = 1"
    and st: "tc_artifacts ctx s' = dset p (replace_first old new content) (tc_artifacts ctx s)"
    by (rule edit_write [OF assms])
  have ne: "old \<noteq> []" using old by (auto elim: require_str_ok)
  then have "contains old content" using one count_sub_0_iff [of old content] by (metis zero_neq_one)
  then obtain i where i: "find_sub old content = Some i" by (auto simp: contains_def)
  then have pre: "prefix old (drop i content)" and le: "i \<le> length content" by (auto simp: find_sub_Some_iff)
  then obtain b where b: "drop i content = old @ b" by (auto elim: prefixE)
  have content: "content = take i content @ old @ b" using b by (metis append_take_drop_id)
  have "replace_first old new content = take i content @ new @ b"
    using i arg_cong [OF b, of "drop (length old)"] by (simp add: replace_first_eq add.commute)
  with that [OF p old new _ _ _, of "take i content" b] c one st content show ?thesis by metis
qed

end

end
