(* ===== verification/Events.thy ===== *)
theory Events
  imports Errors
begin

text \<open>
  \<^verbatim>\<open>core/events.py\<close> and the stream of \<^verbatim>\<open>api/routers/runs.py\<close>: the event bus of one run (sequence
  counter, capped history, what was published live, cancellation flag), the token buffer, and what
  a client that connects late or reconnects is sent. Events are kept as values; the JSON text they
  travel as is written and read back by the same library. One \<open>emit\<close> is one step of the model: the
  engine and the API each have one emitter per run and await every call.
\<close>

definition HISTORY_LIMIT :: nat where "HISTORY_LIMIT = 5000"

definition RUN_START :: string where "RUN_START = ''run.start''"
definition RUN_END :: string where "RUN_END = ''run.end''"
definition RUN_ERROR :: string where "RUN_ERROR = ''run.error''"
definition RUN_CANCELLED :: string where "RUN_CANCELLED = ''run.cancelled''"
definition STEP_START :: string where "STEP_START = ''step.start''"
definition STEP_TOKEN :: string where "STEP_TOKEN = ''step.token''"
definition STEP_END :: string where "STEP_END = ''step.end''"
definition TOOL_CALL :: string where "TOOL_CALL = ''tool.call''"
definition TOOL_RESULT :: string where "TOOL_RESULT = ''tool.result''"
definition ARTIFACT_WRITTEN :: string where "ARTIFACT_WRITTEN = ''artifact.written''"
definition BUDGET_WARNING :: string where "BUDGET_WARNING = ''budget.warning''"

definition TERMINAL_EVENTS :: "string set" where
  "TERMINAL_EVENTS = {RUN_END, RUN_ERROR, RUN_CANCELLED}"

record event =
  ev_seq :: nat
  ev_type :: string
  ev_run_id :: string
  ev_ts :: string
  ev_payload :: jobj

record bus =
  bus_run_id :: string
  bus_seq :: nat
  bus_history :: "event list"
  bus_published :: "event list"
  bus_cancel :: bool

definition new_bus :: "string \<Rightarrow> bus" where
  "new_bus rid = \<lparr>bus_run_id = rid, bus_seq = 0, bus_history = [], bus_published = [], bus_cancel = False\<rparr>"

definition ltrim_last :: "nat \<Rightarrow> 'a list \<Rightarrow> 'a list" where
  "ltrim_last n xs = drop (length xs - n) xs"

definition emit :: "bus \<Rightarrow> string \<Rightarrow> string \<Rightarrow> jobj \<Rightarrow> nat \<times> bus" where
  "emit b ty ts payload = (
     let seq = Suc (bus_seq b);
         event = \<lparr>ev_seq = seq, ev_type = ty, ev_run_id = bus_run_id b, ev_ts = ts, ev_payload = payload\<rparr>
     in (seq, b\<lparr>bus_seq := seq,
                bus_history := ltrim_last HISTORY_LIMIT (bus_history b @ [event]),
                bus_published := bus_published b @ [event]\<rparr>))"

record token_buffer =
  tb_step :: nat
  tb_flush_chars :: nat
  tb_buffer :: "string list"
  tb_size :: nat

definition new_token_buffer :: "nat \<Rightarrow> token_buffer" where
  "new_token_buffer step = \<lparr>tb_step = step, tb_flush_chars = 80, tb_buffer = [], tb_size = 0\<rparr>"

text \<open>
  \<open>flush\<close> empties the buffer before it awaits the emitter, and \<open>push\<close> flushes a full buffer; the
  engine interleaves them with its own awaits (theory \<open>Engine\<close>), \<open>tb_flush\<close> and \<open>tb_push\<close> are the
  calls that are not interrupted.
\<close>

definition tb_take :: "token_buffer \<Rightarrow> jobj option \<times> token_buffer" where
  "tb_take tb = (
     if tb_buffer tb = [] then (None, tb)
     else (Some [(''step'', JInt (int (tb_step tb))), (''text'', JStr (concat (tb_buffer tb)))],
           tb\<lparr>tb_buffer := [], tb_size := 0\<rparr>))"

definition tb_add :: "token_buffer \<Rightarrow> string \<Rightarrow> token_buffer" where
  "tb_add tb chunk = tb\<lparr>tb_buffer := tb_buffer tb @ [chunk], tb_size := tb_size tb + length chunk\<rparr>"

definition tb_full :: "token_buffer \<Rightarrow> bool" where
  "tb_full tb = (tb_size tb \<ge> tb_flush_chars tb)"

definition tb_flush :: "token_buffer \<Rightarrow> bus \<Rightarrow> string \<Rightarrow> token_buffer \<times> bus" where
  "tb_flush tb b ts = (case tb_take tb of
     (None, tb') \<Rightarrow> (tb', b)
   | (Some payload, tb') \<Rightarrow> (tb', snd (emit b STEP_TOKEN ts payload)))"

definition tb_push :: "token_buffer \<Rightarrow> bus \<Rightarrow> string \<Rightarrow> string \<Rightarrow> token_buffer \<times> bus" where
  "tb_push tb b ts chunk = (
     let tb' = tb_add tb chunk in if tb_full tb' then tb_flush tb' b ts else (tb', b))"

definition replay :: "bus \<Rightarrow> int \<Rightarrow> event list" where
  "replay b after_seq = (if after_seq \<noteq> 0 then filter (\<lambda>e. int (ev_seq e) > after_seq) (bus_history b)
                         else bus_history b)"

definition request_cancel :: "bus \<Rightarrow> bus" where "request_cancel b = b\<lparr>bus_cancel := True\<rparr>"
definition is_cancelled :: "bus \<Rightarrow> bool" where "is_cancelled b = bus_cancel b"
definition clear_cancel :: "bus \<Rightarrow> bus" where "clear_cancel b = b\<lparr>bus_cancel := False\<rparr>"

subsection \<open>The stream of one client\<close>

text \<open>The first loop of the generator: the replayed events up to the first terminal one.\<close>

fun send_replay :: "int \<Rightarrow> event list \<Rightarrow> event list \<times> int \<times> bool" where
  "send_replay highest [] = ([], highest, False)"
| "send_replay highest (e # es) = (
     let h = max highest (int (ev_seq e)) in
     if ev_type e \<in> TERMINAL_EVENTS then ([e], h, True)
     else (case send_replay h es of (out, h', fin) \<Rightarrow> (e # out, h', fin)))"

text \<open>
  The live loop: each element is what \<open>is_disconnected()\<close> answers before the event, and the event.
\<close>

fun send_live :: "int \<Rightarrow> (bool \<times> event) list \<Rightarrow> event list" where
  "send_live highest [] = []"
| "send_live highest ((gone, e) # es) = (
     if gone then []
     else if int (ev_seq e) \<le> highest then send_live highest es
     else if ev_type e \<in> TERMINAL_EVENTS then [e]
     else e # send_live (int (ev_seq e)) es)"

text \<open>
  \<open>Last-Event-ID\<close> as sent by the client, the bus when the history is read, whether the run row was
  terminal with the final event's payload, and the live events received after the subscription.
\<close>

definition after_seq_of :: "string option \<Rightarrow> int" where
  "after_seq_of last_event_id = (case last_event_id of None \<Rightarrow> 0
     | Some s \<Rightarrow> if s = [] then 0 else (case int_literal s of Some i \<Rightarrow> i | None \<Rightarrow> 0))"

definition stream_run ::
    "bus \<Rightarrow> string option \<Rightarrow> bool \<Rightarrow> jobj \<Rightarrow> (bool \<times> event) list \<Rightarrow> event list" where
  "stream_run b last_event_id row_terminal row live = (
     let after = after_seq_of last_event_id in
     case send_replay after (replay b after) of (out, highest, fin) \<Rightarrow>
       if fin then out
       else if row_terminal \<and> highest = after
         then out @ [\<lparr>ev_seq = nat (highest + 1), ev_type = RUN_END, ev_run_id = bus_run_id b,
                      ev_ts = [], ev_payload = row\<rparr>]
       else out @ send_live highest live)"

subsection \<open>The history\<close>

definition bus_ok :: "bus \<Rightarrow> bool" where
  "bus_ok b \<longleftrightarrow> length (bus_history b) \<le> HISTORY_LIMIT \<and> length (bus_history b) \<le> bus_seq b \<and>
     map ev_seq (bus_history b) = [Suc (bus_seq b - length (bus_history b)) ..< Suc (bus_seq b)] \<and>
     map ev_seq (bus_published b) = [1..<Suc (bus_seq b)] \<and>
     bus_history b = ltrim_last HISTORY_LIMIT (bus_published b)"

lemma bus_ok_new: "bus_ok (new_bus rid)"
  by (simp add: bus_ok_def new_bus_def ltrim_last_def)

lemma ltrim_snoc: "0 < n \<Longrightarrow> ltrim_last n (ltrim_last n xs @ [x]) = ltrim_last n (xs @ [x])"
  by (cases "length xs < n") (auto simp: ltrim_last_def drop_append Suc_diff_le not_less)

lemma drop_upt_suffix: "n \<le> m \<Longrightarrow> drop (m - n) [1..<Suc m] = [Suc (m - n)..<Suc m]"
  by (simp add: drop_upt)

lemma bus_ok_emit:
  assumes "bus_ok b" "emit b ty ts pl = (q, b')"
  shows "bus_ok b'"
proof -
  define ev where "ev = \<lparr>ev_seq = Suc (bus_seq b), ev_type = ty, ev_run_id = bus_run_id b, ev_ts = ts, ev_payload = pl\<rparr>"
  have b': "b' = b\<lparr>bus_seq := Suc (bus_seq b),
      bus_history := ltrim_last HISTORY_LIMIT (bus_history b @ [ev]),
      bus_published := bus_published b @ [ev]\<rparr>"
    using assms(2) by (auto simp: emit_def Let_def ev_def)
  have pub: "map ev_seq (bus_published b @ [ev]) = [1..<Suc (Suc (bus_seq b))]"
    using assms(1) by (simp add: bus_ok_def ev_def)
  then have lp: "length (bus_published b @ [ev]) = Suc (bus_seq b)" by (metis length_map length_upt diff_Suc_1)
  have h: "bus_history b' = ltrim_last HISTORY_LIMIT (bus_published b @ [ev])"
    using assms(1) by (simp add: b' bus_ok_def ltrim_snoc HISTORY_LIMIT_def)
  let ?k = "min HISTORY_LIMIT (Suc (bus_seq b))"
  have k: "length (bus_history b') = ?k" unfolding h using lp by (simp add: ltrim_last_def)
  have "map ev_seq (bus_history b') = drop (Suc (bus_seq b) - HISTORY_LIMIT) [1..<Suc (Suc (bus_seq b))]"
    unfolding h ltrim_last_def lp drop_map [symmetric] pub ..
  also have "Suc (bus_seq b) - HISTORY_LIMIT = Suc (bus_seq b) - ?k" by simp
  also have "drop (Suc (bus_seq b) - ?k) [1..<Suc (Suc (bus_seq b))] = [Suc (Suc (bus_seq b) - ?k)..<Suc (Suc (bus_seq b))]"
    by (rule drop_upt_suffix) simp
  finally have "map ev_seq (bus_history b') = [Suc (bus_seq b' - length (bus_history b'))..<Suc (bus_seq b')]"
    unfolding k by (simp add: b')
  then show ?thesis using pub h k by (simp add: bus_ok_def b')
qed

lemma bus_ok_cancel: "bus_ok (request_cancel b) = bus_ok b" "bus_ok (clear_cancel b) = bus_ok b"
  by (simp_all add: bus_ok_def request_cancel_def clear_cancel_def)

subsection \<open>The token buffer\<close>

text \<open>What was pushed is what was published as text plus what is still buffered.\<close>

definition token_text :: "event \<Rightarrow> string" where
  "token_text e = (if ev_type e = STEP_TOKEN then j_str (jget (ev_payload e) ''text'') else [])"

definition streamed :: "token_buffer \<Rightarrow> bus \<Rightarrow> string" where
  "streamed tb b = concat (map token_text (bus_published b)) @ concat (tb_buffer tb)"

lemma streamed_flush: "tb_flush tb b ts = (tb', b') \<Longrightarrow> streamed tb' b' = streamed tb b"
  by (auto simp: tb_flush_def tb_take_def streamed_def emit_def Let_def token_text_def jget_def split: if_splits)

lemma streamed_push:
  assumes "tb_push tb b ts c = (tb', b')" shows "streamed tb' b' = streamed tb b @ c"
proof -
  have "streamed (tb_add tb c) b = streamed tb b @ c" by (simp add: streamed_def tb_add_def)
  with assms streamed_flush [of "tb_add tb c" b ts tb' b'] show ?thesis
    by (auto simp: tb_push_def Let_def split: if_splits)
qed

definition tb_ok :: "token_buffer \<Rightarrow> bool" where
  "tb_ok tb \<longleftrightarrow> tb_size tb = length (concat (tb_buffer tb)) \<and> tb_size tb < tb_flush_chars tb"

lemma tb_ok_push: "tb_ok tb \<Longrightarrow> tb_push tb b ts c = (tb', b') \<Longrightarrow> tb_ok tb'"
  by (auto simp: tb_push_def tb_flush_def tb_take_def tb_add_def tb_full_def tb_ok_def Let_def split: if_splits)

subsection \<open>What the client receives\<close>

lemma send_live_increasing:
  "sorted_wrt (<) (map (int \<circ> ev_seq) (send_live h es)) \<and> (\<forall>e \<in> set (send_live h es). h < int (ev_seq e))"
  by (induction h es rule: send_live.induct) (force simp: comp_def split: if_splits)+

lemma send_replay_spec:
  assumes "send_replay h es = (out, h', fin)" "sorted_wrt (<) (map (int \<circ> ev_seq) es)"
    and "\<forall>e \<in> set es. h < int (ev_seq e)"
  shows "sorted_wrt (<) (map (int \<circ> ev_seq) out) \<and> set out \<subseteq> set es \<and> h \<le> h' \<and>
     (\<forall>e \<in> set out. int (ev_seq e) \<le> h') \<and> (\<not> fin \<longrightarrow> out = es)"
  using assms
proof (induction h es arbitrary: out h' fin rule: send_replay.induct)
  case (2 h e es)
  show ?case
  proof (cases "ev_type e \<in> TERMINAL_EVENTS")
    case True
    with "2.prems" show ?thesis by (auto simp: Let_def)
  next
    case False
    obtain out1 where r: "send_replay (max h (int (ev_seq e))) es = (out1, h', fin)" and o: "out = e # out1"
      using "2.prems"(1) False by (auto simp: Let_def split: prod.splits)
    have s: "sorted_wrt (<) (map (int \<circ> ev_seq) es)" "\<forall>x \<in> set es. max h (int (ev_seq e)) < int (ev_seq x)"
      using "2.prems"(2,3) by (auto simp: comp_def)
    from "2.IH" [OF refl False r s] "2.prems"(2) show ?thesis unfolding o by auto
  qed
qed auto

lemma int_seq_sorted: "sorted_wrt (<) (map (int \<circ> ev_seq) es) \<longleftrightarrow> sorted_wrt (<) (map ev_seq es)"
  by (simp add: sorted_wrt_map)

lemma replay_after:
  assumes "bus_ok b" "0 \<le> a"
  shows "sorted_wrt (<) (map (int \<circ> ev_seq) (replay b a)) \<and> (\<forall>e \<in> set (replay b a). a < int (ev_seq e))"
proof -
  have seqs: "map ev_seq (bus_history b) = [Suc (bus_seq b - length (bus_history b)) ..< Suc (bus_seq b)]"
    using assms(1) unfolding bus_ok_def by blast
  then have "sorted_wrt (<) (map ev_seq (bus_history b))" by (simp del: upt_Suc)
  moreover have "0 < ev_seq e" if "e \<in> set (bus_history b)" for e
  proof -
    have "ev_seq e \<in> set (map ev_seq (bus_history b))" using that by simp
    then show ?thesis unfolding seqs by (simp only: set_upt atLeastLessThan_iff) linarith
  qed
  ultimately show ?thesis unfolding replay_def int_seq_sorted by (auto simp: sorted_wrt_map sorted_wrt_filter)
qed

lemma stream_increasing:
  assumes "bus_ok b" "0 \<le> after_seq_of last_id"
  shows "sorted_wrt (<) (map ev_seq (stream_run b last_id row_terminal row live)) \<and>
     (\<forall>e \<in> set (stream_run b last_id row_terminal row live). after_seq_of last_id < int (ev_seq e))"
proof -
  let ?a = "after_seq_of last_id"
  obtain out h fin where r: "send_replay ?a (replay b ?a) = (out, h, fin)" by (metis prod_cases3)
  note rep = replay_after [OF assms]
  have o: "sorted_wrt (<) (map (int \<circ> ev_seq) out)" "?a \<le> h" "\<forall>e \<in> set out. int (ev_seq e) \<le> h"
    "\<forall>e \<in> set out. ?a < int (ev_seq e)"
    using send_replay_spec [OF r] rep by auto
  have l: "sorted_wrt (<) (map (int \<circ> ev_seq) (send_live h live))" "\<forall>e \<in> set (send_live h live). h < int (ev_seq e)"
    using send_live_increasing by blast+
  show ?thesis unfolding int_seq_sorted [symmetric] using o l assms(2)
    by (auto simp: stream_run_def r Let_def sorted_wrt_append) (fastforce+)
qed

lemma pushes_streamed:
  "tb_ok tb \<Longrightarrow> fold (\<lambda>c (tb, b). tb_push tb b ts c) chunks (tb, b) = (tb', b') \<Longrightarrow>
   concat (map token_text (bus_published (snd (tb_flush tb' b' ts)))) = streamed tb b @ concat chunks \<and> tb_ok tb'"
proof (induction chunks arbitrary: tb b)
  case Nil
  obtain tb2 b2 where f: "tb_flush tb b ts = (tb2, b2)" by (metis prod.collapse)
  then have "tb_buffer tb2 = []" by (auto simp: tb_flush_def tb_take_def split: if_splits)
  with streamed_flush [OF f] Nil f show ?case by (simp add: streamed_def)
next
  case (Cons c chunks)
  obtain tb1 b1 where p: "tb_push tb b ts c = (tb1, b1)" by (metis prod.collapse)
  from Cons.IH [OF tb_ok_push [OF Cons.prems(1) p]] Cons.prems(2) p streamed_push [OF p] show ?case by simp
qed

end
