(* ===== verification/Budget.thy ===== *)
theory Budget
  imports Errors Float64
begin

text \<open>
  \<^verbatim>\<open>core/orchestration/budget.py\<close>: the step, cost, time and cancellation guards of a run. The two
  readings of the outside world a check makes, the cancellation flag and the monotonic clock, are
  arguments.
\<close>

record budget_guard =
  max_steps :: int
  max_cost_microcents :: int
  max_seconds :: rat
  has_cancel_check :: bool
  steps_used :: int
  spent_microcents :: int
  started_at :: rat
  warned :: bool

definition new_budget :: "int \<Rightarrow> int \<Rightarrow> rat \<Rightarrow> bool \<Rightarrow> rat \<Rightarrow> budget_guard" where
  "new_budget steps cost secs cc now = \<lparr>max_steps = steps, max_cost_microcents = cost,
     max_seconds = secs, has_cancel_check = cc, steps_used = 0, spent_microcents = 0,
     started_at = now, warned = False\<rparr>"

definition elapsed_seconds :: "budget_guard \<Rightarrow> rat \<Rightarrow> rat" where
  "elapsed_seconds b now = now - started_at b"

definition remaining_microcents :: "budget_guard \<Rightarrow> int" where
  "remaining_microcents b = max (max_cost_microcents b - spent_microcents b) 0"

definition warn_threshold :: "budget_guard \<Rightarrow> int" where
  "warn_threshold b = trunc_rat (fl (fl (of_int (max_cost_microcents b)) * fl (8 / 10)))"

definition check_before_step :: "budget_guard \<Rightarrow> bool \<Rightarrow> rat \<Rightarrow> unit res" where
  "check_before_step b cancelled now = (
     if has_cancel_check b \<and> cancelled then Inl RunCancelled
     else if steps_used b \<ge> max_steps b then Inl (BudgetExceeded (StepLimit (max_steps b)))
     else if spent_microcents b \<ge> max_cost_microcents b
       then Inl (BudgetExceeded (CostLimit (max_cost_microcents b)))
     else if elapsed_seconds b now \<ge> max_seconds b then Inl (RunTimedOut (max_seconds b))
     else Inr ())"

definition record_cost :: "budget_guard \<Rightarrow> int \<Rightarrow> budget_guard" where
  "record_cost b cost = b\<lparr>steps_used := steps_used b + 1,
     spent_microcents := spent_microcents b + cost\<rparr>"

definition take_warning :: "budget_guard \<Rightarrow> bool \<times> budget_guard" where
  "take_warning b = (if warned b \<or> spent_microcents b < warn_threshold b then (False, b)
                     else (True, b\<lparr>warned := True\<rparr>))"

subsection \<open>Guards\<close>

lemma check_ok_iff:
  "check_before_step b c now = Inr () \<longleftrightarrow>
     \<not> (has_cancel_check b \<and> c) \<and> steps_used b < max_steps b \<and>
     spent_microcents b < max_cost_microcents b \<and> now - started_at b < max_seconds b"
  by (auto simp: check_before_step_def elapsed_seconds_def)

lemma check_raises_aborted: "check_before_step b c now = Inl e \<Longrightarrow> is_run_aborted e"
  by (auto simp: check_before_step_def split: if_splits)

text \<open>The ceilings: as many steps as allowed, and less than one call's cost over the cost ceiling.\<close>

definition within_ceiling :: "int \<Rightarrow> budget_guard \<Rightarrow> bool" where
  "within_ceiling C b \<longleftrightarrow> steps_used b \<le> max 0 (max_steps b) \<and>
     spent_microcents b \<le> max 0 (max_cost_microcents b - 1 + C)"

lemma within_ceiling_new: "within_ceiling C (new_budget a b c d e)"
  by (simp add: within_ceiling_def new_budget_def)

lemma within_ceiling_record:
  assumes "check_before_step b c now = Inr ()" "cost \<le> C"
  shows "within_ceiling C (record_cost b cost)"
  using assms by (auto simp: check_ok_iff within_ceiling_def record_cost_def)

lemma take_warning_once:
  "take_warning b = (True, b') \<Longrightarrow> fst (take_warning (b'\<lparr>steps_used := n, spent_microcents := m\<rparr>)) = False"
  by (auto simp: take_warning_def split: if_splits)

end
