(* ===== verification/Pricing.thy ===== *)
theory Pricing
  imports Registry Config
begin

text \<open>
  \<^verbatim>\<open>core/llm/pricing.py\<close> and the markup of \<^verbatim>\<open>core/billing.py\<close>: the price book (registry defaults under
  database overrides, refreshed on a time to live) and the cost of one call, with every
  floating-point operation rounded where the interpreter rounds it.
\<close>

definition MICROCENTS_PER_CENT :: int where "MICROCENTS_PER_CENT = 1000000"

record rate =
  rt_input_per_mtok :: rat
  rt_output_per_mtok :: rat
  rt_cached_input_per_mtok :: "rat option"

definition rate_from_spec :: "model_spec \<Rightarrow> rate" where
  "rate_from_spec s = \<lparr>rt_input_per_mtok = ms_input_per_mtok s, rt_output_per_mtok = ms_output_per_mtok s,
     rt_cached_input_per_mtok = ms_cached_input_per_mtok s\<rparr>"

record price_book =
  pb_ttl :: rat
  pb_overrides :: "(string, rate) dict"
  pb_loaded_at :: rat

definition new_price_book :: "rat \<Rightarrow> price_book" where
  "new_price_book ttl_seconds = \<lparr>pb_ttl = ttl_seconds, pb_overrides = [], pb_loaded_at = 0\<rparr>"

text \<open>The rows of \<open>model_prices\<close>, the two readings of the monotonic clock, and \<open>force\<close>.\<close>

definition pb_refresh :: "price_book \<Rightarrow> (string \<times> rate) list \<Rightarrow> rat \<Rightarrow> rat \<Rightarrow> bool \<Rightarrow> price_book" where
  "pb_refresh pb rows now now' force = (
     if \<not> force \<and> now - pb_loaded_at pb < pb_ttl pb then pb
     else pb\<lparr>pb_overrides := dict_of rows, pb_loaded_at := now'\<rparr>)"

definition rate_for :: "price_book \<Rightarrow> string \<Rightarrow> rate res" where
  "rate_for pb model = (case dget (pb_overrides pb) model of
     Some r \<Rightarrow> Inr r
   | None \<Rightarrow> rbind (get_spec model) (\<lambda>s. Inr (rate_from_spec s)))"

definition usd_cost :: "rate \<Rightarrow> usage \<Rightarrow> rat" where
  "usd_cost r u = (
     let cached_rate = (case rt_cached_input_per_mtok r of Some c \<Rightarrow> c | None \<Rightarrow> rt_input_per_mtok r);
         fresh = fresh_input_tokens u;
         cached = us_cached_input_tokens u
     in fl (fl (fl (fl (of_int fresh / 1000000) * rt_input_per_mtok r)
                + fl (fl (of_int cached / 1000000) * cached_rate))
            + fl (fl (of_int (us_output_tokens u) / 1000000) * rt_output_per_mtok r)))"

definition cost_microcents :: "price_book \<Rightarrow> string \<Rightarrow> usage \<Rightarrow> int res" where
  "cost_microcents pb model u = rbind (rate_for pb model) (\<lambda>r.
     Inr (round_even (fl (fl (usd_cost r u * 100) * of_int MICROCENTS_PER_CENT))))"

definition microcents_to_cents :: "int \<Rightarrow> int" where
  "microcents_to_cents microcents = (
     if microcents \<le> 0 then 0 else - ((- microcents) div MICROCENTS_PER_CENT))"

definition cents_to_microcents :: "int \<Rightarrow> int" where
  "cents_to_microcents cents = cents * MICROCENTS_PER_CENT"

definition apply_markup :: "settings \<Rightarrow> int \<Rightarrow> int" where
  "apply_markup s raw = round_even (fl (of_int (raw * (100 + cfg_credit_markup_percent s)) / 100))"

subsection \<open>Rounding to cents\<close>

text \<open>Rounding up: the smallest number of cents that covers the amount.\<close>

lemma cents_ceiling:
  "0 < m \<Longrightarrow> microcents_to_cents m = \<lceil>rat_of_int m / rat_of_int MICROCENTS_PER_CENT\<rceil>"
  by (simp add: microcents_to_cents_def ceiling_divide_eq_div)

lemma cents_bounds:
  "0 < m \<Longrightarrow> m \<le> cents_to_microcents (microcents_to_cents m) \<and>
     cents_to_microcents (microcents_to_cents m) < m + MICROCENTS_PER_CENT"
  unfolding microcents_to_cents_def cents_to_microcents_def MICROCENTS_PER_CENT_def by simp linarith

lemma cents_pos: "0 < m \<Longrightarrow> 0 < microcents_to_cents m"
  using cents_bounds [of m] by (simp add: cents_to_microcents_def MICROCENTS_PER_CENT_def)

lemma cents_nonneg: "0 \<le> microcents_to_cents m"
  using cents_pos [of m] by (cases "0 < m") (auto simp: microcents_to_cents_def)

lemma cents_mono: "m \<le> n \<Longrightarrow> microcents_to_cents m \<le> microcents_to_cents n"
  by (auto simp: microcents_to_cents_def MICROCENTS_PER_CENT_def intro!: zdiv_mono1)

subsection \<open>Costs\<close>

definition rate_ok :: "rate \<Rightarrow> bool" where
  "rate_ok r \<longleftrightarrow> 0 \<le> rt_input_per_mtok r \<and> 0 \<le> rt_output_per_mtok r \<and>
     (case rt_cached_input_per_mtok r of None \<Rightarrow> True | Some c \<Rightarrow> 0 \<le> c)"

definition usage_le :: "usage \<Rightarrow> usage \<Rightarrow> bool" where
  "usage_le u v \<longleftrightarrow> fresh_input_tokens u \<le> fresh_input_tokens v \<and>
     us_cached_input_tokens u \<le> us_cached_input_tokens v \<and> us_output_tokens u \<le> us_output_tokens v"

lemma rate_ok_registry: "get_spec m = Inr s \<Longrightarrow> rate_ok (rate_from_spec s)"
  using MODELS_prices_ok [of m s]
  by (auto simp: rate_ok_def rate_from_spec_def prices_ok_def split: option.splits)

lemma term_mono: "0 \<le> c \<Longrightarrow> a \<le> b \<Longrightarrow>
   fl (fl (rat_of_int a / 1000000) * c) \<le> fl (fl (rat_of_int b / 1000000) * c)"
  by (rule f64.rnd_prod_mono) (auto intro: divide_right_mono)

lemma usd_cost_mono:
  assumes "rate_ok r" "usage_le u v"
  shows "usd_cost r u \<le> usd_cost r v"
proof -
  have "0 \<le> (case rt_cached_input_per_mtok r of Some c \<Rightarrow> c | None \<Rightarrow> rt_input_per_mtok r)"
    using assms(1) by (auto simp: rate_ok_def split: option.splits)
  then show ?thesis
    using assms unfolding usd_cost_def Let_def
    by (intro f64.rnd_sum_mono term_mono) (auto simp: rate_ok_def usage_le_def)
qed

lemma usd_cost_nonneg:
  assumes "rate_ok r" "0 \<le> us_cached_input_tokens u" "0 \<le> us_output_tokens u"
  shows "0 \<le> usd_cost r u"
proof -
  let ?z = "\<lparr>us_input_tokens = 0, us_output_tokens = 0, us_cached_input_tokens = 0, us_reasoning_tokens = 0\<rparr>"
  have "usd_cost r ?z = 0" by (simp add: usd_cost_def fresh_input_tokens_def Let_def)
  moreover have "usd_cost r ?z \<le> usd_cost r u"
    using assms by (intro usd_cost_mono) (auto simp: usage_le_def fresh_input_tokens_def)
  ultimately show ?thesis by simp
qed

lemma cost_of_usd_mono:
  "x \<le> y \<Longrightarrow> round_even (fl (fl (x * 100) * of_int MICROCENTS_PER_CENT))
          \<le> round_even (fl (fl (y * 100) * of_int MICROCENTS_PER_CENT))"
  by (intro round_even_mono fl_mono mult_right_mono) (simp_all add: MICROCENTS_PER_CENT_def)

lemma cost_nonneg:
  assumes "cost_microcents pb m u = Inr c" "\<And>r. rate_for pb m = Inr r \<Longrightarrow> rate_ok r"
    and "0 \<le> us_cached_input_tokens u" "0 \<le> us_output_tokens u"
  shows "0 \<le> c"
proof -
  obtain r where r: "rate_for pb m = Inr r"
    and c: "c = round_even (fl (fl (usd_cost r u * 100) * of_int MICROCENTS_PER_CENT))"
    using assms(1) by (auto simp: cost_microcents_def rbind_eq_Inr)
  show ?thesis unfolding c
    using cost_of_usd_mono [OF usd_cost_nonneg [OF assms(2) [OF r] assms(3,4)]] by simp
qed

lemma markup_mono:
  "0 \<le> 100 + cfg_credit_markup_percent s \<Longrightarrow> a \<le> b \<Longrightarrow> apply_markup s a \<le> apply_markup s b"
  unfolding apply_markup_def
  by (intro round_even_mono fl_mono divide_right_mono) (auto simp only: of_int_le_iff intro: mult_right_mono)

lemma markup_0 [simp]: "apply_markup s 0 = 0"
  by (simp add: apply_markup_def)

lemma markup_nonneg: "0 \<le> 100 + cfg_credit_markup_percent s \<Longrightarrow> 0 \<le> a \<Longrightarrow> 0 \<le> apply_markup s a"
  using markup_mono [of s 0 a] by simp

lemma markup_ge:
  assumes "0 \<le> cfg_credit_markup_percent s" "0 \<le> a" "a < 2 ^ 53"
  shows "a \<le> apply_markup s a"
proof -
  have "rat_of_int a \<le> of_int (a * (100 + cfg_credit_markup_percent s)) / 100"
    using mult_left_mono [of 100 "100 + rat_of_int (cfg_credit_markup_percent s)" "rat_of_int a"] assms
    by (simp add: le_divide_eq)
  then have "fl (rat_of_int a) \<le> fl (of_int (a * (100 + cfg_credit_markup_percent s)) / 100)"
    by (rule fl_mono)
  then have "round_even (fl (rat_of_int a)) \<le> apply_markup s a"
    unfolding apply_markup_def by (rule round_even_mono)
  then show ?thesis using fl_of_int [of a] assms by simp
qed

end
