(* ===== verification/Models.thy ===== *)
theory Models
  imports Errors
begin

text \<open>
  \<^verbatim>\<open>core/models.py\<close> and \<^verbatim>\<open>core/db.py\<close>: the rows of the database as records (foreign-key navigation and
  the audit timestamps that no code reads are left out; a point in time is an integer number of
  microseconds), the tables, and transactions: a session works on a copy that replaces the
  database when the scope ends normally and is dropped when an \<open>Exception\<close> leaves it.
\<close>

type_synonym time = int

record org_row =
  o_id :: string
  o_name :: string
  o_slug :: string
  o_key_mode :: string
  o_credits_cents :: int
  o_is_active :: bool

record user_row =
  u_id :: string
  u_email :: string
  u_password_hash :: string
  u_name :: "string option"
  u_is_active :: bool
  u_is_superuser :: bool
  u_last_login_at :: "time option"
  u_token_epoch :: int

record membership_row =
  mb_id :: string
  mb_user_id :: string
  mb_org_id :: string
  mb_role :: string

record refresh_token_row =
  rt_id :: string
  rt_user_id :: string
  rt_token_hash :: string
  rt_family_id :: string
  rt_expires_at :: time
  rt_used_at :: "time option"
  rt_revoked_at :: "time option"
  rt_user_agent :: "string option"
  rt_ip_address :: "string option"

record api_key_row =
  ak_id :: string
  ak_org_id :: string
  ak_provider :: string
  ak_ciphertext :: string
  ak_mask :: string
  ak_fingerprint :: string
  ak_is_active :: bool
  ak_last_used_at :: "time option"
  ak_last_error :: "string option"
  ak_created_by :: "string option"

record agent_row =
  ag_id :: string
  ag_org_id :: string
  ag_name :: string
  ag_role :: string
  ag_system_prompt :: string
  ag_model :: string
  ag_effort :: string
  ag_max_tokens :: int
  ag_tools :: "json list"
  ag_is_active :: bool
  ag_created_by :: "string option"

record workflow_row =
  wf_id :: string
  wf_org_id :: string
  wf_name :: string
  wf_description :: string
  wf_preset :: string
  wf_graph :: jobj
  wf_is_active :: bool
  wf_created_by :: "string option"

record run_row =
  rn_id :: string
  rn_org_id :: string
  rn_workflow_id :: string
  rn_created_by :: "string option"
  rn_status :: string
  rn_input :: string
  rn_output :: "string option"
  rn_error :: "string option"
  rn_key_mode :: string
  rn_cost_microcents :: int
  rn_cost_cents :: int
  rn_billable_microcents :: int
  rn_tokens_in :: int
  rn_tokens_out :: int
  rn_steps_used :: int
  rn_max_steps :: int
  rn_max_cost_cents :: int
  rn_cancel_requested :: bool
  rn_idempotency_key :: "string option"
  rn_started_at :: "time option"
  rn_finished_at :: "time option"

record run_step_row =
  rs_run_id :: string
  rs_index :: nat
  rs_agent_id :: "string option"
  rs_agent_name :: string
  rs_role :: string
  rs_model :: string
  rs_provider :: string
  rs_input :: json
  rs_output :: string
  rs_stop_reason :: "string option"
  rs_tokens_in :: int
  rs_tokens_out :: int
  rs_cached_tokens :: int
  rs_reasoning_tokens :: int
  rs_cost_microcents :: int
  rs_latency_ms :: int
  rs_attempts :: nat
  rs_model_calls :: nat
  rs_tool_calls :: nat

record artifact_row =
  at_run_id :: string
  at_org_id :: string
  at_path :: string
  at_kind :: string
  at_language :: "string option"
  at_content :: string
  at_size_bytes :: nat
  at_version :: nat
  at_produced_by_step :: nat
  at_produced_by_agent :: string

record tool_call_row =
  tw_run_id :: string
  tw_step_index :: nat
  tw_call_index :: nat
  tw_agent_id :: string
  tw_agent_name :: string
  tw_tool :: string
  tw_arguments :: jobj
  tw_result :: string
  tw_is_error :: bool
  tw_latency_ms :: int
  tw_meta :: jobj

record ledger_row =
  lg_id :: string
  lg_org_id :: string
  lg_kind :: string
  lg_amount_cents :: int
  lg_balance_after_cents :: int
  lg_run_id :: "string option"
  lg_description :: string
  lg_idempotency_key :: string
  lg_created_by :: "string option"

record model_price_row =
  mp_model :: string
  mp_input_per_mtok :: rat
  mp_output_per_mtok :: rat
  mp_cached_input_per_mtok :: "rat option"
  mp_note :: string
  mp_updated_by :: "string option"

record audit_row =
  au_org_id :: "string option"
  au_actor_user_id :: "string option"
  au_action :: string
  au_target_type :: "string option"
  au_target_id :: "string option"
  au_ip_address :: "string option"
  au_user_agent :: "string option"
  au_detail :: jobj

record db =
  db_orgs :: "org_row list"
  db_users :: "user_row list"
  db_memberships :: "membership_row list"
  db_refresh_tokens :: "refresh_token_row list"
  db_api_keys :: "api_key_row list"
  db_agents :: "agent_row list"
  db_workflows :: "workflow_row list"
  db_runs :: "run_row list"
  db_run_steps :: "run_step_row list"
  db_artifacts :: "artifact_row list"
  db_tool_calls :: "tool_call_row list"
  db_ledger :: "ledger_row list"
  db_model_prices :: "model_price_row list"
  db_audit :: "audit_row list"

definition empty_db :: db where
  "empty_db = \<lparr>db_orgs = [], db_users = [], db_memberships = [], db_refresh_tokens = [], db_api_keys = [],
     db_agents = [], db_workflows = [], db_runs = [], db_run_steps = [], db_artifacts = [],
     db_tool_calls = [], db_ledger = [], db_model_prices = [], db_audit = []\<rparr>"

type_synonym 'a txn = "(db, exn, 'a) eff"

text \<open>\<open>session.get(Row, id)\<close>, and an attribute assignment on the row with that primary key.\<close>

definition row_get :: "('r \<Rightarrow> string) \<Rightarrow> string \<Rightarrow> 'r list \<Rightarrow> 'r option" where
  "row_get key i rows = List.find (\<lambda>r. key r = i) rows"

definition row_set :: "('r \<Rightarrow> string) \<Rightarrow> string \<Rightarrow> ('r \<Rightarrow> 'r) \<Rightarrow> 'r list \<Rightarrow> 'r list" where
  "row_set key i f rows = map (\<lambda>r. if key r = i then f r else r) rows"

definition get_org :: "db \<Rightarrow> string \<Rightarrow> org_row option" where
  "get_org d i = row_get o_id i (db_orgs d)"

definition get_run_row :: "db \<Rightarrow> string \<Rightarrow> run_row option" where
  "get_run_row d i = row_get rn_id i (db_runs d)"

definition get_workflow_row :: "db \<Rightarrow> string \<Rightarrow> workflow_row option" where
  "get_workflow_row d i = row_get wf_id i (db_workflows d)"

definition set_run_row :: "string \<Rightarrow> (run_row \<Rightarrow> run_row) \<Rightarrow> db \<Rightarrow> db" where
  "set_run_row i f d = d\<lparr>db_runs := row_set rn_id i f (db_runs d)\<rparr>"

text \<open>
  \<open>session_scope\<close>: the work of the transaction and the state it leaves; any exception drops it
  (an \<open>Exception\<close> by an explicit rollback, a cancellation because nothing commits).
\<close>

definition session_scope :: "'a txn \<Rightarrow> 'a txn" where
  "session_scope work = (\<lambda>d. case work d of (Inr a, d') \<Rightarrow> (Inr a, d') | (Inl e, d') \<Rightarrow> (Inl e, d))"

lemma session_scope_Inl: "session_scope w d = (Inl e, d') \<Longrightarrow> d' = d"
  by (auto simp: session_scope_def split: prod.splits sum.splits)

lemma session_scope_Inr: "session_scope w d = (Inr a, d') \<longleftrightarrow> w d = (Inr a, d')"
  by (auto simp: session_scope_def split: prod.splits sum.splits)

lemma find_append:
  "List.find P (xs @ ys) = (case List.find P xs of None \<Rightarrow> List.find P ys | Some x \<Rightarrow> Some x)"
  by (induction xs) auto

lemma row_get_Some: "row_get key i rows = Some r \<Longrightarrow> r \<in> set rows \<and> key r = i"
  by (auto simp: row_get_def find_Some_iff)

lemma row_get_set:
  assumes "\<And>r. key (f r) = key r"
  shows "row_get key j (row_set key i f rows) = (if i = j then map_option f (row_get key j rows) else row_get key j rows)"
  using assms by (induction rows) (auto simp: row_get_def row_set_def)

lemma row_set_keys: "(\<And>r. key (f r) = key r) \<Longrightarrow> map key (row_set key i f rows) = map key rows"
  by (simp add: row_set_def comp_def if_distrib cong: if_cong)

lemma row_set_unique:
  assumes "distinct (map key rows)" "row_get key i rows = Some r"
  shows "row_set key i f rows = map (\<lambda>x. if x = r then f r else x) rows"
proof -
  have "r \<in> set rows" "key r = i" using row_get_Some [OF assms(2)] by auto
  then have "\<forall>x \<in> set rows. key x = i \<longleftrightarrow> x = r" using assms(1) by (auto simp: distinct_map dest: inj_onD)
  then show ?thesis by (auto simp: row_set_def)
qed

end
