(* ===== verification/Router.thy ===== *)
theory Router
  imports Pricing Models
begin

text \<open>
  \<^verbatim>\<open>core/llm/keys.py\<close> and \<^verbatim>\<open>core/llm/router.py\<close>: which credential a call uses and who pays for it, the
  adapter cache, the retry loop and the cost of the accepted reply. Outside the model: the vendor
  call itself (\<open>re_provider\<close>, one answer per tick, attempt, credential and request), the rows the
  database returns and the decryption of a stored key, which are arguments. The backoff between
  attempts only passes time.
\<close>

subsection \<open>Credentials\<close>

datatype key_mode = Managed | Byok | Hybrid

definition key_mode_of :: "string \<Rightarrow> key_mode res" where
  "key_mode_of mode = (
     if mode = ''managed'' then Inr Managed else if mode = ''byok'' then Inr Byok
     else if mode = ''hybrid'' then Inr Hybrid
     else Inl (KeyResolutionError (''unknown key mode: '' @ mode)))"

definition UTILITY_MODELS :: "string list" where
  "UTILITY_MODELS = [''claude-haiku-4-5'', ''gpt-5-mini'', ''gemini-2.5-flash'', ''grok-4-fast'', ''grok-3-mini'']"

record resolved_key =
  rk_provider :: provider
  rk_api_key :: string
  rk_billed_to_platform :: bool

fun platform_key :: "settings \<Rightarrow> provider \<Rightarrow> string option" where
  "platform_key s Anthropic = cfg_anthropic_api_key s"
| "platform_key s OpenAI = cfg_openai_api_key s"
| "platform_key s XAI = cfg_xai_api_key s"
| "platform_key s Google = cfg_google_api_key s"
| "platform_key s OpenRouter = cfg_openrouter_api_key s"

definition has_key :: "string option \<Rightarrow> bool" where
  "has_key k = (case k of None \<Rightarrow> False | Some s \<Rightarrow> s \<noteq> [])"

definition configured_platform_providers :: "settings \<Rightarrow> provider list" where
  "configured_platform_providers s = filter (\<lambda>p. has_key (platform_key s p)) all_providers"

record key_resolver =
  kr_org_id :: string
  kr_mode :: key_mode
  kr_byok_cache :: "(provider, string) dict"

definition new_key_resolver :: "string \<Rightarrow> string \<Rightarrow> key_resolver res" where
  "new_key_resolver org_id mode = rbind (key_mode_of mode) (\<lambda>m.
     Inr \<lparr>kr_org_id = org_id, kr_mode = m, kr_byok_cache = []\<rparr>)"

definition byok_key ::
    "(string \<Rightarrow> string \<Rightarrow> string res) \<Rightarrow> api_key_row list \<Rightarrow> provider \<Rightarrow> (key_resolver, exn, string) eff" where
  "byok_key decrypt rows p kr = (
     case dget (kr_byok_cache kr) p of
       Some k \<Rightarrow> (Inr k, kr)
     | None \<Rightarrow>
        (case filter (\<lambda>r. ak_org_id r = kr_org_id kr \<and> ak_provider r = provider_value p \<and> ak_is_active r) rows of
           [] \<Rightarrow> (Inl (KeyResolutionError (''no active '' @ provider_value p
                  @ '' key stored for this organisation '' @ [sub_char]
                  @ '' add one in Settings, or switch the run to managed mode'')), kr)
         | [row] \<Rightarrow>
             (case decrypt (ak_ciphertext row) (kr_org_id kr) of
                Inl e \<Rightarrow> (Inl e, kr)
              | Inr key \<Rightarrow> (Inr key, kr\<lparr>kr_byok_cache := dset p key (kr_byok_cache kr)\<rparr>))
         | _ \<Rightarrow> (Inl (OtherError ''MultipleResultsFound''), kr)))"

definition uses_platform :: "key_mode \<Rightarrow> string \<Rightarrow> bool" where
  "uses_platform mode model = (mode = Managed \<or> (mode = Hybrid \<and> model \<in> set UTILITY_MODELS))"

definition resolve_key ::
    "settings \<Rightarrow> (string \<Rightarrow> string \<Rightarrow> string res) \<Rightarrow> api_key_row list \<Rightarrow> string \<Rightarrow> (key_resolver, exn, resolved_key) eff" where
  "resolve_key s decrypt rows model =
     ebind (elift (get_spec model)) (\<lambda>spec.
     ebind (eget kr_mode) (\<lambda>mode.
       let p = ms_provider spec in
       if uses_platform mode model then
         (case platform_key s p of
            Some k \<Rightarrow> if k \<noteq> [] then eret \<lparr>rk_provider = p, rk_api_key = k, rk_billed_to_platform = True\<rparr>
                      else eraise (KeyResolutionError (''the platform has no '' @ provider_value p
                        @ '' credential configured; this organisation must supply its own key for '' @ model))
          | None \<Rightarrow> eraise (KeyResolutionError (''the platform has no '' @ provider_value p
                        @ '' credential configured; this organisation must supply its own key for '' @ model)))
       else ebind (byok_key decrypt rows p) (\<lambda>k.
              eret \<lparr>rk_provider = p, rk_api_key = k, rk_billed_to_platform = False\<rparr>)))"

subsection \<open>The router\<close>

record routed_result =
  rr_result :: llm_result
  rr_cost_microcents :: int
  rr_billed_to_platform :: bool
  rr_attempts :: nat

record router =
  ro_resolver :: key_resolver
  ro_adapters :: "(provider \<times> string) list"

record router_env =
  re_settings :: settings
  re_rows :: "nat \<Rightarrow> api_key_row list"
  re_decrypt :: "string \<Rightarrow> string \<Rightarrow> string res"
  re_price_book :: price_book
  re_provider :: "nat \<Rightarrow> nat \<Rightarrow> provider \<Rightarrow> string \<Rightarrow> completion_request \<Rightarrow> string list \<times> llm_result res"

definition MAX_ATTEMPTS :: nat where "MAX_ATTEMPTS = 3"

record llm_call =
  lc_model :: string
  lc_system :: string
  lc_messages :: "message list"
  lc_max_tokens :: int
  lc_effort :: string
  lc_json_mode :: bool
  lc_timeout_seconds :: rat
  lc_tools :: "tool_spec list"
  lc_on_token :: bool

definition adapter :: "provider \<Rightarrow> string \<Rightarrow> router \<Rightarrow> router" where
  "adapter p k ro = (if (p, k) \<in> set (ro_adapters ro) then ro else ro\<lparr>ro_adapters := ro_adapters ro @ [(p, k)]\<rparr>)"

definition aclose :: "router \<Rightarrow> router" where
  "aclose ro = ro\<lparr>ro_adapters := []\<rparr>"

text \<open>The loop: attempt \<open>a\<close> with \<open>n\<close> attempts left; the reply comes with the attempt that gave it.\<close>

fun try_attempts :: "(nat \<Rightarrow> llm_result res) \<Rightarrow> nat \<Rightarrow> nat \<Rightarrow> (llm_result \<times> nat) res" where
  "try_attempts f a 0 = Inl (OtherError ''AssertionError'')"
| "try_attempts f a (Suc n) = (case f a of
     Inr r \<Rightarrow> Inr (r, a)
   | Inl (RetryableLLMError m) \<Rightarrow> if n = 0 then Inl (RetryableLLMError m) else try_attempts f (Suc a) n
   | Inl e \<Rightarrow> Inl e)"

definition request_of :: "llm_call \<Rightarrow> model_spec \<Rightarrow> completion_request" where
  "request_of c spec = \<lparr>cr_spec = spec, cr_system = lc_system c, cr_messages = lc_messages c,
     cr_max_tokens = lc_max_tokens c, cr_effort = normalise_effort (lc_effort c),
     cr_json_mode = lc_json_mode c, cr_timeout_seconds = lc_timeout_seconds c, cr_tools = lc_tools c,
     cr_cache_system_prompt = True\<rparr>"

text \<open>
  The result of \<open>complete\<close>: the chunks handed to \<open>on_token\<close> (only the first attempt streams) and
  the outcome.
\<close>

definition router_complete ::
    "router_env \<Rightarrow> nat \<Rightarrow> llm_call \<Rightarrow> router \<Rightarrow> (string list \<times> routed_result res) \<times> router" where
  "router_complete env t c ro = (
     case get_spec (lc_model c) of Inl e \<Rightarrow> (([], Inl e), ro)
     | Inr spec \<Rightarrow>
        (case resolve_key (re_settings env) (re_decrypt env) (re_rows env t) (lc_model c) (ro_resolver ro) of
           (Inl e, kr) \<Rightarrow> (([], Inl e), ro\<lparr>ro_resolver := kr\<rparr>)
         | (Inr key, kr) \<Rightarrow>
             let ro' = adapter (rk_provider key) (rk_api_key key) (ro\<lparr>ro_resolver := kr\<rparr>);
                 call = (\<lambda>a. re_provider env t a (rk_provider key) (rk_api_key key) (request_of c spec));
                 chunks = (if lc_on_token c then fst (call 1) else []);
                 outcome = rbind (try_attempts (\<lambda>a. snd (call a)) 1 MAX_ATTEMPTS) (\<lambda>(r, a).
                   rbind (cost_microcents (re_price_book env) (lc_model c) (lr_usage r)) (\<lambda>cost.
                     Inr \<lparr>rr_result = r, rr_cost_microcents = cost,
                          rr_billed_to_platform = rk_billed_to_platform key, rr_attempts = a\<rparr>))
             in ((chunks, outcome), ro')))"

subsection \<open>Who pays\<close>

lemma byok_key_frame:
  "byok_key d rows p kr = (r, kr') \<Longrightarrow> kr_mode kr' = kr_mode kr \<and> kr_org_id kr' = kr_org_id kr"
  by (auto simp: byok_key_def split: option.splits list.splits sum.splits)

lemma resolve_key_cases:
  assumes "resolve_key s d rows m kr = (Inr k, kr')"
  obtains spec where "get_spec m = Inr spec" "rk_provider k = ms_provider spec"
    and "rk_billed_to_platform k = uses_platform (kr_mode kr) m"
    and "uses_platform (kr_mode kr) m \<Longrightarrow>
           kr' = kr \<and> platform_key s (ms_provider spec) = Some (rk_api_key k) \<and> rk_api_key k \<noteq> []"
    and "\<not> uses_platform (kr_mode kr) m \<Longrightarrow> byok_key d rows (ms_provider spec) kr = (Inr (rk_api_key k), kr')"
  using assms
  by (auto simp: resolve_key_def ebind_eq_Inr elift_def eget_def eret_def eraise_def Let_def
      split: if_splits option.splits)

lemma try_attempts_range:
  "try_attempts f a n = Inr (r, b) \<Longrightarrow> a \<le> b \<and> b < a + n \<and> f b = Inr r \<and>
     (\<forall>i. a \<le> i \<and> i < b \<longrightarrow> (\<exists>m. f i = Inl (RetryableLLMError m)))"
proof (induction f a n rule: try_attempts.induct)
  case (2 f a n)
  show ?case
  proof (cases "f a")
    case (Inr x)
    with "2.prems" show ?thesis by auto
  next
    case (Inl e)
    with "2.prems" obtain m where e: "e = RetryableLLMError m" and n: "n \<noteq> 0"
      and rec: "try_attempts f (Suc a) n = Inr (r, b)"
      by (cases e) (auto split: if_splits)
    from "2.IH" [OF Inl e n rec] Inl e show ?thesis
      by (metis Suc_leD Suc_leI add_Suc_right add_Suc le_neq_implies_less)
  qed
qed simp

lemma router_complete_ok:
  assumes "router_complete env t c ro = ((ch, Inr rr), ro')"
  shows "rr_billed_to_platform rr = uses_platform (kr_mode (ro_resolver ro)) (lc_model c)"
    and "1 \<le> rr_attempts rr \<and> rr_attempts rr \<le> MAX_ATTEMPTS"
    and "cost_microcents (re_price_book env) (lc_model c) (lr_usage (rr_result rr)) = Inr (rr_cost_microcents rr)"
    and "kr_mode (ro_resolver ro') = kr_mode (ro_resolver ro)"
proof -
  obtain spec where spec: "get_spec (lc_model c) = Inr spec"
    using assms by (auto simp: router_complete_def split: sum.splits)
  obtain k kr where k: "resolve_key (re_settings env) (re_decrypt env) (re_rows env t) (lc_model c)
      (ro_resolver ro) = (Inr k, kr)"
    using assms spec by (auto simp: router_complete_def split: sum.splits prod.splits)
  let ?f = "\<lambda>a. snd (re_provider env t a (rk_provider k) (rk_api_key k) (request_of c spec))"
  obtain r a where a: "try_attempts ?f 1 MAX_ATTEMPTS = Inr (r, a)"
    and cost: "cost_microcents (re_price_book env) (lc_model c) (lr_usage r) = Inr (rr_cost_microcents rr)"
    and rr: "rr_result rr = r" "rr_attempts rr = a" "rr_billed_to_platform rr = rk_billed_to_platform k"
    and ro': "ro' = adapter (rk_provider k) (rk_api_key k) (ro\<lparr>ro_resolver := kr\<rparr>)"
    using assms spec k by (auto simp: router_complete_def Let_def rbind_eq_Inr)
  from k obtain "rk_billed_to_platform k = uses_platform (kr_mode (ro_resolver ro)) (lc_model c)"
    by (rule resolve_key_cases)
  then show "rr_billed_to_platform rr = uses_platform (kr_mode (ro_resolver ro)) (lc_model c)" by (simp add: rr)
  show "1 \<le> rr_attempts rr \<and> rr_attempts rr \<le> MAX_ATTEMPTS"
    using try_attempts_range [OF a] by (simp add: rr)
  show "cost_microcents (re_price_book env) (lc_model c) (lr_usage (rr_result rr)) = Inr (rr_cost_microcents rr)"
    using cost by (simp add: rr)
  have "kr_mode kr = kr_mode (ro_resolver ro)"
    using k by (rule resolve_key_cases) (metis byok_key_frame)
  then show "kr_mode (ro_resolver ro') = kr_mode (ro_resolver ro)" by (simp add: ro' adapter_def)
qed

end
