(* ===== verification/Engine.thy ===== *)
theory Engine
  imports Tools Events Budget Router
begin

text \<open>
  \<^verbatim>\<open>core/orchestration/engine.py\<close>: one agent turn with its budget checks, event emission, streaming,
  tool loop, artifact capture and persistence, and the JSON reply loop. The state \<open>est\<close> is what a
  turn mutates: run state, budget, event bus, router, token buffer of the turn and the records
  handed to the sinks. Every reading of the outside (cancellation flag, clocks, network, model)
  is a function of the tick at which it happens, carried by \<open>engine\<close>; at every await a fault of
  the outside (a failing database or bus, a deadline, a cancellation) may be raised.
\<close>

subsection \<open>Records and state\<close>

record step_record =
  sr_index :: nat
  sr_agent :: agent_spec
  sr_instruction :: json
  sr_output :: string
  sr_provider :: string
  sr_tokens_in :: int
  sr_tokens_out :: int
  sr_cached_tokens :: int
  sr_reasoning_tokens :: int
  sr_cost_microcents :: int
  sr_billable_microcents :: int
  sr_latency_ms :: int
  sr_attempts :: nat
  sr_stop_reason :: "string option"
  sr_model_calls :: nat
  sr_tool_calls :: nat

record tool_call_record =
  tl_step_index :: nat
  tl_call_index :: nat
  tl_agent_id :: string
  tl_agent_name :: string
  tl_tool :: string
  tl_arguments :: jobj
  tl_result :: string
  tl_is_error :: bool
  tl_latency_ms :: int
  tl_metadata :: jobj

record artifact_record =
  af_path :: string
  af_version :: nat
  af_kind :: string
  af_language :: "string option"
  af_content :: string
  af_step_index :: nat
  af_agent_name :: string

record est =
  es_run :: run_state
  es_budget :: budget_guard
  es_bus :: bus
  es_router :: router
  es_buffer :: token_buffer
  es_tick :: nat
  es_steps :: "step_record list"
  es_tool_calls :: "tool_call_record list"
  es_artifacts :: "artifact_record list"

record engine =
  en_cancel :: "nat \<Rightarrow> bool"
  en_monotonic :: "nat \<Rightarrow> rat"
  en_perf_counter :: "nat \<Rightarrow> rat"
  en_now :: "nat \<Rightarrow> string"
  en_fault :: "nat \<Rightarrow> exn option"
  en_sched :: "nat \<Rightarrow> nat"
  en_web :: "nat \<Rightarrow> tool \<Rightarrow> jobj \<Rightarrow> tool_result res"
  en_router :: router_env
  en_step_sink :: bool
  en_artifact_sink :: bool
  en_tool_call_sink :: bool
  en_tool_resolver :: "agent_spec \<Rightarrow> tool list"
  en_markup :: "int \<Rightarrow> int"
  en_max_board_chars :: int
  en_step_timeout :: rat
  en_max_tool_iterations :: int
  en_max_tool_calls_per_turn :: int
  en_stream_tokens :: bool

type_synonym 'a step = "(est, exn, 'a) eff"

subsection \<open>Awaits, events, sinks\<close>

definition tick :: "nat step" where
  "tick = (\<lambda>s. (Inr (es_tick s), s\<lparr>es_tick := Suc (es_tick s)\<rparr>))"

definition await_point :: "engine \<Rightarrow> nat step" where
  "await_point eng = ebind tick (\<lambda>t. case en_fault eng t of None \<Rightarrow> eret t | Some e \<Rightarrow> eraise e)"

definition emit_event :: "engine \<Rightarrow> string \<Rightarrow> jobj \<Rightarrow> unit step" where
  "emit_event eng ty payload = ebind (await_point eng) (\<lambda>t.
     emod (\<lambda>s. s\<lparr>es_bus := snd (emit (es_bus s) ty (en_now eng t) payload)\<rparr>))"

definition flush_tokens :: "engine \<Rightarrow> unit step" where
  "flush_tokens eng = ebind (eget es_buffer) (\<lambda>tb. case tb_take tb of
     (None, _) \<Rightarrow> eret ()
   | (Some payload, tb') \<Rightarrow> ethen (emod (\<lambda>s. s\<lparr>es_buffer := tb'\<rparr>)) (emit_event eng STEP_TOKEN payload))"

definition push_token :: "engine \<Rightarrow> string \<Rightarrow> unit step" where
  "push_token eng chunk = ethen (emod (\<lambda>s. s\<lparr>es_buffer := tb_add (es_buffer s) chunk\<rparr>))
     (ebind (eget es_buffer) (\<lambda>tb. if tb_full tb then flush_tokens eng else eret ()))"

definition check_budget :: "engine \<Rightarrow> unit step" where
  "check_budget eng = ebind (await_point eng) (\<lambda>t.
     ebind (eget es_budget) (\<lambda>b. elift (check_before_step b (en_cancel eng t) (en_monotonic eng t))))"

definition record_spend :: "int \<Rightarrow> unit step" where
  "record_spend cost = emod (\<lambda>s. s\<lparr>es_budget := record_cost (es_budget s) cost\<rparr>)"

definition sink_step :: "engine \<Rightarrow> step_record \<Rightarrow> unit step" where
  "sink_step eng r = (if en_step_sink eng
     then ethen (emod (\<lambda>s. s\<lparr>es_steps := es_steps s @ [r]\<rparr>)) (ethen (await_point eng) (eret ()))
     else eret ())"

definition sink_tool_call :: "engine \<Rightarrow> tool_call_record \<Rightarrow> unit step" where
  "sink_tool_call eng r = (if en_tool_call_sink eng
     then ethen (emod (\<lambda>s. s\<lparr>es_tool_calls := es_tool_calls s @ [r]\<rparr>)) (ethen (await_point eng) (eret ()))
     else eret ())"

text \<open>
  Recording an artifact and handing it to the sink happen without an await between them; the sink
  then awaits the database (\<open>await_sink\<close>).
\<close>

definition save_artifact ::
    "engine \<Rightarrow> agent_spec \<Rightarrow> nat \<Rightarrow> string \<Rightarrow> string \<Rightarrow> string \<Rightarrow> string option \<Rightarrow> nat step" where
  "save_artifact eng agent step path content kind language = (\<lambda>s.
     case record_artifact (es_run s) path content kind (as_name agent) of
       (version, st) \<Rightarrow> (Inr version, s\<lparr>es_run := st, es_artifacts := es_artifacts s @
         (if en_artifact_sink eng
          then [\<lparr>af_path = path, af_version = version, af_kind = kind, af_language = language,
                 af_content = content, af_step_index = step, af_agent_name = as_name agent\<rparr>] else [])\<rparr>))"

definition await_sink :: "engine \<Rightarrow> unit step" where
  "await_sink eng = (if en_artifact_sink eng then ethen (await_point eng) (eret ()) else eret ())"

definition elapsed_ms :: "rat \<Rightarrow> rat \<Rightarrow> int" where
  "elapsed_ms started now = trunc_rat (fl (fl (now - started) * 1000))"

subsection \<open>Prompts\<close>

definition ARTIFACT_INSTRUCTIONS :: string where
  "ARTIFACT_INSTRUCTIONS =
     ''When you produce a file that later agents or the user will need, emit it as a labelled block so it is captured as a versioned artifact:''
     @ [nl, nl] @ ''```python path=src/app.py'' @ [nl] @ ''<file contents>'' @ [nl] @ ''```'' @ [nl, nl]
     @ ''Use the real relative path you intend the file to have. Prose, reasoning and explanation stay outside these blocks. Never use absolute paths or `..`.''"

definition writes :: "tool list \<Rightarrow> bool" where
  "writes ts = list_ex (\<lambda>t. tool_side_effect t = Write) ts"

definition tool_guidance :: "tool list \<Rightarrow> string" where
  "tool_guidance ts = join [nl] (
     [''You have tools. Call them when they would give you something you do not already have; do not narrate what you are about to do before calling one.'']
     @ (if writes ts then [''Write files with the artifact tools rather than pasting them into your reply '' @ [sub_char]
          @ '' a file written by a tool is versioned and readable by the other agents. Read a file before editing it, and prefer `edit_artifact` over rewriting a whole file.''] else [])
     @ [''When you have what you need, stop calling tools and give your answer.''])"

definition system_prompt :: "agent_spec \<Rightarrow> tool list \<Rightarrow> string" where
  "system_prompt agent ts = (
     let header = ''You are '' @ as_name agent @ '', the '' @ as_role agent
           @ '' on a team of AI agents working one shared task.'' @ [nl]
           @ ''Everything you write is visible to the other agents, so make your output self-contained and state assumptions explicitly. Do the work you were asked for ''
           @ [sub_char] @ '' do not restate the task or narrate your process.''
     in join [nl, nl] ([header]
          @ (if strip (as_system_prompt agent) \<noteq> [] then [strip (as_system_prompt agent)] else [])
          @ (if ts \<noteq> [] then [tool_guidance ts] else [])
          @ (if writes ts then [] else [ARTIFACT_INSTRUCTIONS])))"

definition user_message :: "engine \<Rightarrow> agent_spec \<Rightarrow> json \<Rightarrow> int option \<Rightarrow> string step" where
  "user_message eng agent instruction max_chars = ebind (eget es_run) (\<lambda>st.
     let limit = (case max_chars of Some m \<Rightarrow> if m \<noteq> 0 then m else en_max_board_chars eng
                  | None \<Rightarrow> en_max_board_chars eng);
         tr = transcript st (Some (as_id agent)) limit 6
     in ebind (elift (artifact_index st)) (\<lambda>idx.
       eret (''## Original request'' @ [nl] @ user_input st @ [nl, nl]
         @ ''## Shared board'' @ [nl] @ tr @ [nl, nl]
         @ ''## Artifacts so far'' @ [nl] @ idx @ [nl, nl]
         @ ''## Your task now'' @ [nl] @ j_str instruction)))"

definition default_tool_resolver :: "settings \<Rightarrow> agent_spec \<Rightarrow> tool list" where
  "default_tool_resolver cfg agent = resolve_tools cfg (List.map_filter as_str (as_tools agent))"

text \<open>\<open>_SECRETISH\<close>: three prefixes, each followed by enough key characters.\<close>

definition key_char :: "char \<Rightarrow> bool" where
  "key_char c = (is_alpha c \<or> is_digit c \<or> c = CHR ''_'' \<or> c = CHR ''-'')"

definition SECRETISH :: regex where
  "SECRETISH = RSeq RWordB (RAlt (RSeq (rlit ''sk-'') (RRep greedy 12 key_char))
     (RAlt (RSeq (rlit ''xai-'') (RRep greedy 8 key_char)) (RSeq (rlit ''AIza'') (RRep greedy 16 key_char))))"

definition safe_arguments :: "jobj \<Rightarrow> jobj" where
  "safe_arguments args = map (\<lambda>(k, v). (k, case as_str v of
     Some s \<Rightarrow> JStr (re_sub SECRETISH ''[redacted]'' (take 2000 s)) | None \<Rightarrow> v)) args"

definition JSON_FENCE :: regex where
  "JSON_FENCE = rseq [rlit ''```'', ROpt (rlit ''json''), RRep greedy 0 is_space,
     RGroup ''1'' (rseq [rlit ''{'', RRep lazy 0 any_char, rlit ''}'']), RRep greedy 0 is_space, rlit ''```'']"

definition json_candidates :: "string \<Rightarrow> string list" where
  "json_candidates text =
     (case re_search JSON_FENCE text 0 of Some m \<Rightarrow> [group m ''1''] | None \<Rightarrow> [])
     @ (case (find_char (CHR ''{'') text, rfind_char (CHR ''}'') text) of
          (Some f, Some l) \<Rightarrow> if l > f then [slice text f (Suc l)] else []
        | _ \<Rightarrow> [])
     @ [strip text]"

definition extract_json :: "string \<Rightarrow> jobj res" where
  "extract_json text = (
     case List.map_filter (\<lambda>c. case json_loads c of Some (JObj d) \<Rightarrow> Some d | _ \<Rightarrow> None) (json_candidates text) of
       d # _ \<Rightarrow> Inr d
     | [] \<Rightarrow> Inl (ValueError (''expected a JSON object, got: '' @ py_repr (take 200 text))))"

subsection \<open>Tools\<close>

definition write_via :: "engine \<Rightarrow> agent_spec \<Rightarrow> nat \<Rightarrow> string \<Rightarrow> string \<Rightarrow> string \<Rightarrow> nat step" where
  "write_via eng agent step path content kind =
     ebind (save_artifact eng agent step path content kind None) (\<lambda>version.
     ethen (await_sink eng)
     (ethen (emit_event eng ARTIFACT_WRITTEN [(''step'', JInt (int step)), (''path'', JStr path),
        (''version'', JInt (int version)), (''kind'', JStr kind), (''size_bytes'', JInt (int (utf8_len content))),
        (''agent_name'', JStr (as_name agent)), (''via'', JStr ''tool'')])
     (eret version)))"

definition make_context :: "engine \<Rightarrow> agent_spec \<Rightarrow> nat \<Rightarrow> est \<Rightarrow> est tool_context" where
  "make_context eng agent step s = \<lparr>tc_run_id = bus_run_id (es_bus s),
     tc_org_id = dget_or (rs_notes (es_run s)) ''org_id'' (JStr []),
     tc_agent_id = as_id agent, tc_agent_name = as_name agent, tc_step_index = step,
     tc_artifacts = (\<lambda>s. artifacts (es_run s)), tc_read_artifact_version = (\<lambda>s. artifact_versions (es_run s)),
     tc_write_artifact = write_via eng agent step\<rparr>"

text \<open>
  One requested call as a thread: each constructor is a point where the coroutine may be suspended,
  and one step runs to the next. \<open>execute\<close> runs a thread alone; \<open>gather\<close> lets the event loop
  (\<open>en_sched\<close>) pick the unfinished thread that runs next.
\<close>

datatype exec_thread =
    Announce
  | Invoke
  | Report tool_result int
  | Log tool_result int
  | Finished tool_result_part

record exec_env =
  xe_engine :: engine
  xe_agent :: agent_spec
  xe_step :: nat
  xe_offset :: nat
  xe_tools :: "(string, tool) dict"
  xe_context :: "est tool_context"

definition no_such_tool :: "(string, tool) dict \<Rightarrow> string \<Rightarrow> tool_result" where
  "no_such_tool tools name = (
     let available = join '', '' (sort (map fst tools)) in
     \<lparr>tr_content = ''Error: no tool named '' @ py_repr name @ ''. Available tools: ''
        @ (if available = [] then ''(none)'' else available),
      tr_is_error = True, tr_metadata = []\<rparr>)"

definition run_call :: "exec_env \<Rightarrow> tool_call_request \<Rightarrow> exec_thread step" where
  "run_call x call = (let eng = xe_engine x in
     ebind tick (\<lambda>t0.
     ebind (case dget (xe_tools x) (tcr_name call) of
              None \<Rightarrow> eret (no_such_tool (xe_tools x) (tcr_name call))
            | Some tool \<Rightarrow> tool_invoke (en_web eng t0) tool (tcr_arguments call) (xe_context x)) (\<lambda>result.
     ebind tick (\<lambda>t1.
       eret (Report result (elapsed_ms (en_perf_counter eng t0) (en_perf_counter eng t1)))))))"

definition call_events :: "exec_env \<Rightarrow> nat \<Rightarrow> tool_call_request \<Rightarrow> jobj" where
  "call_events x pos call = [(''step'', JInt (int (xe_step x))), (''call'', JInt (int (xe_offset x + pos))),
     (''tool'', JStr (tcr_name call)), (''agent_name'', JStr (as_name (xe_agent x)))]"

fun advance :: "exec_env \<Rightarrow> nat \<Rightarrow> tool_call_request \<Rightarrow> exec_thread \<Rightarrow> exec_thread step" where
  "advance x pos call Announce =
     ethen (emit_event (xe_engine x) TOOL_CALL
       (call_events x pos call @ [(''arguments'', JObj (safe_arguments (tcr_arguments call)))])) (eret Invoke)"
| "advance x pos call Invoke = run_call x call"
| "advance x pos call (Report r ms) =
     ethen (emit_event (xe_engine x) TOOL_RESULT
       (call_events x pos call @ [(''is_error'', JBool (tr_is_error r)), (''latency_ms'', JInt ms),
         (''preview'', JStr (take 400 (tr_content r))), (''metadata'', JObj (tr_metadata r))])) (eret (Log r ms))"
| "advance x pos call (Log r ms) =
     ethen (sink_tool_call (xe_engine x) \<lparr>tl_step_index = xe_step x, tl_call_index = xe_offset x + pos,
       tl_agent_id = as_id (xe_agent x), tl_agent_name = as_name (xe_agent x), tl_tool = tcr_name call,
       tl_arguments = safe_arguments (tcr_arguments call), tl_result = tr_content r,
       tl_is_error = tr_is_error r, tl_latency_ms = ms, tl_metadata = tr_metadata r\<rparr>)
     (eret (Finished \<lparr>trp_tool_call_id = tcr_id call, trp_name = tcr_name call, trp_content = tr_content r,
       trp_is_error = tr_is_error r\<rparr>))"
| "advance x pos call (Finished p) = eret (Finished p)"

definition execute :: "exec_env \<Rightarrow> nat \<Rightarrow> tool_call_request \<Rightarrow> exec_thread step" where
  "execute x pos call = ebind (advance x pos call Announce) (\<lambda>t1. ebind (advance x pos call t1) (\<lambda>t2.
     ebind (advance x pos call t2) (\<lambda>t3. advance x pos call t3)))"

fun is_finished :: "exec_thread \<Rightarrow> bool" where
  "is_finished (Finished p) = True"
| "is_finished _ = False"

definition unfinished :: "exec_thread list \<Rightarrow> nat list" where
  "unfinished ths = filter (\<lambda>i. \<not> is_finished (ths ! i)) [0..<length ths]"

fun gather :: "nat \<Rightarrow> exec_env \<Rightarrow> tool_call_request list \<Rightarrow> exec_thread list \<Rightarrow> exec_thread list step" where
  "gather 0 x calls ths = eret ths"
| "gather (Suc n) x calls ths = (
     if unfinished ths = [] then eret ths
     else ebind tick (\<lambda>t.
       let i = unfinished ths ! (en_sched (xe_engine x) t mod length (unfinished ths)) in
       ebind (advance x i (calls ! i) (ths ! i)) (\<lambda>th. gather n x calls (ths[i := th]))))"

definition parts_of :: "exec_thread list \<Rightarrow> tool_result_part list" where
  "parts_of ths = List.map_filter (\<lambda>th. case th of Finished p \<Rightarrow> Some p | _ \<Rightarrow> None) ths"

definition mutating :: "(string, tool) dict \<Rightarrow> tool_call_request list \<Rightarrow> bool" where
  "mutating tools calls = list_ex (\<lambda>c. case dget tools (tcr_name c) of
     Some t \<Rightarrow> tool_side_effect t = Write | None \<Rightarrow> False) calls"

definition run_tools ::
    "engine \<Rightarrow> tool_call_request list \<Rightarrow> (string, tool) dict \<Rightarrow> agent_spec \<Rightarrow> nat \<Rightarrow> nat \<Rightarrow> tool_result_part list step" where
  "run_tools eng calls tools agent step offset =
     ebind (eget (make_context eng agent step)) (\<lambda>ctx.
       let x = \<lparr>xe_engine = eng, xe_agent = agent, xe_step = step, xe_offset = offset, xe_tools = tools,
                xe_context = ctx\<rparr> in
       ebind (if mutating tools calls
              then emap (enumerate 0 calls) (\<lambda>(pos, call). execute x pos call)
              else gather (4 * length calls) x calls (replicate (length calls) Announce)) (\<lambda>ths.
         eret (parts_of ths)))"

subsection \<open>A turn\<close>

record turn =
  tn_conversation :: "message list"
  tn_tokens_in :: int
  tn_tokens_out :: int
  tn_cached :: int
  tn_reasoning :: int
  tn_cost :: int
  tn_billable :: int
  tn_text_parts :: "string list"
  tn_provider :: string
  tn_stop_reason :: "string option"
  tn_attempts :: nat
  tn_model_calls :: nat
  tn_tool_call_count :: nat

definition user_msg :: "string \<Rightarrow> message" where
  "user_msg text = \<lparr>msg_role = ''user'', msg_content = text, msg_tool_calls = [], msg_tool_results = []\<rparr>"

definition new_turn :: "string \<Rightarrow> turn" where
  "new_turn text = \<lparr>tn_conversation = [user_msg text], tn_tokens_in = 0, tn_tokens_out = 0, tn_cached = 0,
     tn_reasoning = 0, tn_cost = 0, tn_billable = 0, tn_text_parts = [], tn_provider = [],
     tn_stop_reason = None, tn_attempts = 1, tn_model_calls = 0, tn_tool_call_count = 0\<rparr>"

definition add_reply :: "engine \<Rightarrow> routed_result \<Rightarrow> turn \<Rightarrow> turn" where
  "add_reply eng routed tn = (let result = rr_result routed; u = lr_usage result in
     tn\<lparr>tn_model_calls := tn_model_calls tn + 1,
        tn_provider := lr_provider result, tn_stop_reason := lr_stop_reason result,
        tn_attempts := max (tn_attempts tn) (rr_attempts routed),
        tn_tokens_in := tn_tokens_in tn + us_input_tokens u,
        tn_tokens_out := tn_tokens_out tn + us_output_tokens u,
        tn_cached := tn_cached tn + us_cached_input_tokens u,
        tn_reasoning := tn_reasoning tn + us_reasoning_tokens u,
        tn_cost := tn_cost tn + rr_cost_microcents routed,
        tn_billable := tn_billable tn
          + (if rr_billed_to_platform routed then en_markup eng (rr_cost_microcents routed) else 0),
        tn_text_parts := tn_text_parts tn @ (if lr_text result \<noteq> [] then [lr_text result] else [])\<rparr>)"

definition add_tool_exchange :: "string \<Rightarrow> tool_call_request list \<Rightarrow> tool_result_part list \<Rightarrow> turn \<Rightarrow> turn" where
  "add_tool_exchange text requested results tn = tn\<lparr>
     tn_tool_call_count := tn_tool_call_count tn + length results,
     tn_conversation := tn_conversation tn
       @ [\<lparr>msg_role = ''assistant'', msg_content = text, msg_tool_calls = requested, msg_tool_results = []\<rparr>,
          \<lparr>msg_role = ''user'', msg_content = [], msg_tool_calls = [], msg_tool_results = results\<rparr>]\<rparr>"

text \<open>\<open>xs[:n]\<close>, where a negative bound counts from the end.\<close>

definition py_take :: "int \<Rightarrow> 'a list \<Rightarrow> 'a list" where
  "py_take n xs = take (nat (if 0 \<le> n then n else int (length xs) + n)) xs"

definition ask_router :: "engine \<Rightarrow> nat \<Rightarrow> llm_call \<Rightarrow> (string list \<times> routed_result res) step" where
  "ask_router eng t call = (\<lambda>s. case router_complete (en_router eng) t call (es_router s) of
     (reply, ro) \<Rightarrow> (Inr reply, s\<lparr>es_router := ro\<rparr>))"

definition llm_complete :: "engine \<Rightarrow> llm_call \<Rightarrow> routed_result step" where
  "llm_complete eng call = ebind (await_point eng) (\<lambda>t.
     ebind (ask_router eng t call) (\<lambda>(chunks, outcome).
       ethen (efor chunks (push_token eng)) (elift outcome)))"

record turn_env =
  te_agent :: agent_spec
  te_step :: nat
  te_instruction :: json
  te_json_mode :: bool
  te_system :: string
  te_tools :: "(string, tool) dict"
  te_specs :: "tool_spec list"

definition complete ::
    "engine \<Rightarrow> turn_env \<Rightarrow> message list \<Rightarrow> tool_spec list \<Rightarrow> bool \<Rightarrow> routed_result step" where
  "complete eng te conversation specs first_call = (
     let call = (\<lambda>msgs stream. \<lparr>lc_model = as_model (te_agent te), lc_system = te_system te, lc_messages = msgs,
           lc_max_tokens = as_max_tokens (te_agent te), lc_effort = as_effort (te_agent te),
           lc_json_mode = te_json_mode te, lc_timeout_seconds = en_step_timeout eng, lc_tools = specs,
           lc_on_token = stream\<rparr>)
     in ecatch (llm_complete eng (call conversation (en_stream_tokens eng))) (\<lambda>e. case e of
          ContextWindowExceeded _ \<Rightarrow>
            ethen (flush_tokens eng)
              (if \<not> first_call then eraise e
               else ebind (user_message eng (te_agent te) (te_instruction te) (Some 40000)) (\<lambda>text.
                      llm_complete eng (call [user_msg text] False)))
        | _ \<Rightarrow> eraise e))"

definition note_exhausted :: "nat \<Rightarrow> unit step" where
  "note_exhausted step = emod (\<lambda>s. s\<lparr>es_run := (es_run s)\<lparr>rs_notes :=
     (let notes = rs_notes (es_run s);
          old = (case dget_or notes ''tool_loops_exhausted'' (JList []) of JList xs \<Rightarrow> xs | _ \<Rightarrow> [])
      in dset ''tool_loops_exhausted'' (JList (old @ [JInt (int step)])) notes)\<rparr>\<rparr>)"

text \<open>\<open>for iteration in range(max_tool_iterations + 1) \<dots> else \<dots>\<close>: \<open>n\<close> iterations are left, the next is \<open>i\<close>.\<close>

fun turn_loop :: "engine \<Rightarrow> turn_env \<Rightarrow> nat \<Rightarrow> nat \<Rightarrow> turn \<Rightarrow> turn step" where
  "turn_loop eng te 0 i tn = ethen (note_exhausted (te_step te)) (eret tn)"
| "turn_loop eng te (Suc n) i tn =
     ethen (if i > 0 then check_budget eng else eret ())
     (ebind (complete eng te (tn_conversation tn)
               (if int i = en_max_tool_iterations eng then [] else te_specs te) (i = 0)) (\<lambda>routed.
      ethen (record_spend (rr_cost_microcents routed)) (
        let tn' = add_reply eng routed tn;
            requested = py_take (en_max_tool_calls_per_turn eng) (lr_tool_calls (rr_result routed)) in
        if lr_tool_calls (rr_result routed) = [] then eret tn'
        else ebind (run_tools eng requested (te_tools te) (te_agent te) (te_step te) (tn_tool_call_count tn'))
               (\<lambda>results. turn_loop eng te n (Suc i)
                  (add_tool_exchange (lr_text (rr_result routed)) requested results tn')))))"

definition jstr_opt :: "string option \<Rightarrow> json" where
  "jstr_opt x = (case x of None \<Rightarrow> JNull | Some s \<Rightarrow> JStr s)"

definition run_turn :: "engine \<Rightarrow> turn_env \<Rightarrow> turn \<Rightarrow> turn step" where
  "run_turn eng te tn =
     ecatch (ebind (turn_loop eng te (nat (en_max_tool_iterations eng + 1)) 0 tn) (\<lambda>tn'.
               ethen (flush_tokens eng) (eret tn')))
       (\<lambda>e. case e of
          RefusalError category _ \<Rightarrow>
            ethen (flush_tokens eng)
            (ethen (emit_event eng STEP_END [(''step'', JInt (int (te_step te))),
                (''agent_name'', JStr (as_name (te_agent te))), (''refused'', JBool True),
                (''category'', jstr_opt category)])
             (eraise e))
        | _ \<Rightarrow> eraise e)"

definition capture_artifacts :: "engine \<Rightarrow> agent_spec \<Rightarrow> string \<Rightarrow> nat \<Rightarrow> unit step" where
  "capture_artifacts eng agent text step = efor (extract_artifacts text) (\<lambda>a.
     ebind (save_artifact eng agent step (ea_path a) (ea_content a) (ea_kind a) (ea_language a)) (\<lambda>version.
     ethen (await_sink eng)
     (emit_event eng ARTIFACT_WRITTEN [(''step'', JInt (int step)), (''path'', JStr (ea_path a)),
        (''version'', JInt (int version)), (''kind'', JStr (ea_kind a)), (''size_bytes'', JInt (int (size_bytes a))),
        (''agent_name'', JStr (as_name agent)), (''via'', JStr ''message'')])))"

definition turn_output :: "turn \<Rightarrow> string" where
  "turn_output tn = join [nl, nl] (filter (\<lambda>p. strip p \<noteq> []) (tn_text_parts tn))"

definition step_record_of :: "turn_env \<Rightarrow> turn \<Rightarrow> int \<Rightarrow> step_record" where
  "step_record_of te tn ms = \<lparr>sr_index = te_step te, sr_agent = te_agent te, sr_instruction = te_instruction te,
     sr_output = turn_output tn, sr_provider = tn_provider tn, sr_tokens_in = tn_tokens_in tn,
     sr_tokens_out = tn_tokens_out tn, sr_cached_tokens = tn_cached tn, sr_reasoning_tokens = tn_reasoning tn,
     sr_cost_microcents = tn_cost tn, sr_billable_microcents = tn_billable tn, sr_latency_ms = ms,
     sr_attempts = tn_attempts tn, sr_stop_reason = tn_stop_reason tn, sr_model_calls = tn_model_calls tn,
     sr_tool_calls = tn_tool_call_count tn\<rparr>"

definition emit_step_end :: "engine \<Rightarrow> step_record \<Rightarrow> unit step" where
  "emit_step_end eng r = ebind (eget es_budget) (\<lambda>b. emit_event eng STEP_END [
     (''step'', JInt (int (sr_index r))), (''agent_id'', JStr (as_id (sr_agent r))),
     (''agent_name'', JStr (as_name (sr_agent r))), (''role'', JStr (as_role (sr_agent r))),
     (''model'', JStr (as_model (sr_agent r))), (''provider'', JStr (sr_provider r)),
     (''tokens_in'', JInt (sr_tokens_in r)), (''tokens_out'', JInt (sr_tokens_out r)),
     (''cached_tokens'', JInt (sr_cached_tokens r)), (''cost_microcents'', JInt (sr_cost_microcents r)),
     (''latency_ms'', JInt (sr_latency_ms r)), (''attempts'', JInt (int (sr_attempts r))),
     (''model_calls'', JInt (int (sr_model_calls r))), (''tool_calls'', JInt (int (sr_tool_calls r))),
     (''spent_microcents'', JInt (spent_microcents b)), (''steps_used'', JInt (steps_used b)),
     (''output'', JStr (sr_output r))])"

definition warn_budget :: "engine \<Rightarrow> unit step" where
  "warn_budget eng = ebind (\<lambda>s. case take_warning (es_budget s) of (w, b) \<Rightarrow> (Inr w, s\<lparr>es_budget := b\<rparr>)) (\<lambda>w.
     if w then ebind (eget es_budget) (\<lambda>b. emit_event eng BUDGET_WARNING
       [(''spent_microcents'', JInt (spent_microcents b)), (''limit_microcents'', JInt (max_cost_microcents b))])
     else eret ())"

definition begin_step :: "nat step" where
  "begin_step = (\<lambda>s. let st = es_run s; i = Suc (step_index st) in
     (Inr i, s\<lparr>es_run := st\<lparr>step_index := i\<rparr>\<rparr>))"

definition emit_step_start :: "engine \<Rightarrow> agent_spec \<Rightarrow> nat \<Rightarrow> json \<Rightarrow> tool list \<Rightarrow> unit step" where
  "emit_step_start eng agent index instruction ts = emit_event eng STEP_START [
     (''step'', JInt (int index)), (''agent_id'', JStr (as_id agent)), (''agent_name'', JStr (as_name agent)),
     (''role'', JStr (as_role agent)), (''model'', JStr (as_model agent)), (''effort'', JStr (as_effort agent)),
     (''instruction'', instruction), (''tools'', JList (map (\<lambda>t. JStr (tool_name t)) ts))]"

definition finish_turn :: "engine \<Rightarrow> turn_env \<Rightarrow> string list option \<Rightarrow> nat \<Rightarrow> turn \<Rightarrow> string step" where
  "finish_turn eng te private_to t0 tn =
     ebind tick (\<lambda>t1.
       let r = step_record_of te tn (elapsed_ms (en_perf_counter eng t0) (en_perf_counter eng t1));
           output = turn_output tn in
       ethen (emod (\<lambda>s. s\<lparr>es_run := append_entry (es_run s) (te_agent te) output private_to\<rparr>))
       (ethen (capture_artifacts eng (te_agent te) output (te_step te))
       (ethen (sink_step eng r)
       (ethen (emit_step_end eng r)
       (ethen (warn_budget eng)
       (eret output))))))"

text \<open>What follows the increment of the step index, as the turn number \<open>index\<close>.\<close>

definition turn_body ::
    "engine \<Rightarrow> agent_spec \<Rightarrow> json \<Rightarrow> bool \<Rightarrow> string list option \<Rightarrow> tool list option \<Rightarrow> nat \<Rightarrow> string step" where
  "turn_body eng agent instruction json_mode private_to tools index = (
       let requested = (case tools of None \<Rightarrow> en_tool_resolver eng agent | Some ts \<Rightarrow> ts);
           active = (if json_mode then [] else requested);
           te = \<lparr>te_agent = agent, te_step = index, te_instruction = instruction, te_json_mode = json_mode,
                 te_system = system_prompt agent active, te_tools = dict_of (map (\<lambda>t. (tool_name t, t)) active),
                 te_specs = schemas active\<rparr> in
       ethen (emit_step_start eng agent index instruction active)
       (ebind (user_message eng agent instruction None) (\<lambda>text.
        ethen (emod (\<lambda>s. s\<lparr>es_buffer := new_token_buffer index\<rparr>))
        (ebind tick (\<lambda>t0.
         ebind (run_turn eng te (new_turn text)) (finish_turn eng te private_to t0))))))"

definition call_agent ::
    "engine \<Rightarrow> agent_spec \<Rightarrow> json \<Rightarrow> bool \<Rightarrow> string list option \<Rightarrow> tool list option \<Rightarrow> string step" where
  "call_agent eng agent instruction json_mode private_to tools =
     ethen (check_budget eng) (ebind begin_step (turn_body eng agent instruction json_mode private_to tools))"

text \<open>\<open>call_agent_json\<close>: \<open>n\<close> attempts are left; \<open>prompt\<close> is what the next one asks.\<close>

definition missing_keys :: "string list \<Rightarrow> jobj \<Rightarrow> string list" where
  "missing_keys required parsed = filter (\<lambda>k. dget parsed k = None) required"

definition parse_reply :: "string list \<Rightarrow> string \<Rightarrow> jobj res" where
  "parse_reply required raw = rbind (extract_json raw) (\<lambda>parsed.
     if missing_keys required parsed \<noteq> []
     then Inl (ValueError (''missing required key(s): '' @ join '', '' (missing_keys required parsed)))
     else Inr parsed)"

definition reprompt :: "json \<Rightarrow> string \<Rightarrow> json" where
  "reprompt instruction err = JStr (j_str instruction @ [nl, nl]
     @ ''Your previous reply could not be parsed: '' @ err
     @ ''. Reply with a single valid JSON object and nothing else '' @ [sub_char] @ '' no prose, no code fence.'')"

fun json_attempts ::
    "engine \<Rightarrow> agent_spec \<Rightarrow> json \<Rightarrow> string list \<Rightarrow> nat \<Rightarrow> json \<Rightarrow> jobj step" where
  "json_attempts eng agent instruction required 0 prompt =
     eraise (ValueError (''agent '' @ as_name agent @ '' did not return usable JSON: ''))"
| "json_attempts eng agent instruction required (Suc n) prompt =
     ebind (call_agent eng agent prompt True None None) (\<lambda>raw.
       case parse_reply required raw of
         Inr parsed \<Rightarrow> eret parsed
       | Inl e \<Rightarrow> (case as_value_error e of
             None \<Rightarrow> eraise e
           | Some err \<Rightarrow>
               if n = 0 then eraise (ValueError (''agent '' @ as_name agent @ '' did not return usable JSON: '' @ err))
               else json_attempts eng agent instruction required n (reprompt instruction err)))"

definition call_agent_json :: "engine \<Rightarrow> agent_spec \<Rightarrow> json \<Rightarrow> string list \<Rightarrow> nat \<Rightarrow> jobj step" where
  "call_agent_json eng agent instruction required retries =
     json_attempts eng agent instruction required (retries + 1) instruction"

end
