(* ===== verification/Presets.thy ===== *)
theory Presets
  imports Engine
begin

text \<open>
  \<^verbatim>\<open>core/orchestration/presets.py\<close>: the six topologies, their validators and the registry. A graph is
  the JSON object stored with the workflow, read the way the code reads it: membership and lookup
  through hashing (an unhashable value raises \<open>TypeError\<close>), iteration over whatever is iterable,
  \<open>get\<close> on whatever is a dictionary.
\<close>

type_synonym agent_map = "(string, agent_spec) dict"

subsection \<open>Reading a graph\<close>

definition config_err :: "config_error \<Rightarrow> exn + 'a" where
  "config_err e = Inl (WorkflowConfigError e)"

definition require_key :: "jobj \<Rightarrow> string \<Rightarrow> json res" where
  "require_key graph key = (let value = jget graph key in
     if value \<in> {JNull, JStr [], JList [], JObj []} then config_err (MissingKey key) else Inr value)"

definition find_agent :: "agent_map \<Rightarrow> json \<Rightarrow> string \<Rightarrow> agent_spec res" where
  "find_agent agents v what = (case hash_key v of
     None \<Rightarrow> Inl TypeError
   | Some k \<Rightarrow> (case as_str v of
        None \<Rightarrow> config_err (UnknownAgent what v)
      | Some s \<Rightarrow> (case dget agents s of None \<Rightarrow> config_err (UnknownAgent what v) | Some a \<Rightarrow> Inr a)))"

definition bounded :: "json \<Rightarrow> int \<Rightarrow> int \<Rightarrow> int \<Rightarrow> string \<Rightarrow> int res" where
  "bounded value dflt low high name = (
     case (if value = JNull then Inr dflt else py_int value) of
       Inl _ \<Rightarrow> config_err (NotAnInteger name)
     | Inr number \<Rightarrow> if low \<le> number \<and> number \<le> high then Inr number
                     else config_err (OutOfRange name low high))"

text \<open>\<open>for x in v\<close>, \<open>v.get(k)\<close>, \<open>v[k]\<close>.\<close>

fun iter_values :: "json \<Rightarrow> json list res" where
  "iter_values (JList xs) = Inr xs"
| "iter_values (JStr s) = Inr (map (\<lambda>c. JStr [c]) s)"
| "iter_values (JObj d) = Inr (map (\<lambda>kv. JStr (fst kv)) d)"
| "iter_values _ = Inl TypeError"

definition as_obj :: "json \<Rightarrow> jobj option" where
  "as_obj v = (case v of JObj d \<Rightarrow> Some d | _ \<Rightarrow> None)"

definition obj_get :: "json \<Rightarrow> string \<Rightarrow> json res" where
  "obj_get v k = (case as_obj v of Some d \<Rightarrow> Inr (jget d k) | None \<Rightarrow> Inl AttributeError)"

definition subscript :: "json \<Rightarrow> string \<Rightarrow> json res" where
  "subscript v k = (case as_obj v of
     Some d \<Rightarrow> (case dget d k of Some x \<Rightarrow> Inr x | None \<Rightarrow> Inl KeyError) | None \<Rightarrow> Inl TypeError)"

definition or_else :: "json \<Rightarrow> json \<Rightarrow> json" where
  "or_else v w = (if truthy v then v else w)"

definition hashed :: "json \<Rightarrow> hkey res" where
  "hashed v = (case hash_key v of Some k \<Rightarrow> Inr k | None \<Rightarrow> Inl TypeError)"

text \<open>\<open>{wid: _agent(agents, wid, what=...) for wid in ids}\<close>.\<close>

definition agent_dict :: "agent_map \<Rightarrow> json \<Rightarrow> string \<Rightarrow> agent_map res" where
  "agent_dict agents ids what = rbind (iter_values ids) (\<lambda>vs.
     rbind (rmap (\<lambda>v. rbind (find_agent agents v what) (\<lambda>a. Inr (j_str v, a))) vs) (\<lambda>ps. Inr (dict_of ps)))"

definition roster_of :: "agent_map \<Rightarrow> string" where
  "roster_of ws = join [nl] (map (\<lambda>(wid, w). ''- '' @ wid @ '': '' @ as_name w @ '' '' @ [sub_char] @ '' '' @ as_role w) ws)"

definition set_final :: "string \<Rightarrow> unit step" where
  "set_final out = emod (\<lambda>s. s\<lparr>es_run := (es_run s)\<lparr>final_output := Some out\<rparr>\<rparr>)"

definition set_note :: "string \<Rightarrow> json \<Rightarrow> unit step" where
  "set_note k v = emod (\<lambda>s. s\<lparr>es_run := (es_run s)\<lparr>rs_notes := dset k v (rs_notes (es_run s))\<rparr>\<rparr>)"

definition final_from_board :: "unit step" where
  "final_from_board = ebind (eget (\<lambda>s. last_output (es_run s))) set_final"

definition agent_says :: "engine \<Rightarrow> agent_spec \<Rightarrow> json \<Rightarrow> string step" where
  "agent_says eng agent ins = call_agent eng agent ins False None None"

subsection \<open>Pipeline\<close>

definition DEFAULT_FIRST :: string where
  "DEFAULT_FIRST = ''Start the work. Produce the deliverable for your role.''"

definition DEFAULT_NEXT :: string where
  "DEFAULT_NEXT = ''Take the previous agent's output and do your part of the job. If you find problems, fix them and say what you changed and why.''"

definition pipeline_node :: "engine \<Rightarrow> agent_map \<Rightarrow> nat \<times> json \<Rightarrow> unit step" where
  "pipeline_node eng agents = (\<lambda>(position, node).
     ebind (elift (rbind (obj_get node ''agent_id'') (\<lambda>aid.
       find_agent agents aid (''pipeline node #'' @ str_of_nat position)))) (\<lambda>agent.
     ebind (elift (obj_get node ''instruction'')) (\<lambda>ins.
     ebind (agent_says eng agent (or_else ins (JStr (if position = 0 then DEFAULT_FIRST else DEFAULT_NEXT))))
       (\<lambda>_. eret ()))))"

definition run_pipeline :: "engine \<Rightarrow> jobj \<Rightarrow> agent_map \<Rightarrow> unit step" where
  "run_pipeline eng graph agents =
     ebind (elift (rbind (require_key graph ''nodes'') iter_values)) (\<lambda>nodes.
     ethen (efor (enumerate 0 nodes) (pipeline_node eng agents)) final_from_board)"

definition validate_pipeline :: "jobj \<Rightarrow> json list res" where
  "validate_pipeline graph = rbind (require_key graph ''nodes'') (\<lambda>nodes. case nodes of
     JList ns \<Rightarrow> rmap (\<lambda>(position, node). case as_obj node of
         None \<Rightarrow> config_err (NodeNeedsAgent position)
       | Some d \<Rightarrow> if truthy (jget d ''agent_id'') then Inr (jget d ''agent_id'')
                   else config_err (NodeNeedsAgent position)) (enumerate 0 ns)
   | _ \<Rightarrow> config_err (NotAList ''pipeline `nodes`''))"

subsection \<open>Supervisor\<close>

definition SUPERVISOR_PROMPT :: "string \<Rightarrow> string" where
  "SUPERVISOR_PROMPT roster = join [nl] [
     ''Decide the team's next action.'', [], ''Workers you can delegate to:'', roster, [],
     ''Reply with one JSON object and nothing else:'',
     ''  {'' @ [dquote] @ ''action'' @ [dquote] @ '': '' @ [dquote] @ ''delegate'' @ [dquote] @ '', '' @ [dquote] @ ''worker''
       @ [dquote] @ '': '' @ [dquote] @ ''<worker id>'' @ [dquote] @ '', '' @ [dquote] @ ''task'' @ [dquote] @ '': ''
       @ [dquote] @ ''<precise instruction>'' @ [dquote] @ ''}'',
     ''  {'' @ [dquote] @ ''action'' @ [dquote] @ '': '' @ [dquote] @ ''finish'' @ [dquote] @ '', '' @ [dquote] @ ''answer''
       @ [dquote] @ '': '' @ [dquote] @ ''<the complete final answer for the user>'' @ [dquote] @ ''}'', [],
     ''Delegate only when a worker can make real progress; give them everything they'',
     ''need in `task`, since they cannot ask you follow-up questions. Finish as soon as'',
     ''the original request is fully satisfied '' @ [sub_char] @ '' do not delegate busywork.'']"

definition SUPERVISOR_SPENT :: string where
  "SUPERVISOR_SPENT = ''The round budget is spent. Write the final answer for the user from what is on the board. Do not delegate further. If the task is incomplete, say plainly what is missing.''"

definition routing_error :: "string \<Rightarrow> agent_map \<Rightarrow> string" where
  "routing_error worker_id workers = ''(routing error: '' @ py_repr worker_id
     @ '' is not a valid worker id; valid ids are '' @ j_repr (JList (map JStr (sort (map fst workers)))) @ '')''"

fun supervisor_loop :: "engine \<Rightarrow> agent_spec \<Rightarrow> agent_map \<Rightarrow> nat \<Rightarrow> unit step" where
  "supervisor_loop eng mgr workers 0 =
     ethen (set_note ''exhausted'' (JStr ''supervisor round budget''))
       (ebind (agent_says eng mgr (JStr SUPERVISOR_SPENT)) set_final)"
| "supervisor_loop eng mgr workers (Suc n) =
     ebind (call_agent_json eng mgr (JStr (SUPERVISOR_PROMPT (roster_of workers))) [''action''] 1) (\<lambda>decision.
       if lower (j_str (dget_or decision ''action'' (JStr []))) = ''finish'' then
         ebind (eget (\<lambda>s. last_output (es_run s))) (\<lambda>lo.
           set_final (j_str (or_else (jget decision ''answer'') (JStr lo))))
       else
         let worker_id = j_str (dget_or decision ''worker'' (JStr [])) in
         case dget workers worker_id of
           None \<Rightarrow>
             ethen (emod (\<lambda>s. s\<lparr>es_run := append_entry (es_run s) mgr (routing_error worker_id workers) None\<rparr>))
               (supervisor_loop eng mgr workers n)
         | Some w \<Rightarrow>
             ebind (agent_says eng w (JStr (j_str (or_else (jget decision ''task'') (JStr ''Continue the work.'')))))
               (\<lambda>_. supervisor_loop eng mgr workers n))"

definition run_supervisor :: "engine \<Rightarrow> jobj \<Rightarrow> agent_map \<Rightarrow> unit step" where
  "run_supervisor eng graph agents =
     ebind (elift (rbind (require_key graph ''supervisor_agent_id'') (\<lambda>v. find_agent agents v ''supervisor_agent_id''))) (\<lambda>mgr.
     ebind (elift (rbind (require_key graph ''workers'') (\<lambda>v. agent_dict agents v ''supervisor worker''))) (\<lambda>workers.
     ebind (elift (bounded (jget graph ''max_rounds'') 6 1 30 ''max_rounds'')) (\<lambda>max_rounds.
       supervisor_loop eng mgr workers (nat max_rounds))))"

definition validate_team :: "jobj \<Rightarrow> string \<Rightarrow> string \<Rightarrow> string \<Rightarrow> string \<Rightarrow> int \<Rightarrow> int \<Rightarrow> json list res" where
  "validate_team graph preset lead team limit dflt high =
     rbind (require_key graph lead) (\<lambda>l.
     rbind (require_key graph team) (\<lambda>ts. case ts of
       JList ws \<Rightarrow> rbind (bounded (jget graph limit) dflt 1 high limit) (\<lambda>_. Inr (l # ws))
     | _ \<Rightarrow> config_err (NotAList (preset @ '' `'' @ team @ ''`''))))"

definition validate_supervisor :: "jobj \<Rightarrow> json list res" where
  "validate_supervisor graph = validate_team graph ''supervisor'' ''supervisor_agent_id'' ''workers'' ''max_rounds'' 6 30"

subsection \<open>Debate\<close>

definition DEBATE_FIRST :: string where
  "DEBATE_FIRST = ''Give your answer to the original request, with the reasoning that supports it. Be specific enough to be checked.''"

definition DEBATE_NEXT :: string where
  "DEBATE_NEXT = ''Read the other positions on the board. Attack the weakest point you can actually justify, then restate your own position ''
     @ [sub_char] @ '' revised if they changed your mind.''"

definition JUDGE_PROMPT :: string where
  "JUDGE_PROMPT = ''You are the judge. Weigh the positions on the board and write the single best answer for the user. Name briefly which argument decided it and why the others fell short.''"

definition run_debate :: "engine \<Rightarrow> jobj \<Rightarrow> agent_map \<Rightarrow> unit step" where
  "run_debate eng graph agents =
     ebind (elift (rbind (require_key graph ''debaters'') (\<lambda>v. rbind (iter_values v)
        (rmap (\<lambda>d. find_agent agents d ''debater''))))) (\<lambda>debaters.
     ebind (elift (rbind (require_key graph ''judge_agent_id'') (\<lambda>v. find_agent agents v ''judge_agent_id''))) (\<lambda>judge.
     ebind (elift (bounded (jget graph ''rounds'') 2 1 6 ''rounds'')) (\<lambda>rounds.
     ethen (efor [0..<nat rounds] (\<lambda>round_no. efor debaters (\<lambda>debater.
              ebind (agent_says eng debater (JStr (if round_no = 0 then DEBATE_FIRST else DEBATE_NEXT))) (\<lambda>_. eret ()))))
       (ebind (agent_says eng judge (JStr JUDGE_PROMPT)) set_final))))"

definition validate_debate :: "jobj \<Rightarrow> json list res" where
  "validate_debate graph =
     rbind (require_key graph ''debaters'') (\<lambda>ds.
     rbind (require_key graph ''judge_agent_id'') (\<lambda>judge. case ds of
       JList xs \<Rightarrow> if length xs < 2 then config_err TooFewDebaters
                   else rbind (bounded (jget graph ''rounds'') 2 1 6 ''rounds'') (\<lambda>_. Inr (xs @ [judge]))
     | _ \<Rightarrow> config_err TooFewDebaters))"

subsection \<open>Blackboard\<close>

definition PLANNER_PROMPT :: "string \<Rightarrow> int \<Rightarrow> string" where
  "PLANNER_PROMPT roster max_tasks = (let q = (\<lambda>s. [dquote] @ s @ [dquote]) in join [nl] [
     ''Break the request into independent tasks for the team.'', [], ''Available workers:'', roster, [],
     ''Reply with one JSON object and nothing else:'',
     ''  {'' @ q ''tasks'' @ '': ['',
     ''      {'' @ q ''id'' @ '': '' @ q ''t1'' @ '', '' @ q ''title'' @ '': '' @ q ''...'' @ '', '' @ q ''worker'' @ '': ''
       @ q ''<worker id>'' @ '', '' @ q ''depends_on'' @ '': []},'',
     ''      ...'', ''  ]}'', [],
     ''Rules: at most '' @ str_of_int max_tasks @ '' tasks; `depends_on` lists ids of tasks that must'',
     ''finish first; assign each task to the worker whose role fits it. Prefer few'',
     ''substantial tasks over many trivial ones.''])"

definition SYNTHESIS_PROMPT :: string where
  "SYNTHESIS_PROMPT = ''Every task is done. Write the final answer for the user, drawing on the whole'' @ [nl]
     @ ''board. Do not summarise the process '' @ [sub_char] @ '' deliver the result.''"

record task =
  tk_id :: string
  tk_title :: string
  tk_worker :: string
  tk_depends_on :: "string list"

text \<open>The loop over the raw items: \<open>position\<close>, the ids seen, in order.\<close>

fun collect_tasks :: "agent_map \<Rightarrow> string \<Rightarrow> nat \<Rightarrow> string list \<Rightarrow> json list \<Rightarrow> task list res" where
  "collect_tasks workers fallback position seen [] = Inr []"
| "collect_tasks workers fallback position seen (raw # items) = (case as_obj raw of
     None \<Rightarrow> collect_tasks workers fallback (Suc position) seen items
   | Some item \<Rightarrow>
       let task_id = j_str (or_else (jget item ''id'') (JStr (''t'' @ str_of_nat (Suc position)))) in
       if task_id \<in> set seen then collect_tasks workers fallback (Suc position) seen items
       else
         let w = j_str (or_else (jget item ''worker'') (JStr []));
             worker = (if dget workers w = None then fallback else w) in
         rbind (iter_values (or_else (jget item ''depends_on'') (JList []))) (\<lambda>ds.
         rbind (collect_tasks workers fallback (Suc position) (task_id # seen) items) (\<lambda>ts.
           Inr (\<lparr>tk_id = task_id, tk_title = j_str (or_else (jget item ''title'') (JStr ''Untitled task'')),
                 tk_worker = worker,
                 tk_depends_on = map j_str (filter (\<lambda>d. case d of JStr _ \<Rightarrow> True | JInt _ \<Rightarrow> True | JBool _ \<Rightarrow> True
                   | _ \<Rightarrow> False) ds)\<rparr> # ts))))"

definition drop_unknown :: "task list \<Rightarrow> task list" where
  "drop_unknown tasks = map (\<lambda>t. t\<lparr>tk_depends_on := filter (\<lambda>d. d \<in> tk_id ` set tasks \<and> d \<noteq> tk_id t)
     (tk_depends_on t)\<rparr>) tasks"

definition normalise_tasks :: "json \<Rightarrow> agent_map \<Rightarrow> int \<Rightarrow> task list res" where
  "normalise_tasks raw workers max_tasks = (case raw of
     JList items \<Rightarrow> (case workers of
        [] \<Rightarrow> Inl (OtherError ''RuntimeError'')
      | (fallback, _) # _ \<Rightarrow>
          rbind (collect_tasks workers fallback 0 [] (py_take max_tasks items)) (\<lambda>ts. Inr (drop_unknown ts)))
   | _ \<Rightarrow> Inr [])"

definition task_json :: "task \<Rightarrow> json" where
  "task_json t = JObj [(''id'', JStr (tk_id t)), (''title'', JStr (tk_title t)), (''worker'', JStr (tk_worker t)),
     (''depends_on'', JList (map JStr (tk_depends_on t)))]"

definition task_prompt :: "task \<Rightarrow> string" where
  "task_prompt t = ''Task '' @ tk_id t @ '': '' @ tk_title t @ [nl, nl]
     @ ''Complete this task and nothing else. Other agents are handling the remaining tasks in parallel.''"

definition run_task :: "engine \<Rightarrow> agent_map \<Rightarrow> task \<Rightarrow> unit step" where
  "run_task eng workers t = (case dget workers (tk_worker t) of
     None \<Rightarrow> eraise KeyError
   | Some w \<Rightarrow> ebind (agent_says eng w (JStr (task_prompt t))) (\<lambda>_. eret ()))"

definition ready_tasks :: "string list \<Rightarrow> task list \<Rightarrow> task list" where
  "ready_tasks finished pending = (
     let ready = filter (\<lambda>t. set (tk_depends_on t) \<subseteq> set finished) pending
     in if ready = [] then take 1 pending else ready)"

lemma ready_tasks_subset: "set (ready_tasks finished pending) \<subseteq> set pending"
  by (auto simp: ready_tasks_def Let_def dest: in_set_takeD)

lemma ready_tasks_ne: "pending \<noteq> [] \<Longrightarrow> ready_tasks finished pending \<noteq> []"
  by (cases pending) (auto simp: ready_tasks_def Let_def)

lemma length_fold_remove1_le: "length (fold remove1 xs ys) \<le> length ys"
proof (induction xs arbitrary: ys)
  case (Cons x xs)
  from Cons.IH [of "remove1 x ys"] show ?case by (simp add: length_remove1 split: if_splits)
qed simp

lemma rounds_decrease:
  "pending \<noteq> [] \<Longrightarrow> length (fold remove1 (ready_tasks finished pending) pending) < length pending"
proof -
  assume ne: "pending \<noteq> []"
  obtain t ts where r: "ready_tasks finished pending = t # ts" using ready_tasks_ne [OF ne] by (cases "ready_tasks finished pending") auto
  have "t \<in> set pending" using ready_tasks_subset [of finished pending] r by auto
  then have "length (remove1 t pending) < length pending"
    by (simp add: length_remove1) (metis Suc_pred length_pos_if_in_set lessI)
  then show ?thesis using length_fold_remove1_le [of ts "remove1 t pending"] by (simp add: r)
qed

function blackboard_loop :: "engine \<Rightarrow> agent_map \<Rightarrow> string list \<Rightarrow> task list \<Rightarrow> unit step" where
  "blackboard_loop eng workers finished pending = (
     if pending = [] then eret ()
     else let ready = ready_tasks finished pending in
       ethen (efor ready (run_task eng workers))
         (blackboard_loop eng workers (finished @ map tk_id ready) (fold remove1 ready pending)))"
  by pat_completeness auto
termination
  by (relation "measure (\<lambda>(eng, workers, finished, pending). length pending)") (auto simp: rounds_decrease)

declare blackboard_loop.simps [simp del]

definition run_blackboard :: "engine \<Rightarrow> jobj \<Rightarrow> agent_map \<Rightarrow> unit step" where
  "run_blackboard eng graph agents =
     ebind (elift (rbind (require_key graph ''planner_agent_id'') (\<lambda>v. find_agent agents v ''planner_agent_id''))) (\<lambda>planner.
     ebind (elift (rbind (require_key graph ''workers'') (\<lambda>v. agent_dict agents v ''blackboard worker''))) (\<lambda>workers.
     ebind (elift (bounded (jget graph ''max_tasks'') 8 1 25 ''max_tasks'')) (\<lambda>max_tasks.
     ebind (call_agent_json eng planner (JStr (PLANNER_PROMPT (roster_of workers) max_tasks)) [''tasks''] 1) (\<lambda>plan.
     ebind (elift (normalise_tasks (jget plan ''tasks'') workers max_tasks)) (\<lambda>tasks.
       if tasks = [] then eraise (WorkflowConfigError NoUsableTasks)
       else
         ethen (set_note ''tasks'' (JList (map task_json tasks)))
         (ethen (blackboard_loop eng workers [] tasks)
         (ebind (agent_says eng planner (JStr SYNTHESIS_PROMPT)) set_final)))))))"

definition validate_blackboard :: "jobj \<Rightarrow> json list res" where
  "validate_blackboard graph = validate_team graph ''blackboard'' ''planner_agent_id'' ''workers'' ''max_tasks'' 8 25"

subsection \<open>Swarm\<close>

definition SWARM_PROMPT :: "string \<Rightarrow> string" where
  "SWARM_PROMPT roster = (let q = (\<lambda>s. [dquote] @ s @ [dquote]) in join [nl] [
     ''Do your part of the work, then decide what happens next.'', [], ''Agents you can hand off to:'', roster, [],
     ''Reply with one JSON object and nothing else:'',
     ''  {'' @ q ''work'' @ '': '' @ q ''<your contribution, in full>'' @ '','',
     ''    '' @ q ''handoff_to'' @ '': '' @ q ''<agent id>'' @ '' or null,'',
     ''    '' @ q ''reason'' @ '': '' @ q ''<why you are handing off, or why the work is complete>'' @ ''}'', [],
     ''Set `handoff_to` to null only when the original request is fully answered. Never'',
     ''hand off to yourself.''])"

definition SWARM_SPENT :: string where
  "SWARM_SPENT = ''The hand-off budget is spent. Write the final answer for the user from what is on the board. Do not hand off. If the task is incomplete, say plainly what is missing.''"

definition finish_swarm :: "jobj \<Rightarrow> string list \<Rightarrow> unit step" where
  "finish_swarm decision visits = ebind (eget (\<lambda>s. last_output (es_run s))) (\<lambda>lo.
     ethen (set_final (j_str (or_else (jget decision ''work'') (JStr lo))))
       (set_note ''path'' (JList (map JStr visits))))"

fun swarm_loop :: "engine \<Rightarrow> agent_map \<Rightarrow> nat \<Rightarrow> agent_spec \<Rightarrow> string list \<Rightarrow> unit step" where
  "swarm_loop eng swarm 0 current visits =
     ethen (set_note ''exhausted'' (JStr ''swarm hop budget''))
     (ethen (set_note ''path'' (JList (map JStr visits)))
     (ebind (agent_says eng current (JStr SWARM_SPENT)) set_final))"
| "swarm_loop eng swarm (Suc n) current visits =
     ebind (call_agent_json eng current
         (JStr (SWARM_PROMPT (roster_of (filter (\<lambda>(aid, a). aid \<noteq> as_id current) swarm)))) [''work''] 1) (\<lambda>decision.
       let visits' = visits @ [as_id current]; nxt = jget decision ''handoff_to''; next_id = j_str nxt in
       if \<not> truthy nxt then finish_swarm decision visits'
       else case (if next_id = as_id current then None else dget swarm next_id) of
         None \<Rightarrow> ethen (finish_swarm decision visits') (set_note ''invalid_handoff'' (JStr next_id))
       | Some a \<Rightarrow> swarm_loop eng swarm n a visits')"

definition run_swarm :: "engine \<Rightarrow> jobj \<Rightarrow> agent_map \<Rightarrow> unit step" where
  "run_swarm eng graph agents =
     ebind (elift (rbind (require_key graph ''entry_agent_id'') (\<lambda>v. find_agent agents v ''entry_agent_id''))) (\<lambda>entry.
     ebind (elift (rbind (require_key graph ''agents'') (\<lambda>v. agent_dict agents v ''swarm agent''))) (\<lambda>roster.
       let swarm = (if dget roster (as_id entry) = None then dset (as_id entry) entry roster else roster) in
     ebind (elift (bounded (jget graph ''max_hops'') 8 1 30 ''max_hops'')) (\<lambda>max_hops.
       swarm_loop eng swarm (nat max_hops) entry [])))"

definition validate_swarm :: "jobj \<Rightarrow> json list res" where
  "validate_swarm graph = validate_team graph ''swarm'' ''entry_agent_id'' ''agents'' ''max_hops'' 8 30"

subsection \<open>Custom graph\<close>

definition ROUTER_PROMPT :: "string \<Rightarrow> string" where
  "ROUTER_PROMPT options = (let q = (\<lambda>s. [dquote] @ s @ [dquote]) in join [nl] [
     ''Choose the next step.'', [], ''Options:'', options, [],
     ''Reply with one JSON object and nothing else:'',
     ''  {'' @ q ''next'' @ '': '' @ q ''<option id>'' @ '', '' @ q ''reason'' @ '': '' @ q ''<one sentence>'' @ ''}'', [],
     ''Pick '' @ q ''end'' @ '' only when the original request is fully answered.''])"

record custom_graph =
  cg_nodes :: "(hkey, jobj) dict"
  cg_outgoing :: "(hkey, json list) dict"

definition node_entry :: "json \<Rightarrow> (hkey \<times> jobj) res" where
  "node_entry node = rbind (subscript node ''id'') (\<lambda>i. rbind (hashed i) (\<lambda>k.
     case as_obj node of Some d \<Rightarrow> Inr (k, d) | None \<Rightarrow> Inl TypeError))"

fun add_edges :: "json list \<Rightarrow> (hkey, json list) dict \<Rightarrow> (hkey, json list) dict res" where
  "add_edges [] d = Inr d"
| "add_edges (e # es) d = rbind (subscript e ''from'') (\<lambda>f. rbind (hashed f) (\<lambda>k.
     rbind (subscript e ''to'') (\<lambda>t. add_edges es (dset k (dget_or d k [] @ [t]) d))))"

definition load_graph :: "jobj \<Rightarrow> custom_graph res" where
  "load_graph graph =
     rbind (rbind (require_key graph ''nodes'') iter_values) (\<lambda>nodes.
     rbind (rmap node_entry nodes) (\<lambda>entries.
     rbind (iter_values (or_else (jget graph ''edges'') (JList []))) (\<lambda>edges.
     rbind (add_edges edges []) (\<lambda>out. Inr \<lparr>cg_nodes = dict_of entries, cg_outgoing = out\<rparr>))))"

definition get_node :: "custom_graph \<Rightarrow> json \<Rightarrow> jobj option res" where
  "get_node g v = rbind (hashed v) (\<lambda>k. Inr (dget (cg_nodes g) k))"

definition describe_node :: "jobj option \<Rightarrow> agent_map \<Rightarrow> string res" where
  "describe_node node agents = (case node of
     None \<Rightarrow> Inr ''unknown node''
   | Some d \<Rightarrow>
       rbind (hashed (dget_or d ''agent_id'' (JStr []))) (\<lambda>_.
         let agent = (case as_str (dget_or d ''agent_id'' (JStr [])) of None \<Rightarrow> None | Some s \<Rightarrow> dget agents s);
             fallback = (case agent of Some a \<Rightarrow> JStr (as_name a @ '' ('' @ as_role a @ '')'') | None \<Rightarrow> jget d ''type'')
         in Inr (j_str (or_else (jget d ''label'') fallback))))"

definition describe_options :: "custom_graph \<Rightarrow> agent_map \<Rightarrow> json list \<Rightarrow> string res" where
  "describe_options g agents targets =
     rbind (rmap (\<lambda>t. rbind (get_node g t) (\<lambda>n. rbind (describe_node n agents) (\<lambda>d.
       Inr (''- '' @ j_str t @ '': '' @ d)))) targets) (\<lambda>ls. Inr (join [nl] ls))"

definition choose_next :: "json list \<Rightarrow> string \<Rightarrow> json" where
  "choose_next targets chosen =
     (if JStr chosen \<in> set targets \<or> chosen = ''end'' then JStr chosen else hd targets)"

text \<open>What one visit decides: stop, or go on at a node.\<close>

definition custom_visit :: "engine \<Rightarrow> custom_graph \<Rightarrow> agent_map \<Rightarrow> json \<Rightarrow> jobj \<Rightarrow> json option step" where
  "custom_visit eng g agents current node = (
     let node_type = dget_or node ''type'' (JStr ''agent'') in
     if node_type = JStr ''end'' then eret None
     else
       ebind (elift (find_agent agents (jget node ''agent_id'') (''node '' @ j_repr current))) (\<lambda>agent.
       ebind (elift (hashed current)) (\<lambda>k.
         let targets = dget_or (cg_outgoing g) k [] in
         if node_type = JStr ''router'' then
           if targets = [] then eraise (WorkflowConfigError (RouterNoEdges current))
           else
             ebind (elift (describe_options g agents targets)) (\<lambda>options.
             ebind (call_agent_json eng agent (or_else (jget node ''instruction'')
                 (JStr (ROUTER_PROMPT (options @ [nl] @ ''- end: finish the run'')))) [''next''] 1) (\<lambda>decision.
               eret (Some (choose_next targets (j_str (dget_or decision ''next'' (JStr [])))))))
         else
           ebind (agent_says eng agent (or_else (jget node ''instruction'') (JStr DEFAULT_NEXT))) (\<lambda>_.
             eret (case targets of [] \<Rightarrow> None | t # _ \<Rightarrow> Some t)))))"

fun custom_loop :: "engine \<Rightarrow> custom_graph \<Rightarrow> agent_map \<Rightarrow> nat \<Rightarrow> json \<Rightarrow> json list \<Rightarrow> json list step" where
  "custom_loop eng g agents 0 current path =
     ethen (set_note ''exhausted'' (JStr ''custom graph hop budget'')) (eret path)"
| "custom_loop eng g agents (Suc n) current path = (
     if current = JStr ''end'' then eret path
     else ebind (elift (get_node g current)) (\<lambda>found. case found of
       None \<Rightarrow> eraise (WorkflowConfigError (UnknownNode current))
     | Some node \<Rightarrow> ebind (custom_visit eng g agents current node) (\<lambda>nxt. case nxt of
           None \<Rightarrow> eret (path @ [current])
         | Some c \<Rightarrow> custom_loop eng g agents n c (path @ [current]))))"

definition run_custom :: "engine \<Rightarrow> jobj \<Rightarrow> agent_map \<Rightarrow> unit step" where
  "run_custom eng graph agents =
     ebind (elift (load_graph graph)) (\<lambda>g.
     ebind (elift (require_key graph ''start'')) (\<lambda>start.
     ebind (elift (bounded (jget graph ''max_hops'') 20 1 60 ''max_hops'')) (\<lambda>max_hops.
     ebind (custom_loop eng g agents (nat max_hops) (JStr (j_str start)) []) (\<lambda>path.
     ethen (set_note ''path'' (JList path)) final_from_board))))"

text \<open>The validator's loop over the nodes: position, ids seen, agent ids collected.\<close>

fun check_nodes :: "nat \<Rightarrow> hkey list \<Rightarrow> json list \<Rightarrow> json list \<Rightarrow> (hkey list \<times> json list) res" where
  "check_nodes position ids aids [] = Inr (ids, aids)"
| "check_nodes position ids aids (node # nodes) = (case as_obj node of
     None \<Rightarrow> config_err (NodeNeedsId position)
   | Some d \<Rightarrow>
       if \<not> truthy (jget d ''id'') then config_err (NodeNeedsId position)
       else rbind (hashed (jget d ''id'')) (\<lambda>k.
         if k \<in> set ids then config_err (DuplicateNode (jget d ''id''))
         else if dget_or d ''type'' (JStr ''agent'') \<in> {JStr ''agent'', JStr ''router''} then
           if \<not> truthy (jget d ''agent_id'') then config_err (NodeWithoutAgent (jget d ''id''))
           else check_nodes (Suc position) (ids @ [k]) (aids @ [jget d ''agent_id'']) nodes
         else check_nodes (Suc position) (ids @ [k]) aids nodes))"

definition check_edge :: "hkey list \<Rightarrow> json \<Rightarrow> unit res" where
  "check_edge ids edge = (case as_obj edge of
     None \<Rightarrow> config_err EdgeShape
   | Some d \<Rightarrow> (case (dget d ''from'', dget d ''to'') of
       (Some f, Some t) \<Rightarrow>
         rbind (hashed f) (\<lambda>fk.
           if fk \<notin> set ids then config_err (EdgeFromUnknown f)
           else rbind (hashed t) (\<lambda>tk.
             if tk \<notin> set ids \<and> t \<noteq> JStr ''end'' then config_err (EdgeToUnknown t) else Inr ()))
     | _ \<Rightarrow> config_err EdgeShape))"

definition validate_custom :: "jobj \<Rightarrow> json list res" where
  "validate_custom graph =
     rbind (require_key graph ''nodes'') (\<lambda>nodes.
     rbind (require_key graph ''start'') (\<lambda>start. case nodes of
       JList ns \<Rightarrow>
         rbind (check_nodes 0 [] [] ns) (\<lambda>(ids, aids).
           if HStr (j_str start) \<notin> set ids then config_err (StartNotInNodes (j_str start))
           else rbind (iter_values (or_else (jget graph ''edges'') (JList []))) (\<lambda>edges.
             rbind (rmap (check_edge ids) edges) (\<lambda>_.
             rbind (bounded (jget graph ''max_hops'') 20 1 60 ''max_hops'') (\<lambda>_. Inr aids))))
     | _ \<Rightarrow> config_err (NotAList ''custom `nodes`'')))"

subsection \<open>Registry\<close>

type_synonym preset_fn = "engine \<Rightarrow> jobj \<Rightarrow> agent_map \<Rightarrow> unit step"

definition PRESETS :: "(string, preset_fn) dict" where
  "PRESETS = [(''pipeline'', run_pipeline), (''supervisor'', run_supervisor), (''debate'', run_debate),
     (''blackboard'', run_blackboard), (''swarm'', run_swarm), (''custom'', run_custom)]"

definition VALIDATORS :: "(string, jobj \<Rightarrow> json list res) dict" where
  "VALIDATORS = [(''pipeline'', validate_pipeline), (''supervisor'', validate_supervisor),
     (''debate'', validate_debate), (''blackboard'', validate_blackboard), (''swarm'', validate_swarm),
     (''custom'', validate_custom)]"

definition get_preset :: "string \<Rightarrow> preset_fn res" where
  "get_preset name = (case dget PRESETS name of None \<Rightarrow> config_err (UnknownPreset name) | Some f \<Rightarrow> Inr f)"

definition validate_graph :: "string \<Rightarrow> jobj \<Rightarrow> json list res" where
  "validate_graph preset graph = (case dget VALIDATORS preset of
     None \<Rightarrow> config_err (UnknownPreset preset)
   | Some check \<Rightarrow>
       rbind (check graph) (\<lambda>agent_ids.
       rbind (bounded (jget graph ''max_steps'') 20 1 200 ''max_steps'') (\<lambda>_.
       rbind (bounded (jget graph ''max_cost_cents'') 100 1 100000 ''max_cost_cents'') (\<lambda>_.
         Inr agent_ids))))"

end
