(* ===== verification/Engine_Frames.thy ===== *)
theory Engine_Frames
  imports Presets
begin

text \<open>
  What every turn keeps. The locale \<open>engine_frame\<close> collects, for a reflexive and transitive relation
  on engine states, what the primitive mutations of the engine owe it; a whole turn, and a whole
  JSON exchange, then keep it whatever the model, the tools and the outside do. A payment is the
  one primitive with a guard: it is owed only in a state that has passed the budget check since
  the last payment. The relation is instantiated with the invariants of the store, the bus and
  the budget.
\<close>

subsection \<open>Tools keep what their writer keeps\<close>

context frame
begin

lemma fr_list_artifacts: "always R (list_artifacts_run args ctx)"
  by (auto simp: always_def list_artifacts_run_def Let_def frame_refl split: option.splits)

lemma fr_read_artifact: "always R (read_artifact_run args ctx)"
  unfolding read_artifact_run_def
  by (intro fr_bind fr_lift) (auto simp: always_def Let_def frame_refl split: option.splits)

lemma fr_tool_run:
  assumes w: "\<And>p c k. always R (tc_write_artifact ctx p c k)"
  shows "always R (tool_run web t args ctx)"
proof (cases t)
  case WriteArtifact
  then show ?thesis
    by (auto simp: write_artifact_run_def Let_def intro!: fr_bind fr_lift fr_case_option fr_if fr_raise fr_ret w)
next
  case EditArtifact
  then show ?thesis
    by (auto simp: edit_artifact_run_def Let_def intro!: fr_bind fr_lift fr_get fr_case_option fr_if fr_raise fr_ret w)
qed (simp_all add: fr_list_artifacts fr_read_artifact fr_lift)

lemma fr_tool_invoke:
  assumes "\<And>p c k. always R (tc_write_artifact ctx p c k)"
  shows "always R (tool_invoke web t args ctx)"
  unfolding tool_invoke_def by (intro fr_catch fr_bind fr_tool_run assms fr_ret fr_if fr_raise)

end

subsection \<open>The contract of a frame of the engine\<close>

definition priced :: "engine \<Rightarrow> int \<Rightarrow> bool" where
  "priced eng cost \<longleftrightarrow> (\<exists>t c ro ch rr ro'. router_complete (en_router eng) t c ro = ((ch, Inr rr), ro')
     \<and> rr_cost_microcents rr = cost)"

definition ready :: "est \<Rightarrow> bool" where
  "ready s \<longleftrightarrow> (\<exists>c now. check_before_step (es_budget s) c now = Inr ())"

definition calm :: "(est \<Rightarrow> est \<Rightarrow> bool) \<Rightarrow> est \<Rightarrow> est \<Rightarrow> bool" where
  "calm R s t \<longleftrightarrow> R s t \<and> es_budget t = es_budget s"

lemma save_budget: "es_budget (snd (save_artifact eng agent step path content kind language s)) = es_budget s"
  by (simp add: save_artifact_def split: prod.splits)

locale engine_core = frame R for R :: "est \<Rightarrow> est \<Rightarrow> bool" +
  fixes eng :: engine
  assumes ok_tick: "R s (s\<lparr>es_tick := t\<rparr>)"
    and ok_emit: "R s (s\<lparr>es_bus := snd (emit (es_bus s) ty ts payload)\<rparr>)"
    and ok_buffer: "R s (s\<lparr>es_buffer := tb\<rparr>)"
    and ok_router: "R s (s\<lparr>es_router := snd (router_complete (en_router eng) t c (es_router s))\<rparr>)"
    and ok_save: "R s (snd (save_artifact eng agent step path content kind language s))"
    and ok_append: "R s (s\<lparr>es_run := append_entry (es_run s) agent out vis\<rparr>)"
    and ok_notes: "R s (s\<lparr>es_run := (es_run s)\<lparr>rs_notes := notes'\<rparr>\<rparr>)"
    and ok_final: "R s (s\<lparr>es_run := (es_run s)\<lparr>final_output := fo\<rparr>\<rparr>)"
    and ok_steps: "R s (s\<lparr>es_steps := es_steps s @ [sr]\<rparr>)"
    and ok_tool_calls: "R s (s\<lparr>es_tool_calls := es_tool_calls s @ [tcr]\<rparr>)"
    and ok_warning: "R s (s\<lparr>es_budget := snd (take_warning (es_budget s))\<rparr>)"
    and ok_spend: "ready s \<Longrightarrow> priced eng cost \<Longrightarrow> R s (s\<lparr>es_budget := record_cost (es_budget s) cost\<rparr>)"

sublocale engine_core \<subseteq> calm: frame "calm R"
  by unfold_locales (auto simp: calm_def frame_refl intro: frame_trans)

context engine_core
begin

lemma calm_always: "always (calm R) m \<Longrightarrow> always R m"
  by (simp add: always_def calm_def)

lemma calm_tick: "always (calm R) tick"
  by (simp add: always_def calm_def tick_def ok_tick)

lemma calm_await: "always (calm R) (await_point eng)"
  unfolding await_point_def by (intro calm.fr_bind calm_tick calm.fr_case_option calm.fr_ret calm.fr_raise)

lemma calm_emit: "always (calm R) (emit_event eng ty payload)"
  unfolding emit_event_def by (intro calm.fr_bind calm_await calm.fr_mod) (simp add: calm_def ok_emit)

lemma calm_flush: "always (calm R) (flush_tokens eng)"
  unfolding flush_tokens_def
  by (intro calm.fr_bind calm.fr_get)
    (auto split: prod.splits intro!: calm.fr_case_option calm.fr_ret calm.fr_then calm.fr_mod calm_emit
      simp: calm_def ok_buffer)

lemma calm_push: "always (calm R) (push_token eng chunk)"
  unfolding push_token_def
  by (intro calm.fr_then calm.fr_bind calm.fr_get calm.fr_if calm_flush calm.fr_ret calm.fr_mod)
    (simp add: calm_def ok_buffer)

lemma calm_check: "always (calm R) (check_budget eng)"
  unfolding check_budget_def by (intro calm.fr_bind calm_await calm.fr_get calm.fr_lift)

lemma check_ready: "check_budget eng s = (Inr u, s') \<Longrightarrow> ready s'"
  by (auto simp: check_budget_def ebind_eq_Inr ready_def)

lemma calm_sinks:
  "always (calm R) (sink_step eng sr)" "always (calm R) (await_sink eng)"
  "always (calm R) (sink_tool_call eng tcr)"
  unfolding sink_step_def await_sink_def sink_tool_call_def
  by (intro calm.fr_if calm.fr_then calm.fr_mod calm_await calm.fr_ret;
      simp add: calm_def ok_steps ok_tool_calls)+

lemma calm_save: "always (calm R) (save_artifact eng agent step path content kind language)"
  by (simp add: always_def calm_def ok_save save_budget)

lemma calm_user_message: "always (calm R) (user_message eng agent ins mc)"
  unfolding user_message_def Let_def by (intro calm.fr_bind calm.fr_get calm.fr_lift calm.fr_ret)

lemma calm_write_via: "always (calm R) (write_via eng agent step p c k)"
  unfolding write_via_def
  by (intro calm.fr_bind calm.fr_then calm_save calm_sinks calm_emit calm.fr_ret)

lemma calm_run_call: "xe_engine x = eng \<Longrightarrow> (\<And>p c k. always (calm R) (tc_write_artifact (xe_context x) p c k)) \<Longrightarrow>
    always (calm R) (run_call x call)"
  unfolding run_call_def Let_def
  by (intro calm.fr_bind calm_tick calm.fr_case_option calm.fr_ret calm.fr_tool_invoke)

lemma calm_advance: "xe_engine x = eng \<Longrightarrow> (\<And>p c k. always (calm R) (tc_write_artifact (xe_context x) p c k)) \<Longrightarrow>
    always (calm R) (advance x pos call th)"
  by (cases th) (simp_all add: calm.fr_then calm_emit calm_sinks calm.fr_ret calm_run_call)

lemma calm_gather: "xe_engine x = eng \<Longrightarrow> (\<And>p c k. always (calm R) (tc_write_artifact (xe_context x) p c k)) \<Longrightarrow>
    always (calm R) (gather n x calls ths)"
  by (induction n arbitrary: ths) (auto simp: Let_def intro!: calm.fr_bind calm.fr_ret calm_tick calm_advance)

lemma calm_run_tools: "always (calm R) (run_tools eng calls tools agent step offset)"
proof -
  have w: "always (calm R) (tc_write_artifact (make_context eng agent step s) p c k)" for s p c k
    by (simp add: make_context_def calm_write_via)
  let ?x = "\<lambda>ctx. \<lparr>xe_engine = eng, xe_agent = agent, xe_step = step, xe_offset = offset, xe_tools = tools,
                xe_context = ctx\<rparr>"
  have m: "always (calm R) (if mutating tools calls
              then emap (enumerate 0 calls) (\<lambda>(pos, call). execute (?x (make_context eng agent step s)) pos call)
              else gather (4 * length calls) (?x (make_context eng agent step s)) calls (replicate (length calls) Announce))" for s
    by (intro calm.fr_if calm.fr_map calm_gather)
      (auto simp: execute_def w simp del: advance.simps intro!: calm.fr_bind calm_advance)
  show ?thesis
  proof (rule alwaysI)
    fix s r s'
    assume "run_tools eng calls tools agent step offset s = (r, s')"
    then have "ebind (if mutating tools calls
              then emap (enumerate 0 calls) (\<lambda>(pos, call). execute (?x (make_context eng agent step s)) pos call)
              else gather (4 * length calls) (?x (make_context eng agent step s)) calls (replicate (length calls) Announce))
              (\<lambda>ths. eret (parts_of ths)) s = (r, s')"
      by (simp add: run_tools_def Let_def)
    then show "calm R s s'" by (rule alwaysD [OF calm.fr_bind [OF m calm.fr_ret]])
  qed
qed

lemma calm_ask: "always (calm R) (ask_router eng t call)"
  using ok_router by (auto simp: ask_router_def always_def calm_def split: prod.splits) (metis snd_conv)

lemma ask_priced: "ask_router eng t call s = (Inr (ch, Inr rr), s') \<Longrightarrow> priced eng (rr_cost_microcents rr)"
proof -
  assume "ask_router eng t call s = (Inr (ch, Inr rr), s')"
  then have "router_complete (en_router eng) t call (es_router s) = ((ch, Inr rr), es_router s')"
    by (auto simp: ask_router_def split: prod.splits)
  then show ?thesis unfolding priced_def by blast
qed

lemma calm_llm: "always (calm R) (llm_complete eng call)"
  unfolding llm_complete_def
  by (intro calm.fr_bind calm_await calm_ask) (auto intro!: calm.fr_then calm.fr_for calm_push calm.fr_lift)

lemma llm_priced: "llm_complete eng call s = (Inr rr, s') \<Longrightarrow> priced eng (rr_cost_microcents rr)"
  by (auto simp: llm_complete_def ebind_eq_Inr ethen_eq_Inr dest: ask_priced)

lemma calm_complete: "always (calm R) (complete eng te conv specs first)"
  unfolding complete_def Let_def
  by (intro calm.fr_catch calm_llm)
    (auto split: exn.splits intro!: calm.fr_raise calm.fr_then calm.fr_bind calm.fr_if calm_flush calm_user_message calm_llm)

lemma complete_priced:
  assumes "complete eng te conv specs first s = (Inr rr, s')"
  shows "priced eng (rr_cost_microcents rr)"
  using assms unfolding complete_def Let_def ecatch_def
  by (auto split: prod.splits sum.splits exn.splits if_splits simp: ethen_eq_Inr ebind_eq_Inr dest: llm_priced)

lemma ready_cong: "es_budget s' = es_budget s \<Longrightarrow> ready s \<Longrightarrow> ready s'"
  by (simp add: ready_def)

lemma note_frame: "always R (note_exhausted step)"
  unfolding note_exhausted_def Let_def by (rule fr_mod) (rule ok_notes)

text \<open>The tool loop: the first call of a turn is covered by the caller's check.\<close>

lemma turn_loop_frame:
  assumes "0 < i \<or> ready s" "turn_loop eng te n i tn s = (r, s')"
  shows "R s s'"
  using assms
proof (induction n arbitrary: i tn s r s')
  case 0
  have "always R (ethen (note_exhausted (te_step te)) (eret tn))" by (intro fr_then note_frame fr_ret)
  from alwaysD [OF this] 0 show ?case by simp
next
  case (Suc n)
  let ?check = "if i > 0 then check_budget eng else eret ()"
  obtain c s1 where c: "?check s = (c, s1)" by (cases "?check s")
  have k1: "calm R s s1"
    by (rule alwaysD [of _ ?check, OF _ c]) (intro calm.fr_if calm_check calm.fr_ret)
  let ?compl = "complete eng te (tn_conversation tn) (if int i = en_max_tool_iterations eng then [] else te_specs te) (i = 0)"
  show ?case
  proof (cases c)
    case (Inl e)
    have "turn_loop eng te (Suc n) i tn s = (Inl e, s1)"
      unfolding turn_loop.simps by (rule ethen_Inl [of ?check]) (use c Inl in simp)
    with Suc.prems(2) k1 show ?thesis by (simp add: calm_def)
  next
    case (Inr u)
    have rd: "ready s1" using Suc.prems(1) c Inr check_ready by (cases "i > 0") (auto simp: ready_def)
    obtain q s2 where q: "?compl s1 = (q, s2)" by (cases "?compl s1")
    have k2: "calm R s1 s2" by (rule alwaysD [OF calm_complete q])
    show ?thesis
    proof (cases q)
      case (Inl e)
      have "turn_loop eng te (Suc n) i tn s = (Inl e, s2)"
        unfolding turn_loop.simps ethen_Inr [of ?check, OF c [unfolded Inr]] by (rule ebind_Inl [of ?compl]) (use q Inl in simp)
      with Suc.prems(2) k1 k2 show ?thesis by (auto simp: calm_def intro: frame_trans)
    next
      case q2: (Inr rr)
      let ?s3 = "s2\<lparr>es_budget := record_cost (es_budget s2) (rr_cost_microcents rr)\<rparr>"
      have "ready s2" using rd k2 ready_cong [of s2 s1] by (simp add: calm_def)
      then have r3: "R s2 ?s3" using complete_priced q q2 by (intro ok_spend) auto
      have r03: "R s ?s3" using frame_trans [OF frame_trans r3, of s s1] k1 k2 by (simp add: calm_def)
      let ?req = "py_take (en_max_tool_calls_per_turn eng) (lr_tool_calls (rr_result rr))"
      let ?tn = "add_reply eng rr tn"
      let ?rest = "if lr_tool_calls (rr_result rr) = [] then eret ?tn
        else ebind (run_tools eng ?req (te_tools te) (te_agent te) (te_step te) (tn_tool_call_count ?tn))
               (\<lambda>results. turn_loop eng te n (Suc i) (add_tool_exchange (lr_text (rr_result rr)) ?req results ?tn))"
      have run: "?rest ?s3 = (r, s')"
        using Suc.prems(2)
        unfolding turn_loop.simps ethen_Inr [of ?check, OF c [unfolded Inr]] ebind_Inr [of ?compl, OF q [unfolded q2]] record_spend_def eff_run Let_def .
      have "always R (turn_loop eng te n (Suc i) x)" for x
        by (rule alwaysI) (rule Suc.IH [of "Suc i"], simp_all)
      then have "always R ?rest" by (intro fr_if fr_ret fr_bind calm_always [OF calm_run_tools])
      from alwaysD [OF this run] r03 show ?thesis by (rule frame_trans [rotated])
    qed
  qed
qed

text \<open>Composition with a guard: what follows a check may use that the state is ready.\<close>

lemma ready_bind:
  assumes "always (calm R) m" and "\<And>a s. ready s \<Longrightarrow> R s (snd (f a s))"
  shows "ready s \<Longrightarrow> R s (snd (ebind m f s))"
proof -
  assume rd: "ready s"
  obtain r s1 where m: "m s = (r, s1)" by (cases "m s")
  have k: "calm R s s1" by (rule alwaysD [OF assms(1) m])
  have rd1: "ready s1" using ready_cong [of s1 s] k rd by (simp add: calm_def)
  have k': "R s s1" using k by (simp add: calm_def)
  show ?thesis
  proof (cases r)
    case (Inl e) then show ?thesis using k' m by (simp add: ebind_Inl)
  next
    case (Inr a) then show ?thesis using frame_trans [OF k' assms(2) [OF rd1]] m by (simp add: ebind_Inr)
  qed
qed

lemma ready_then:
  assumes "always (calm R) m" and "\<And>s. ready s \<Longrightarrow> R s (snd (n s))"
  shows "ready s \<Longrightarrow> R s (snd (ethen m n s))"
  unfolding ethen_def using ready_bind [OF assms(1), of "\<lambda>_. n"] assms(2) by blast

lemma ready_start:
  assumes "always R n" shows "ready s \<Longrightarrow> R s (snd (n s))"
  using assms by (simp add: always_def)

lemma bind_weak:
  assumes "R s (snd (m s))" and "\<And>a. always R (f a)"
  shows "R s (snd (ebind m f s))"
proof (cases "m s")
  case (Pair r s1)
  then show ?thesis using assms
    by (cases r) (auto simp: ebind_Inl ebind_Inr always_def intro: frame_trans)
qed

lemma catch_weak:
  assumes "R s (snd (m s))" and "\<And>e. always R (h e)"
  shows "R s (snd (ecatch m h s))"
proof (cases "m s")
  case (Pair r s1)
  then show ?thesis using assms
    by (cases r) (auto simp: ecatch_def always_def intro: frame_trans)
qed

lemma run_turn_ready: "ready s \<Longrightarrow> R s (snd (run_turn eng te tn s))"
proof -
  assume rd: "ready s"
  have "R s (snd (turn_loop eng te n 0 tn s))" for n
    using turn_loop_frame [of 0 s te n tn] rd by (metis prod.collapse)
  then have "R s (snd (ebind (turn_loop eng te (nat (en_max_tool_iterations eng + 1)) 0 tn)
      (\<lambda>tn'. ethen (flush_tokens eng) (eret tn')) s))"
    by (intro bind_weak fr_then calm_always [OF calm_flush] fr_ret)
  then show ?thesis unfolding run_turn_def
    by (rule catch_weak)
      (auto split: exn.splits intro!: fr_then fr_raise calm_always [OF calm_flush] calm_always [OF calm_emit])
qed

lemma capture_frame: "always R (capture_artifacts eng agent out step)"
  unfolding capture_artifacts_def
  by (intro fr_for fr_bind fr_then calm_always [OF calm_save] calm_always [OF calm_emit]
      calm_always [OF calm_sinks(2)])

lemma warn_frame: "always R (warn_budget eng)"
proof -
  have "always R (\<lambda>s. case take_warning (es_budget s) of (w, b) \<Rightarrow> (Inr w, s\<lparr>es_budget := b\<rparr>))"
    using ok_warning by (auto simp: always_def split: prod.splits) (metis snd_conv)
  then show ?thesis unfolding warn_budget_def
    by (intro fr_bind fr_if fr_get fr_ret calm_always [OF calm_emit])
qed

lemma finish_frame: "always R (finish_turn eng te vis t0 tn)"
  unfolding finish_turn_def Let_def emit_step_end_def
  by (intro fr_bind fr_then fr_mod fr_ret fr_get capture_frame warn_frame ok_append
      calm_always [OF calm_tick] calm_always [OF calm_emit] calm_always [OF calm_sinks(1)])

text \<open>A turn without its check and its number; the exchange is the whole of what \<open>call_agent\<close> adds.\<close>

lemma turn_body_ready: "ready s \<Longrightarrow> R s (snd (turn_body eng agent ins jm vis ts index s))"
proof -
  have body: "R s (snd (ebind (run_turn eng te tn) (finish_turn eng te vis t0) s))" if "ready s" for te tn t0 s
    using that by (intro bind_weak run_turn_ready finish_frame)
  have buf: "always (calm R) (emod (\<lambda>s. s\<lparr>es_buffer := tb\<rparr>))" for tb
    by (rule calm.fr_mod) (simp add: calm_def ok_buffer)
  show "ready s \<Longrightarrow> R s (snd (turn_body eng agent ins jm vis ts index s))"
    unfolding turn_body_def Let_def emit_step_start_def
    by (intro ready_bind ready_then calm_emit calm_user_message calm_tick buf body)
qed

lemma set_final_frame: "always R (set_final out)"
  unfolding set_final_def by (rule fr_mod) (rule ok_final)

lemma set_note_frame: "always R (set_note k v)"
  unfolding set_note_def by (rule fr_mod) (rule ok_notes)

lemma final_from_board_frame: "always R final_from_board"
  unfolding final_from_board_def by (intro fr_bind fr_get set_final_frame)

lemma append_frame: "always R (emod (\<lambda>s. s\<lparr>es_run := append_entry (es_run s) agent out vis\<rparr>))"
  by (rule fr_mod) (rule ok_append)

lemma finish_swarm_frame: "always R (finish_swarm decision visits)"
  unfolding finish_swarm_def by (intro fr_bind fr_get fr_then set_final_frame set_note_frame)

end

text \<open>
  The contract of the topologies with the engine: two calls, and mutations of the run state other
  than the artifact store.
\<close>

locale topology_frame = frame R for R :: "est \<Rightarrow> est \<Rightarrow> bool" +
  fixes eng :: engine
  assumes ok_call: "always R (call_agent eng agent ins jm vis ts)"
    and ok_set_final: "always R (set_final out)"
    and ok_set_note: "always R (set_note k v)"
    and ok_entry: "always R (emod (\<lambda>s. s\<lparr>es_run := append_entry (es_run s) agent out vis\<rparr>) :: unit step)"
begin

lemma ok_json: "always R (call_agent_json eng agent ins required retries)"
proof -
  have "always R (json_attempts eng agent ins required n prompt)" for n prompt
    by (induction n arbitrary: prompt)
      (auto intro!: fr_raise fr_bind fr_case_sum fr_case_option ok_call fr_ret)
  then show ?thesis unfolding call_agent_json_def .
qed

lemma ok_says: "always R (agent_says eng agent ins)"
  by (simp add: agent_says_def ok_call)

lemma ok_board: "always R final_from_board"
  unfolding final_from_board_def by (intro fr_bind fr_get ok_set_final)

lemma pipeline_frame: "always R (run_pipeline eng graph agents)"
  unfolding run_pipeline_def pipeline_node_def
  by (auto intro!: fr_bind fr_lift fr_then fr_for ok_says ok_board fr_ret)

lemma supervisor_frame: "always R (run_supervisor eng graph agents)"
proof -
  have "always R (supervisor_loop eng mgr workers n)" for mgr workers n
    by (induction n)
      (auto simp: Let_def intro!: fr_then fr_bind fr_if fr_case_option fr_get ok_set_note ok_says ok_json ok_set_final ok_entry)
  then show ?thesis unfolding run_supervisor_def by (intro fr_bind fr_lift)
qed

lemma debate_frame: "always R (run_debate eng graph agents)"
  unfolding run_debate_def by (intro fr_bind fr_lift fr_then fr_for ok_says ok_set_final fr_ret)

lemma blackboard_loop_frame: "always R (blackboard_loop eng workers finished pending)"
proof (induction "length pending" arbitrary: finished pending rule: less_induct)
  case less
  show ?case
    by (subst blackboard_loop.simps)
      (auto simp: Let_def run_task_def rounds_decrease intro!: fr_ret fr_then fr_for fr_case_option fr_raise fr_bind ok_says less)
qed

lemma blackboard_frame: "always R (run_blackboard eng graph agents)"
  unfolding run_blackboard_def
  by (intro fr_bind fr_lift fr_if fr_raise fr_then ok_json ok_set_note ok_says ok_set_final blackboard_loop_frame)

lemma swarm_frame: "always R (run_swarm eng graph agents)"
proof -
  have "always R (swarm_loop eng swarm n current visits)" for swarm n current visits
    by (induction n arbitrary: current visits)
      (auto simp: Let_def finish_swarm_def
        intro!: fr_then fr_bind fr_if fr_case_option fr_get ok_set_note ok_says ok_json ok_set_final)
  then show ?thesis unfolding run_swarm_def Let_def by (intro fr_bind fr_lift)
qed

lemma visit_frame: "always R (custom_visit eng g agents current node)"
  unfolding custom_visit_def Let_def
  by (intro fr_if fr_ret fr_bind fr_lift fr_raise ok_json ok_says)

lemma custom_frame: "always R (run_custom eng graph agents)"
proof -
  have "always R (custom_loop eng g agents n current path)" for g n current path
    by (induction n arbitrary: current path)
      (auto intro!: fr_then fr_bind fr_if fr_case_option fr_lift fr_ret fr_raise ok_set_note visit_frame)
  then show ?thesis unfolding run_custom_def by (intro fr_bind fr_lift fr_then ok_set_note ok_board)
qed

theorem preset_frame: "get_preset name = Inr f \<Longrightarrow> always R (f eng graph agents)"
  by (auto simp: get_preset_def PRESETS_def config_err_def pipeline_frame supervisor_frame debate_frame
      blackboard_frame swarm_frame custom_frame split: if_splits option.splits)

end

text \<open>With the law for the turn counter, a frame of the engine is a frame of every topology.\<close>

locale engine_frame = engine_core +
  assumes ok_index: "R s (s\<lparr>es_run := (es_run s)\<lparr>step_index := Suc (step_index (es_run s))\<rparr>\<rparr>)"
begin

lemma calm_begin: "always (calm R) begin_step"
  by (simp add: always_def begin_step_def calm_def Let_def ok_index)

theorem call_agent_frame: "always R (call_agent eng agent ins jm vis ts)"
proof (rule alwaysI)
  fix s r s'
  assume run: "call_agent eng agent ins jm vis ts s = (r, s')"
  let ?body = "ebind begin_step (turn_body eng agent ins jm vis ts)"
  have rest: "ready s \<Longrightarrow> R s (snd (?body s))" for s
    by (intro ready_bind calm_begin turn_body_ready)
  obtain c s1 where c: "check_budget eng s = (c, s1)" by (cases "check_budget eng s")
  have k1: "R s s1" using alwaysD [OF calm_check c] by (simp add: calm_def)
  show "R s s'"
  proof (cases c)
    case (Inl e) then show ?thesis using run c k1 by (simp add: call_agent_def ethen_Inl)
  next
    case (Inr u)
    have "snd (?body s1) = s'" using run c Inr by (simp add: call_agent_def ethen_Inr)
    then show ?thesis using frame_trans [OF k1 rest [OF check_ready]] c Inr by simp
  qed
qed

end

sublocale engine_frame \<subseteq> topo: topology_frame R eng
  by unfold_locales (rule call_agent_frame set_final_frame set_note_frame append_frame)+

end
