(* ===== verification/Engine_Invariants.thy ===== *)
theory Engine_Invariants
  imports Engine_Frames
begin

text \<open>
  The invariants of a run as instances of \<open>engine_frame\<close>: the artifact store and its persisted
  rows, the event bus, the ceilings, and what only grows. Then the facts of one turn that are not
  frames: the tool results answer the requests in their order, and the bounds of the tool loop.
\<close>

subsection \<open>The invariants\<close>

text \<open>The rows handed to the database are the artifact log, entry by entry.\<close>

definition saved_ok :: "engine \<Rightarrow> est \<Rightarrow> bool" where
  "saved_ok eng s \<longleftrightarrow> artifacts_ok (es_run s) \<and>
     (en_artifact_sink eng \<longrightarrow>
        map (\<lambda>a. (af_path a, af_version a, af_kind a, utf8_len (af_content a))) (es_artifacts s)
      = map (\<lambda>r. (ar_path r, ar_version r, ar_kind r, ar_size_bytes r)) (artifact_log (es_run s)))"

lemma saved_ok_save:
  assumes "saved_ok eng s" shows "saved_ok eng (snd (save_artifact eng agent step path content kind lang s))"
proof -
  obtain v st where r: "record_artifact (es_run s) path content kind (as_name agent) = (v, st)"
    by (cases "record_artifact (es_run s) path content kind (as_name agent)")
  have "artifact_log st = artifact_log (es_run s) @ [\<lparr>ar_path = path, ar_version = v, ar_kind = kind,
     ar_size_bytes = utf8_len content, ar_produced_by = as_name agent\<rparr>]"
    using r by (auto simp: record_artifact_def Let_def)
  then show ?thesis using assms record_artifact_ok [OF _ r]
    by (simp add: saved_ok_def save_artifact_def r)
qed

lemma saved_ok_cong:
  "artifacts (es_run t) = artifacts (es_run s) \<Longrightarrow> artifact_versions (es_run t) = artifact_versions (es_run s) \<Longrightarrow>
   artifact_log (es_run t) = artifact_log (es_run s) \<Longrightarrow> es_artifacts t = es_artifacts s \<Longrightarrow> saved_ok eng t = saved_ok eng s"
  by (simp add: saved_ok_def cong: artifacts_ok_cong)

interpretation store: engine_frame "keeps (saved_ok eng)" eng for eng
  by unfold_locales
    (auto simp: keeps_def saved_ok_save append_entry_def elim!: saved_ok_cong [THEN iffD1, rotated -1])

interpretation events: engine_frame "keeps (\<lambda>s. bus_ok (es_bus s))" eng for eng
  by unfold_locales
    (auto simp: keeps_def save_artifact_def split: prod.splits intro: bus_ok_emit prod.collapse [symmetric])

text \<open>No call of the run costs more than \<open>C\<close>.\<close>

definition capped :: "engine \<Rightarrow> int \<Rightarrow> bool" where
  "capped eng C \<longleftrightarrow> (\<forall>cost. priced eng cost \<longrightarrow> cost \<le> C)"

definition same_limits :: "budget_guard \<Rightarrow> budget_guard \<Rightarrow> bool" where
  "same_limits a b \<longleftrightarrow> max_steps a = max_steps b \<and> max_cost_microcents a = max_cost_microcents b \<and>
     max_seconds a = max_seconds b \<and> has_cancel_check a = has_cancel_check b \<and> started_at a = started_at b"

definition under_ceiling :: "engine \<Rightarrow> int \<Rightarrow> est \<Rightarrow> est \<Rightarrow> bool" where
  "under_ceiling eng C s t \<longleftrightarrow> same_limits (es_budget s) (es_budget t) \<and>
     (capped eng C \<longrightarrow> within_ceiling C (es_budget s) \<longrightarrow> within_ceiling C (es_budget t))"

lemma ceiling_warning: "within_ceiling C (snd (take_warning b)) = within_ceiling C b"
  "same_limits b (snd (take_warning b))"
  by (auto simp: take_warning_def within_ceiling_def same_limits_def)

lemma ceiling_spend:
  assumes "ready s" "priced eng cost"
  shows "under_ceiling eng C s (s\<lparr>es_budget := record_cost (es_budget s) cost\<rparr>)"
proof -
  obtain c now where "check_before_step (es_budget s) c now = Inr ()" using assms(1) by (auto simp: ready_def)
  from within_ceiling_record [OF this] assms(2) show ?thesis
    by (auto simp: under_ceiling_def capped_def same_limits_def) (auto simp: record_cost_def)
qed

lemma under_same: "es_budget t = es_budget s \<Longrightarrow> under_ceiling eng C s t"
  by (simp add: under_ceiling_def same_limits_def)

lemma under_trans: "under_ceiling eng C s t \<Longrightarrow> under_ceiling eng C t u \<Longrightarrow> under_ceiling eng C s u"
  by (simp add: under_ceiling_def same_limits_def)

lemma under_warning: "under_ceiling eng C s (s\<lparr>es_budget := snd (take_warning (es_budget s))\<rparr>)"
  by (simp add: under_ceiling_def ceiling_warning)

interpretation ceiling: engine_frame "under_ceiling eng C" eng for eng C
  by unfold_locales (blast intro: under_trans | simp add: under_same save_budget ceiling_spend under_warning)+

text \<open>What a run appends to is never cut or rewritten.\<close>

definition grows :: "est \<Rightarrow> est \<Rightarrow> bool" where
  "grows s t \<longleftrightarrow> prefix (board (es_run s)) (board (es_run t)) \<and>
     prefix (artifact_log (es_run s)) (artifact_log (es_run t)) \<and>
     prefix (es_steps s) (es_steps t) \<and> prefix (es_tool_calls s) (es_tool_calls t) \<and>
     prefix (es_artifacts s) (es_artifacts t) \<and> prefix (bus_published (es_bus s)) (bus_published (es_bus t)) \<and>
     user_input (es_run s) = user_input (es_run t) \<and> bus_run_id (es_bus s) = bus_run_id (es_bus t)"

interpretation growth: engine_frame grows eng for eng
  by unfold_locales
    (auto simp: grows_def save_artifact_def record_artifact_def append_entry_def emit_def Let_def
      intro: prefix_order.trans split: prod.splits)

subsection \<open>Turn numbers\<close>

definition same_index :: "est \<Rightarrow> est \<Rightarrow> bool" where
  "same_index s t \<longleftrightarrow> step_index (es_run s) = step_index (es_run t)"

interpretation index: engine_core same_index eng for eng
  by unfold_locales
    (auto simp: same_index_def save_artifact_def record_artifact_def append_entry_def Let_def)

text \<open>At most \<open>k\<close> turns are started.\<close>

definition turns :: "nat \<Rightarrow> 'a step \<Rightarrow> bool" where
  "turns k m \<longleftrightarrow> always (\<lambda>s t. step_index (es_run t) \<le> step_index (es_run s) + k) m"

lemma turns_bind:
  assumes "turns a m" "\<And>x. turns b (f x)" shows "turns (a + b) (ebind m f)"
  unfolding turns_def
proof (rule alwaysI)
  fix s r t assume run: "ebind m f s = (r, t)"
  obtain q s1 where m: "m s = (q, s1)" by (cases "m s")
  have 1: "step_index (es_run s1) \<le> step_index (es_run s) + a"
    using alwaysD [OF assms(1) [unfolded turns_def] m] .
  show "step_index (es_run t) \<le> step_index (es_run s) + (a + b)"
  proof (cases q)
    case (Inl e) then show ?thesis using run m 1 by (simp add: ebind_Inl)
  next
    case (Inr x)
    then have "f x s1 = (r, t)" using run m by (simp add: ebind_Inr)
    from alwaysD [OF assms(2) [unfolded turns_def] this] 1 show ?thesis by simp
  qed
qed

lemma turns_then: "turns a m \<Longrightarrow> turns b n \<Longrightarrow> turns (a + b) (ethen m n)"
  unfolding ethen_def by (rule turns_bind)

lemma turns_mono: "turns a m \<Longrightarrow> a \<le> b \<Longrightarrow> turns b m"
  unfolding turns_def always_def by (meson add_le_cancel_left le_trans)

lemma turns_0: "always same_index m \<Longrightarrow> turns 0 m"
  by (simp add: turns_def always_def same_index_def)

lemma turns_call: "turns 1 (call_agent eng agent ins jm vis ts)"
  unfolding turns_def
proof (rule alwaysI)
  fix s r t
  assume run: "call_agent eng agent ins jm vis ts s = (r, t)"
  obtain c s1 where c: "check_budget eng s = (c, s1)" by (cases "check_budget eng s")
  have k1: "same_index s s1" using alwaysD [OF index.calm_always [OF index.calm_check] c] .
  show "step_index (es_run t) \<le> step_index (es_run s) + 1"
  proof (cases c)
    case (Inl e) then show ?thesis using run c k1 by (simp add: call_agent_def ethen_Inl same_index_def)
  next
    case (Inr u)
    let ?s2 = "s1\<lparr>es_run := (es_run s1)\<lparr>step_index := Suc (step_index (es_run s1))\<rparr>\<rparr>"
    let ?i = "Suc (step_index (es_run s1))"
    have "begin_step s1 = (Inr ?i, ?s2)" by (simp add: begin_step_def Let_def)
    then have body: "turn_body eng agent ins jm vis ts ?i ?s2 = (r, t)"
      using run c Inr by (simp add: call_agent_def ethen_Inr ebind_Inr)
    have "ready ?s2" using index.check_ready [of eng s u s1] c Inr by (simp add: ready_def)
    from index.turn_body_ready [OF this, of eng agent ins jm vis ts ?i] body k1
    show ?thesis by (simp add: same_index_def)
  qed
qed

subsection \<open>The tool results of a turn\<close>

text \<open>How many suspension points a thread still has, and that a finished one answers its call.\<close>

fun left :: "exec_thread \<Rightarrow> nat" where
  "left Announce = 4"
| "left Invoke = 3"
| "left (Report r ms) = 2"
| "left (Log r ms) = 1"
| "left (Finished p) = 0"

definition answers :: "tool_call_request \<Rightarrow> exec_thread \<Rightarrow> bool" where
  "answers call th \<longleftrightarrow> (case th of
     Finished p \<Rightarrow> trp_tool_call_id p = tcr_id call \<and> trp_name p = tcr_name call | _ \<Rightarrow> True)"

lemma left_0: "left th = 0 \<longleftrightarrow> is_finished th"
  by (cases th) simp_all

lemma advance_left:
  assumes "advance x pos call th s = (Inr th', s')" "answers call th"
  shows "answers call th' \<and> (\<not> is_finished th \<longrightarrow> left th = Suc (left th'))"
  using assms
  by (cases th) (auto simp: ethen_eq_Inr ebind_eq_Inr run_call_def Let_def answers_def split: option.splits)

lemma sum_left_update:
  "i < length ths \<Longrightarrow> left (ths ! i) = Suc (left th) \<Longrightarrow>
   sum_list (map left ths) = Suc (sum_list (map left (ths[i := th])))"
proof (induction ths arbitrary: i)
  case (Cons a ths)
  then show ?case by (cases i) auto
qed simp

lemma unfinished_nth:
  assumes "unfinished ths \<noteq> []"
  shows "unfinished ths ! (k mod length (unfinished ths)) < length ths \<and>
     \<not> is_finished (ths ! (unfinished ths ! (k mod length (unfinished ths))))"
proof -
  have "unfinished ths ! (k mod length (unfinished ths)) \<in> set (unfinished ths)"
    using assms by (intro nth_mem) (simp add: length_greater_0_conv)
  then show ?thesis by (auto simp: unfinished_def)
qed

lemma all_finished: "unfinished ths = [] \<longleftrightarrow> (\<forall>th \<in> set ths. is_finished th)"
  by (auto simp: unfinished_def filter_empty_conv all_set_conv_all_nth)

lemma gather_finishes:
  assumes "gather n x calls ths s = (Inr ths', s')" "length ths = length calls"
    and "list_all2 answers calls ths" "sum_list (map left ths) \<le> n"
  shows "list_all2 answers calls ths' \<and> (\<forall>th \<in> set ths'. is_finished th)"
  using assms
proof (induction n arbitrary: ths s)
  case 0
  then show ?case by (auto simp: left_0 [symmetric])
next
  case (Suc n)
  show ?case
  proof (cases "unfinished ths = []")
    case True
    with Suc.prems show ?thesis by (simp add: all_finished)
  next
    case False
    obtain i th s1 s2 where i: "i < length ths" "\<not> is_finished (ths ! i)"
      and adv: "advance x i (calls ! i) (ths ! i) s1 = (Inr th, s2)"
      and rest: "gather n x calls (ths[i := th]) s2 = (Inr ths', s')"
      using Suc.prems(1) False unfinished_nth [OF False] unfolding gather.simps if_not_P [OF False] ebind_eq_Inr Let_def
      by blast
    have a: "answers (calls ! i) (ths ! i)" using Suc.prems(2,3) i(1) by (simp add: list_all2_nthD2)
    from advance_left [OF adv a] i(2) have th: "answers (calls ! i) th" "left (ths ! i) = Suc (left th)" by auto
    have "list_all2 answers calls (ths[i := th])"
      using list_all2_update_cong [OF Suc.prems(3) th(1), of i] by simp
    moreover have "sum_list (map left (ths[i := th])) \<le> n"
      using sum_left_update [OF i(1) th(2)] Suc.prems(4) by simp
    ultimately show ?thesis using Suc.IH [OF rest] Suc.prems(2) by simp
  qed
qed

lemma execute_answers: "execute x pos call s = (Inr th, s') \<Longrightarrow> answers call th \<and> is_finished th"
proof -
  assume "execute x pos call s = (Inr th, s')"
  then obtain t1 t2 t3 s1 s2 s3 where a: "advance x pos call Announce s = (Inr t1, s1)"
      "advance x pos call t1 s1 = (Inr t2, s2)" "advance x pos call t2 s2 = (Inr t3, s3)"
      "advance x pos call t3 s3 = (Inr th, s')"
    unfolding execute_def ebind_eq_Inr by blast
  have "answers call Announce" by (simp add: answers_def)
  from advance_left [OF a(1) this] have 1: "answers call t1" "left t1 = 3" by auto
  from advance_left [OF a(2) 1(1)] 1(2) have 2: "answers call t2" "left t2 = 2" using left_0 [of t1] by auto
  from advance_left [OF a(3) 2(1)] 2(2) have 3: "answers call t3" "left t3 = 1" using left_0 [of t2] by auto
  from advance_left [OF a(4) 3(1)] 3(2) show ?thesis using left_0 [of t3] left_0 [of th] by auto
qed

lemma parts_answer:
  assumes "list_all2 answers calls ths" "\<forall>th \<in> set ths. is_finished th"
  shows "map (\<lambda>p. (trp_tool_call_id p, trp_name p)) (parts_of ths) = map (\<lambda>c. (tcr_id c, tcr_name c)) calls"
  using assms
proof (induction rule: list_all2_induct)
  case (Cons c calls th ths)
  then obtain p where "th = Finished p" by (cases th) auto
  with Cons show ?case by (simp add: parts_of_def answers_def List.map_filter_simps)
qed (simp add: parts_of_def List.map_filter_simps)

lemma emap_list_all2:
  assumes "emap xs f s = (Inr ys, s')" "\<And>x y s s'. x \<in> set xs \<Longrightarrow> f x s = (Inr y, s') \<Longrightarrow> P x y"
  shows "list_all2 P xs ys"
  using assms
proof (induction xs arbitrary: ys s)
  case (Cons x xs)
  then show ?case by (auto simp: ebind_eq_Inr)
qed simp

lemma run_tools_answers:
  assumes "run_tools eng calls tools agent step offset s = (Inr parts, s')"
  shows "map (\<lambda>p. (trp_tool_call_id p, trp_name p)) parts = map (\<lambda>c. (tcr_id c, tcr_name c)) calls"
proof -
  let ?x = "\<lparr>xe_engine = eng, xe_agent = agent, xe_step = step, xe_offset = offset, xe_tools = tools,
                xe_context = make_context eng agent step s\<rparr>"
  obtain ths where p: "parts = parts_of ths" and r: "(if mutating tools calls
      then emap (enumerate 0 calls) (\<lambda>(pos, call). execute ?x pos call)
      else gather (4 * length calls) ?x calls (replicate (length calls) Announce)) s = (Inr ths, s')"
    using assms by (auto simp: run_tools_def Let_def ebind_eq_Inr)
  have "list_all2 answers calls ths \<and> (\<forall>th \<in> set ths. is_finished th)"
  proof (cases "mutating tools calls")
    case True
    have "list_all2 (\<lambda>q th. answers (snd q) th \<and> is_finished th) (enumerate 0 calls) ths"
      by (rule emap_list_all2 [of _ "\<lambda>(pos, call). execute ?x pos call" s])
        (use r True in \<open>auto dest: execute_answers\<close>)
    then have "list_all2 (\<lambda>c th. answers c th \<and> is_finished th) (map snd (enumerate 0 calls)) ths"
      unfolding list_all2_map1 .
    then have "list_all2 (\<lambda>c th. answers c th \<and> is_finished th) calls ths" by (simp only: map_snd_enumerate)
    then show ?thesis by (auto simp: list_all2_conv_all_nth all_set_conv_all_nth)
  next
    case False
    have "sum_list (map left (replicate (length calls) Announce)) = 4 * length calls"
      by (simp add: sum_list_replicate map_replicate_const)
    with r False show ?thesis
      by (intro gather_finishes) (auto simp: list_all2_conv_all_nth answers_def)
  qed
  then show ?thesis unfolding p by (blast intro: parts_answer)
qed

subsection \<open>The store behind the tools\<close>

text \<open>
  The writer handed to the tools is an \<open>artifact_store\<close>: the content is recorded before the first
  await, and neither the sink nor the event touches the run state.
\<close>

interpretation same_run: frame "\<lambda>s t. es_run s = es_run t"
  by (rule frame_eq_on)

lemma same_run_emit: "always (\<lambda>s t. es_run s = es_run t) (emit_event eng ty payload)"
  unfolding emit_event_def await_point_def tick_def
  by (intro same_run.fr_bind same_run.fr_mod) (auto simp: always_def split: option.splits)

lemma same_run_sink: "always (\<lambda>s t. es_run s = es_run t) (await_sink eng)"
  unfolding await_sink_def await_point_def tick_def
  by (intro same_run.fr_if same_run.fr_then same_run.fr_bind same_run.fr_ret)
    (auto simp: always_def split: option.splits)

lemma write_via_run:
  assumes "write_via eng agent step p c k s = (r, s')"
  shows "es_run s' = snd (record_artifact (es_run s) p c k (as_name agent)) \<and>
    (\<forall>v. r = Inr v \<longrightarrow> v = fst (record_artifact (es_run s) p c k (as_name agent)))"
proof -
  obtain v s1 where sv: "save_artifact eng agent step p c k None s = (Inr v, s1)"
    and e1: "es_run s1 = snd (record_artifact (es_run s) p c k (as_name agent))"
            "v = fst (record_artifact (es_run s) p c k (as_name agent))"
    by (cases "record_artifact (es_run s) p c k (as_name agent)") (simp add: save_artifact_def)
  let ?ev = "emit_event eng ARTIFACT_WRITTEN [(''step'', JInt (int step)), (''path'', JStr p),
        (''version'', JInt (int v)), (''kind'', JStr k), (''size_bytes'', JInt (int (utf8_len c))),
        (''agent_name'', JStr (as_name agent)), (''via'', JStr ''tool'')]"
  have rest: "ethen (await_sink eng) (ethen ?ev (eret v)) s1 = (r, s')"
    using assms sv by (simp add: write_via_def ebind_Inr)
  have "always (\<lambda>s t. es_run s = es_run t) (ethen (await_sink eng) (ethen ?ev (eret v)))"
    by (intro same_run.fr_then same_run_emit same_run_sink same_run.fr_ret)
  from alwaysD [OF this rest] rest e1 show ?thesis by (auto simp: ethen_eq_Inr)
qed

interpretation live: artifact_store "make_context eng agent step s0" for eng agent step s0
proof
  fix p c k s r s'
  assume "tc_write_artifact (make_context eng agent step s0) p c k s = (r, s')"
  then have "write_via eng agent step p c k s = (r, s')" by (simp add: make_context_def)
  from write_via_run [OF this]
  show "tc_artifacts (make_context eng agent step s0) s' = dset p c (tc_artifacts (make_context eng agent step s0) s)"
    by (simp add: make_context_def record_artifact_def Let_def)
next
  fix p c k s v s'
  assume "tc_write_artifact (make_context eng agent step s0) p c k s = (Inr v, s')"
  then have "write_via eng agent step p c k s = (Inr v, s')" by (simp add: make_context_def)
  from write_via_run [OF this]
  show "v = dget_or (tc_read_artifact_version (make_context eng agent step s0) s) p 0 + 1 \<and>
     tc_read_artifact_version (make_context eng agent step s0) s' = dset p v (tc_read_artifact_version (make_context eng agent step s0) s)"
    by (simp add: make_context_def record_artifact_def Let_def)
qed

subsection \<open>The bounds of a turn\<close>

lemma turn_loop_bounds:
  assumes "turn_loop eng te n i tn s = (Inr tn', s')"
  shows "tn_model_calls tn' \<le> tn_model_calls tn + n"
    and "0 \<le> en_max_tool_calls_per_turn eng \<Longrightarrow>
      int (tn_tool_call_count tn') \<le> int (tn_tool_call_count tn) + int n * en_max_tool_calls_per_turn eng"
proof -
  let ?k = "en_max_tool_calls_per_turn eng"
  have "tn_model_calls tn' \<le> tn_model_calls tn + n \<and>
    (0 \<le> ?k \<longrightarrow> int (tn_tool_call_count tn') \<le> int (tn_tool_call_count tn) + int n * ?k)"
    using assms
  proof (induction n arbitrary: i tn s)
    case 0
    then show ?case by (auto simp: ethen_eq_Inr)
  next
    case (Suc n)
    obtain rr s1 where step: "(let tn2 = add_reply eng rr tn;
            requested = py_take ?k (lr_tool_calls (rr_result rr)) in
        if lr_tool_calls (rr_result rr) = [] then eret tn2
        else ebind (run_tools eng requested (te_tools te) (te_agent te) (te_step te) (tn_tool_call_count tn2))
               (\<lambda>results. turn_loop eng te n (Suc i)
                  (add_tool_exchange (lr_text (rr_result rr)) requested results tn2))) s1 = (Inr tn', s')"
      using Suc.prems unfolding turn_loop.simps ethen_eq_Inr ebind_eq_Inr [of "Engine.complete eng te _ _ _"] by blast
    let ?req = "py_take ?k (lr_tool_calls (rr_result rr))"
    let ?tn = "add_reply eng rr tn"
    have c: "tn_model_calls ?tn = Suc (tn_model_calls tn)" "tn_tool_call_count ?tn = tn_tool_call_count tn"
      by (simp_all add: add_reply_def Let_def)
    show ?case
    proof (cases "lr_tool_calls (rr_result rr) = []")
      case True
      with step c show ?thesis by (simp add: Let_def)
    next
      case False
      obtain results s2 s3 where r: "run_tools eng ?req (te_tools te) (te_agent te) (te_step te)
            (tn_tool_call_count ?tn) s2 = (Inr results, s3)"
        and rest: "turn_loop eng te n (Suc i) (add_tool_exchange (lr_text (rr_result rr)) ?req results ?tn) s3 = (Inr tn', s')"
        using step False by (auto simp: ebind_eq_Inr Let_def)
      have "length results = length ?req"
        using arg_cong [OF run_tools_answers [OF r], of length] by simp
      moreover have "0 \<le> ?k \<longrightarrow> int (length ?req) \<le> ?k" by (simp add: py_take_def of_nat_min)
      ultimately show ?thesis using Suc.IH [OF rest] c
        by (auto simp: add_tool_exchange_def algebra_simps)
    qed
  qed
  then show "tn_model_calls tn' \<le> tn_model_calls tn + n"
    and "0 \<le> ?k \<Longrightarrow> int (tn_tool_call_count tn') \<le> int (tn_tool_call_count tn) + int n * ?k" by auto
qed

end
