(* ===== verification/Topologies.thy ===== *)
theory Topologies
  imports Engine_Invariants "HOL-Library.Multiset"
begin

text \<open>
  Lemmas of the topologies: how many turns each can start, the order in which the blackboard runs
  its tasks, the normal form of a task list, and the positions a validated custom graph can reach.
\<close>

subsection \<open>Bounds on turns\<close>

lemma turns_lift: "turns 0 (elift r)" by (rule turns_0) (rule index.fr_lift)
lemma turns_get: "turns 0 (eget f)" by (rule turns_0) (rule index.fr_get)
lemma turns_ret: "turns 0 (eret a)" by (rule turns_0) (rule index.fr_ret)
lemma turns_raise: "turns 0 (eraise e)" by (rule turns_0) (rule index.fr_raise)
lemma turns_final: "turns 0 (set_final out)" by (rule turns_0) (rule index.set_final_frame)
lemma turns_note: "turns 0 (set_note k v)" by (rule turns_0) (rule index.set_note_frame)
lemma turns_board: "turns 0 final_from_board" by (rule turns_0) (rule index.final_from_board_frame)
lemma turns_entry: "turns 0 (emod (\<lambda>s. s\<lparr>es_run := append_entry (es_run s) agent out vis\<rparr>))"
  by (rule turns_0) (rule index.append_frame)
lemma turns_finish_swarm: "turns 0 (finish_swarm decision visits)"
  by (rule turns_0) (rule index.finish_swarm_frame)

lemma turns_says: "turns 1 (agent_says eng agent ins)"
  unfolding agent_says_def by (rule turns_call)

lemma turns_bind_0: "turns 0 m \<Longrightarrow> (\<And>x. turns b (f x)) \<Longrightarrow> turns b (ebind m f)"
  using turns_bind [of 0 m b f] by simp

lemma turns_then_0: "turns 0 m \<Longrightarrow> turns b n \<Longrightarrow> turns b (ethen m n)"
  using turns_then [of 0 m b n] by simp

lemma turns_any: "turns 0 m \<Longrightarrow> turns b m"
  by (erule turns_mono) simp

lemma turns_if: "turns b m \<Longrightarrow> turns b n \<Longrightarrow> turns b (if c then m else n)"
  by simp

lemma turns_for: "(\<And>x. x \<in> set xs \<Longrightarrow> turns k (f x)) \<Longrightarrow> turns (length xs * k) (efor xs f)"
proof (induction xs)
  case (Cons x xs)
  then show ?case using turns_then [of k "f x" "length xs * k" "efor xs f"] by simp
qed (simp add: turns_ret)

lemma turns_json: "turns (Suc retries) (call_agent_json eng agent ins required retries)"
proof -
  have "turns n (json_attempts eng agent ins required n prompt)" for n prompt
  proof (induction n arbitrary: prompt)
    case 0
    show ?case unfolding json_attempts.simps by (rule turns_raise)
  next
    case (Suc n)
    have "turns n (case parse_reply required raw of Inr parsed \<Rightarrow> eret parsed
       | Inl e \<Rightarrow> (case as_value_error e of None \<Rightarrow> eraise e
           | Some err \<Rightarrow> if n = 0 then eraise (ValueError (''agent '' @ as_name agent @ '' did not return usable JSON: '' @ err))
               else json_attempts eng agent ins required n (reprompt ins err)))" for raw
      using Suc.IH by (auto split: sum.splits option.splits intro: turns_any turns_ret turns_raise)
    from turns_bind [OF turns_call this] show ?case by simp
  qed
  from this [of "retries + 1"] show ?thesis unfolding call_agent_json_def by simp
qed

lemma turns_json_1: "turns 2 (call_agent_json eng agent ins required 1)"
  using turns_json [of 1 eng agent ins required] by (simp add: numeral_2_eq_2)

lemma supervisor_turns: "turns (3 * n + 1) (supervisor_loop eng mgr workers n)"
proof (induction n)
  case 0
  show ?case using turns_bind [OF turns_says turns_final, of eng mgr "JStr SUPERVISOR_SPENT" "\<lambda>x. x"]
    by (simp add: turns_then_0 turns_note)
next
  case (Suc n)
  have "turns (3 * n + 2) (if lower (j_str (dget_or d ''action'' (JStr []))) = ''finish'' then
         ebind (eget (\<lambda>s. last_output (es_run s))) (\<lambda>lo.
           set_final (j_str (or_else (jget d ''answer'') (JStr lo))))
       else
         let worker_id = j_str (dget_or d ''worker'' (JStr [])) in
         case dget workers worker_id of
           None \<Rightarrow>
             ethen (emod (\<lambda>s. s\<lparr>es_run := append_entry (es_run s) mgr (routing_error worker_id workers) None\<rparr>))
               (supervisor_loop eng mgr workers n)
         | Some w \<Rightarrow>
             ebind (agent_says eng w (JStr (j_str (or_else (jget d ''task'') (JStr ''Continue the work.'')))))
               (\<lambda>_. supervisor_loop eng mgr workers n))" for d
    using turns_bind [OF turns_says Suc.IH] turns_mono [OF turns_then_0 [OF turns_entry Suc.IH]]
      turns_any [OF turns_bind_0 [OF turns_get turns_final]]
    by (auto simp: Let_def split: option.splits)
  from turns_bind [OF turns_json_1 this] show ?case
    unfolding supervisor_loop.simps by (rule turns_mono) simp
qed

lemma swarm_turns: "turns (2 * n + 1) (swarm_loop eng swarm n current visits)"
proof (induction n arbitrary: current visits)
  case 0
  show ?case using turns_bind [OF turns_says turns_final, of eng current "JStr SWARM_SPENT" "\<lambda>x. x"]
    by (simp add: turns_then_0 turns_note)
next
  case (Suc n)
  have "turns (2 * n + 1) (let visits' = visits @ [as_id current]; nxt = jget d ''handoff_to''; next_id = j_str nxt in
       if \<not> truthy nxt then finish_swarm d visits'
       else case (if next_id = as_id current then None else dget swarm next_id) of
         None \<Rightarrow> ethen (finish_swarm d visits') (set_note ''invalid_handoff'' (JStr next_id))
       | Some a \<Rightarrow> swarm_loop eng swarm n a visits')" for d
    using Suc.IH turns_any [OF turns_then_0 [OF turns_finish_swarm turns_note]] turns_any [OF turns_finish_swarm]
    by (auto simp: Let_def split: option.splits)
  from turns_bind [OF turns_json_1 this] show ?case
    unfolding swarm_loop.simps by (rule turns_mono) simp
qed

lemma visit_turns: "turns 2 (custom_visit eng g agents current node)"
proof -
  have json: "turns 2 (ebind (call_agent_json eng agent ins required 1) (\<lambda>d. eret (f d)))" for agent ins required and f :: "jobj \<Rightarrow> json option"
    using turns_bind [OF turns_json_1 turns_ret] by simp
  have says: "turns 2 (ebind (agent_says eng agent ins) (\<lambda>_. eret x))" for agent ins and x :: "json option"
    using turns_mono [OF turns_bind [OF turns_says turns_ret], of 2] by simp
  show ?thesis unfolding custom_visit_def Let_def
    by (rule turns_if json says turns_any [OF turns_ret] turns_any [OF turns_raise] turns_bind_0 [OF turns_lift])+
qed

lemma custom_turns: "turns (2 * n) (custom_loop eng g agents n current path)"
proof (induction n arbitrary: current path)
  case 0
  show ?case by (simp add: turns_then_0 turns_note turns_ret)
next
  case (Suc n)
  have "turns (2 * n) (case nxt of None \<Rightarrow> eret (path @ [current])
         | Some c \<Rightarrow> custom_loop eng g agents n c (path @ [current]))" for nxt
    using Suc.IH by (auto split: option.splits intro: turns_any turns_ret)
  from turns_bind [OF visit_turns this, of eng g agents current]
  have v: "turns (2 * Suc n) (ebind (custom_visit eng g agents current node) (\<lambda>nxt. case nxt of None \<Rightarrow> eret (path @ [current])
         | Some c \<Rightarrow> custom_loop eng g agents n c (path @ [current])))" for node by simp
  have found: "turns (2 * Suc n) (case found of
       None \<Rightarrow> eraise (WorkflowConfigError (UnknownNode current))
     | Some node \<Rightarrow> ebind (custom_visit eng g agents current node) (\<lambda>nxt. case nxt of
           None \<Rightarrow> eret (path @ [current])
         | Some c \<Rightarrow> custom_loop eng g agents n c (path @ [current])))" for found
    using v turns_any [OF turns_raise] by (cases found) simp_all
  show ?case unfolding custom_loop.simps
    by (rule turns_if turns_any [OF turns_ret] turns_bind_0 [OF turns_lift found])+
qed

subsection \<open>The order of the blackboard\<close>

text \<open>The tasks in the order they are run: the loop is that sequence.\<close>

function plan_order :: "string list \<Rightarrow> task list \<Rightarrow> task list" where
  "plan_order finished pending = (
     if pending = [] then []
     else let ready = ready_tasks finished pending in
       ready @ plan_order (finished @ map tk_id ready) (fold remove1 ready pending))"
  by pat_completeness auto
termination
  by (relation "measure (\<lambda>(finished, pending). length pending)") (auto simp: rounds_decrease)

declare plan_order.simps [simp del]

lemma efor_append: "efor (xs @ ys) f = ethen (efor xs f) (efor ys f)"
  by (induction xs) (simp_all add: ethen_assoc)

lemma blackboard_is_plan: "blackboard_loop eng workers finished pending = efor (plan_order finished pending) (run_task eng workers)"
proof (induction finished pending rule: plan_order.induct)
  case (1 finished pending)
  then show ?case
    by (subst blackboard_loop.simps, subst plan_order.simps) (simp add: Let_def efor_append)
qed

lemma mset_fold_remove1: "mset (fold remove1 xs ys) = mset ys - mset xs"
  by (induction xs arbitrary: ys) simp_all

lemma mset_ready: "mset (ready_tasks finished pending) \<subseteq># mset pending"
proof -
  have "mset (take 1 pending) \<subseteq># mset pending"
    by (metis append_take_drop_id mset_append mset_subset_eq_add_left)
  then show ?thesis by (simp add: ready_tasks_def Let_def mset_filter multiset_filter_subset)
qed

lemma plan_order_mset: "mset (plan_order finished pending) = mset pending"
proof (induction finished pending rule: plan_order.induct)
  case (1 finished pending)
  then show ?case
    by (subst plan_order.simps) (simp add: Let_def mset_fold_remove1 mset_ready)
qed

text \<open>
  A rank witnesses that the dependencies have no cycle: every dependency of a pending task is done
  or is a pending task of smaller rank.
\<close>

definition ranked :: "(task \<Rightarrow> nat) \<Rightarrow> string list \<Rightarrow> task list \<Rightarrow> bool" where
  "ranked r finished pending \<longleftrightarrow> (\<forall>t \<in> set pending. \<forall>d \<in> set (tk_depends_on t).
     d \<in> set finished \<or> (\<exists>u \<in> set pending. tk_id u = d \<and> r u < r t))"

lemma ranked_ready:
  assumes "ranked r finished pending" "pending \<noteq> []"
  shows "ready_tasks finished pending = filter (\<lambda>t. set (tk_depends_on t) \<subseteq> set finished) pending"
proof -
  obtain t where t: "t \<in> set pending" "\<forall>u \<in> set pending. r t \<le> r u"
    using ex_min_if_finite [of "r ` set pending"] assms(2) by (auto simp: not_less)
  then have "set (tk_depends_on t) \<subseteq> set finished"
    using assms(1) unfolding ranked_def by (meson not_le subsetI)
  with t(1) show ?thesis by (auto simp: ready_tasks_def Let_def filter_empty_conv)
qed

lemma ranked_rest:
  assumes "ranked r finished pending" "distinct pending"
  shows "ranked r (finished @ map tk_id now) (fold remove1 now pending) \<and> distinct (fold remove1 now pending)"
proof -
  have d: "distinct (fold remove1 xs ys) \<and> set (fold remove1 xs ys) = set ys - set xs" if "distinct ys" for xs ys :: "task list"
    using that by (induction xs arbitrary: ys) auto
  then show ?thesis using assms unfolding ranked_def by (fastforce simp: d)
qed

lemma plan_order_respects:
  assumes "ranked r finished pending" "distinct pending" "plan_order finished pending = xs @ t # ys"
  shows "set (tk_depends_on t) \<subseteq> set finished \<union> tk_id ` set xs"
  using assms
proof (induction finished pending arbitrary: xs rule: plan_order.induct)
  case (1 finished pending)
  show ?case
  proof (cases "pending = []")
    case True
    with "1.prems"(3) show ?thesis by (simp add: plan_order.simps)
  next
    case False
    let ?ready = "ready_tasks finished pending"
    let ?rest = "plan_order (finished @ map tk_id ?ready) (fold remove1 ?ready pending)"
    have eq: "?ready @ ?rest = xs @ t # ys"
      using "1.prems"(3) False by (subst (asm) plan_order.simps) (simp add: Let_def)
    have rest: "ranked r (finished @ map tk_id ?ready) (fold remove1 ?ready pending)" "distinct (fold remove1 ?ready pending)"
      using ranked_rest [OF "1.prems"(1,2)] by blast+
    consider (now) us where "?ready = xs @ t # us" | (later) zs where "xs = ?ready @ zs" "?rest = zs @ t # ys"
      using eq by (auto simp: append_eq_append_conv2 append_eq_Cons_conv)
    then show ?thesis
    proof cases
      case now
      then have "t \<in> set ?ready" by simp
      then show ?thesis using ranked_ready [OF "1.prems"(1) False] by auto
    next
      case later
      with "1.IH" [OF False refl rest, of zs] show ?thesis by auto
    qed
  qed
qed

subsection \<open>Task lists\<close>

definition tasks_ok :: "agent_map \<Rightarrow> task list \<Rightarrow> bool" where
  "tasks_ok workers ts \<longleftrightarrow> distinct (map tk_id ts) \<and>
     (\<forall>t \<in> set ts. dget workers (tk_worker t) \<noteq> None \<and> set (tk_depends_on t) \<subseteq> tk_id ` set ts - {tk_id t})"

lemma collect_tasks_ok:
  assumes "collect_tasks workers fb pos seen items = Inr ts" "dget workers fb \<noteq> None"
  shows "distinct (map tk_id ts) \<and> tk_id ` set ts \<inter> set seen = {} \<and> length ts \<le> length items \<and>
     (\<forall>t \<in> set ts. dget workers (tk_worker t) \<noteq> None)"
  using assms
proof (induction workers fb pos seen items arbitrary: ts rule: collect_tasks.induct)
  case (2 workers fb pos seen raw items)
  show ?case
  proof (cases "as_obj raw")
    case None
    with "2.IH"(1) [OF None] "2.prems" show ?thesis by auto
  next
    case (Some item)
    let ?id = "j_str (or_else (jget item ''id'') (JStr (''t'' @ str_of_nat (Suc pos))))"
    show ?thesis
    proof (cases "?id \<in> set seen")
      case True
      with "2.IH"(2) [OF Some refl True] "2.prems" Some show ?thesis by (auto simp: Let_def)
    next
      case False
      then obtain ds us u where "iter_values (or_else (jget item ''depends_on'') (JList [])) = Inr ds"
        and us: "collect_tasks workers fb (Suc pos) (?id # seen) items = Inr us"
        and ts: "ts = u # us" "tk_id u = ?id" "dget workers (tk_worker u) \<noteq> None"
        using "2.prems" Some by (auto simp: Let_def rbind_eq_Inr split: if_splits)
      from "2.IH"(3) [OF Some refl False refl refl us "2.prems"(2)] ts False show ?thesis by auto
    qed
  qed
qed simp

lemma normalise_tasks_ok:
  assumes "normalise_tasks raw workers n = Inr ts" "0 \<le> n"
  shows "tasks_ok workers ts \<and> int (length ts) \<le> n"
proof (cases "ts = []")
  case True
  with assms show ?thesis by (simp add: tasks_ok_def)
next
  case False
  then obtain items fb a ws us where w: "workers = (fb, a) # ws"
    and us: "collect_tasks workers fb 0 [] (py_take n items) = Inr us" and ts: "ts = drop_unknown us"
    using assms(1) by (auto simp: normalise_tasks_def rbind_eq_Inr split: json.splits list.splits)
  have len: "int (length (py_take n items)) \<le> n" using assms(2) by (simp add: py_take_def of_nat_min)
  from collect_tasks_ok [OF us] w
  have u: "distinct (map tk_id us)" "length us \<le> length (py_take n items)"
      "\<forall>t \<in> set us. dget workers (tk_worker t) \<noteq> None" by auto
  have ids: "map tk_id ts = map tk_id us" by (simp add: ts drop_unknown_def)
  then have "tk_id ` set ts = tk_id ` set us" by (metis set_map)
  have "distinct (map tk_id ts)" "length ts = length us" using u(1) ids by (simp, metis length_map)
  moreover have "\<forall>t \<in> set ts. dget workers (tk_worker t) \<noteq> None \<and> set (tk_depends_on t) \<subseteq> tk_id ` set us - {tk_id t}"
    using u(3) by (auto simp: ts drop_unknown_def)
  ultimately show ?thesis using u(2) len \<open>tk_id ` set ts = tk_id ` set us\<close> by (simp add: tasks_ok_def)
qed

subsection \<open>Positions of a custom graph\<close>

text \<open>One move of the run: from a node to a target of one of its edges, or to the end.\<close>

inductive moves :: "custom_graph \<Rightarrow> json \<Rightarrow> json \<Rightarrow> bool" for g where
  follow: "hash_key v = Some k \<Longrightarrow> t \<in> set (dget_or (cg_outgoing g) k []) \<Longrightarrow> moves g v t"
| finish: "moves g v (JStr ''end'')"

inductive reached :: "custom_graph \<Rightarrow> json \<Rightarrow> json \<Rightarrow> bool" for g start where
  start: "reached g start start"
| move: "reached g start v \<Longrightarrow> moves g v w \<Longrightarrow> reached g start w"

inductive_cases movesE: "moves g v w"

definition on_graph :: "custom_graph \<Rightarrow> json \<Rightarrow> bool" where
  "on_graph g v \<longleftrightarrow> v = JStr ''end'' \<or> (\<exists>d. get_node g v = Inr (Some d))"

definition closed :: "custom_graph \<Rightarrow> bool" where
  "closed g \<longleftrightarrow> (\<forall>k. \<forall>t \<in> set (dget_or (cg_outgoing g) k []). on_graph g t)"

lemma reached_on_graph: "reached g start v \<Longrightarrow> closed g \<Longrightarrow> on_graph g start \<Longrightarrow> on_graph g v"
  by (induction rule: reached.induct) (auto simp: closed_def on_graph_def elim!: movesE)

text \<open>The position a visit returns is a move of the relation.\<close>

lemma visit_moves:
  assumes "custom_visit eng g agents current node s = (Inr (Some w), s')"
  shows "moves g current w"
  using assms unfolding custom_visit_def Let_def
  by (auto simp: ebind_eq_Inr choose_next_def hashed_def intro: follow finish split: if_splits list.splits option.splits)

lemma check_nodes_ids:
  assumes "check_nodes pos ids aids nodes = Inr (ids', aids')"
  shows "set ids' = set ids \<union> {k. \<exists>n \<in> set nodes. \<exists>d. n = JObj d \<and> hash_key (jget d ''id'') = Some k} \<and>
     (\<forall>n \<in> set nodes. \<exists>d k. n = JObj d \<and> truthy (jget d ''id'') \<and> hash_key (jget d ''id'') = Some k)"
  using assms
proof (induction pos ids aids nodes rule: check_nodes.induct)
  case (2 pos ids aids node nodes)
  obtain d where d: "node = JObj d"
    using "2.prems" by (cases node) (auto simp: as_obj_def config_err_def)
  then have obj: "as_obj node = Some d" by (simp add: as_obj_def)
  have t: "truthy (jget d ''id'')" using "2.prems" obj by (auto simp: config_err_def split: if_splits)
  then obtain k where k: "hash_key (jget d ''id'') = Some k"
    using "2.prems" obj by (auto simp: hashed_def split: option.splits)
  obtain aids2 where rec: "check_nodes (Suc pos) (ids @ [k]) aids2 nodes = Inr (ids', aids')"
    using "2.prems" obj t k by (auto simp: hashed_def config_err_def split: if_splits)
  have "set ids' = set (ids @ [k]) \<union> {k. \<exists>n \<in> set nodes. \<exists>d. n = JObj d \<and> hash_key (jget d ''id'') = Some k} \<and>
     (\<forall>n \<in> set nodes. \<exists>d k. n = JObj d \<and> truthy (jget d ''id'') \<and> hash_key (jget d ''id'') = Some k)"
    using "2.IH" "2.prems" obj t k rec by (auto simp: hashed_def config_err_def split: if_splits)
  then show ?case using d k t by auto
qed simp

lemma check_edge_ok:
  assumes "check_edge ids e = Inr ()"
  obtains d f t fk tk where "e = JObj d" "dget d ''from'' = Some f" "dget d ''to'' = Some t"
    and "hash_key f = Some fk" "hash_key t = Some tk" "tk \<in> set ids \<or> t = JStr ''end''"
proof -
  obtain d where d: "e = JObj d" using assms by (cases e) (auto simp: check_edge_def as_obj_def config_err_def)
  then obtain f t where ft: "dget d ''from'' = Some f" "dget d ''to'' = Some t"
    using assms by (auto simp: check_edge_def as_obj_def config_err_def split: option.splits)
  then obtain fk tk where "hash_key f = Some fk" "hash_key t = Some tk" "tk \<in> set ids \<or> t = JStr ''end''"
    using assms d by (auto simp: check_edge_def as_obj_def config_err_def rbind_eq_Inr hashed_def split: option.splits if_splits)
  with d ft that show ?thesis by blast
qed

lemma add_edges_ok:
  assumes "\<forall>e \<in> set es. check_edge ids e = Inr ()"
  shows "\<exists>d'. add_edges es d = Inr d' \<and> (\<forall>k. \<forall>t \<in> set (dget_or d' k []).
     t \<in> set (dget_or d k []) \<or> t = JStr ''end'' \<or> (\<exists>tk \<in> set ids. hash_key t = Some tk))"
  using assms
proof (induction es arbitrary: d)
  case (Cons e es)
  obtain de f t fk tk where e: "e = JObj de" "dget de ''from'' = Some f" "dget de ''to'' = Some t"
      "hash_key f = Some fk" "hash_key t = Some tk" "tk \<in> set ids \<or> t = JStr ''end''"
    using Cons.prems by (auto elim: check_edge_ok)
  let ?d = "dset fk (dget_or d fk [] @ [t]) d"
  have s: "add_edges (e # es) d = add_edges es ?d"
    using e by (simp add: subscript_def as_obj_def hashed_def)
  from Cons.IH [of ?d] Cons.prems obtain d' where d': "add_edges es ?d = Inr d'"
    and t': "\<forall>k. \<forall>x \<in> set (dget_or d' k []). x \<in> set (dget_or ?d k []) \<or> x = JStr ''end'' \<or> (\<exists>tk \<in> set ids. hash_key x = Some tk)"
    by auto
  have "x \<in> set (dget_or d k []) \<or> x = JStr ''end'' \<or> (\<exists>tk \<in> set ids. hash_key x = Some tk)"
    if "x \<in> set (dget_or d' k [])" for k x
    using t' [rule_format, OF that] e(5,6) by (auto split: if_splits)
  then show ?case using d' by (simp only: s) blast
qed simp

lemma node_entries:
  assumes "\<forall>n \<in> set ns. \<exists>d k. n = JObj d \<and> truthy (jget d ''id'') \<and> hash_key (jget d ''id'') = Some k"
  shows "\<exists>es. rmap node_entry ns = Inr es \<and>
     fst ` set es = {k. \<exists>n \<in> set ns. \<exists>d. n = JObj d \<and> hash_key (jget d ''id'') = Some k}"
  using assms
proof (induction ns)
  case (Cons n ns)
  then obtain d k where n: "n = JObj d" "truthy (jget d ''id'')" "hash_key (jget d ''id'') = Some k" by auto
  then obtain v where v: "dget d ''id'' = Some v" by (auto simp: jget_def split: option.splits)
  then have ne: "node_entry n = Inr (k, d)" using n by (simp add: node_entry_def subscript_def as_obj_def hashed_def jget_def)
  from Cons obtain es where "rmap node_entry ns = Inr es"
    "fst ` set es = {k. \<exists>n \<in> set ns. \<exists>d. n = JObj d \<and> hash_key (jget d ''id'') = Some k}" by auto
  then show ?case using n ne by auto
qed simp

lemma validated_closed:
  assumes "validate_custom graph = Inr aids"
  obtains g start where "load_graph graph = Inr g" "require_key graph ''start'' = Inr start"
    and "closed g" "on_graph g (JStr (j_str start))"
proof -
  obtain nodes where nodes: "require_key graph ''nodes'' = Inr nodes"
    using assms by (auto simp: validate_custom_def rbind_eq_Inr)
  obtain start where start: "require_key graph ''start'' = Inr start"
    using assms nodes by (auto simp: validate_custom_def rbind_eq_Inr)
  obtain ns where ns: "nodes = JList ns"
    using assms nodes start by (cases nodes) (auto simp: validate_custom_def config_err_def)
  obtain ids aids2 where ids: "check_nodes 0 [] [] ns = Inr (ids, aids2)"
    and st: "HStr (j_str start) \<in> set ids"
    using assms nodes start ns by (auto simp: validate_custom_def config_err_def rbind_eq_Inr split: if_splits)
  obtain edges units where edges: "iter_values (or_else (jget graph ''edges'') (JList [])) = Inr edges"
    and chk: "rmap (check_edge ids) edges = Inr units"
    using assms nodes start ns ids st by (auto simp: validate_custom_def rbind_eq_Inr)
  have "\<forall>e \<in> set edges. check_edge ids e = Inr ()"
    using chk by (auto simp: rmap_eq_Inr list_all2_conv_all_nth in_set_conv_nth)
  from add_edges_ok [OF this, of "[]"] obtain out where out: "add_edges edges [] = Inr out"
    and tgt: "\<forall>k. \<forall>t \<in> set (dget_or out k []). t = JStr ''end'' \<or> (\<exists>tk \<in> set ids. hash_key t = Some tk)"
    by auto
  note ci = check_nodes_ids [OF ids]
  from node_entries [of ns] ci obtain es where es: "rmap node_entry ns = Inr es" "fst ` set es = set ids" by auto
  let ?g = "\<lparr>cg_nodes = dict_of es, cg_outgoing = out\<rparr>"
  have load: "load_graph graph = Inr ?g"
    using nodes ns edges es out by (simp add: load_graph_def)
  have known: "dget (dict_of es) k \<noteq> None" if "k \<in> set ids" for k
    using that es(2) keys_dict_of [of es] by (simp add: map_of_eq_None_iff)
  have on: "on_graph ?g v" if "hash_key v = Some k" "k \<in> set ids" for v k
    using known [OF that(2)] that(1) by (auto simp: on_graph_def get_node_def hashed_def)
  have "closed ?g" unfolding closed_def using tgt on by (auto simp: on_graph_def)
  moreover have "on_graph ?g (JStr (j_str start))" using on [of "JStr (j_str start)"] st by simp
  ultimately show ?thesis using that load start by blast
qed

end
