(* ===== verification/Billing.thy ===== *)
theory Billing
  imports Models Pricing
begin

text \<open>
  \<^verbatim>\<open>core/billing.py\<close>: the append-only ledger, the balance kept beside it, idempotent posting with its
  retry after a lost race, the charge of a finished run and the reconciliation. The functions act
  inside a transaction. The ids the database generates and the state other transactions had
  committed when a flush hit the unique constraint (which the rollback makes visible) are
  arguments.
\<close>

datatype billing_error = InsufficientCredits int int | BillingError exn

record ledger_entry =
  le_id :: string
  le_kind :: string
  le_amount_cents :: int
  le_balance_after_cents :: int
  le_description :: string

definition entry_of :: "ledger_row \<Rightarrow> ledger_entry" where
  "entry_of r = \<lparr>le_id = lg_id r, le_kind = lg_kind r, le_amount_cents = lg_amount_cents r,
     le_balance_after_cents = lg_balance_after_cents r, le_description = lg_description r\<rparr>"

record posting =
  po_org_id :: string
  po_kind :: string
  po_amount_cents :: int
  po_idempotency_key :: string
  po_description :: string
  po_run_id :: "string option"
  po_created_by :: "string option"

definition find_entry :: "db \<Rightarrow> string \<Rightarrow> string \<Rightarrow> ledger_row option" where
  "find_entry d org_id key = List.find (\<lambda>r. lg_org_id r = org_id \<and> lg_idempotency_key r = key) (db_ledger d)"

definition locked_org :: "db \<Rightarrow> string \<Rightarrow> org_row res" where
  "locked_org d org_id = (case get_org d org_id of
     None \<Rightarrow> Inl (ValueError (''organisation '' @ org_id @ '' not found'')) | Some o1 \<Rightarrow> Inr o1)"

definition balance :: "db \<Rightarrow> string \<Rightarrow> int" where
  "balance d org_id = (case get_org d org_id of None \<Rightarrow> 0 | Some o1 \<Rightarrow> o_credits_cents o1)"

definition ensure_can_start :: "settings \<Rightarrow> db \<Rightarrow> string \<Rightarrow> int \<Rightarrow> billing_error + unit" where
  "ensure_can_start cfg d org_id required = (
     if \<not> cfg_billing_enabled cfg then Inr ()
     else case get_org d org_id of
       None \<Rightarrow> Inl (BillingError (ValueError (''organisation '' @ org_id @ '' not found'')))
     | Some o1 \<Rightarrow> if o_credits_cents o1 < required then Inl (InsufficientCredits (o_credits_cents o1) required)
                 else Inr ())"

definition set_credits :: "string \<Rightarrow> int \<Rightarrow> db \<Rightarrow> db" where
  "set_credits org_id c d = d\<lparr>db_orgs := row_set o_id org_id (\<lambda>r. r\<lparr>o_credits_cents := c\<rparr>) (db_orgs d)\<rparr>"

definition posted_row :: "string \<Rightarrow> posting \<Rightarrow> int \<Rightarrow> ledger_row" where
  "posted_row new_id p after = \<lparr>lg_id = new_id, lg_org_id = po_org_id p, lg_kind = po_kind p,
     lg_amount_cents = po_amount_cents p, lg_balance_after_cents = after, lg_run_id = po_run_id p,
     lg_description = take 400 (po_description p), lg_idempotency_key = po_idempotency_key p,
     lg_created_by = po_created_by p\<rparr>"

text \<open>
  \<open>races\<close> lists, for the successive flushes, the committed database each of them met; a flush
  fails when that database has the entry already. Without a failing flush the list is empty.
\<close>

fun post_entry :: "db list \<Rightarrow> string \<Rightarrow> posting \<Rightarrow> ledger_entry txn" where
  "post_entry races new_id p d = (
     case find_entry d (po_org_id p) (po_idempotency_key p) of
       Some existing \<Rightarrow> (Inr (entry_of existing), d)
     | None \<Rightarrow>
        (case locked_org d (po_org_id p) of
           Inl e \<Rightarrow> (Inl e, d)
         | Inr o1 \<Rightarrow>
             let after = o_credits_cents o1 + po_amount_cents p;
                 row = posted_row new_id p after;
                 d' = (set_credits (po_org_id p) after d)\<lparr>db_ledger := db_ledger d @ [row]\<rparr>
             in case races of
                  [] \<Rightarrow> (Inr (entry_of row), d')
                | committed # rest \<Rightarrow>
                    if find_entry committed (po_org_id p) (po_idempotency_key p) \<noteq> None
                    then post_entry rest new_id p committed
                    else (Inr (entry_of row), d')))"

declare post_entry.simps [simp del]

definition charge_run :: "settings \<Rightarrow> db list \<Rightarrow> string \<Rightarrow> string \<Rightarrow> string \<Rightarrow> int \<Rightarrow> ledger_entry option txn" where
  "charge_run cfg races new_id org_id run_id billable = (
     if \<not> cfg_billing_enabled cfg \<or> billable \<le> 0 then eret None
     else let cents = microcents_to_cents billable in
       if cents = 0 then eret None
       else ebind (post_entry races new_id \<lparr>po_org_id = org_id, po_kind = ''debit'', po_amount_cents = - cents,
              po_idempotency_key = ''run:'' @ run_id, po_description = ''run '' @ run_id,
              po_run_id = Some run_id, po_created_by = None\<rparr>) (\<lambda>e. eret (Some e)))"

definition grant :: "db list \<Rightarrow> string \<Rightarrow> string \<Rightarrow> string \<Rightarrow> int \<Rightarrow> string \<Rightarrow> string \<Rightarrow> string option \<Rightarrow>
    string option \<Rightarrow> ledger_entry txn" where
  "grant races new_id new_uuid org_id amount kind description idempotency_key created_by = (
     if amount \<le> 0 then eraise (ValueError ''grant amount must be positive'')
     else post_entry races new_id \<lparr>po_org_id = org_id, po_kind = kind, po_amount_cents = amount,
            po_idempotency_key = (case idempotency_key of Some k \<Rightarrow> if k \<noteq> [] then k else kind @ '':'' @ new_uuid
               | None \<Rightarrow> kind @ '':'' @ new_uuid),
            po_description = description, po_run_id = None, po_created_by = created_by\<rparr>)"

definition ledger_sum :: "db \<Rightarrow> string \<Rightarrow> int" where
  "ledger_sum d org_id = sum_list (map lg_amount_cents (filter (\<lambda>r. lg_org_id r = org_id) (db_ledger d)))"

definition reconcile :: "string \<Rightarrow> int txn" where
  "reconcile org_id = (\<lambda>d. case locked_org d org_id of
     Inl e \<Rightarrow> (Inl e, d)
   | Inr _ \<Rightarrow> (Inr (ledger_sum d org_id), set_credits org_id (ledger_sum d org_id) d))"

subsection \<open>The ledger invariant\<close>

text \<open>
  Every balance is the sum of its entries, every entry records the balance it left, an idempotency
  key names one entry of an organisation, and every entry belongs to an organisation.
\<close>

fun running :: "int \<Rightarrow> ledger_row list \<Rightarrow> bool" where
  "running b [] = True"
| "running b (r # rs) = (lg_balance_after_cents r = b + lg_amount_cents r \<and> running (b + lg_amount_cents r) rs)"

definition entries :: "db \<Rightarrow> string \<Rightarrow> ledger_row list" where
  "entries d org_id = filter (\<lambda>r. lg_org_id r = org_id) (db_ledger d)"

definition ledger_ok :: "db \<Rightarrow> bool" where
  "ledger_ok d \<longleftrightarrow> distinct (map o_id (db_orgs d)) \<and>
     (\<forall>o1 \<in> set (db_orgs d). o_credits_cents o1 = ledger_sum d (o_id o1)) \<and>
     (\<forall>org. running 0 (entries d org)) \<and>
     distinct (map (\<lambda>r. (lg_org_id r, lg_idempotency_key r)) (db_ledger d))"

lemma ledger_ok_empty: "ledger_ok empty_db"
  by (simp add: ledger_ok_def empty_db_def entries_def)

lemma running_append: "running b (xs @ ys) \<longleftrightarrow> running b xs \<and> running (b + sum_list (map lg_amount_cents xs)) ys"
  by (induction xs arbitrary: b) (auto simp: algebra_simps)

lemma get_org_in: "get_org d i = Some o1 \<Longrightarrow> o1 \<in> set (db_orgs d) \<and> o_id o1 = i"
  unfolding get_org_def by (rule row_get_Some)

lemma locked_org_Inr: "locked_org d i = Inr o1 \<longleftrightarrow> get_org d i = Some o1"
  by (auto simp: locked_org_def split: option.splits)

lemma balance_sum: "ledger_ok d \<Longrightarrow> get_org d i = Some o1 \<Longrightarrow> balance d i = ledger_sum d i"
  using get_org_in [of d i o1] by (auto simp: balance_def ledger_ok_def)

lemma find_entry_None:
  "find_entry d org key = None \<longleftrightarrow> (org, key) \<notin> (\<lambda>r. (lg_org_id r, lg_idempotency_key r)) ` set (db_ledger d)"
  by (auto simp: find_entry_def find_None_iff)

lemma get_org_set_credits:
  "get_org (set_credits i c d) j = (if i = j then map_option (\<lambda>r. r\<lparr>o_credits_cents := c\<rparr>) (get_org d j) else get_org d j)"
  unfolding get_org_def set_credits_def by (simp add: row_get_set)

lemma set_credits_ok:
  assumes "distinct (map o_id (db_orgs d))"
  shows "map o_id (db_orgs (set_credits i c d)) = map o_id (db_orgs d)"
    and "o1 \<in> set (db_orgs (set_credits i c d)) \<Longrightarrow>
       (o_id o1 = i \<and> o_credits_cents o1 = c) \<or> (o_id o1 \<noteq> i \<and> o1 \<in> set (db_orgs d))"
  by (auto simp: set_credits_def row_set_keys row_set_def split: if_splits)

lemma ledger_sum_snoc:
  "ledger_sum (d\<lparr>db_ledger := db_ledger e @ [r]\<rparr>) org = ledger_sum e org + (if lg_org_id r = org then lg_amount_cents r else 0)"
  by (simp add: ledger_sum_def)

lemma posting_ok:
  assumes "ledger_ok d" "find_entry d (po_org_id p) (po_idempotency_key p) = None"
    and "get_org d (po_org_id p) = Some o1"
  shows "ledger_ok ((set_credits (po_org_id p) (o_credits_cents o1 + po_amount_cents p) d)
     \<lparr>db_ledger := db_ledger d @ [posted_row i p (o_credits_cents o1 + po_amount_cents p)]\<rparr>)"
    (is "ledger_ok ?d")
proof -
  let ?row = "posted_row i p (o_credits_cents o1 + po_amount_cents p)"
  let ?e = "set_credits (po_org_id p) (o_credits_cents o1 + po_amount_cents p) d"
  have dist: "distinct (map o_id (db_orgs d))" using assms(1) by (simp add: ledger_ok_def)
  have c: "o_credits_cents o1 = ledger_sum d (po_org_id p)"
    using assms(1) get_org_in [OF assms(3)] by (auto simp: ledger_ok_def)
  have "distinct (map o_id (db_orgs ?d))" using set_credits_ok(1) [OF dist] dist by simp
  moreover have "o_credits_cents o2 = ledger_sum ?d (o_id o2)" if "o2 \<in> set (db_orgs ?d)" for o2
  proof -
    from that have "(o_id o2 = po_org_id p \<and> o_credits_cents o2 = o_credits_cents o1 + po_amount_cents p)
       \<or> (o_id o2 \<noteq> po_org_id p \<and> o2 \<in> set (db_orgs d))"
      using set_credits_ok(2) [OF dist, of o2] by simp
    with assms(1) show ?thesis
      by (auto simp: ledger_sum_snoc posted_row_def c ledger_ok_def)
  qed
  moreover have "running 0 (entries ?d org)" for org
    using assms(1) c by (auto simp: ledger_ok_def entries_def running_append posted_row_def ledger_sum_def)
  moreover have "distinct (map (\<lambda>r. (lg_org_id r, lg_idempotency_key r)) (db_ledger ?d))"
  proof -
    have "distinct (map (\<lambda>r. (lg_org_id r, lg_idempotency_key r)) (db_ledger d))"
      using assms(1) unfolding ledger_ok_def by blast
    moreover have "(po_org_id p, po_idempotency_key p) \<notin> (\<lambda>r. (lg_org_id r, lg_idempotency_key r)) ` set (db_ledger d)"
      using assms(2) by (simp only: find_entry_None not_False_eq_True simp_thms)
    ultimately show ?thesis by (simp add: posted_row_def)
  qed
  ultimately show ?thesis unfolding ledger_ok_def by blast
qed

text \<open>The outcomes of posting: replayed, refused, appended, or retried on the winner's state.\<close>

definition appended :: "string \<Rightarrow> posting \<Rightarrow> org_row \<Rightarrow> db \<Rightarrow> db" where
  "appended new_id p o1 d = (let after = o_credits_cents o1 + po_amount_cents p in
     (set_credits (po_org_id p) after d)\<lparr>db_ledger := db_ledger d @ [posted_row new_id p after]\<rparr>)"

lemma post_replayed:
  "find_entry d (po_org_id p) (po_idempotency_key p) = Some e \<Longrightarrow> post_entry races i p d = (Inr (entry_of e), d)"
  by (subst post_entry.simps) simp

lemma post_refused:
  "find_entry d (po_org_id p) (po_idempotency_key p) = None \<Longrightarrow> locked_org d (po_org_id p) = Inl e \<Longrightarrow>
   post_entry races i p d = (Inl e, d)"
  by (subst post_entry.simps) simp

lemma post_appended:
  "find_entry d (po_org_id p) (po_idempotency_key p) = None \<Longrightarrow> get_org d (po_org_id p) = Some o1 \<Longrightarrow>
   races = [] \<or> find_entry (hd races) (po_org_id p) (po_idempotency_key p) = None \<Longrightarrow>
   post_entry races i p d =
     (Inr (entry_of (posted_row i p (o_credits_cents o1 + po_amount_cents p))), appended i p o1 d)"
  by (subst post_entry.simps) (auto simp: Let_def appended_def locked_org_Inr [THEN iffD2] split: list.splits)

lemma post_retried:
  "find_entry d (po_org_id p) (po_idempotency_key p) = None \<Longrightarrow> get_org d (po_org_id p) = Some o1 \<Longrightarrow>
   find_entry c (po_org_id p) (po_idempotency_key p) \<noteq> None \<Longrightarrow>
   post_entry (c # cs) i p d = post_entry cs i p c"
  by (subst post_entry.simps) (auto simp: Let_def locked_org_Inr [THEN iffD2])

lemma post_entry_ok:
  assumes "ledger_ok d" "\<forall>c \<in> set races. ledger_ok c" "post_entry races i p d = (r, d')"
  shows "ledger_ok d'"
  using assms
proof (induction races arbitrary: d)
  case Nil
  show ?case
  proof (cases "find_entry d (po_org_id p) (po_idempotency_key p)")
    case None
    with Nil show ?thesis
      by (cases "locked_org d (po_org_id p)")
        (auto simp: post_refused post_appended locked_org_Inr appended_def Let_def intro: posting_ok)
  qed (use Nil in \<open>simp add: post_replayed\<close>)
next
  case (Cons c cs)
  show ?case
  proof (cases "find_entry d (po_org_id p) (po_idempotency_key p)")
    case None
    show ?thesis
    proof (cases "locked_org d (po_org_id p)")
      case (Inl e)
      with Cons.prems None show ?thesis by (simp add: post_refused)
    next
      case (Inr o1)
      then have o1: "get_org d (po_org_id p) = Some o1" by (simp add: locked_org_Inr)
      show ?thesis
      proof (cases "find_entry c (po_org_id p) (po_idempotency_key p) = None")
        case True
        with Cons.prems None o1 posting_ok [OF Cons.prems(1) None o1] show ?thesis
          by (auto simp: post_appended appended_def Let_def)
      next
        case False
        from post_retried [OF None o1 False] Cons.prems Cons.IH [of c] show ?thesis by simp
      qed
    qed
  qed (use Cons.prems in \<open>simp add: post_replayed\<close>)
qed

lemma find_entry_appended:
  "find_entry d (po_org_id p) (po_idempotency_key p) = None \<Longrightarrow>
   find_entry (appended i p o1 d) (po_org_id p) (po_idempotency_key p)
     = Some (posted_row i p (o_credits_cents o1 + po_amount_cents p))"
  by (simp add: find_entry_def appended_def Let_def posted_row_def find_append)

text \<open>After a successful post the entry is there, so a repetition returns it and changes nothing.\<close>

lemma post_entry_found:
  assumes "post_entry races i p d = (Inr e, d')"
  shows "\<exists>row. find_entry d' (po_org_id p) (po_idempotency_key p) = Some row \<and> e = entry_of row"
  using assms
proof (induction races arbitrary: d)
  case Nil
  then show ?case
    by (cases "find_entry d (po_org_id p) (po_idempotency_key p)"; cases "locked_org d (po_org_id p)")
      (auto simp: post_replayed post_refused post_appended locked_org_Inr find_entry_appended)
next
  case (Cons c cs)
  show ?case
  proof (cases "find_entry d (po_org_id p) (po_idempotency_key p) = None \<and> (\<exists>o1. get_org d (po_org_id p) = Some o1)
      \<and> find_entry c (po_org_id p) (po_idempotency_key p) \<noteq> None")
    case True
    with Cons.prems Cons.IH [of c] show ?thesis by (auto simp: post_retried)
  next
    case False
    with Cons.prems show ?thesis
      by (cases "find_entry d (po_org_id p) (po_idempotency_key p)"; cases "locked_org d (po_org_id p)")
        (auto simp: post_replayed post_refused post_appended locked_org_Inr find_entry_appended)
  qed
qed

lemma reconcile_ok:
  assumes "ledger_ok d" "get_org d org = Some o1"
  shows "fst (reconcile org d) = Inr (balance d org) \<and> ledger_ok (snd (reconcile org d))"
proof -
  have dist: "distinct (map o_id (db_orgs d))" using assms(1) by (simp add: ledger_ok_def)
  have "o_credits_cents o2 = ledger_sum d (o_id o2)" if "o2 \<in> set (db_orgs (set_credits org (ledger_sum d org) d))" for o2
    using set_credits_ok(2) [OF dist that] assms(1) by (auto simp: ledger_ok_def)
  then show ?thesis using assms set_credits_ok(1) [OF dist] dist balance_sum [OF assms]
    by (auto simp: reconcile_def locked_org_def ledger_ok_def set_credits_def entries_def ledger_sum_def)
qed

lemma charge_ok:
  assumes "charge_run cfg races new_id org i m d = (r, d')" "ledger_ok d" "\<forall>c \<in> set races. ledger_ok c"
  shows "ledger_ok d'"
  using assms post_entry_ok [OF assms(2,3)]
  by (auto simp: charge_run_def Let_def ebind_def split: if_splits prod.splits sum.splits)

lemma charge_outcome:
  assumes "charge_run cfg [] new_id org i m d = (Inr e, d')" "cfg_billing_enabled cfg" "ledger_ok d"
    and none: "find_entry d org (''run:'' @ i) = None"
  shows "ledger_ok d' \<and> balance d' org = balance d org - microcents_to_cents m \<and>
     length (db_ledger d') \<le> Suc (length (db_ledger d)) \<and>
     (0 < m \<longrightarrow> (\<exists>en. find_entry d' org (''run:'' @ i) = Some en \<and> lg_amount_cents en = - microcents_to_cents m))"
proof (cases "0 < m")
  case False
  then show ?thesis using assms by (simp add: charge_run_def microcents_to_cents_def)
next
  case True
  let ?p = "\<lparr>po_org_id = org, po_kind = ''debit'', po_amount_cents = - microcents_to_cents m,
     po_idempotency_key = ''run:'' @ i, po_description = ''run '' @ i, po_run_id = Some i, po_created_by = None\<rparr>"
  have post: "\<exists>en. post_entry [] new_id ?p d = (Inr en, d')"
    using assms(1,2) True cents_pos [OF True] by (auto simp: charge_run_def Let_def ebind_eq_Inr)
  then obtain o1 where o1: "get_org d org = Some o1"
    using none post_refused [of d ?p _ "[]" new_id] by (cases "locked_org d org") (auto simp: locked_org_Inr)
  have d': "d' = appended new_id ?p o1 d" using post post_appended [of d ?p o1 "[]" new_id] none o1 by simp
  have "balance d' org = balance d org - microcents_to_cents m"
    using o1 get_org_set_credits [of org "o_credits_cents o1 + - microcents_to_cents m" d org]
    by (simp add: d' appended_def Let_def balance_def get_org_def)
  moreover have "length (db_ledger d') = Suc (length (db_ledger d))" by (simp add: d' appended_def Let_def)
  moreover have "ledger_ok d'" using charge_ok [OF assms(1,3)] by simp
  moreover have "find_entry d' org (''run:'' @ i) = Some (posted_row new_id ?p (o_credits_cents o1 + po_amount_cents ?p))"
    using find_entry_appended [of d ?p new_id o1] none by (simp add: d')
  ultimately show ?thesis by (simp add: posted_row_def)
qed

end
