(* ===== verification/Audit_Log.thy ===== *)
theory Audit_Log
  imports Models
begin

text \<open>
  \<^verbatim>\<open>core/audit.py\<close>: audit entries join the caller's transaction, with the values of sensitive keys
  masked through nested objects.
\<close>

definition REDACT :: "string list" where
  "REDACT = [''password'', ''api_key'', ''token'', ''secret'', ''ciphertext'', ''authorization'']"

definition sensitive :: "string \<Rightarrow> bool" where
  "sensitive key = list_ex (\<lambda>marker. contains marker (lower key)) REDACT"

fun scrub :: "jobj \<Rightarrow> jobj" where
  "scrub [] = []"
| "scrub ((key, v) # rest) =
     (key, if sensitive key then JStr ''[redacted]'' else (case v of JObj d \<Rightarrow> JObj (scrub d) | _ \<Rightarrow> v)) # scrub rest"

definition user_agent_of :: "string option \<Rightarrow> string option" where
  "user_agent_of ua = (case ua of None \<Rightarrow> None | Some s \<Rightarrow> if s = [] then None else Some (take 400 s))"

definition audit_record :: "audit_row \<Rightarrow> db \<Rightarrow> db" where
  "audit_record e d = d\<lparr>db_audit := db_audit d @
     [e\<lparr>au_user_agent := user_agent_of (au_user_agent e), au_detail := scrub (au_detail e)\<rparr>]\<rparr>"

text \<open>No sensitive key of the object, or of an object nested in it, keeps its value.\<close>

fun masked :: "jobj \<Rightarrow> bool" where
  "masked [] = True"
| "masked ((key, v) # rest) = ((sensitive key \<longrightarrow> v = JStr ''[redacted]'') \<and>
     (case v of JObj d \<Rightarrow> masked d | _ \<Rightarrow> True) \<and> masked rest)"

lemma masked_scrub: "masked (scrub d)"
  by (induction d rule: scrub.induct) (auto split: json.splits)

lemma scrub_keys: "map fst (scrub d) = map fst d"
  by (induction d rule: scrub.induct) simp_all

lemma scrub_idem: "scrub (scrub d) = scrub d"
  by (induction d rule: scrub.induct) (auto split: json.splits)

lemma audit_keys_plain: "\<not> sensitive ''status''" "\<not> sensitive ''steps''" "\<not> sensitive ''cost_cents''"
  by code_simp+

text \<open>Objects inside a list are not visited.\<close>

lemma scrub_list_kept: "\<not> sensitive k \<Longrightarrow> scrub [(k, JList vs)] = [(k, JList vs)]"
  by simp

end
