(* ===== verification/Runner.thy ===== *)
theory Runner
  imports Topologies Billing Audit_Log
begin

text \<open>
  \<^verbatim>\<open>core/runner.py\<close>: the claim of a queued run, its execution under one transaction, the mapping of
  every outcome to a terminal status, the settlement, and the sweep of orphaned runs. What lives
  outside the transaction (the bus of the run) is part of the state and survives a rollback.
\<close>

subsection \<open>Error texts\<close>

definition two_digits :: "nat \<Rightarrow> string" where
  "two_digits n = (if n < 10 then ''0'' @ str_of_nat n else str_of_nat n)"

definition fmt_2f :: "rat \<Rightarrow> string" where
  "fmt_2f x = (let c = round_even (\<bar>x\<bar> * 100) in
     (if x < 0 then ''-'' else []) @ str_of_int (c div 100) @ ''.'' @ two_digits (nat (c mod 100)))"

fun budget_text :: "budget_reason \<Rightarrow> string" where
  "budget_text (StepLimit n) = ''step limit reached ('' @ str_of_int n @ '' steps)''"
| "budget_text (CostLimit m) = ''cost limit reached ('' @ fmt_2f (fl (of_int m / 1000000)) @ '' cents)''"

fun config_text :: "config_error \<Rightarrow> string" where
  "config_text (MissingKey k) = ''workflow graph is missing required key '' @ py_repr k"
| "config_text (UnknownAgent what v) = what @ '' references agent '' @ j_repr v @ '', which does not exist or is inactive''"
| "config_text (NotAnInteger n) = n @ '' must be an integer''"
| "config_text (OutOfRange n lo hi) = n @ '' must be between '' @ str_of_int lo @ '' and '' @ str_of_int hi"
| "config_text (NotAList what) = what @ '' must be a list''"
| "config_text (NodeNeedsAgent p) = ''pipeline node #'' @ str_of_nat p @ '' needs an agent_id''"
| "config_text (NodeNeedsId p) = ''custom node #'' @ str_of_nat p @ '' needs an id''"
| "config_text (DuplicateNode v) = ''duplicate node id '' @ j_repr v"
| "config_text (NodeWithoutAgent v) = ''node '' @ j_repr v @ '' needs an agent_id''"
| "config_text (StartNotInNodes s) = ''start node '' @ py_repr s @ '' is not in `nodes`''"
| "config_text EdgeShape = ''every edge needs `from` and `to`''"
| "config_text (EdgeFromUnknown v) = ''edge starts at unknown node '' @ j_repr v"
| "config_text (EdgeToUnknown v) = ''edge points at unknown node '' @ j_repr v"
| "config_text TooFewDebaters = ''a debate needs at least two debaters''"
| "config_text NoUsableTasks = ''planner produced no usable tasks''"
| "config_text (UnknownNode v) = ''graph points at unknown node '' @ j_repr v"
| "config_text (RouterNoEdges v) = ''router node '' @ j_repr v @ '' has no outgoing edges''"
| "config_text (UnknownPreset n) = ''unknown preset '' @ py_repr n
     @ ''; available presets: pipeline, supervisor, debate, blackboard, swarm, custom''"

text \<open>\<open>str(exc)\<close>; empty for the exceptions of the interpreter and the libraries, whose text is not modelled.\<close>

fun exn_text :: "exn \<Rightarrow> string" where
  "exn_text RunCancelled = ''cancelled by user''"
| "exn_text (BudgetExceeded r) = budget_text r"
| "exn_text (RunTimedOut secs) = ''time limit reached ('' @ str_of_int (round_even secs) @ ''s)''"
| "exn_text (WorkflowConfigError e) = config_text e"
| "exn_text (KeyResolutionError m) = m"
| "exn_text (UnknownModelError m) = j_repr (JStr (''model '' @ py_repr m
     @ '' is not in the registry; register it before using it so cost accounting and capability routing stay correct''))"
| "exn_text (RefusalError cat expl) = ''model refused the request (category=''
     @ (case cat of None \<Rightarrow> ''None'' | Some c \<Rightarrow> c) @ ''): '' @ (case expl of None \<Rightarrow> ''None'' | Some x \<Rightarrow> x)"
| "exn_text (ContextWindowExceeded m) = m"
| "exn_text (RetryableLLMError m) = m"
| "exn_text (LLMError m) = m"
| "exn_text (ToolError m) = m"
| "exn_text (ValueError m) = m"
| "exn_text (CryptoError m) = m"
| "exn_text _ = []"

subsection \<open>The claim\<close>

definition TERMINAL_STATUSES :: "string list" where
  "TERMINAL_STATUSES = [''succeeded'', ''failed'', ''cancelled'', ''budget_exceeded'', ''timed_out'']"

definition is_terminal :: "string \<Rightarrow> bool" where
  "is_terminal st = (st \<in> set TERMINAL_STATUSES)"

definition to_spec :: "agent_row \<Rightarrow> agent_spec" where
  "to_spec r = \<lparr>as_id = ag_id r, as_name = ag_name r, as_role = ag_role r, as_system_prompt = ag_system_prompt r,
     as_model = ag_model r, as_effort = ag_effort r, as_max_tokens = ag_max_tokens r, as_tools = ag_tools r\<rparr>"

definition load_agents :: "db \<Rightarrow> string \<Rightarrow> agent_map" where
  "load_agents d org_id = dict_of (map (\<lambda>r. (ag_id r, to_spec r))
     (filter (\<lambda>r. ag_org_id r = org_id \<and> ag_is_active r) (db_agents d)))"

definition claim :: "string \<Rightarrow> time \<Rightarrow> run_row option txn" where
  "claim run_id now = (\<lambda>d. case get_run_row d run_id of
     None \<Rightarrow> (Inl (ValueError (''run '' @ run_id @ '' not found'')), d)
   | Some run \<Rightarrow>
       if rn_status run \<noteq> ''queued'' then (Inr None, d)
       else let f = (\<lambda>r. r\<lparr>rn_status := ''running'', rn_started_at := Some now\<rparr>)
            in (Inr (Some (f run)), set_run_row run_id f d))"

subsection \<open>The execution\<close>

text \<open>The outside of one execution; \<open>xo_deadline\<close> says that a cancellation comes from \<open>wait_for\<close>.\<close>

record outside =
  xo_settings :: settings
  xo_cancel :: "nat \<Rightarrow> bool"
  xo_monotonic :: "nat \<Rightarrow> rat"
  xo_perf_counter :: "nat \<Rightarrow> rat"
  xo_now :: "nat \<Rightarrow> string"
  xo_fault :: "nat \<Rightarrow> exn option"
  xo_sched :: "nat \<Rightarrow> nat"
  xo_web :: "nat \<Rightarrow> tool \<Rightarrow> jobj \<Rightarrow> tool_result res"
  xo_provider :: "nat \<Rightarrow> nat \<Rightarrow> provider \<Rightarrow> string \<Rightarrow> completion_request \<Rightarrow> string list \<times> llm_result res"
  xo_decrypt :: "string \<Rightarrow> string \<Rightarrow> string res"
  xo_price_book :: price_book
  xo_deadline :: bool
  xo_started_at :: time
  xo_finished_at :: time
  xo_races :: "db list"
  xo_ledger_id :: string

definition limit_of :: "jobj \<Rightarrow> string \<Rightarrow> int \<Rightarrow> int res" where
  "limit_of graph key dflt = int_or_raise (dget_or graph key (JInt dflt))"

definition budget_for :: "settings \<Rightarrow> jobj \<Rightarrow> rat \<Rightarrow> budget_guard res" where
  "budget_for cfg graph now =
     rbind (limit_of graph ''max_steps'' (cfg_max_steps_per_run cfg)) (\<lambda>steps.
     rbind (limit_of graph ''max_cost_cents'' (cfg_max_cost_cents_per_run cfg)) (\<lambda>cents.
       Inr (new_budget (min steps (cfg_max_steps_per_run cfg))
              (min cents (cfg_max_cost_cents_per_run cfg) * 1000000)
              (fl (of_int (cfg_run_timeout_seconds cfg))) True now)))"

definition price_rows :: "db \<Rightarrow> (string \<times> rate) list" where
  "price_rows d = map (\<lambda>r. (mp_model r, \<lparr>rt_input_per_mtok = mp_input_per_mtok r,
     rt_output_per_mtok = mp_output_per_mtok r, rt_cached_input_per_mtok = mp_cached_input_per_mtok r\<rparr>)) (db_model_prices d)"

definition engine_for :: "outside \<Rightarrow> db \<Rightarrow> price_book \<Rightarrow> engine" where
  "engine_for xo d pb = (let cfg = xo_settings xo in
     \<lparr>en_cancel = xo_cancel xo, en_monotonic = xo_monotonic xo, en_perf_counter = xo_perf_counter xo,
      en_now = xo_now xo, en_fault = xo_fault xo, en_sched = xo_sched xo, en_web = xo_web xo,
      en_router = \<lparr>re_settings = cfg, re_rows = (\<lambda>_. db_api_keys d), re_decrypt = xo_decrypt xo,
        re_price_book = pb, re_provider = xo_provider xo\<rparr>,
      en_step_sink = True, en_artifact_sink = True, en_tool_call_sink = True,
      en_tool_resolver = (if cfg_tools_enabled cfg then default_tool_resolver cfg else (\<lambda>_. [])),
      en_markup = apply_markup cfg, en_max_board_chars = cfg_max_board_chars cfg,
      en_step_timeout = fl (of_int (cfg_step_timeout_seconds cfg)),
      en_max_tool_iterations = cfg_max_tool_iterations cfg,
      en_max_tool_calls_per_turn = cfg_max_tool_calls_per_turn cfg, en_stream_tokens = True\<rparr>)"

definition start_state :: "run_row \<Rightarrow> budget_guard \<Rightarrow> bus \<Rightarrow> key_resolver \<Rightarrow> est" where
  "start_state run b bus kr = \<lparr>
     es_run = (new_run_state (rn_input run))\<lparr>rs_notes := [(''org_id'', JStr (rn_org_id run))]\<rparr>,
     es_budget = b, es_bus = bus, es_router = \<lparr>ro_resolver = kr, ro_adapters = []\<rparr>,
     es_buffer = new_token_buffer 0, es_tick = 1, es_steps = [], es_tool_calls = [], es_artifacts = []\<rparr>"

definition emit_run_start :: "engine \<Rightarrow> workflow_row \<Rightarrow> run_row \<Rightarrow> unit step" where
  "emit_run_start eng flow run = ebind (eget es_budget) (\<lambda>b. emit_event eng RUN_START
     [(''workflow_id'', JStr (wf_id flow)), (''workflow_name'', JStr (wf_name flow)), (''preset'', JStr (wf_preset flow)),
      (''key_mode'', JStr (rn_key_mode run)), (''max_steps'', JInt (max_steps b)),
      (''max_cost_cents'', JInt (max_cost_microcents b div 1000000))])"

definition run_preset :: "string \<Rightarrow> engine \<Rightarrow> jobj \<Rightarrow> agent_map \<Rightarrow> unit step" where
  "run_preset name eng graph agents = ebind (elift (get_preset name)) (\<lambda>f. f eng graph agents)"

text \<open>
  The \<open>except\<close> clauses: status, error text, and the exception that is raised again.
\<close>

definition classify :: "outside \<Rightarrow> unit res \<Rightarrow> string \<times> string option \<times> exn option" where
  "classify xo r = (
     let late = (''timed_out'', Some (''run exceeded '' @ str_of_int (cfg_run_timeout_seconds (xo_settings xo)) @ ''s''), None) in
     case r of
       Inr _ \<Rightarrow> (''succeeded'', None, None)
     | Inl e \<Rightarrow> (case e of
         RunCancelled \<Rightarrow> (''cancelled'', Some (exn_text e), None)
       | BudgetExceeded _ \<Rightarrow> (''budget_exceeded'', Some (exn_text e), None)
       | RunTimedOut _ \<Rightarrow> (''timed_out'', Some (exn_text e), None)
       | TimeoutError \<Rightarrow> late
       | CancelledError \<Rightarrow> if xo_deadline xo then late else (''cancelled'', Some ''worker shut down'', Some CancelledError)
       | WorkflowConfigError _ \<Rightarrow> (''failed'', Some (exn_text e), None)
       | KeyResolutionError _ \<Rightarrow> (''failed'', Some (exn_text e), None)
       | UnknownModelError _ \<Rightarrow> (''failed'', Some (exn_text e), None)
       | RefusalError _ expl \<Rightarrow> (''failed'', Some (''model refused the request: ''
            @ (case expl of None \<Rightarrow> [] | Some x \<Rightarrow> x)), None)
       | ContextWindowExceeded m \<Rightarrow> (''failed'', Some m, None)
       | RetryableLLMError m \<Rightarrow> (''failed'', Some m, None)
       | LLMError m \<Rightarrow> (''failed'', Some m, None)
       | _ \<Rightarrow> (''failed'', Some (exn_name e @ '': '' @ exn_text e), None)))"

subsection \<open>What is persisted\<close>

definition step_row :: "string \<Rightarrow> step_record \<Rightarrow> run_step_row" where
  "step_row run_id r = \<lparr>rs_run_id = run_id, rs_index = sr_index r, rs_agent_id = Some (as_id (sr_agent r)),
     rs_agent_name = as_name (sr_agent r), rs_role = as_role (sr_agent r), rs_model = as_model (sr_agent r),
     rs_provider = sr_provider r, rs_input = sr_instruction r, rs_output = sr_output r,
     rs_stop_reason = sr_stop_reason r, rs_tokens_in = sr_tokens_in r, rs_tokens_out = sr_tokens_out r,
     rs_cached_tokens = sr_cached_tokens r, rs_reasoning_tokens = sr_reasoning_tokens r,
     rs_cost_microcents = sr_cost_microcents r, rs_latency_ms = sr_latency_ms r, rs_attempts = sr_attempts r,
     rs_model_calls = sr_model_calls r, rs_tool_calls = sr_tool_calls r\<rparr>"

definition tool_call_row_of :: "string \<Rightarrow> tool_call_record \<Rightarrow> tool_call_row" where
  "tool_call_row_of run_id r = \<lparr>tw_run_id = run_id, tw_step_index = tl_step_index r, tw_call_index = tl_call_index r,
     tw_agent_id = tl_agent_id r, tw_agent_name = tl_agent_name r, tw_tool = tl_tool r,
     tw_arguments = tl_arguments r, tw_result = take 20000 (tl_result r), tw_is_error = tl_is_error r,
     tw_latency_ms = tl_latency_ms r, tw_meta = tl_metadata r\<rparr>"

definition artifact_row_of :: "run_row \<Rightarrow> artifact_record \<Rightarrow> artifact_row" where
  "artifact_row_of run r = \<lparr>at_run_id = rn_id run, at_org_id = rn_org_id run, at_path = af_path r,
     at_kind = af_kind r, at_language = af_language r, at_content = af_content r,
     at_size_bytes = utf8_len (af_content r), at_version = af_version r, at_produced_by_step = af_step_index r,
     at_produced_by_agent = af_agent_name r\<rparr>"

definition persist :: "run_row \<Rightarrow> est \<Rightarrow> db \<Rightarrow> db" where
  "persist run s d = d\<lparr>db_run_steps := db_run_steps d @ map (step_row (rn_id run)) (es_steps s),
     db_tool_calls := db_tool_calls d @ map (tool_call_row_of (rn_id run)) (es_tool_calls s),
     db_artifacts := db_artifacts d @ map (artifact_row_of run) (es_artifacts s)\<rparr>"

definition total_of :: "(step_record \<Rightarrow> int) \<Rightarrow> est \<Rightarrow> int" where
  "total_of f s = sum_list (map f (es_steps s))"

definition run_output :: "run_state \<Rightarrow> string option" where
  "run_output st = (case final_output st of
     Some out \<Rightarrow> if out \<noteq> [] then Some out else if board st \<noteq> [] then Some (last_output st) else None
   | None \<Rightarrow> if board st \<noteq> [] then Some (last_output st) else None)"

definition finished_run :: "outside \<Rightarrow> est \<Rightarrow> string \<Rightarrow> string option \<Rightarrow> run_row \<Rightarrow> run_row" where
  "finished_run xo s status error r = r\<lparr>rn_status := status, rn_error := error, rn_output := run_output (es_run s),
     rn_steps_used := steps_used (es_budget s), rn_cost_microcents := spent_microcents (es_budget s),
     rn_cost_cents := microcents_to_cents (spent_microcents (es_budget s)),
     rn_billable_microcents := total_of sr_billable_microcents s,
     rn_tokens_in := total_of sr_tokens_in s, rn_tokens_out := total_of sr_tokens_out s,
     rn_finished_at := Some (xo_finished_at xo)\<rparr>"

definition run_finished_payload :: "est \<Rightarrow> string \<Rightarrow> string option \<Rightarrow> jobj" where
  "run_finished_payload s status error = [(''status'', JStr status), (''error'', jstr_opt error),
     (''output'', jstr_opt (run_output (es_run s))), (''steps_used'', JInt (steps_used (es_budget s))),
     (''cost_cents'', JInt (microcents_to_cents (spent_microcents (es_budget s)))),
     (''tokens_in'', JInt (total_of sr_tokens_in s)), (''tokens_out'', JInt (total_of sr_tokens_out s)),
     (''artifacts'', JList (map (\<lambda>r. JObj [(''path'', JStr (ar_path r)), (''version'', JInt (int (ar_version r))),
        (''kind'', JStr (ar_kind r))]) (artifact_log (es_run s)))),
     (''notes'', JObj (rs_notes (es_run s)))]"

definition finished_audit :: "run_row \<Rightarrow> est \<Rightarrow> string \<Rightarrow> audit_row" where
  "finished_audit run s status = \<lparr>au_org_id = Some (rn_org_id run), au_actor_user_id = None,
     au_action = ''run.finished'', au_target_type = Some ''run'', au_target_id = Some (rn_id run),
     au_ip_address = None, au_user_agent = None,
     au_detail = [(''status'', JStr status), (''steps'', JInt (steps_used (es_budget s))),
       (''cost_cents'', JInt (microcents_to_cents (spent_microcents (es_budget s))))]\<rparr>"

subsection \<open>One execution\<close>

text \<open>
  After the preset: the \<open>finally\<close> block, then the terminal event and the audit row. The state of the
  bus is returned with the database in every case.
\<close>

definition settle :: "outside \<Rightarrow> engine \<Rightarrow> run_row \<Rightarrow> unit res \<Rightarrow> est \<Rightarrow> db \<Rightarrow> unit res \<times> db \<times> bus" where
  "settle xo eng run r s d = (
     case classify xo r of (status, error, reraise) \<Rightarrow>
       let d1 = set_run_row (rn_id run) (finished_run xo s status error) (persist run s d) in
       case charge_run (xo_settings xo) (xo_races xo) (xo_ledger_id xo) (rn_org_id run) (rn_id run)
              (total_of sr_billable_microcents s) d1 of
         (Inl e, d2) \<Rightarrow> (Inl e, d2, es_bus s)
       | (Inr _, d2) \<Rightarrow>
           let s1 = s\<lparr>es_bus := clear_cancel (es_bus s), es_router := aclose (es_router s)\<rparr> in
           case reraise of
             Some e \<Rightarrow> (Inl e, d2, es_bus s1)
           | None \<Rightarrow>
               (case emit_event eng (if status = ''cancelled'' then RUN_CANCELLED else RUN_END)
                       (run_finished_payload s1 status error) s1 of
                  (Inl e, s2) \<Rightarrow> (Inl e, d2, es_bus s2)
                | (Inr _, s2) \<Rightarrow> (Inr (), audit_record (finished_audit run s status) d2, es_bus s2)))"

definition execute_claimed :: "outside \<Rightarrow> run_row \<Rightarrow> db \<Rightarrow> bus \<Rightarrow> unit res \<times> db \<times> bus" where
  "execute_claimed xo run d bus = (
     case get_workflow_row d (rn_workflow_id run) of
       None \<Rightarrow> (Inl (ValueError (''workflow '' @ rn_workflow_id run @ '' not found'')), d, bus)
     | Some flow \<Rightarrow>
        (case budget_for (xo_settings xo) (wf_graph flow) (xo_monotonic xo 0) of
           Inl e \<Rightarrow> (Inl e, d, bus)
         | Inr b \<Rightarrow>
            (case new_key_resolver (rn_org_id run) (rn_key_mode run) of
               Inl e \<Rightarrow> (Inl e, d, bus)
             | Inr kr \<Rightarrow>
                let d1 = set_run_row (rn_id run) (\<lambda>r. r\<lparr>rn_max_steps := max_steps b,
                           rn_max_cost_cents := max_cost_microcents b div 1000000\<rparr>) d;
                    pb = pb_refresh (xo_price_book xo) (price_rows d1) (xo_monotonic xo 0) (xo_monotonic xo 0) False;
                    eng = engine_for xo d1 pb;
                    s0 = start_state run b bus kr
                in case emit_run_start eng flow run s0 of
                     (Inl e, s1) \<Rightarrow> (Inl e, d1, es_bus s1)
                   | (Inr _, s1) \<Rightarrow>
                       (case run_preset (wf_preset flow) eng (wf_graph flow) (load_agents d1 (rn_org_id run)) s1 of
                          (r, s2) \<Rightarrow> settle xo eng run r s2 d1))))"

definition execute_run :: "outside \<Rightarrow> string \<Rightarrow> db \<times> bus \<Rightarrow> unit res \<times> db \<times> bus" where
  "execute_run xo run_id w = (case w of (d, bus) \<Rightarrow>
     case claim run_id (xo_started_at xo) d of
       (Inl e, d1) \<Rightarrow> (Inl e, d, bus)
     | (Inr None, d1) \<Rightarrow> (Inr (), d1, bus)
     | (Inr (Some run), d1) \<Rightarrow>
         (case execute_claimed xo run d1 bus of
            (Inr u, d2, bus') \<Rightarrow> (Inr u, d2, bus')
          | (Inl e, d2, bus') \<Rightarrow> (Inl e, d, bus')))"

subsection \<open>Orphaned runs\<close>

definition orphaned :: "time \<Rightarrow> run_row \<Rightarrow> bool" where
  "orphaned cutoff r = (rn_status r = ''running'' \<and>
     (case rn_started_at r of None \<Rightarrow> True | Some t \<Rightarrow> t = 0 \<or> t \<le> cutoff))"

definition mark_orphaned_runs :: "time \<Rightarrow> int \<Rightarrow> db \<Rightarrow> (nat \<times> (string \<times> jobj) list) \<times> db" where
  "mark_orphaned_runs now older_than_seconds d = (
     let cutoff = now - older_than_seconds * 1000000;
         fixed = filter (orphaned cutoff) (db_runs d);
         reap = (\<lambda>r. if orphaned cutoff r then r\<lparr>rn_status := ''timed_out'',
                   rn_error := Some ''worker did not report completion'', rn_finished_at := Some now\<rparr> else r)
     in ((length fixed, map (\<lambda>r. (rn_id r, [(''status'', JStr ''timed_out''),
            (''error'', JStr ''worker did not report completion'')])) fixed),
         d\<lparr>db_runs := map reap (db_runs d)\<rparr>))"

subsection \<open>Frames of a preset run\<close>

text \<open>Whatever a frame of the topologies keeps, a run of any preset by name keeps, an unknown name included.\<close>

context topology_frame
begin

lemma run_preset_frame: "always R (run_preset name eng graph agents)"
proof (cases "get_preset name")
  case (Inl e)
  then show ?thesis by (simp add: run_preset_def fr_raise)
next
  case (Inr f)
  then show ?thesis using preset_frame [OF Inr] by (simp add: run_preset_def)
qed

end

subsection \<open>Outcomes\<close>

lemma classify_terminal: "classify xo r = (st, err, re) \<Longrightarrow> is_terminal st"
  by (cases r; (cases "projl r")?)
    (auto simp: classify_def Let_def is_terminal_def TERMINAL_STATUSES_def split: if_splits)

lemma classify_succeeded: "classify xo r = (''succeeded'', err, re) \<longleftrightarrow> (\<exists>u. r = Inr u) \<and> err = None \<and> re = None"
  by (cases r; (cases "projl r")?) (auto simp: classify_def Let_def split: if_splits)

lemma classify_reraise: "classify xo r = (st, err, Some e) \<Longrightarrow> e = CancelledError \<and> r = Inl CancelledError \<and> \<not> xo_deadline xo"
  by (cases r; (cases "projl r")?) (auto simp: classify_def Let_def split: if_splits)

lemma get_run_set: "(\<And>r. rn_id (f r) = rn_id r) \<Longrightarrow>
    get_run_row (set_run_row i f d) j = (if i = j then map_option f (get_run_row d j) else get_run_row d j)"
  by (simp add: get_run_row_def set_run_row_def row_get_set)

lemma claim_cases:
  assumes "claim i now d = (r, d')"
  shows "get_run_row d i = None \<and> d' = d \<and> (\<exists>e. r = Inl e)
    \<or> (\<exists>run. get_run_row d i = Some run \<and> rn_status run \<noteq> ''queued'' \<and> r = Inr None \<and> d' = d)
    \<or> (\<exists>run. get_run_row d i = Some run \<and> rn_status run = ''queued'' \<and>
         r = Inr (Some (run\<lparr>rn_status := ''running'', rn_started_at := Some now\<rparr>)) \<and>
         d' = set_run_row i (\<lambda>r. r\<lparr>rn_status := ''running'', rn_started_at := Some now\<rparr>) d)"
  using assms by (auto simp: claim_def Let_def split: option.splits if_splits)

text \<open>Without a lost race the charge touches the ledger and one balance only.\<close>

definition same_work :: "db \<Rightarrow> db \<Rightarrow> bool" where
  "same_work d d' \<longleftrightarrow> db_runs d' = db_runs d \<and> db_run_steps d' = db_run_steps d \<and> db_artifacts d' = db_artifacts d \<and>
     db_tool_calls d' = db_tool_calls d \<and> db_workflows d' = db_workflows d \<and> db_agents d' = db_agents d"

lemma charge_same_work: "charge_run cfg [] new_id org i b d = (r, d') \<Longrightarrow> same_work d d'"
  by (auto simp: charge_run_def Let_def ebind_def post_entry.simps set_credits_def same_work_def
      split: if_splits option.splits sum.splits prod.splits)

lemma settle_done:
  assumes "settle xo eng run r s d = (Inr u, d', bus')" "xo_races xo = []"
  obtains st err d2 e where "classify xo r = (st, err, None)" "is_terminal st"
    and "charge_run (xo_settings xo) [] (xo_ledger_id xo) (rn_org_id run) (rn_id run) (total_of sr_billable_microcents s)
           (set_run_row (rn_id run) (finished_run xo s st err) (persist run s d)) = (Inr e, d2)"
    and "d' = audit_record (finished_audit run s st) d2"
proof -
  obtain st err re where c: "classify xo r = (st, err, re)" by (cases "classify xo r")
  obtain q d2 where ch: "charge_run (xo_settings xo) [] (xo_ledger_id xo) (rn_org_id run) (rn_id run)
      (total_of sr_billable_microcents s) (set_run_row (rn_id run) (finished_run xo s st err) (persist run s d)) = (q, d2)"
    by (metis prod.collapse)
  from assms c ch obtain e where "q = Inr e" "re = None" "d' = audit_record (finished_audit run s st) d2"
    by (auto simp: settle_def Let_def split: sum.splits option.splits prod.splits)
  with that c ch classify_terminal [OF c] show ?thesis by blast
qed

lemma execute_run_settled:
  assumes "execute_run xo i (d, bus) = (Inr u, d', bus')"
    and q: "get_run_row d i = Some r0" "rn_status r0 = ''queued''" and "xo_races xo = []"
  obtains flow b kr s r st err e d1 d2 where
    "get_workflow_row d (rn_workflow_id r0) = Some flow"
    and "budget_for (xo_settings xo) (wf_graph flow) (xo_monotonic xo 0) = Inr b"
    and "classify xo r = (st, err, None)" "is_terminal st"
    and "get_run_row d1 i = Some (finished_run xo s st err (r0\<lparr>rn_status := ''running'',
           rn_started_at := Some (xo_started_at xo), rn_max_steps := max_steps b,
           rn_max_cost_cents := max_cost_microcents b div 1000000\<rparr>))"
    and "db_run_steps d1 = db_run_steps d @ map (step_row i) (es_steps s)"
    and "db_ledger d1 = db_ledger d" "db_orgs d1 = db_orgs d"
    and "charge_run (xo_settings xo) [] (xo_ledger_id xo) (rn_org_id r0) i (total_of sr_billable_microcents s) d1 = (Inr e, d2)"
    and "d' = audit_record (finished_audit r0 s st) d2"
proof -
  let ?mark = "\<lambda>r. r\<lparr>rn_status := ''running'', rn_started_at := Some (xo_started_at xo)\<rparr>"
  let ?run = "?mark r0"
  have idr: "rn_id r0 = i" using q(1) row_get_Some [of rn_id i] by (auto simp: get_run_row_def)
  have cl: "claim i (xo_started_at xo) d = (Inr (Some ?run), set_run_row i ?mark d)"
    using q by (simp add: claim_def Let_def)
  let ?d0 = "set_run_row i ?mark d"
  have ex: "execute_claimed xo ?run ?d0 bus = (Inr u, d', bus')"
    using assms(1) cl by (auto simp: execute_run_def split: sum.splits prod.splits)
  obtain flow where f: "get_workflow_row d (rn_workflow_id r0) = Some flow"
    using ex by (cases "get_workflow_row d (rn_workflow_id r0)")
      (auto simp: execute_claimed_def get_workflow_row_def set_run_row_def)
  then have f0: "get_workflow_row ?d0 (rn_workflow_id r0) = Some flow"
    by (simp add: get_workflow_row_def set_run_row_def)
  obtain b where b: "budget_for (xo_settings xo) (wf_graph flow) (xo_monotonic xo 0) = Inr b"
    using ex f0 by (cases "budget_for (xo_settings xo) (wf_graph flow) (xo_monotonic xo 0)")
      (auto simp: execute_claimed_def)
  let ?lim = "\<lambda>r. r\<lparr>rn_max_steps := max_steps b, rn_max_cost_cents := max_cost_microcents b div 1000000\<rparr>"
  let ?d1 = "set_run_row i ?lim ?d0"
  obtain eng r s where st: "settle xo eng ?run r s ?d1 = (Inr u, d', bus')"
    using ex f0 b idr
    by (auto simp: execute_claimed_def Let_def split: sum.splits prod.splits)
  have ids: "rn_id ?run = i" "rn_org_id ?run = rn_org_id r0" using idr by simp_all
  obtain st err d2 e where
    c: "classify xo r = (st, err, None)" "is_terminal st"
    and ch: "charge_run (xo_settings xo) [] (xo_ledger_id xo) (rn_org_id r0) i (total_of sr_billable_microcents s)
           (set_run_row i (finished_run xo s st err) (persist ?run s ?d1)) = (Inr e, d2)"
    and d': "d' = audit_record (finished_audit ?run s st) d2"
    by (rule settle_done [OF st assms(4)]) (simp add: ids)
  let ?d2 = "set_run_row i (finished_run xo s st err) (persist ?run s ?d1)"
  have p: "get_run_row (persist run s x) j = get_run_row x j" for run s x j
    by (simp add: persist_def get_run_row_def)
  have "get_run_row ?d2 i = Some (finished_run xo s st err (?lim ?run))"
    by (simp add: get_run_set p finished_run_def q(1))
  moreover have "db_run_steps ?d2 = db_run_steps d @ map (step_row i) (es_steps s)"
    "db_ledger ?d2 = db_ledger d" "db_orgs ?d2 = db_orgs d"
    by (simp_all add: set_run_row_def persist_def idr)
  moreover have "finished_audit ?run s st = finished_audit r0 s st" by (simp add: finished_audit_def)
  ultimately show ?thesis using that [OF f b c, of ?d2 s e d2] ch d' by simp
qed

end
