(* ===== verification/Samples.thy ===== *)
theory Samples
  imports Runner
begin

text \<open>
  Concrete inputs for the witnesses: a deployment with one vendor credential, a scripted model, two
  agents, a workflow and the database that holds them. Nothing here models code.
\<close>

definition sample_settings :: settings where
  "sample_settings = default_settings\<lparr>cfg_anthropic_api_key := Some ''key''\<rparr>"

definition sample_usage :: usage where
  "sample_usage = \<lparr>us_input_tokens = 1000000, us_output_tokens = 0, us_cached_input_tokens = 0, us_reasoning_tokens = 0\<rparr>"

definition sample_reply :: llm_result where
  "sample_reply = \<lparr>lr_text = ''done'', lr_model = ''claude-opus-4-8'', lr_provider = ''anthropic'',
     lr_usage = sample_usage, lr_stop_reason = None, lr_tool_calls = []\<rparr>"

definition sample_outside :: outside where
  "sample_outside = \<lparr>xo_settings = sample_settings, xo_cancel = (\<lambda>_. False), xo_monotonic = (\<lambda>_. 400),
     xo_perf_counter = (\<lambda>_. 0), xo_now = (\<lambda>_. []), xo_fault = (\<lambda>_. None), xo_sched = (\<lambda>_. 0),
     xo_web = (\<lambda>_ _ _. Inl (OtherError ''offline'')),
     xo_provider = (\<lambda>_ _ _ _ _. ([], Inr sample_reply)), xo_decrypt = (\<lambda>_ _. Inl InvalidTag),
     xo_price_book = new_price_book 300, xo_deadline = False, xo_started_at = 1, xo_finished_at = 2,
     xo_races = [], xo_ledger_id = ''l1''\<rparr>"

definition sample_agent :: "string \<Rightarrow> agent_row" where
  "sample_agent i = \<lparr>ag_id = i, ag_org_id = ''o1'', ag_name = ''Ann'', ag_role = ''writer'', ag_system_prompt = [],
     ag_model = ''claude-opus-4-8'', ag_effort = ''low'', ag_max_tokens = 100, ag_tools = [], ag_is_active = True,
     ag_created_by = None\<rparr>"

definition sample_graph :: jobj where
  "sample_graph = [(''nodes'', JList [JObj [(''agent_id'', JStr ''a1'')]])]"

definition sample_workflow :: workflow_row where
  "sample_workflow = \<lparr>wf_id = ''w1'', wf_org_id = ''o1'', wf_name = ''W'', wf_description = [], wf_preset = ''pipeline'',
     wf_graph = sample_graph, wf_is_active = True, wf_created_by = None\<rparr>"

definition sample_run :: run_row where
  "sample_run = \<lparr>rn_id = ''r1'', rn_org_id = ''o1'', rn_workflow_id = ''w1'', rn_created_by = None, rn_status = ''queued'',
     rn_input = ''go'', rn_output = None, rn_error = None, rn_key_mode = ''managed'', rn_cost_microcents = 0,
     rn_cost_cents = 0, rn_billable_microcents = 0, rn_tokens_in = 0, rn_tokens_out = 0, rn_steps_used = 0,
     rn_max_steps = 0, rn_max_cost_cents = 0, rn_cancel_requested = False, rn_idempotency_key = None,
     rn_started_at = None, rn_finished_at = None\<rparr>"

definition sample_org :: org_row where
  "sample_org = \<lparr>o_id = ''o1'', o_name = ''Org'', o_slug = ''org'', o_key_mode = ''managed'', o_credits_cents = 500,
     o_is_active = True\<rparr>"

definition sample_grant :: ledger_row where
  "sample_grant = \<lparr>lg_id = ''l0'', lg_org_id = ''o1'', lg_kind = ''topup'', lg_amount_cents = 500,
     lg_balance_after_cents = 500, lg_run_id = None, lg_description = [], lg_idempotency_key = ''k0'', lg_created_by = None\<rparr>"

text \<open>A workflow naming a topology that does not exist: its runs fail and are settled.\<close>

definition stale_workflow :: workflow_row where
  "stale_workflow = sample_workflow\<lparr>wf_preset := ''relay'', wf_graph := []\<rparr>"

definition sample_db :: db where
  "sample_db = empty_db\<lparr>db_orgs := [sample_org], db_agents := [sample_agent ''a1'', sample_agent ''a2''],
     db_workflows := [sample_workflow], db_runs := [sample_run], db_ledger := [sample_grant]\<rparr>"

definition sample_engine :: engine where
  "sample_engine = engine_for sample_outside sample_db (new_price_book 300)"

definition sample_start :: est where
  "sample_start = start_state sample_run (new_budget 40 500000000 3600 True 0) (new_bus ''r1'')
     \<lparr>kr_org_id = ''o1'', kr_mode = Managed, kr_byok_cache = []\<rparr>"

definition stale_db :: db where
  "stale_db = sample_db\<lparr>db_workflows := [stale_workflow]\<rparr>"

lemma fl_literals: "fl 1 = 1" "fl 5 = 5" "fl 500 = 500" "fl 500000000 = 500000000" "fl 600 = 600" "fl 3600 = 3600"
  by code_simp+

lemma stale_run_settles: "fst (execute_run sample_outside ''r1'' (stale_db, new_bus ''r1'')) = Inr ()"
  by (simp add: execute_run_def claim_def get_run_row_def row_get_def stale_db_def sample_db_def empty_db_def sample_run_def
      sample_outside_def execute_claimed_def get_workflow_row_def set_run_row_def row_set_def stale_workflow_def
      sample_workflow_def budget_for_def limit_of_def int_or_raise_def sample_settings_def default_settings_def
      new_key_resolver_def key_mode_of_def new_budget_def Let_def emit_run_start_def emit_event_def await_point_def
      tick_def eff_defs start_state_def new_run_state_def engine_for_def run_preset_def get_preset_def PRESETS_def
      config_err_def settle_def classify_def charge_run_def total_of_def fl_literals)

lemma stale_run_queued: "get_run_row stale_db ''r1'' = Some sample_run" "rn_status sample_run = ''queued''"
  "xo_races sample_outside = []"
  by (simp_all add: get_run_row_def row_get_def stale_db_def sample_db_def sample_run_def sample_outside_def)

lemma sample_ledger_ok: "ledger_ok stale_db"
  by (auto simp: ledger_ok_def stale_db_def sample_db_def empty_db_def sample_org_def sample_grant_def entries_def ledger_sum_def)

text \<open>No call of the sample engine costs more than 5 dollars, the dearest million input tokens.\<close>

lemma sample_price: "get_spec m = Inr s \<Longrightarrow> ms_input_per_mtok s \<le> 5"
proof -
  have "\<forall>s \<in> set MODEL_LIST. ms_input_per_mtok s \<le> fl 5"
    unfolding MODEL_LIST_def by (simp add: mk_spec_def fl_mono)
  then have "\<forall>s \<in> set MODEL_LIST. ms_input_per_mtok s \<le> 5" by (simp add: fl_literals)
  then show "get_spec m = Inr s \<Longrightarrow> ms_input_per_mtok s \<le> 5"
    by (auto simp: get_spec_def split: option.splits dest!: map_of_SomeD MODELS_in)
qed

lemma sample_cost:
  assumes "cost_microcents (new_price_book ttl) m sample_usage = Inr c" shows "c \<le> 500000000"
proof -
  obtain s where s: "get_spec m = Inr s"
    and c: "c = round_even (fl (fl (fl (fl (fl (fl 1 * ms_input_per_mtok s))) * 100) * 1000000))"
    using assms by (auto simp: cost_microcents_def rate_for_def new_price_book_def rbind_eq_Inr rate_from_spec_def
        usd_cost_def sample_usage_def fresh_input_tokens_def Let_def MICROCENTS_PER_CENT_def)
  have "fl (fl (fl (fl (fl (fl 1 * ms_input_per_mtok s))) * 100) * 1000000) \<le> fl (fl (fl (fl (fl (fl 1 * 5))) * 100) * 1000000)"
    using sample_price [OF s] by (intro fl_mono mult_right_mono mult_left_mono) (simp_all add: fl_literals)
  then have "c \<le> round_even (fl (fl (fl (fl (fl (fl 1 * 5))) * 100) * 1000000))" unfolding c by (rule round_even_mono)
  then show ?thesis by (simp add: fl_literals)
qed

lemma sample_capped: "capped sample_engine 500000000"
proof -
  have "cost \<le> 500000000" if "router_complete (en_router sample_engine) t c ro = ((ch, Inr rr), ro')"
    "rr_cost_microcents rr = cost" for t c ro ch rr ro' cost
  proof -
    have "rr_result rr = sample_reply"
      using that(1) by (auto simp: router_complete_def sample_engine_def engine_for_def sample_outside_def Let_def
          MAX_ATTEMPTS_def numeral_3_eq_3 rbind_eq_Inr split: sum.splits prod.splits)
    with router_complete_ok(3) [OF that(1)] that(2)
    have "cost_microcents (new_price_book 300) (lc_model c) sample_usage = Inr cost"
      by (simp add: sample_reply_def sample_engine_def engine_for_def Let_def)
    then show ?thesis by (rule sample_cost)
  qed
  then show ?thesis unfolding capped_def priced_def by blast
qed

lemma sample_path: "rbind (require_str [(''path'', JStr ''a.md''), x, y] ''path'' 400) tool_safe_path = Inr ''a.md''"
  "rbind (require_str [(''path'', JStr ''a.md''), x] ''path'' 400) tool_safe_path = Inr ''a.md''"
proof -
  have "strip ''a.md'' = ''a.md''" "tool_safe_path ''a.md'' = Inr ''a.md''" by code_simp+
  then show "rbind (require_str [(''path'', JStr ''a.md''), x, y] ''path'' 400) tool_safe_path = Inr ''a.md''"
    "rbind (require_str [(''path'', JStr ''a.md''), x] ''path'' 400) tool_safe_path = Inr ''a.md''"
    by (simp_all add: require_str_def jget_def)
qed

lemma sample_write_via: "\<exists>v s'. write_via sample_engine agent step p c k s = (Inr v, s')"
  by (cases "record_artifact (es_run s) p c k (as_name agent)")
    (simp add: write_via_def save_artifact_def await_sink_def emit_event_def await_point_def tick_def eff_defs
      sample_engine_def engine_for_def sample_outside_def Let_def)

lemma sample_write:
  "\<exists>r s'. write_artifact_run [(''path'', JStr ''a.md''), (''content'', JStr ''one two'')]
     (make_context sample_engine agent step s0) s = (Inr r, s')"
proof -
  obtain v s' where "write_via sample_engine agent step ''a.md'' ''one two'' (tool_kind_for ''a.md'') s = (Inr v, s')"
    using sample_write_via by blast
  then show ?thesis
    by (simp add: write_artifact_run_def sample_path jget_def MAX_WRITE_CHARS_def make_context_def ebind_Inr as_str_def)
qed

lemma sample_edit:
  "\<exists>r s'. edit_artifact_run [(''path'', JStr ''a.md''), (''old_text'', JStr ''two''), (''new_text'', JStr ''three'')]
     (make_context sample_engine agent step s0) (s\<lparr>es_run := (es_run s)\<lparr>artifacts := [(''a.md'', ''one two'')]\<rparr>\<rparr>) = (Inr r, s')"
proof -
  have c: "count_sub ''two'' ''one two'' = 1" by code_simp
  have old: "require_str [(''path'', JStr ''a.md''), (''old_text'', JStr ''two''), (''new_text'', JStr ''three'')] ''old_text''
     MAX_WRITE_CHARS = Inr ''two''"
  proof -
    have "strip ''two'' = ''two''" by code_simp
    then show ?thesis by (simp add: require_str_def jget_def as_str_def MAX_WRITE_CHARS_def)
  qed
  let ?s = "s\<lparr>es_run := (es_run s)\<lparr>artifacts := [(''a.md'', ''one two'')]\<rparr>\<rparr>"
  obtain v s' where "write_via sample_engine agent step ''a.md'' (replace_first ''two'' ''three'' ''one two'')
      (tool_kind_for ''a.md'') ?s = (Inr v, s')"
    using sample_write_via by blast
  then show ?thesis
    by (simp add: edit_artifact_run_def sample_path old jget_def as_str_def make_context_def ebind_Inr c)
qed

definition sample_call :: llm_call where
  "sample_call = \<lparr>lc_model = ''claude-opus-4-8'', lc_system = [], lc_messages = [], lc_max_tokens = 10, lc_effort = [],
     lc_json_mode = False, lc_timeout_seconds = 10, lc_tools = [], lc_on_token = False\<rparr>"

lemma sample_completes:
  "\<exists>ch rr ro'. router_complete (en_router sample_engine) t sample_call (es_router sample_start) = ((ch, Inr rr), ro')"
proof -
  have "get_spec ''claude-opus-4-8'' = Inr (MODEL_LIST ! 3)" "ms_provider (MODEL_LIST ! 3) = Anthropic" by code_simp+
  then obtain spec where m: "get_spec ''claude-opus-4-8'' = Inr spec" "ms_provider spec = Anthropic" by blast
  show ?thesis
    by (simp add: router_complete_def sample_engine_def engine_for_def sample_outside_def sample_call_def m resolve_key_def
        sample_start_def start_state_def uses_platform_def sample_settings_def MAX_ATTEMPTS_def eff_defs Let_def
        cost_microcents_def rate_for_def new_price_book_def numeral_3_eq_3)
qed

end
