(* ===== verification/Ratelimit.thy ===== *)
theory Ratelimit
  imports Errors Float64
begin

text \<open>
  \<^verbatim>\<open>core/ratelimit.py\<close>: the sliding-window limiter and the concurrency slots. Each Lua script runs
  atomically in Redis, so it is one step of the model. The readings of the client's clock and of the
  clock that expires keys are arguments. A sorted set is the list of its members by ascending score.
  The expiry of a window key is not visible: it removes only entries the next call removes anyway.
\<close>

record counter_key =
  ck_value :: int
  ck_deadline :: "rat option"

record redis =
  rd_windows :: "(string, (rat \<times> string) list) dict"
  rd_counters :: "(string, counter_key) dict"

definition empty_redis :: redis where
  "empty_redis = \<lparr>rd_windows = [], rd_counters = []\<rparr>"

record rate_limit_result =
  rl_allowed :: bool
  rl_limit :: int
  rl_used :: int
  rl_retry_after_seconds :: int

definition rl_remaining :: "rate_limit_result \<Rightarrow> int" where
  "rl_remaining r = max (rl_limit r - rl_used r) 0"

subsection \<open>The sliding window\<close>

definition zadd :: "rat \<Rightarrow> string \<Rightarrow> (rat \<times> string) list \<Rightarrow> (rat \<times> string) list" where
  "zadd score member z = insort_key fst (score, member) (filter (\<lambda>e. snd e \<noteq> member) z)"

text \<open>\<open>ZREMRANGEBYSCORE key 0 m\<close>.\<close>

definition zrem_upto :: "rat \<Rightarrow> (rat \<times> string) list \<Rightarrow> (rat \<times> string) list" where
  "zrem_upto m z = filter (\<lambda>e. \<not> (0 \<le> fst e \<and> fst e \<le> m)) z"

definition sliding_window ::
    "rat \<Rightarrow> int \<Rightarrow> int \<Rightarrow> string \<Rightarrow> (rat \<times> string) list \<Rightarrow> (bool \<times> int \<times> int) \<times> (rat \<times> string) list" where
  "sliding_window now window limit member z = (
     let z' = zrem_upto (fl (now - of_int window)) z; used = int (length z') in
     if used \<ge> limit then
       ((False, used, (case z' of [] \<Rightarrow> window | (oldest, _) # _ \<Rightarrow> \<lceil>fl (fl (oldest + of_int window) - now)\<rceil>)), z')
     else ((True, used + 1, 0), zadd now member z'))"

definition rl_check ::
    "rat \<Rightarrow> string \<Rightarrow> string \<Rightarrow> int \<Rightarrow> int \<Rightarrow> redis \<Rightarrow> rate_limit_result \<times> redis" where
  "rl_check now member bucket limit window rd = (
     let key = ''rl:'' @ bucket in
     case sliding_window now window limit member (dget_or (rd_windows rd) key []) of
       ((allowed, used, reset), z) \<Rightarrow>
         (\<lparr>rl_allowed = allowed, rl_limit = limit, rl_used = used, rl_retry_after_seconds = reset\<rparr>,
          rd\<lparr>rd_windows := dset key z (rd_windows rd)\<rparr>))"

subsection \<open>Concurrency slots\<close>

definition rd_get :: "rat \<Rightarrow> string \<Rightarrow> redis \<Rightarrow> int option" where
  "rd_get now key rd = (case dget (rd_counters rd) key of
     None \<Rightarrow> None
   | Some c \<Rightarrow> (case ck_deadline c of Some t \<Rightarrow> if t \<le> now then None else Some (ck_value c) | None \<Rightarrow> Some (ck_value c)))"

definition rd_value :: "rat \<Rightarrow> string \<Rightarrow> redis \<Rightarrow> int" where
  "rd_value now key rd = (case rd_get now key rd of None \<Rightarrow> 0 | Some v \<Rightarrow> v)"

definition rd_put :: "string \<Rightarrow> int \<Rightarrow> rat option \<Rightarrow> redis \<Rightarrow> redis" where
  "rd_put key v deadline rd = rd\<lparr>rd_counters := dset key \<lparr>ck_value = v, ck_deadline = deadline\<rparr> (rd_counters rd)\<rparr>"

definition rd_deadline :: "rat \<Rightarrow> string \<Rightarrow> redis \<Rightarrow> rat option" where
  "rd_deadline now key rd = (if rd_get now key rd = None then None
     else case dget (rd_counters rd) key of None \<Rightarrow> None | Some c \<Rightarrow> ck_deadline c)"

definition acquire_slot :: "rat \<Rightarrow> string \<Rightarrow> int \<Rightarrow> int \<Rightarrow> redis \<Rightarrow> bool \<times> redis" where
  "acquire_slot now bucket limit ttl rd = (
     let key = ''slots:'' @ bucket; current = rd_value now key rd in
     if current \<ge> limit then (False, rd)
     else (True, rd_put key (current + 1) (Some (now + of_int ttl)) rd))"

text \<open>\<open>DECR\<close> keeps the deadline of a live key; the clamping \<open>SET\<close> drops it.\<close>

definition release_slot :: "rat \<Rightarrow> string \<Rightarrow> redis \<Rightarrow> redis" where
  "release_slot now bucket rd = (
     let key = ''slots:'' @ bucket; v = rd_value now key rd - 1 in
     if v < 0 then rd_put key 0 None rd else rd_put key v (rd_deadline now key rd) rd)"

definition slots_in_use :: "rat \<Rightarrow> string \<Rightarrow> redis \<Rightarrow> int" where
  "slots_in_use now bucket rd = rd_value now (''slots:'' @ bucket) rd"

subsection \<open>What the window admits\<close>

text \<open>
  A run of calls on one bucket: a call is the reading of the clock and the member it adds. The
  instants admitted, and the set the calls leave.
\<close>

type_synonym window_call = "rat \<times> string"

definition window_step :: "int \<Rightarrow> int \<Rightarrow> window_call \<Rightarrow> (rat \<times> string) list \<Rightarrow> (rat \<times> string) list" where
  "window_step w limit c z = snd (sliding_window (fst c) w limit (snd c) z)"

fun admitted :: "int \<Rightarrow> int \<Rightarrow> (rat \<times> string) list \<Rightarrow> window_call list \<Rightarrow> rat list" where
  "admitted w limit z [] = []"
| "admitted w limit z (c # cs) = (if fst (fst (sliding_window (fst c) w limit (snd c) z)) then [fst c] else [])
     @ admitted w limit (window_step w limit c z) cs"

lemma admitted_snoc:
  "admitted w limit z (cs @ [c]) = admitted w limit z cs
     @ (if fst (fst (sliding_window (fst c) w limit (snd c) (fold (window_step w limit) cs z))) then [fst c] else [])"
  by (induction cs arbitrary: z) simp_all

definition later :: "rat \<Rightarrow> rat list \<Rightarrow> nat" where
  "later x ts = length (filter (\<lambda>t. x < t) ts)"

lemma later_zadd: "m \<notin> snd ` set z \<Longrightarrow> later x (map fst (zadd s m z)) = later x (map fst z) + (if x < s then 1 else 0)"
proof -
  assume "m \<notin> snd ` set z"
  then have "filter (\<lambda>e. snd e \<noteq> m) z = z" by (auto simp: filter_id_conv)
  moreover have "length (filter P (map fst (insort_key fst e z))) = length (filter P (map fst z)) + (if P (fst e) then 1 else 0)"
    for P and e :: "rat \<times> string" and z
    by (induction z) auto
  ultimately show ?thesis by (simp add: later_def zadd_def)
qed

lemma zadd_set: "set (zadd s m z) \<subseteq> insert (s, m) (set z)"
  by (auto simp: zadd_def set_insort_key)

lemma later_zrem: "c \<le> x \<Longrightarrow> later x (map fst (zrem_upto c z)) = later x (map fst z)"
  unfolding later_def zrem_upto_def by (induction z) auto

text \<open>The set holds exactly the admitted instants that are still in the window.\<close>

definition window_inv :: "int \<Rightarrow> int \<Rightarrow> window_call list \<Rightarrow> bool" where
  "window_inv w limit cs \<longleftrightarrow> (let z = fold (window_step w limit) cs []; adm = admitted w limit [] cs in
     (\<forall>x. (cs = [] \<or> fl (fst (last cs) - of_int w) \<le> x) \<longrightarrow> later x adm = later x (map fst z)) \<and>
     (\<forall>e \<in> set z. 0 \<le> fst e) \<and> snd ` set z \<subseteq> snd ` set cs \<and> int (length z) \<le> max 0 limit)"

lemma window_inv_snoc:
  assumes "window_inv w limit cs" "0 \<le> fst c" "snd c \<notin> snd ` set cs" "cs = [] \<or> fst (last cs) \<le> fst c"
  shows "window_inv w limit (cs @ [c])"
proof -
  define z where "z = fold (window_step w limit) cs []"
  define z1 where "z1 = zrem_upto (fl (fst c - of_int w)) z"
  define ok where "ok = (int (length z1) < limit)"
  have step: "fst (fst (sliding_window (fst c) w limit (snd c) z)) = ok"
    "window_step w limit c z = (if ok then zadd (fst c) (snd c) z1 else z1)"
    by (auto simp: window_step_def sliding_window_def Let_def ok_def z1_def)
  have sub: "set z1 \<subseteq> set z" by (auto simp: z1_def zrem_upto_def)
  have inv: "snd ` set z \<subseteq> snd ` set cs" "\<forall>e \<in> set z. 0 \<le> fst e" "int (length z) \<le> max 0 limit"
    "\<And>x. cs = [] \<or> fl (fst (last cs) - of_int w) \<le> x \<Longrightarrow> later x (admitted w limit [] cs) = later x (map fst z)"
    using assms(1) unfolding window_inv_def Let_def z_def by blast+
  have sub1: "snd ` set z1 \<subseteq> snd ` set cs" using inv(1) sub by blast
  have new: "snd c \<notin> snd ` set z1" using sub1 assms(3) by blast
  have "cs \<noteq> [] \<Longrightarrow> fl (fst (last cs) - of_int w) \<le> fl (fst c - of_int w)" using assms(4) by (auto intro: fl_mono)
  then have "later x (admitted w limit [] cs) = later x (map fst z)" if "fl (fst c - of_int w) \<le> x" for x
    using that by (intro inv(4)) (auto intro: order_trans)
  then have cnt: "later x (admitted w limit [] cs) = later x (map fst z1)" if "fl (fst c - of_int w) \<le> x" for x
    using that by (simp add: z1_def later_zrem)
  have app: "later x (as @ bs) = later x as + later x bs" for x as bs by (simp add: later_def)
  have "length z1 \<le> length z" by (simp add: z1_def zrem_upto_def)
  then have len: "int (length z1) \<le> max 0 limit" using inv(3) by linarith
  have zl: "length (zadd (fst c) (snd c) z1) = Suc (length z1)"
  proof -
    have "filter (\<lambda>e. snd e \<noteq> snd c) z1 = z1" using new by (auto simp: filter_id_conv image_iff)
    then show ?thesis by (simp add: zadd_def)
  qed
  let ?z2 = "if ok then zadd (fst c) (snd c) z1 else z1"
  have z2: "fold (window_step w limit) (cs @ [c]) [] = ?z2" by (simp add: z_def [symmetric] step(2))
  have adm: "admitted w limit [] (cs @ [c]) = admitted w limit [] cs @ (if ok then [fst c] else [])"
    by (simp add: admitted_snoc z_def [symmetric] step(1))
  have zs: "set ?z2 \<subseteq> insert c (set z1)" using zadd_set [of "fst c" "snd c" z1] by auto
  have c1: "later x (admitted w limit [] (cs @ [c])) = later x (map fst ?z2)" if "fl (fst c - of_int w) \<le> x" for x
    unfolding adm using cnt [OF that] later_zadd [OF new, of x "fst c"] by (simp add: app) (simp add: later_def)
  have c2: "\<forall>e \<in> set ?z2. 0 \<le> fst e" using zs sub inv(2) assms(2) by blast
  have c3: "snd ` set ?z2 \<subseteq> snd ` set (cs @ [c])" 
  proof -
    have "snd ` set ?z2 \<subseteq> insert (snd c) (snd ` set z1)" using image_mono [OF zs, of snd] by (simp only: image_insert)
    also have "\<dots> \<subseteq> snd ` set (cs @ [c])" using sub1 by auto
    finally show ?thesis .
  qed
  have c4: "int (length ?z2) \<le> max 0 limit" using len zl by (auto simp: ok_def)
  show ?thesis unfolding window_inv_def Let_def z2 using c1 c2 c3 c4 by simp
qed

lemma window_inv_calls:
  assumes "sorted (map fst cs)" "distinct (map snd cs)" "\<forall>c \<in> set cs. 0 \<le> fst c"
  shows "window_inv w limit cs"
  using assms
proof (induction cs rule: rev_induct)
  case Nil
  show ?case by (simp add: window_inv_def later_def)
next
  case (snoc c cs)
  then have "cs = [] \<or> fst (last cs) \<le> fst c" by (cases cs rule: rev_cases) (auto simp: sorted_append)
  moreover have "window_inv w limit cs" "0 \<le> fst c" "snd c \<notin> snd ` set cs"
    using snoc by (simp_all add: sorted_append)
  ultimately show ?case by (rule window_inv_snoc [rotated 3])
qed

lemma window_admits:
  assumes "sorted (map fst cs)" "distinct (map snd cs)" "\<forall>c \<in> set cs. 0 \<le> fst c" "cs \<noteq> []"
  shows "int (later (fl (fst (last cs) - of_int w)) (admitted w limit [] cs)) \<le> max 0 limit"
proof -
  let ?z = "fold (window_step w limit) cs []"
  have "later (fl (fst (last cs) - of_int w)) (admitted w limit [] cs) = later (fl (fst (last cs) - of_int w)) (map fst ?z)"
    "int (length ?z) \<le> max 0 limit"
    using window_inv_calls [OF assms(1-3), of w limit] assms(4) by (auto simp: window_inv_def Let_def)
  moreover have "later x (map fst ?z) \<le> length ?z" for x
  proof -
    have "length (filter (\<lambda>t. x < t) (map fst ?z)) \<le> length (map fst ?z)" by (rule length_filter_le)
    then show ?thesis by (simp only: later_def length_map)
  qed
  ultimately show ?thesis using of_nat_mono by (metis (no_types) order_trans)
qed

text \<open>A refusal says when to come back: after the oldest admitted entry has left the window.\<close>

lemma refused_window:
  assumes "sliding_window now w limit m z = ((False, used, reset), z')"
  shows "limit \<le> used \<and> used = int (length z') \<and> z' = zrem_upto (fl (now - of_int w)) z"
  using assms by (auto simp: sliding_window_def Let_def split: if_splits)

subsection \<open>Slots in use\<close>

lemma rd_value_put: "rd_value now k (rd_put k' v dl rd) =
    (if k = k' then (case dl of Some t \<Rightarrow> if t \<le> now then 0 else v | None \<Rightarrow> v) else rd_value now k rd)"
  by (auto simp: rd_value_def rd_get_def rd_put_def split: option.splits)

lemma acquire_value:
  assumes "acquire_slot now b limit ttl rd = (ok, rd')" "0 < ttl"
  shows "ok \<longleftrightarrow> slots_in_use now b rd < limit"
    and "slots_in_use now b rd' = slots_in_use now b rd + (if ok then 1 else 0)"
    and "b' \<noteq> b \<Longrightarrow> slots_in_use t b' rd' = slots_in_use t b' rd"
proof -
  have d: "\<not> now + rat_of_int ttl \<le> now" using assms(2) by simp
  show "ok \<longleftrightarrow> slots_in_use now b rd < limit" and "slots_in_use now b rd' = slots_in_use now b rd + (if ok then 1 else 0)"
    using assms(1) d by (auto simp: acquire_slot_def slots_in_use_def Let_def rd_value_put simp del: not_le split: if_splits)
  show "b' \<noteq> b \<Longrightarrow> slots_in_use t b' rd' = slots_in_use t b' rd"
    using assms(1) by (auto simp: acquire_slot_def slots_in_use_def Let_def rd_value_put split: if_splits)
qed

lemma release_value:
  "slots_in_use now b (release_slot now b rd) = max 0 (slots_in_use now b rd - 1)"
  "b' \<noteq> b \<Longrightarrow> slots_in_use t b' (release_slot now b rd) = slots_in_use t b' rd"
proof -
  let ?k = "''slots:'' @ b"
  define v where "v = rd_value now ?k rd"
  have put: "rd_value now k (rd_put k x (rd_deadline now k rd) rd) = x" for k and x :: int
    by (simp add: rd_value_put) (auto simp: rd_deadline_def rd_get_def split: option.splits if_splits)
  have clamp: "rd_value now k (rd_put k x None rd) = x" for k and x :: int
    by (simp add: rd_value_put)
  have v: "slots_in_use now b rd = v" by (simp add: slots_in_use_def v_def)
  show "slots_in_use now b (release_slot now b rd) = max 0 (slots_in_use now b rd - 1)"
  proof (cases "v - 1 < 0")
    case True
    then show ?thesis unfolding v release_slot_def Let_def v_def [symmetric] slots_in_use_def
      by (simp only: if_True clamp, simp?)
  next
    case False
    then show ?thesis unfolding v release_slot_def Let_def v_def [symmetric] slots_in_use_def
      by (simp only: if_False put, simp?)
  qed
  show "b' \<noteq> b \<Longrightarrow> slots_in_use t b' (release_slot now b rd) = slots_in_use t b' rd"
    unfolding release_slot_def slots_in_use_def Let_def v_def [symmetric]
    by (simp add: rd_value_put)
qed

end
