(* ===== verification/Http.thy ===== *)
theory Http
  imports Models Audit_Log Ratelimit Pricing Events
begin

text \<open>
  What the API routers share: \<^verbatim>\<open>core/db.py\<close> (one session per request), the error responses of
  \<^verbatim>\<open>api/main.py\<close>, and \<^verbatim>\<open>api/deps.py\<close> with the access tokens of \<^verbatim>\<open>core/security.py\<close>:
  authentication, membership, roles and the rate limit of every route. A handler sees the rows its
  session sees; Redis and the job queue take effect at once, the rows only when the session commits.
\<close>

subsection \<open>The server and one request\<close>

record job =
  jb_id :: string
  jb_run :: string
  jb_defer :: int

record server =
  sv_db :: db
  sv_redis :: redis
  sv_queue :: "job list"
  sv_buses :: "(string, bus) dict"
  sv_prices :: price_book

record session =
  se_db :: db
  se_server :: server

datatype header = WWW_Authenticate | Retry_After int

datatype http_error =
    HttpError nat string "header option"
  | ValidationFailed string
  | Crash exn

type_synonym 'a api = "(session, http_error, 'a) eff"

text \<open>
  The queue, the buses and the rows are shared; the price book is the one of the process that serves.
  Headers, cookies, body and credentials of the request; the outside it runs in.\<close>

record request =
  rq_bearer :: "string option"
  rq_forwarded_for :: "string option"
  rq_client_host :: "string option"
  rq_user_agent :: "string option"
  rq_refresh_cookie :: "string option"
  rq_json :: "json option"

datatype jwt_error = ExpiredSignature | InvalidToken

record web =
  wb_settings :: settings
  wb_now :: "nat \<Rightarrow> time"
  wb_time :: "nat \<Rightarrow> rat"
  wb_monotonic :: "nat \<Rightarrow> rat"
  wb_isoformat :: string
  wb_random :: "nat \<Rightarrow> string"
  wb_hash_password :: "string \<Rightarrow> string"
  wb_verify_password :: "string \<Rightarrow> string \<Rightarrow> bool"
  wb_needs_rehash :: "string \<Rightarrow> bool"
  wb_jwt_encode :: "jobj \<Rightarrow> string \<Rightarrow> string \<Rightarrow> string"
  wb_jwt_decode :: "string \<Rightarrow> string \<Rightarrow> string \<Rightarrow> jwt_error + jobj"
  wb_sha256 :: "string \<Rightarrow> string"
  wb_valid_email :: "string \<Rightarrow> bool"
  wb_races :: "db list"

definition get_session :: "server \<Rightarrow> session" where
  "get_session sv = \<lparr>se_db = sv_db sv, se_server = sv\<rparr>"

definition commit :: "session \<Rightarrow> session" where
  "commit s = s\<lparr>se_server := (se_server s)\<lparr>sv_db := se_db s\<rparr>\<rparr>"

definition rollback :: "session \<Rightarrow> session" where
  "rollback s = s\<lparr>se_db := sv_db (se_server s)\<rparr>"

definition serve :: "'a api \<Rightarrow> server \<Rightarrow> (http_error + 'a) \<times> server" where
  "serve h sv = (case h (get_session sv) of
     (Inr a, s) \<Rightarrow> (Inr a, se_server (commit s)) | (Inl e, s) \<Rightarrow> (Inl e, se_server s))"

subsection \<open>Statements of a handler\<close>

definition query :: "(db \<Rightarrow> 'a) \<Rightarrow> 'a api" where
  "query f = eget (\<lambda>s. f (se_db s))"

definition write_db :: "(db \<Rightarrow> db) \<Rightarrow> unit api" where
  "write_db f = emod (\<lambda>s. s\<lparr>se_db := f (se_db s)\<rparr>)"

definition in_db :: "'a txn \<Rightarrow> 'a api" where
  "in_db w = (\<lambda>s. case w (se_db s) of (Inl e, d) \<Rightarrow> (Inl (Crash e), s\<lparr>se_db := d\<rparr>) | (Inr a, d) \<Rightarrow> (Inr a, s\<lparr>se_db := d\<rparr>))"

definition in_redis :: "(redis \<Rightarrow> 'a \<times> redis) \<Rightarrow> 'a api" where
  "in_redis f = (\<lambda>s. case f (sv_redis (se_server s)) of (a, rd) \<Rightarrow>
     (Inr a, s\<lparr>se_server := (se_server s)\<lparr>sv_redis := rd\<rparr>\<rparr>))"

definition need :: "bool \<Rightarrow> http_error \<Rightarrow> unit api" where
  "need b e = (if b then eret () else eraise e)"

definition reject :: "nat \<Rightarrow> string \<Rightarrow> 'a api" where
  "reject st detail = eraise (HttpError st detail None)"

text \<open>\<open>scalar_one_or_none\<close>, and \<open>session.add\<close> with the flush that meets a unique constraint.\<close>

fun one_or_none :: "'r list \<Rightarrow> 'r option res" where
  "one_or_none [] = Inr None"
| "one_or_none [r] = Inr (Some r)"
| "one_or_none (r # r' # rs) = Inl (OtherError ''MultipleResultsFound'')"

definition select_one :: "(db \<Rightarrow> 'r list) \<Rightarrow> ('r \<Rightarrow> bool) \<Rightarrow> 'r option api" where
  "select_one rows p = in_db (\<lambda>d. (one_or_none (filter p (rows d)), d))"

definition insert_row :: "('r \<Rightarrow> 'r \<Rightarrow> bool) \<Rightarrow> 'r \<Rightarrow> 'r list \<Rightarrow> 'r list res" where
  "insert_row clash r rows = (if list_ex (clash r) rows then Inl IntegrityError else Inr (rows @ [r]))"

definition add_refresh_token :: "refresh_token_row \<Rightarrow> unit txn" where
  "add_refresh_token r = (\<lambda>d. case insert_row (\<lambda>x y. rt_id x = rt_id y \<or> rt_token_hash x = rt_token_hash y) r (db_refresh_tokens d) of
     Inl e \<Rightarrow> (Inl e, d) | Inr rows \<Rightarrow> (Inr (), d\<lparr>db_refresh_tokens := rows\<rparr>))"

definition add_membership :: "membership_row \<Rightarrow> unit txn" where
  "add_membership r = (\<lambda>d. case insert_row (\<lambda>x y. mb_id x = mb_id y \<or>
        (mb_user_id x = mb_user_id y \<and> mb_org_id x = mb_org_id y)) r (db_memberships d) of
     Inl e \<Rightarrow> (Inl e, d) | Inr rows \<Rightarrow> (Inr (), d\<lparr>db_memberships := rows\<rparr>))"

definition add_user :: "user_row \<Rightarrow> unit txn" where
  "add_user r = (\<lambda>d. case insert_row (\<lambda>x y. u_id x = u_id y \<or> u_email x = u_email y) r (db_users d) of
     Inl e \<Rightarrow> (Inl e, d) | Inr rows \<Rightarrow> (Inr (), d\<lparr>db_users := rows\<rparr>))"

definition add_org :: "org_row \<Rightarrow> unit txn" where
  "add_org r = (\<lambda>d. case insert_row (\<lambda>x y. o_id x = o_id y \<or> o_slug x = o_slug y) r (db_orgs d) of
     Inl e \<Rightarrow> (Inl e, d) | Inr rows \<Rightarrow> (Inr (), d\<lparr>db_orgs := rows\<rparr>))"

definition get_user :: "db \<Rightarrow> string \<Rightarrow> user_row option" where
  "get_user d i = row_get u_id i (db_users d)"

definition set_user :: "string \<Rightarrow> (user_row \<Rightarrow> user_row) \<Rightarrow> db \<Rightarrow> db" where
  "set_user i f d = d\<lparr>db_users := row_set u_id i f (db_users d)\<rparr>"

subsection \<open>The caller\<close>

definition client_ip :: "request \<Rightarrow> string option" where
  "client_ip rq = (case rq_forwarded_for rq of
     Some f \<Rightarrow> if f \<noteq> [] then Some (take 64 (strip (hd (split_on (CHR '','') f))))
               else map_option (take 64) (rq_client_host rq)
   | None \<Rightarrow> map_option (take 64) (rq_client_host rq))"

definition unauthorised :: "string \<Rightarrow> http_error" where
  "unauthorised detail = HttpError 401 detail (Some WWW_Authenticate)"

record claims =
  cl_user_id :: string
  cl_email :: json
  cl_token_epoch :: int
  cl_is_superuser :: bool
  cl_orgs :: jobj
  cl_expires_at :: time

datatype token_error = AuthError string | TokenCrash exn

definition jwt_secret :: "settings \<Rightarrow> token_error + string" where
  "jwt_secret cfg = (if cfg_jwt_secret cfg = [] then Inl (AuthError ''JWT_SECRET is not configured'')
     else Inr (cfg_jwt_secret cfg))"

definition from_timestamp :: "json \<Rightarrow> time res" where
  "from_timestamp v = (case py_int v of
     Inl _ \<Rightarrow> Inl TypeError
   | Inr i \<Rightarrow> (case v of JStr _ \<Rightarrow> Inl TypeError
       | _ \<Rightarrow> if i < - 62135596800 \<or> i > 253402300799 then Inl (ValueError ''year is out of range'')
           else Inr (case v of JFloat q _ \<Rightarrow> round_even (q * 1000000) | _ \<Rightarrow> i * 1000000)))"

text \<open>
  The library refuses a payload whose subject is missing or is no text, like one with a bad
  signature, and one without the required claims.
\<close>

definition decode_access_token :: "web \<Rightarrow> string \<Rightarrow> token_error + claims" where
  "decode_access_token wb token =
     rbind (jwt_secret (wb_settings wb)) (\<lambda>secret.
     case wb_jwt_decode wb token secret (cfg_jwt_algorithm (wb_settings wb)) of
       Inl ExpiredSignature \<Rightarrow> Inl (AuthError ''token has expired'')
     | Inl InvalidToken \<Rightarrow> Inl (AuthError ''invalid token'')
     | Inr payload \<Rightarrow>
        if jget payload ''typ'' \<noteq> JStr ''access'' then Inl (AuthError ''invalid token'')
        else (case (as_str (jget payload ''sub''), dget payload ''exp'') of
          (Some sub, Some ex) \<Rightarrow>
            (case int_or_raise (dget_or payload ''epoch'' (JInt 0)) of
               Inl e \<Rightarrow> Inl (TokenCrash e)
             | Inr epoch \<Rightarrow>
                (case (if truthy (jget payload ''orgs'') then jget payload ''orgs'' else JObj []) of
                   JObj orgs \<Rightarrow> (case from_timestamp ex of
                       Inl e \<Rightarrow> Inl (TokenCrash e)
                     | Inr t \<Rightarrow> Inr \<lparr>cl_user_id = sub, cl_email = dget_or payload ''email'' (JStr []),
                         cl_token_epoch = epoch, cl_is_superuser = truthy (dget_or payload ''su'' (JBool False)),
                         cl_orgs = orgs, cl_expires_at = t\<rparr>)
                 | _ \<Rightarrow> Inl (TokenCrash TypeError)))
        | _ \<Rightarrow> Inl (AuthError ''invalid token'')))"

definition current_claims :: "web \<Rightarrow> request \<Rightarrow> claims api" where
  "current_claims wb rq = (case rq_bearer rq of
     None \<Rightarrow> eraise (unauthorised ''not authenticated'')
   | Some token \<Rightarrow>
       if token = [] then eraise (unauthorised ''not authenticated'')
       else (case decode_access_token wb token of
         Inl (AuthError m) \<Rightarrow> eraise (unauthorised m)
       | Inl (TokenCrash e) \<Rightarrow> eraise (Crash e)
       | Inr cl \<Rightarrow> eret cl))"

definition current_user :: "web \<Rightarrow> request \<Rightarrow> user_row api" where
  "current_user wb rq =
     ebind (current_claims wb rq) (\<lambda>cl.
     ebind (query (\<lambda>d. get_user d (cl_user_id cl))) (\<lambda>found.
     case found of
       None \<Rightarrow> eraise (unauthorised ''account is inactive'')
     | Some user \<Rightarrow>
         if \<not> u_is_active user then eraise (unauthorised ''account is inactive'')
         else if u_token_epoch user \<noteq> cl_token_epoch cl
         then eraise (unauthorised ''session is no longer valid, sign in again'')
         else eret user))"

definition limiter_check :: "web \<Rightarrow> nat \<Rightarrow> string \<Rightarrow> int \<Rightarrow> int \<Rightarrow> rate_limit_result api" where
  "limiter_check wb n bucket limit window = in_redis (rl_check (wb_time wb n) (wb_random wb n) bucket limit window)"

definition enforce_api_rate_limit :: "web \<Rightarrow> user_row \<Rightarrow> unit api" where
  "enforce_api_rate_limit wb user =
     ebind (limiter_check wb 0 (''api:'' @ u_id user) (cfg_rate_limit_api_per_minute (wb_settings wb)) 60) (\<lambda>r.
     need (rl_allowed r) (HttpError 429 ''rate limit exceeded'' (Some (Retry_After (max (rl_retry_after_seconds r) 1)))))"

subsection \<open>The organisation of a route\<close>

definition ROLE_ORDER :: "(string \<times> int) list" where
  "ROLE_ORDER = [(''viewer'', 0), (''member'', 1), (''admin'', 2), (''owner'', 3)]"

record org_context =
  oc_org :: org_row
  oc_user :: user_row
  oc_role :: string

definition oc_org_id :: "org_context \<Rightarrow> string" where
  "oc_org_id c = o_id (oc_org c)"

definition can :: "org_context \<Rightarrow> string \<Rightarrow> bool" where
  "can c minimum = (dget_or ROLE_ORDER (oc_role c) (- 1) \<ge> dget_or ROLE_ORDER minimum 0)"

definition current_org :: "string \<Rightarrow> user_row \<Rightarrow> org_context api" where
  "current_org org_id user =
     ebind (select_one db_memberships (\<lambda>m. mb_org_id m = org_id \<and> mb_user_id m = u_id user)) (\<lambda>membership.
     ebind (query (\<lambda>d. get_org d org_id)) (\<lambda>org.
     case org of
       None \<Rightarrow> reject 404 ''organisation not found''
     | Some o1 \<Rightarrow>
         if \<not> o_is_active o1 then reject 404 ''organisation not found''
         else (case membership of
           None \<Rightarrow> if u_is_superuser user then eret \<lparr>oc_org = o1, oc_user = user, oc_role = ''owner''\<rparr>
                   else reject 404 ''organisation not found''
         | Some m \<Rightarrow> eret \<lparr>oc_org = o1, oc_user = user, oc_role = mb_role m\<rparr>)))"

definition require_role :: "string \<Rightarrow> org_context \<Rightarrow> unit api" where
  "require_role minimum c = need (can c minimum)
     (HttpError 403 (''this action requires the '' @ minimum @ '' role or higher'') None)"

definition require_superuser :: "user_row \<Rightarrow> unit api" where
  "require_superuser user = need (u_is_superuser user) (HttpError 403 ''forbidden'' None)"

text \<open>
  A route under \<open>/orgs/{org_id}\<close>: the router's own dependency first, then the path, the membership
  and the role (\<open>OrgDep\<close> asks for none).
\<close>

definition org_route :: "web \<Rightarrow> request \<Rightarrow> string \<Rightarrow> string option \<Rightarrow> (org_context \<Rightarrow> 'a api) \<Rightarrow> 'a api" where
  "org_route wb rq org_id minimum body =
     ebind (current_user wb rq) (\<lambda>user.
     ethen (enforce_api_rate_limit wb user)
     (ethen (need (org_id \<noteq> [] \<and> length org_id \<le> 36) (ValidationFailed ''org_id''))
     (ebind (current_org org_id user) (\<lambda>ctx.
     ethen (case minimum of None \<Rightarrow> eret () | Some m \<Rightarrow> require_role m ctx) (body ctx)))))"

definition user_route :: "web \<Rightarrow> request \<Rightarrow> (user_row \<Rightarrow> 'a api) \<Rightarrow> 'a api" where
  "user_route wb rq body = ebind (current_user wb rq) body"

definition superuser_route :: "web \<Rightarrow> request \<Rightarrow> (user_row \<Rightarrow> 'a api) \<Rightarrow> 'a api" where
  "superuser_route wb rq body =
     ebind (current_user wb rq) (\<lambda>user. ethen (require_superuser user) (body user))"

definition audit :: "string \<Rightarrow> string option \<Rightarrow> string option \<Rightarrow> (string \<times> string) option \<Rightarrow> string option \<Rightarrow>
    string option \<Rightarrow> jobj \<Rightarrow> unit api" where
  "audit action org_id actor target ip agent detail = write_db (audit_record
     \<lparr>au_org_id = org_id, au_actor_user_id = actor, au_action = action, au_target_type = map_option fst target,
      au_target_id = map_option snd target, au_ip_address = ip, au_user_agent = agent, au_detail = detail\<rparr>)"

subsection \<open>Running a handler\<close>

lemma api_run [simp]:
  "ebind (query f) g s = g (f (se_db s)) s"
  "query f s = (Inr (f (se_db s)), s)"
  "ethen (write_db h) m s = m (s\<lparr>se_db := h (se_db s)\<rparr>)"
  "write_db h s = (Inr (), s\<lparr>se_db := h (se_db s)\<rparr>)"
  "ethen (need b e) m s = (if b then m s else (Inl e, s))"
  "need b e s = (if b then (Inr (), s) else (Inl e, s))"
  "reject st detail s = (Inl (HttpError st detail None), s)"
  "ethen (audit ac og who tg ip ag dt) m s = m (snd (audit ac og who tg ip ag dt s))"
  "fst (audit ac og who tg ip ag dt s) = Inr ()"
  by (simp_all add: query_def write_db_def need_def reject_def audit_def eret_def eraise_def ethen_def ebind_def)

lemma select_one_run: "ebind (select_one rows p) g s = (case one_or_none (filter p (rows (se_db s))) of
    Inl e \<Rightarrow> (Inl (Crash e), s) | Inr x \<Rightarrow> g x s)"
  by (simp add: select_one_def ebind_def in_db_def split: sum.split)

lemma in_db_run: "ethen (in_db w) m s = (case w (se_db s) of (Inl e, d) \<Rightarrow> (Inl (Crash e), s\<lparr>se_db := d\<rparr>)
    | (Inr a, d) \<Rightarrow> m (s\<lparr>se_db := d\<rparr>))"
  by (simp add: ethen_def ebind_def in_db_def split: sum.split prod.split)

lemma one_or_none_Some: "one_or_none xs = Inr (Some r) \<longleftrightarrow> xs = [r]"
  by (cases xs rule: one_or_none.cases) auto

lemma one_or_none_None: "one_or_none xs = Inr None \<longleftrightarrow> xs = []"
  by (cases xs rule: one_or_none.cases) auto

lemma insert_row_Inr: "insert_row clash r rows = Inr rows' \<longleftrightarrow> list_all (\<lambda>x. \<not> clash r x) rows \<and> rows' = rows @ [r]"
  by (auto simp: insert_row_def list_ex_iff list_all_iff)

lemma serve_Inr: "serve h sv = (Inr a, sv') \<longleftrightarrow>
    (\<exists>s. h (get_session sv) = (Inr a, s) \<and> sv' = (se_server s)\<lparr>sv_db := se_db s\<rparr>)"
  by (auto simp: serve_def commit_def split: prod.splits sum.splits)

lemma serve_Inl: "serve h sv = (Inl e, sv') \<longleftrightarrow> (\<exists>s. h (get_session sv) = (Inl e, s) \<and> sv' = se_server s)"
  by (auto simp: serve_def split: prod.splits sum.splits)

text \<open>
  What every route does before its own work: reading rows, and a limiter call that changes Redis.
  A relation that allows a change of Redis allows all of it.
\<close>

locale api_frame = frame R for R :: "session \<Rightarrow> session \<Rightarrow> bool" +
  assumes redis_step: "R s (s\<lparr>se_server := (se_server s)\<lparr>sv_redis := rd\<rparr>\<rparr>)"
begin

lemma fr_query: "always R (query f)"
  by (simp add: query_def fr_get)

lemma fr_need: "always R (need b e)"
  by (simp add: need_def fr_ret fr_raise)

lemma fr_reject: "always R (reject st detail)"
  by (simp add: reject_def fr_raise)

lemma fr_select: "always R (select_one rows p)"
  by (rule alwaysI) (auto simp: select_one_def in_db_def frame_refl split: sum.splits)

lemma fr_redis: "always R (in_redis f)"
  by (rule alwaysI) (auto simp: in_redis_def redis_step split: prod.splits)

lemma fr_limiter: "always R (limiter_check wb n bucket limit window)"
  by (simp add: limiter_check_def fr_redis)

lemma fr_claims: "always R (current_claims wb rq)"
  by (simp add: current_claims_def fr_ret fr_raise split: option.split sum.split token_error.split)

lemma fr_user: "always R (current_user wb rq)"
  unfolding current_user_def
  by (intro fr_bind fr_claims fr_query) (simp add: fr_ret fr_raise split: option.split)

lemma fr_rate_limit: "always R (enforce_api_rate_limit wb user)"
  unfolding enforce_api_rate_limit_def by (intro fr_bind fr_limiter fr_need)

lemma fr_org: "always R (current_org org_id user)"
  unfolding current_org_def
  by (intro fr_bind fr_select fr_query) (simp add: fr_ret fr_reject split: option.split)

lemma fr_org_route: "(\<And>ctx. always R (body ctx)) \<Longrightarrow> always R (org_route wb rq org_id minimum body)"
  unfolding org_route_def require_role_def
  by (intro fr_bind fr_then fr_user fr_rate_limit fr_need fr_org) (simp_all add: fr_ret fr_need split: option.split)

lemma fr_user_route: "(\<And>user. always R (body user)) \<Longrightarrow> always R (user_route wb rq body)"
  unfolding user_route_def by (intro fr_bind fr_user)

lemma fr_superuser_route: "(\<And>user. always R (body user)) \<Longrightarrow> always R (superuser_route wb rq body)"
  unfolding superuser_route_def require_superuser_def by (intro fr_bind fr_then fr_user fr_need)

lemmas api_rules = fr_rules fr_query fr_need fr_reject fr_select fr_redis fr_limiter fr_user fr_rate_limit
  fr_org fr_org_route fr_user_route fr_superuser_route

end

text \<open>Without an explicit commit the committed rows are those of the start.\<close>

definition same_committed :: "session \<Rightarrow> session \<Rightarrow> bool" where
  "same_committed s t \<longleftrightarrow> sv_db (se_server t) = sv_db (se_server s)"

interpretation uncommitted: api_frame same_committed
  by unfold_locales (simp_all add: same_committed_def)

lemma uncommitted_stmt:
  "always same_committed (write_db f)" "always same_committed (in_db w)"
  "always same_committed (audit ac og who tg ip ag dt)" "always same_committed (emod rollback)"
  by (auto intro!: alwaysI simp: same_committed_def in_db_def audit_def rollback_def split: prod.splits sum.splits)

lemma failed_request:
  assumes "always same_committed h" "serve h sv = (Inl e, sv')"
  shows "sv_db sv' = sv_db sv"
  using assms alwaysD [OF assms(1)] by (auto simp: serve_Inl same_committed_def get_session_def)

text \<open>Reading the caller changes nothing at all.\<close>

interpretation reading: frame "\<lambda>s t. t = s"
  by unfold_locales simp_all

lemma current_user_reads: "current_user wb rq s = (r, s') \<Longrightarrow> s' = s"
proof -
  have "always (\<lambda>s t. t = s) (current_claims wb rq)"
    by (simp add: current_claims_def reading.fr_rules split: option.split sum.split token_error.split)
  then have "always (\<lambda>s t. t = s) (current_user wb rq)"
    unfolding current_user_def query_def
    by (intro reading.fr_bind reading.fr_get) (simp_all add: reading.fr_rules split: option.split)
  then show "current_user wb rq s = (r, s') \<Longrightarrow> s' = s" by (rule alwaysD)
qed

lemma current_user_Inr:
  "current_user wb rq s = (Inr user, s') \<Longrightarrow> \<exists>cl. current_claims wb rq s = (Inr cl, s) \<and>
     get_user (se_db s) (cl_user_id cl) = Some user \<and> u_is_active user \<and> u_token_epoch user = cl_token_epoch cl"
proof -
  have "always (\<lambda>s t. t = s) (current_claims wb rq)"
    by (simp add: current_claims_def reading.fr_rules split: option.split sum.split token_error.split)
  then have c: "current_claims wb rq s = (r, t) \<Longrightarrow> t = s" for r t by (rule alwaysD)
  assume "current_user wb rq s = (Inr user, s')"
  then show ?thesis
    by (auto simp: current_user_def ebind_eq_Inr dest!: c split: option.splits if_splits)
qed

text \<open>An organisation resolves for its members and for operators only.\<close>

lemma current_org_Inr:
  "current_org org_id user s = (Inr c, s') \<Longrightarrow> s' = s \<and> oc_user c = user \<and> get_org (se_db s) org_id = Some (oc_org c) \<and>
     o_is_active (oc_org c) \<and> (u_is_superuser user \<and> oc_role c = ''owner'' \<or>
       (\<exists>m \<in> set (db_memberships (se_db s)). mb_org_id m = org_id \<and> mb_user_id m = u_id user \<and> oc_role c = mb_role m))"
  by (auto simp: current_org_def select_one_run one_or_none_Some filter_eq_Cons_iff
      split: option.splits sum.splits if_splits)

lemma oc_org_id_eq: "current_org org_id user s = (Inr c, s') \<Longrightarrow> oc_org_id c = org_id"
  by (drule current_org_Inr) (auto simp: oc_org_id_def get_org_def dest: row_get_Some)

text \<open>Up to the handler's own body a route changes Redis only.\<close>

definition same_rows :: "session \<Rightarrow> session \<Rightarrow> bool" where
  "same_rows s t \<longleftrightarrow> (\<exists>rd. t = s\<lparr>se_server := (se_server s)\<lparr>sv_redis := rd\<rparr>\<rparr>)"

lemma same_rowsD: "same_rows s t \<Longrightarrow> se_db t = se_db s \<and> sv_db (se_server t) = sv_db (se_server s) \<and>
    sv_queue (se_server t) = sv_queue (se_server s) \<and> sv_buses (se_server t) = sv_buses (se_server s)"
  by (auto simp: same_rows_def)

interpretation rows: api_frame same_rows
proof unfold_locales
  fix s show "same_rows s s" unfolding same_rows_def by (intro exI [of _ "sv_redis (se_server s)"]) simp
qed (auto simp: same_rows_def)

text \<open>A route runs its body for an active user with a role in the organisation, or changes no row.\<close>

lemma org_route_cases:
  assumes "org_route wb rq org_id minimum body s = (r, s')"
  obtains (refused) e where "r = Inl e" "same_rows s s'"
  | (admitted) user ctx s1 where "current_user wb rq s = (Inr user, s)" "same_rows s s1" "current_org org_id user s1 = (Inr ctx, s1)"
      "case minimum of None \<Rightarrow> True | Some m \<Rightarrow> can ctx m" "body ctx s1 = (r, s')"
proof -
  obtain ru s0 where u: "current_user wb rq s = (ru, s0)" by (metis surj_pair)
  then have s0: "s0 = s" by (rule current_user_reads)
  show ?thesis
  proof (cases ru)
    case (Inl e)
    with u s0 assms have "r = Inl e" "s' = s" by (auto simp: org_route_def ebind_Inl)
    then show ?thesis using refused rows.frame_refl by blast
  next
    case (Inr user)
    let ?rest = "ethen (need (org_id \<noteq> [] \<and> length org_id \<le> 36) (ValidationFailed ''org_id''))
     (ebind (current_org org_id user) (\<lambda>ctx. ethen (case minimum of None \<Rightarrow> eret () | Some m \<Rightarrow> require_role m ctx) (body ctx)))"
    have run: "ethen (enforce_api_rate_limit wb user) ?rest s = (r, s')"
      using assms u s0 Inr by (simp add: org_route_def ebind_Inr)
    obtain rl s1 where l: "enforce_api_rate_limit wb user s = (rl, s1)" by (metis surj_pair)
    have s1: "same_rows s s1" by (rule alwaysD [OF rows.fr_rate_limit l])
    show ?thesis
    proof (cases rl)
      case (Inl e)
      with run l have "r = Inl e" "s' = s1" by (auto simp: ethen_Inl)
      then show ?thesis using refused s1 by blast
    next
      case rl: (Inr x)
      obtain ro s2 where o1: "current_org org_id user s1 = (ro, s2)" by (metis surj_pair)
      have s2: "same_rows s s2" by (rule rows.frame_trans [OF s1 alwaysD [OF rows.fr_org o1]])
      have run2: "?rest s1 = (r, s')" using run l rl by (simp add: ethen_Inr)
      show ?thesis
      proof (cases "(org_id \<noteq> [] \<and> length org_id \<le> 36) \<and> (\<exists>c. ro = Inr c)")
        case True
        then obtain ctx where ctx: "ro = Inr ctx" by blast
        have s21: "s2 = s1" using current_org_Inr o1 ctx by blast
        show ?thesis
        proof (cases "case minimum of None \<Rightarrow> True | Some m \<Rightarrow> can ctx m")
          case True
          with run2 o1 ctx s21 \<open>(org_id \<noteq> [] \<and> length org_id \<le> 36) \<and> (\<exists>c. ro = Inr c)\<close> have "body ctx s1 = (r, s')"
            by (cases minimum) (simp_all add: ebind_Inr require_role_def)
          then show ?thesis using admitted u s0 Inr s1 o1 ctx s21 True by blast
        next
          case False
          with run2 o1 ctx s21 \<open>(org_id \<noteq> [] \<and> length org_id \<le> 36) \<and> (\<exists>c. ro = Inr c)\<close> have "\<exists>e. r = Inl e \<and> s' = s1"
            by (cases minimum) (auto simp add: ebind_Inr require_role_def)
          then show ?thesis using refused s1 by blast
        qed
      next
        case False
        with run2 o1 have "\<exists>e. r = Inl e \<and> (s' = s1 \<or> s' = s2)"
          by (cases ro) (auto simp: ebind_Inl split: if_splits)
        then show ?thesis using refused s1 s2 by blast
      qed
    qed
  qed
qed

lemma can_owner: "can c ''owner'' \<longleftrightarrow> oc_role c = ''owner''"
  by (auto simp: can_def dget_or_def ROLE_ORDER_def)

text \<open>Someone who is neither a member nor an operator gets nothing and changes no row.\<close>

lemma current_org_outsider:
  assumes "\<not> u_is_superuser user" "list_all (\<lambda>m. \<not> (mb_org_id m = org_id \<and> mb_user_id m = u_id user)) (db_memberships (se_db s))"
  shows "current_org org_id user s = (Inl (HttpError 404 ''organisation not found'' None), s)"
proof -
  have "filter (\<lambda>m. mb_org_id m = org_id \<and> mb_user_id m = u_id user) (db_memberships (se_db s)) = []"
    using assms(2) by (auto simp: filter_empty_conv list_all_iff)
  then show ?thesis using assms(1) by (simp add: current_org_def select_one_run split: option.split)
qed

lemma outsider_refused:
  assumes "serve (org_route wb rq org_id minimum body) sv = (r, sv')"
    "current_user wb rq (get_session sv) = (Inr user, get_session sv)" "\<not> u_is_superuser user"
    "list_all (\<lambda>m. \<not> (mb_org_id m = org_id \<and> mb_user_id m = u_id user)) (db_memberships (sv_db sv))"
  shows "(\<exists>e. r = Inl e) \<and> sv_db sv' = sv_db sv \<and> sv_queue sv' = sv_queue sv \<and> sv_buses sv' = sv_buses sv"
proof -
  obtain s where s: "org_route wb rq org_id minimum body (get_session sv) = (r, s)"
      "sv' = (case r of Inl e \<Rightarrow> se_server s | Inr a \<Rightarrow> se_server (commit s))"
    using assms(1) by (auto simp: serve_def split: prod.splits sum.splits)
  show ?thesis
  proof (rule org_route_cases [OF s(1)])
    fix e assume "r = Inl e" "same_rows (get_session sv) s"
    then show ?thesis using s(2) by (auto simp: get_session_def dest!: same_rowsD)
  next
    fix user' ctx s1
    assume u: "current_user wb rq (get_session sv) = (Inr user', get_session sv)" and s1: "same_rows (get_session sv) s1"
      and o1: "current_org org_id user' s1 = (Inr ctx, s1)"
    have "user' = user" "se_db s1 = sv_db sv" using u assms(2) same_rowsD [OF s1] by (simp_all add: get_session_def)
    with current_org_outsider [OF assms(3), of org_id s1] assms(4) o1 have False by simp
    then show ?thesis ..
  qed
qed

end
