(* ===== verification/Auth.thy ===== *)
theory Auth
  imports Http Billing Regex
begin

text \<open>
  \<^verbatim>\<open>core/security.py\<close> and \<^verbatim>\<open>api/routers/auth.py\<close>: the password policy, the tokens, and the routes
  of registration, sign-in, refresh rotation, sign-out and password change, as handlers over the
  session of theory \<open>Http\<close>. Password hashing, signing, digests and random values come from libraries
  and are fields of \<open>web\<close>; each clock reading and random draw of a handler has its own index.
\<close>

subsection \<open>Passwords and tokens\<close>

definition validate_password :: "settings \<Rightarrow> string \<Rightarrow> string option" where
  "validate_password cfg password = (
     if int (length password) < cfg_password_min_length cfg
     then Some (''password must be at least '' @ str_of_int (cfg_password_min_length cfg) @ '' characters'')
     else if strip password \<noteq> password then Some ''password must not start or end with whitespace''
     else if length (remdups password) < 5 then Some ''password is too repetitive''
     else None)"

definition hash_password :: "web \<Rightarrow> string \<Rightarrow> string + string" where
  "hash_password wb password = (case validate_password (wb_settings wb) password of
     Some m \<Rightarrow> Inl m | None \<Rightarrow> Inr (wb_hash_password wb password))"

definition epoch_seconds :: "time \<Rightarrow> int" where
  "epoch_seconds t = trunc_rat (fl (of_int t / 1000000))"

definition create_access_token :: "web \<Rightarrow> user_row \<Rightarrow> (string, string) dict \<Rightarrow> (string \<times> int) res" where
  "create_access_token wb user orgs = (
     let cfg = wb_settings wb; ttl = cfg_access_token_ttl_minutes cfg * 60; now = wb_now wb 0;
         payload = [(''sub'', JStr (u_id user)), (''email'', JStr (u_email user)), (''epoch'', JInt (u_token_epoch user)),
           (''su'', JBool (u_is_superuser user)), (''orgs'', JObj (map (\<lambda>(k, v). (k, JStr v)) orgs)),
           (''typ'', JStr ''access''), (''iat'', JInt (epoch_seconds now)),
           (''exp'', JInt (epoch_seconds (now + ttl * 1000000))), (''jti'', JStr (wb_random wb 10))]
     in case jwt_secret cfg of
          Inl (AuthError m) \<Rightarrow> Inl (OtherError ''AuthError'')
        | Inl (TokenCrash e) \<Rightarrow> Inl e
        | Inr secret \<Rightarrow> Inr (wb_jwt_encode wb payload secret (cfg_jwt_algorithm cfg), ttl))"

definition refresh_token_expiry :: "web \<Rightarrow> time" where
  "refresh_token_expiry wb = wb_now wb 1 + cfg_refresh_token_ttl_days (wb_settings wb) * 86400 * 1000000"

record token_pair =
  tk_access_token :: string
  tk_refresh_token :: string
  tk_expires_in :: int

record cookie =
  cookie_value :: string
  cookie_secure :: bool
  cookie_max_age :: int

definition refresh_cookie :: "web \<Rightarrow> string \<Rightarrow> cookie" where
  "refresh_cookie wb token = \<lparr>cookie_value = token, cookie_secure = is_production (wb_settings wb),
     cookie_max_age = cfg_refresh_token_ttl_days (wb_settings wb) * 86400\<rparr>"

definition non_alnum :: "char \<Rightarrow> bool" where
  "non_alnum c = (\<not> (CHR ''a'' \<le> c \<and> c \<le> CHR ''z'' \<or> CHR ''0'' \<le> c \<and> c \<le> CHR ''9''))"

definition slugify :: "string \<Rightarrow> string" where
  "slugify name = (
     let slug = strip_by (\<lambda>c. c = CHR ''-'') (re_sub (RRep greedy 1 non_alnum) ''-'' (lower name)) in
     take 60 (if slug = [] then ''workspace'' else slug))"

text \<open>\<open>_issue_tokens\<close>: the access token carries the memberships, the row only the digest.\<close>

definition issued_row :: "web \<Rightarrow> user_row \<Rightarrow> string option \<Rightarrow> string option \<Rightarrow> string option \<Rightarrow> refresh_token_row" where
  "issued_row wb user family_id agent ip = \<lparr>rt_id = wb_random wb 11, rt_user_id = u_id user,
     rt_token_hash = wb_sha256 wb (wb_random wb 12),
     rt_family_id = (case family_id of Some f \<Rightarrow> if f \<noteq> [] then f else wb_random wb 13 | None \<Rightarrow> wb_random wb 13),
     rt_expires_at = refresh_token_expiry wb, rt_used_at = None, rt_revoked_at = None,
     rt_user_agent = user_agent_of agent, rt_ip_address = ip\<rparr>"

definition issue_tokens :: "web \<Rightarrow> user_row \<Rightarrow> string option \<Rightarrow> string option \<Rightarrow> string option \<Rightarrow> token_pair api" where
  "issue_tokens wb user family_id agent ip =
     ebind (query (\<lambda>d. dict_of (map (\<lambda>m. (mb_org_id m, mb_role m)) (filter (\<lambda>m. mb_user_id m = u_id user) (db_memberships d))))) (\<lambda>orgs.
     case create_access_token wb user orgs of
       Inl e \<Rightarrow> eraise (Crash e)
     | Inr (access, ttl) \<Rightarrow> ethen (in_db (add_refresh_token (issued_row wb user family_id agent ip)))
         (eret \<lparr>tk_access_token = access, tk_refresh_token = wb_random wb 12, tk_expires_in = ttl\<rparr>))"

subsection \<open>Registration and sign-in\<close>

record register_request =
  rg_email :: string
  rg_password :: string
  rg_name :: "string option"
  rg_org_name :: string

definition register_request_ok :: "web \<Rightarrow> register_request \<Rightarrow> bool" where
  "register_request_ok wb p \<longleftrightarrow> wb_valid_email wb (rg_email p) \<and> 12 \<le> length (rg_password p) \<and> length (rg_password p) \<le> 256
     \<and> (case rg_name p of None \<Rightarrow> True | Some n \<Rightarrow> length n \<le> 200)
     \<and> 1 \<le> length (rg_org_name p) \<and> length (rg_org_name p) \<le> 200"

definition throttled :: "string \<Rightarrow> rate_limit_result \<Rightarrow> unit api" where
  "throttled detail r = need (rl_allowed r) (HttpError 429 detail (Some (Retry_After (rl_retry_after_seconds r))))"

definition new_user :: "web \<Rightarrow> string \<Rightarrow> string \<Rightarrow> string option \<Rightarrow> user_row" where
  "new_user wb email password_hash name = \<lparr>u_id = wb_random wb 14, u_email = email, u_password_hash = password_hash,
     u_name = name, u_is_active = True, u_is_superuser = False, u_last_login_at = None, u_token_epoch = 0\<rparr>"

definition new_org :: "web \<Rightarrow> string \<Rightarrow> org_row" where
  "new_org wb name = \<lparr>o_id = wb_random wb 15, o_name = name, o_slug = slugify name @ ''-'' @ wb_random wb 16,
     o_key_mode = ''managed'', o_credits_cents = 0, o_is_active = True\<rparr>"

definition the_ip :: "request \<Rightarrow> string" where
  "the_ip rq = (case client_ip rq of None \<Rightarrow> ''unknown'' | Some ip \<Rightarrow> if ip = [] then ''unknown'' else ip)"

definition register :: "web \<Rightarrow> request \<Rightarrow> register_request \<Rightarrow> (token_pair \<times> cookie) api" where
  "register wb rq p =
     ethen (need (register_request_ok wb p) (ValidationFailed ''body''))
     (ebind (limiter_check wb 0 (''register:'' @ the_ip rq) 5 3600) (\<lambda>check.
     ethen (throttled ''too many registration attempts'' check)
     (case hash_password wb (rg_password p) of
        Inl m \<Rightarrow> reject 422 m
      | Inr password_hash \<Rightarrow>
          let user = new_user wb (lower (rg_email p)) password_hash (rg_name p); org = new_org wb (rg_org_name p) in
          ethen (ecatch (ethen (in_db (add_user user)) (in_db (add_org org)))
             (\<lambda>e. if e = Crash IntegrityError
                then ethen (emod rollback) (reject 409 ''that email is already registered'') else eraise e))
          (ethen (in_db (add_membership \<lparr>mb_id = wb_random wb 17, mb_user_id = u_id user, mb_org_id = o_id org, mb_role = ''owner''\<rparr>))
          (ethen (if cfg_signup_bonus_cents (wb_settings wb) > 0
             then ethen (in_db (grant [] (wb_random wb 18) (wb_random wb 19) (o_id org) (cfg_signup_bonus_cents (wb_settings wb))
                    ''bonus'' ''signup bonus'' (Some (''signup:'' @ o_id org)) None)) (eret ())
             else eret ())
          (ethen (audit ''user.registered'' (Some (o_id org)) (Some (u_id user)) (Some (''user'', u_id user))
             (Some (the_ip rq)) (rq_user_agent rq) [])
          (ebind (issue_tokens wb user None (rq_user_agent rq) (Some (the_ip rq))) (\<lambda>tokens.
           eret (tokens, refresh_cookie wb (tk_refresh_token tokens))))))))))"

record login_request =
  lr_email :: string
  lr_password :: string

definition login_request_ok :: "web \<Rightarrow> login_request \<Rightarrow> bool" where
  "login_request_ok wb p \<longleftrightarrow> wb_valid_email wb (lr_email p) \<and> 1 \<le> length (lr_password p) \<and> length (lr_password p) \<le> 256"

definition invalid_credentials :: http_error where
  "invalid_credentials = HttpError 401 ''invalid email or password'' None"

definition login :: "web \<Rightarrow> request \<Rightarrow> login_request \<Rightarrow> (token_pair \<times> cookie) api" where
  "login wb rq p =
     ethen (need (login_request_ok wb p) (ValidationFailed ''body''))
     (let email = lower (lr_email p); ip = Some (the_ip rq); agent = rq_user_agent rq;
          busy = throttled ''too many sign-in attempts, try again later'' in
     ebind (limiter_check wb 0 (''login:'' @ email) 10 900) (\<lambda>c0. ethen (busy c0)
     (ebind (limiter_check wb 1 (''login-ip:'' @ the_ip rq) 30 900) (\<lambda>c1. ethen (busy c1)
     (ebind (select_one db_users (\<lambda>u. u_email u = email)) (\<lambda>found.
      case found of
        None \<Rightarrow> ethen (audit ''user.login_failed'' None None None ip agent [(''email'', JStr email)])
                 (eraise invalid_credentials)
      | Some user \<Rightarrow>
          if \<not> wb_verify_password wb (lr_password p) (u_password_hash user)
          then ethen (audit ''user.login_failed'' None (Some (u_id user)) None ip agent [(''email'', JStr email)])
                 (eraise invalid_credentials)
          else if \<not> u_is_active user then reject 403 ''account disabled''
          else ethen (if wb_needs_rehash wb (u_password_hash user)
                 then (case hash_password wb (lr_password p) of
                     Inl m \<Rightarrow> eraise (Crash (ValueError m))
                   | Inr h \<Rightarrow> write_db (set_user (u_id user) (\<lambda>u. u\<lparr>u_password_hash := h\<rparr>)))
                 else eret ())
          (ethen (write_db (set_user (u_id user) (\<lambda>u. u\<lparr>u_last_login_at := Some (wb_now wb 2)\<rparr>)))
          (ethen (audit ''user.login'' None (Some (u_id user)) None ip agent [])
          (ebind (issue_tokens wb user None agent ip) (\<lambda>tokens.
           eret (tokens, refresh_cookie wb (tk_refresh_token tokens))))))))))))"

subsection \<open>Refresh rotation\<close>

definition set_token :: "string \<Rightarrow> (refresh_token_row \<Rightarrow> refresh_token_row) \<Rightarrow> db \<Rightarrow> db" where
  "set_token i f d = d\<lparr>db_refresh_tokens := row_set rt_id i f (db_refresh_tokens d)\<rparr>"

definition revoke_where :: "(refresh_token_row \<Rightarrow> bool) \<Rightarrow> time \<Rightarrow> db \<Rightarrow> db" where
  "revoke_where p now d = d\<lparr>db_refresh_tokens :=
     map (\<lambda>t. if p t \<and> rt_revoked_at t = None then t\<lparr>rt_revoked_at := Some now\<rparr> else t) (db_refresh_tokens d)\<rparr>"

definition revoke_family :: "web \<Rightarrow> string \<Rightarrow> unit api" where
  "revoke_family wb family_id = write_db (revoke_where (\<lambda>t. rt_family_id t = family_id) (wb_now wb 3))"

text \<open>The token presented: a value of the body before the cookie; \<open>.encode()\<close> needs a text.\<close>

definition presented_token :: "request \<Rightarrow> http_error + json" where
  "presented_token rq = (
     let body = (case rq_json rq of None \<Rightarrow> JObj [] | Some v \<Rightarrow> if truthy v then v else JObj []);
         cookie = (case rq_refresh_cookie rq of None \<Rightarrow> JNull | Some c \<Rightarrow> JStr c)
     in case body of
          JObj d \<Rightarrow> Inr (if truthy (jget d ''refresh_token'') then jget d ''refresh_token'' else cookie)
        | _ \<Rightarrow> Inl (Crash AttributeError))"

definition refresh :: "web \<Rightarrow> request \<Rightarrow> (token_pair \<times> cookie) api" where
  "refresh wb rq =
     ebind (elift (presented_token rq)) (\<lambda>raw.
     ethen (need (truthy raw) (HttpError 401 ''refresh token missing'' None))
     (case raw of JStr token \<Rightarrow>
        ebind (select_one db_refresh_tokens (\<lambda>t. rt_token_hash t = wb_sha256 wb token)) (\<lambda>found.
        case found of
          None \<Rightarrow> reject 401 ''invalid refresh token''
        | Some stored \<Rightarrow>
            if rt_used_at stored \<noteq> None \<or> rt_revoked_at stored \<noteq> None then
              ethen (revoke_family wb (rt_family_id stored))
              (ethen (audit ''token.refresh_reuse_detected'' None (Some (rt_user_id stored)) None (client_ip rq)
                 (rq_user_agent rq) [(''family_id'', JStr (rt_family_id stored))])
              (ethen (emod commit) (reject 401 ''refresh token reuse detected, sign in again'')))
            else if rt_expires_at stored < wb_now wb 4 then reject 401 ''refresh token expired''
            else ebind (query (\<lambda>d. get_user d (rt_user_id stored))) (\<lambda>u.
              case u of
                None \<Rightarrow> reject 401 ''account is inactive''
              | Some user \<Rightarrow>
                  if \<not> u_is_active user then reject 401 ''account is inactive''
                  else ethen (write_db (set_token (rt_id stored) (\<lambda>t. t\<lparr>rt_used_at := Some (wb_now wb 4)\<rparr>)))
                    (ebind (issue_tokens wb user (Some (rt_family_id stored)) (rq_user_agent rq) (client_ip rq)) (\<lambda>tokens.
                     eret (tokens, refresh_cookie wb (tk_refresh_token tokens))))))
      | _ \<Rightarrow> eraise (Crash AttributeError)))"

subsection \<open>Sign-out and password change\<close>

definition logout :: "web \<Rightarrow> request \<Rightarrow> unit api" where
  "logout wb rq = (case rq_refresh_cookie rq of
     None \<Rightarrow> eret ()
   | Some raw \<Rightarrow> if raw = [] then eret ()
       else ebind (select_one db_refresh_tokens (\<lambda>t. rt_token_hash t = wb_sha256 wb raw)) (\<lambda>found.
         case found of None \<Rightarrow> eret () | Some stored \<Rightarrow> revoke_family wb (rt_family_id stored)))"

definition end_sessions :: "web \<Rightarrow> user_row \<Rightarrow> unit api" where
  "end_sessions wb user =
     ethen (write_db (set_user (u_id user) (\<lambda>u. u\<lparr>u_token_epoch := u_token_epoch u + 1\<rparr>)))
     (write_db (revoke_where (\<lambda>t. rt_user_id t = u_id user) (wb_now wb 5)))"

definition logout_everywhere :: "web \<Rightarrow> request \<Rightarrow> unit api" where
  "logout_everywhere wb rq = user_route wb rq (\<lambda>user.
     ethen (end_sessions wb user)
       (audit ''user.logout'' None (Some (u_id user)) None None None [(''scope'', JStr ''all'')]))"

record change_password_request =
  cp_current_password :: string
  cp_new_password :: string

definition change_password_request_ok :: "change_password_request \<Rightarrow> bool" where
  "change_password_request_ok p \<longleftrightarrow> 1 \<le> length (cp_current_password p) \<and> length (cp_current_password p) \<le> 256
     \<and> 12 \<le> length (cp_new_password p) \<and> length (cp_new_password p) \<le> 256"

definition change_password :: "web \<Rightarrow> request \<Rightarrow> change_password_request \<Rightarrow> unit api" where
  "change_password wb rq p = user_route wb rq (\<lambda>user.
     ethen (need (change_password_request_ok p) (ValidationFailed ''body''))
     (if \<not> wb_verify_password wb (cp_current_password p) (u_password_hash user)
      then reject 403 ''current password is incorrect''
      else (case hash_password wb (cp_new_password p) of
        Inl m \<Rightarrow> reject 422 m
      | Inr h \<Rightarrow>
          ethen (write_db (set_user (u_id user) (\<lambda>u. u\<lparr>u_password_hash := h\<rparr>)))
          (ethen (end_sessions wb user)
            (audit ''user.password_changed'' None (Some (u_id user)) None (client_ip rq) (rq_user_agent rq) [])))))"

record org_summary =
  os_org :: org_row
  os_role :: string

record me_response =
  me_user :: user_row
  me_orgs :: "org_summary list"

definition me :: "web \<Rightarrow> request \<Rightarrow> me_response api" where
  "me wb rq = user_route wb rq (\<lambda>user. query (\<lambda>d.
     \<lparr>me_user = user, me_orgs = concat (map (\<lambda>m. map (\<lambda>o1. \<lparr>os_org = o1, os_role = mb_role m\<rparr>)
        (filter (\<lambda>o1. o_id o1 = mb_org_id m) (db_orgs d))) (filter (\<lambda>m. mb_user_id m = u_id user) (db_memberships d)))\<rparr>))"

end
