(* ===== verification/Auth_Facts.thy ===== *)
theory Auth_Facts
  imports Auth
begin

text \<open>
  What the routes of theory \<open>Auth\<close> guarantee: rotation with reuse detection and at most one live token
  of a family over any sequence of requests, the end of every session of a user, and the tenant
  a registration leaves.
\<close>

subsection \<open>The token table\<close>

text \<open>A token that can still be exchanged. Of a family, at most one; ids and digests are unique.\<close>

definition exchangeable :: "refresh_token_row \<Rightarrow> bool" where
  "exchangeable t = (rt_used_at t = None \<and> rt_revoked_at t = None)"

definition live_in :: "string \<Rightarrow> db \<Rightarrow> nat" where
  "live_in f d = length (filter (\<lambda>t. rt_family_id t = f \<and> exchangeable t) (db_refresh_tokens d))"

definition tokens_ok :: "db \<Rightarrow> bool" where
  "tokens_ok d \<longleftrightarrow> distinct (map rt_id (db_refresh_tokens d)) \<and> distinct (map rt_token_hash (db_refresh_tokens d)) \<and>
     list_all (\<lambda>t. live_in (rt_family_id t) d \<le> 1) (db_refresh_tokens d)"

lemma tokens_ok_live: "tokens_ok d \<Longrightarrow> live_in f d \<le> 1"
proof (cases "f \<in> rt_family_id ` set (db_refresh_tokens d)")
  case False
  then have "filter (\<lambda>t. rt_family_id t = f \<and> exchangeable t) (db_refresh_tokens d) = []" by (auto simp: filter_empty_conv)
  then show ?thesis by (simp add: live_in_def)
qed (auto simp: tokens_ok_def list_all_iff)

lemma tokens_ok_alt: "tokens_ok d \<longleftrightarrow> distinct (map rt_id (db_refresh_tokens d)) \<and>
    distinct (map rt_token_hash (db_refresh_tokens d)) \<and> (\<forall>f. live_in f d \<le> 1)"
  using tokens_ok_live [of d] by (auto simp: tokens_ok_def list_all_iff)

lemma tokens_ok_cong: "db_refresh_tokens d' = db_refresh_tokens d \<Longrightarrow> tokens_ok d' = tokens_ok d"
  by (simp add: tokens_ok_def live_in_def)

text \<open>Spending or revoking never makes a token live again.\<close>

lemma live_map_le:
  assumes "\<And>t. rt_family_id (g t) = rt_family_id t" "\<And>t. exchangeable (g t) \<Longrightarrow> exchangeable t"
  shows "length (filter (\<lambda>t. rt_family_id t = f \<and> exchangeable t) (map g ts)) \<le> length (filter (\<lambda>t. rt_family_id t = f \<and> exchangeable t) ts)"
  using assms by (induction ts) (auto simp: le_Suc_eq)

lemma tokens_ok_map:
  assumes "tokens_ok d" "\<And>t. rt_family_id (g t) = rt_family_id t" "\<And>t. exchangeable (g t) \<Longrightarrow> exchangeable t"
    "\<And>t. rt_id (g t) = rt_id t" "\<And>t. rt_token_hash (g t) = rt_token_hash t"
  shows "tokens_ok (d\<lparr>db_refresh_tokens := map g (db_refresh_tokens d)\<rparr>)"
proof -
  have "live_in f (d\<lparr>db_refresh_tokens := map g (db_refresh_tokens d)\<rparr>) \<le> live_in f d" for f
    using live_map_le [of g f "db_refresh_tokens d"] assms(2,3) by (simp add: live_in_def)
  then show ?thesis using assms(1,4,5) order_trans by (fastforce simp: tokens_ok_alt comp_def)
qed

lemma tokens_ok_revoke: "tokens_ok d \<Longrightarrow> tokens_ok (revoke_where p now d)"
  unfolding revoke_where_def by (rule tokens_ok_map) (auto simp: exchangeable_def split: if_splits)

lemma tokens_ok_set: "tokens_ok d \<Longrightarrow> tokens_ok (set_token i (\<lambda>t. t\<lparr>rt_used_at := Some now\<rparr>) d)"
  unfolding set_token_def row_set_def by (rule tokens_ok_map) (auto simp: exchangeable_def split: if_splits)

lemma add_refresh_token_Inr: "add_refresh_token r d = (Inr u, d') \<longleftrightarrow>
    list_all (\<lambda>x. rt_id r \<noteq> rt_id x \<and> rt_token_hash r \<noteq> rt_token_hash x) (db_refresh_tokens d) \<and>
    d' = d\<lparr>db_refresh_tokens := db_refresh_tokens d @ [r]\<rparr>"
  by (auto simp: add_refresh_token_def insert_row_Inr split: sum.splits)
    (auto simp: insert_row_def list_ex_iff list_all_iff split: if_splits)

lemma tokens_ok_add:
  assumes "add_refresh_token r d = (res, d')" "tokens_ok d" "live_in (rt_family_id r) d = 0"
  shows "tokens_ok d'"
proof (cases res)
  case (Inl e)
  then show ?thesis using assms(1,2) by (auto simp: add_refresh_token_def split: sum.splits)
next
  case (Inr u)
  then have c: "list_all (\<lambda>x. rt_id r \<noteq> rt_id x \<and> rt_token_hash r \<noteq> rt_token_hash x) (db_refresh_tokens d)"
    and d': "d' = d\<lparr>db_refresh_tokens := db_refresh_tokens d @ [r]\<rparr>"
    using assms(1) by (auto simp: add_refresh_token_Inr)
  have "live_in f d' \<le> 1" for f
    using tokens_ok_live [OF assms(2), of f] assms(3) by (auto simp: live_in_def d')
  then show ?thesis using assms(2) c by (auto simp: tokens_ok_alt d' list_all_iff)
qed

subsection \<open>What refresh does\<close>

lemma issue_tokens_Inr:
  assumes "issue_tokens wb user fam agent ip s = (r, s')"
  shows "se_server s' = se_server s \<and> (case r of Inl e \<Rightarrow> (\<exists>x. e = Crash x) \<and> se_db s' = se_db s
    | Inr tk \<Rightarrow> tk_refresh_token tk = wb_random wb 12 \<and>
        add_refresh_token (issued_row wb user fam agent ip) (se_db s) = (Inr (), se_db s'))"
proof -
  have inl: "add_refresh_token row d = (Inl e, d') \<Longrightarrow> d' = d" for row d e d'
    by (auto simp: add_refresh_token_def split: sum.splits)
  show ?thesis
    using assms by (auto simp: issue_tokens_def in_db_run eraise_def eret_def dest!: inl split: sum.splits prod.splits)
qed

definition reuse_error :: http_error where
  "reuse_error = HttpError 401 ''refresh token reuse detected, sign in again'' None"

text \<open>
  The three outcomes of \<open>refresh\<close>: a failure that leaves no trace; a replay, answered by the revocation of the
  family although the request fails; a rotation.
\<close>

definition refresh_failed :: "(http_error + (token_pair \<times> cookie)) \<Rightarrow> server \<Rightarrow> server \<Rightarrow> bool" where
  "refresh_failed r sv sv' \<longleftrightarrow> sv' = sv \<and> (\<exists>e. r = Inl e)"

definition refresh_reused :: "web \<Rightarrow> string \<Rightarrow> (http_error + (token_pair \<times> cookie)) \<Rightarrow> server \<Rightarrow> server \<Rightarrow> bool" where
  "refresh_reused wb token r sv sv' \<longleftrightarrow> r = Inl reuse_error \<and> (\<exists>stored \<in> set (db_refresh_tokens (sv_db sv)).
     rt_token_hash stored = wb_sha256 wb token \<and> \<not> exchangeable stored \<and>
     db_refresh_tokens (sv_db sv') = db_refresh_tokens (revoke_where (\<lambda>t. rt_family_id t = rt_family_id stored) (wb_now wb 3) (sv_db sv)))"

definition refresh_rotated :: "web \<Rightarrow> request \<Rightarrow> string \<Rightarrow> (http_error + (token_pair \<times> cookie)) \<Rightarrow> server \<Rightarrow> server \<Rightarrow> bool" where
  "refresh_rotated wb rq token r sv sv' \<longleftrightarrow> (\<exists>stored user tk ck. r = Inr (tk, ck) \<and> tk_refresh_token tk = wb_random wb 12 \<and>
     filter (\<lambda>t. rt_token_hash t = wb_sha256 wb token) (db_refresh_tokens (sv_db sv)) = [stored] \<and> exchangeable stored \<and>
     wb_now wb 4 \<le> rt_expires_at stored \<and> get_user (sv_db sv) (rt_user_id stored) = Some user \<and> u_is_active user \<and>
     add_refresh_token (issued_row wb user (Some (rt_family_id stored)) (rq_user_agent rq) (client_ip rq))
       (set_token (rt_id stored) (\<lambda>t. t\<lparr>rt_used_at := Some (wb_now wb 4)\<rparr>) (sv_db sv)) = (Inr (), sv_db sv'))"

lemma revoked_audit: "db_refresh_tokens (se_db (snd (audit ac og who tg ip ag dt s))) = db_refresh_tokens (se_db s)"
  "se_server (snd (audit ac og who tg ip ag dt s)) = se_server s"
  by (simp_all add: audit_def audit_record_def)

lemma refresh_text_run:
  assumes "presented_token rq = Inr (JStr token)" "token \<noteq> []"
  shows "refresh wb rq s = (case one_or_none (filter (\<lambda>t. rt_token_hash t = wb_sha256 wb token) (db_refresh_tokens (se_db s))) of
     Inl e \<Rightarrow> (Inl (Crash e), s)
   | Inr None \<Rightarrow> (Inl (HttpError 401 ''invalid refresh token'' None), s)
   | Inr (Some stored) \<Rightarrow>
       if \<not> exchangeable stored then
         (Inl reuse_error, commit (snd (audit ''token.refresh_reuse_detected'' None (Some (rt_user_id stored)) None (client_ip rq)
           (rq_user_agent rq) [(''family_id'', JStr (rt_family_id stored))]
           (s\<lparr>se_db := revoke_where (\<lambda>t. rt_family_id t = rt_family_id stored) (wb_now wb 3) (se_db s)\<rparr>))))
       else if rt_expires_at stored < wb_now wb 4 then (Inl (HttpError 401 ''refresh token expired'' None), s)
       else (case get_user (se_db s) (rt_user_id stored) of
           None \<Rightarrow> (Inl (HttpError 401 ''account is inactive'' None), s)
         | Some user \<Rightarrow> if \<not> u_is_active user then (Inl (HttpError 401 ''account is inactive'' None), s)
             else ebind (issue_tokens wb user (Some (rt_family_id stored)) (rq_user_agent rq) (client_ip rq))
               (\<lambda>tokens. eret (tokens, refresh_cookie wb (tk_refresh_token tokens)))
               (s\<lparr>se_db := set_token (rt_id stored) (\<lambda>t. t\<lparr>rt_used_at := Some (wb_now wb 4)\<rparr>) (se_db s)\<rparr>)))"
  using assms
  by (auto simp: refresh_def select_one_run exchangeable_def revoke_family_def reuse_error_def split: sum.split option.split)

lemma refresh_outcome:
  assumes "serve (refresh wb rq) sv = (r, sv')" "presented_token rq = Inr (JStr token)"
  shows "refresh_failed r sv sv' \<or> refresh_reused wb token r sv sv' \<or> refresh_rotated wb rq token r sv sv'"
proof (cases "token = []")
  case True
  then have "refresh_failed r sv sv'" using assms
    by (auto simp: serve_def refresh_def get_session_def refresh_failed_def)
  then show ?thesis ..
next
  case ne: False
  note run = refresh_text_run [OF assms(2) ne, of wb "get_session sv"]
  have s0: "se_db (get_session sv) = sv_db sv" "se_server (get_session sv) = sv" by (simp_all add: get_session_def)
  have failed: ?thesis if "refresh wb rq (get_session sv) = (Inl e, get_session sv)" for e
    using assms(1) that by (auto simp: serve_def s0 refresh_failed_def)
  show ?thesis
  proof (cases "\<exists>stored. one_or_none (filter (\<lambda>t. rt_token_hash t = wb_sha256 wb token) (db_refresh_tokens (sv_db sv))) = Inr (Some stored)")
    case False
    with run have "\<exists>e. refresh wb rq (get_session sv) = (Inl e, get_session sv)" by (auto simp: s0 split: sum.splits option.splits)
    then show ?thesis using failed by blast
  next
    case True
    then obtain stored where one: "one_or_none (filter (\<lambda>t. rt_token_hash t = wb_sha256 wb token) (db_refresh_tokens (sv_db sv))) = Inr (Some stored)" ..
    then have st: "filter (\<lambda>t. rt_token_hash t = wb_sha256 wb token) (db_refresh_tokens (sv_db sv)) = [stored]"
      by (simp only: one_or_none_Some)
    then have "stored \<in> set (filter (\<lambda>t. rt_token_hash t = wb_sha256 wb token) (db_refresh_tokens (sv_db sv)))" by simp
    then have mem: "stored \<in> set (db_refresh_tokens (sv_db sv))" "rt_token_hash stored = wb_sha256 wb token"
      by simp_all
    show ?thesis
    proof (cases "exchangeable stored \<and> \<not> rt_expires_at stored < wb_now wb 4 \<and>
        (\<exists>user. get_user (sv_db sv) (rt_user_id stored) = Some user \<and> u_is_active user)")
      case False
      show ?thesis
      proof (cases "exchangeable stored")
        case True
        with False run one have "\<exists>e. refresh wb rq (get_session sv) = (Inl e, get_session sv)"
          by (auto simp: s0 split: option.splits if_splits)
        then show ?thesis using failed by blast
      next
        case dead: False
        with run one have "refresh_reused wb token r sv sv'" using assms(1) mem
          by (auto simp: s0 serve_def refresh_reused_def commit_def revoked_audit)
        then show ?thesis by blast
      qed
    next
      case True
      then obtain user where u: "exchangeable stored" "\<not> rt_expires_at stored < wb_now wb 4"
        "get_user (sv_db sv) (rt_user_id stored) = Some user" "u_is_active user" by blast
      let ?s = "(get_session sv)\<lparr>se_db := set_token (rt_id stored) (\<lambda>t. t\<lparr>rt_used_at := Some (wb_now wb 4)\<rparr>) (sv_db sv)\<rparr>"
      obtain q s1 where iss: "issue_tokens wb user (Some (rt_family_id stored)) (rq_user_agent rq) (client_ip rq) ?s = (q, s1)"
        by (metis surj_pair)
      note i = issue_tokens_Inr [OF iss]
      have run': "refresh wb rq (get_session sv) = (case q of Inl e \<Rightarrow> (Inl e, s1)
          | Inr tk \<Rightarrow> (Inr (tk, refresh_cookie wb (tk_refresh_token tk)), s1))"
        using run one u iss by (simp add: s0 ebind_def split: sum.split)
      show ?thesis
      proof (cases q)
        case (Inl e)
        with run' i assms(1) have "refresh_failed r sv sv'" by (auto simp: serve_def refresh_failed_def s0)
        then show ?thesis ..
      next
        case (Inr tk)
        with run' i assms(1) have "r = Inr (tk, refresh_cookie wb (tk_refresh_token tk))" "sv_db sv' = se_db s1"
          by (auto simp: serve_def commit_def s0)
        then have "refresh_rotated wb rq token r sv sv'" using Inr i u st unfolding refresh_rotated_def by auto
        then show ?thesis by blast
      qed
    qed
  qed
qed

lemma refresh_untexted:
  assumes "serve (refresh wb rq) sv = (r, sv')" "\<nexists>t. presented_token rq = Inr (JStr t)"
  shows "refresh_failed r sv sv'"
  using assms by (cases "presented_token rq")
    (auto simp: serve_def refresh_def get_session_def refresh_failed_def commit_def split: json.splits if_splits prod.splits)

subsection \<open>Requests that leave the token table alone, and requests that add one token\<close>

text \<open>A rollback brings back the committed rows, so both are possible afterwards.\<close>

definition same_tokens :: "session \<Rightarrow> session \<Rightarrow> bool" where
  "same_tokens s t \<longleftrightarrow> db_refresh_tokens (sv_db (se_server t)) = db_refresh_tokens (sv_db (se_server s)) \<and>
     db_refresh_tokens (se_db t) \<in> {db_refresh_tokens (se_db s), db_refresh_tokens (sv_db (se_server s))}"

interpretation tokens: api_frame same_tokens
  by unfold_locales (auto simp: same_tokens_def)

lemma tokens_write: "(\<And>d. db_refresh_tokens (h d) = db_refresh_tokens d) \<Longrightarrow> always same_tokens (write_db h)"
  by (rule alwaysI) (auto simp: same_tokens_def)

lemma tokens_in_db:
  "(\<And>d r d'. w d = (r, d') \<Longrightarrow> db_refresh_tokens d' = db_refresh_tokens d) \<Longrightarrow> always same_tokens (in_db w)"
  by (rule alwaysI) (fastforce simp: same_tokens_def in_db_def split: prod.splits sum.splits)

lemma tokens_audit: "always same_tokens (audit ac og who tg ip ag dt)"
  by (rule alwaysI) (auto simp: same_tokens_def audit_def audit_record_def)

lemma tokens_rollback: "always same_tokens (emod rollback)"
  by (rule alwaysI) (auto simp: same_tokens_def rollback_def)

lemma post_entry_tokens: "post_entry [] i p d = (r, d') \<Longrightarrow> db_refresh_tokens d' = db_refresh_tokens d"
  by (subst (asm) post_entry.simps) (auto simp: Let_def set_credits_def split: option.splits sum.splits)

lemma grant_tokens: "grant [] i u org a k ds key by1 d = (r, d') \<Longrightarrow> db_refresh_tokens d' = db_refresh_tokens d"
  by (auto simp: grant_def eraise_def post_entry_tokens split: if_splits)

lemma tokens_adds:
  "always same_tokens (in_db (add_user u))" "always same_tokens (in_db (add_org g))" "always same_tokens (in_db (add_membership m))"
  "always same_tokens (in_db (grant [] i x org a k ds key by1))"
  "always same_tokens (write_db (set_user j f))"
  by (auto intro!: tokens_in_db tokens_write simp: add_user_def add_org_def add_membership_def set_user_def
     dest: grant_tokens split: sum.splits)

definition one_issued :: "web \<Rightarrow> session \<Rightarrow> session \<Rightarrow> bool" where
  "one_issued wb s t \<longleftrightarrow> same_tokens s t \<or> (db_refresh_tokens (sv_db (se_server t)) = db_refresh_tokens (sv_db (se_server s)) \<and>
     (\<exists>base \<in> {db_refresh_tokens (se_db s), db_refresh_tokens (sv_db (se_server s))}. \<exists>row.
        db_refresh_tokens (se_db t) = base @ [row] \<and> rt_family_id row = wb_random wb 13 \<and>
        list_all (\<lambda>x. rt_id row \<noteq> rt_id x \<and> rt_token_hash row \<noteq> rt_token_hash x) base))"

lemma one_issued_after: "same_tokens s t \<Longrightarrow> one_issued wb t u \<Longrightarrow> one_issued wb s u"
  unfolding one_issued_def same_tokens_def by auto

lemma one_issued_same: "same_tokens s t \<Longrightarrow> one_issued wb s t"
  by (simp add: one_issued_def)

lemma issue_tokens_one: "always (one_issued wb) (issue_tokens wb user None agent ip)"
proof (rule alwaysI)
  fix s r s' assume "issue_tokens wb user None agent ip s = (r, s')"
  from issue_tokens_Inr [OF this] show "one_issued wb s s'"
    by (cases r) (auto simp: one_issued_def same_tokens_def add_refresh_token_Inr issued_row_def)
qed

lemma issue_after:
  "always same_tokens m \<Longrightarrow> (\<And>a. always (one_issued wb) (f a)) \<Longrightarrow> always (one_issued wb) (ebind m f)"
  by (rule always_bind [of same_tokens]) (blast intro: one_issued_after one_issued_same)+

lemma issue_after_then: "always same_tokens m \<Longrightarrow> always (one_issued wb) n \<Longrightarrow> always (one_issued wb) (ethen m n)"
  unfolding ethen_def by (rule issue_after)

lemma issue_skipped: "always same_tokens m \<Longrightarrow> always (one_issued wb) m"
  by (auto simp: always_def one_issued_same)

lemma register_one: "always (one_issued wb) (register wb rq p)"
  unfolding register_def throttled_def Let_def
  apply (rule issue_after_then)
   apply (rule tokens.fr_need)
  apply (rule issue_after)
   apply (rule tokens.fr_limiter)
  apply (rule issue_after_then)
   apply (rule tokens.fr_need)
  apply (split sum.split, intro conjI allI impI)
   apply (rule issue_skipped, rule tokens.fr_reject)
  apply (intro issue_after_then always_bind_ret issue_tokens_one)
     apply (intro tokens.fr_catch tokens.fr_then tokens_adds tokens.fr_if tokens_rollback tokens.fr_reject tokens.fr_raise)
    apply (rule tokens_adds)
   apply (intro tokens.fr_if tokens.fr_then tokens_adds tokens.fr_ret)
  apply (rule tokens_audit)
  done

lemma login_one: "always (one_issued wb) (login wb rq p)"
  unfolding login_def throttled_def Let_def
  apply (rule issue_after_then)
   apply (rule tokens.fr_need)
  apply (intro issue_after issue_after_then tokens.fr_limiter tokens.fr_need tokens.fr_select)
  apply (split option.split, intro conjI allI impI)
   apply (intro issue_skipped tokens.fr_then tokens_audit tokens.fr_raise)
  apply (split if_split, intro conjI impI)
   apply (intro issue_skipped tokens.fr_then tokens_audit tokens.fr_raise)
  apply (split if_split, intro conjI impI)
   apply (rule issue_skipped, rule tokens.fr_reject)
  apply (intro issue_after_then always_bind_ret issue_tokens_one tokens_adds tokens_audit)
  apply (intro tokens.fr_if tokens.fr_case_sum tokens.fr_raise tokens_adds tokens.fr_ret)
  done

subsection \<open>The life of the token table\<close>

text \<open>
  The requests served one after the other, each with a family id that is not in use yet
  (\<open>secrets.token_urlsafe(16)\<close>).
\<close>

definition family_unused :: "web \<Rightarrow> server \<Rightarrow> bool" where
  "family_unused wb sv = list_all (\<lambda>t. rt_family_id t \<noteq> wb_random wb 13) (db_refresh_tokens (sv_db sv))"

inductive auth_step :: "server \<Rightarrow> server \<Rightarrow> bool" where
  step_register: "family_unused wb sv \<Longrightarrow> serve (register wb rq rp) sv = (r, sv') \<Longrightarrow> auth_step sv sv'"
| step_login: "family_unused wb sv \<Longrightarrow> serve (login wb rq lp) sv = (r, sv') \<Longrightarrow> auth_step sv sv'"
| step_refresh: "family_unused wb sv \<Longrightarrow> serve (refresh wb rq) sv = (r, sv') \<Longrightarrow> auth_step sv sv'"
| step_logout: "serve (logout wb rq) sv = (r1, sv') \<Longrightarrow> auth_step sv sv'"
| step_logout_all: "serve (logout_everywhere wb rq) sv = (r1, sv') \<Longrightarrow> auth_step sv sv'"
| step_password: "serve (change_password wb rq cp) sv = (r1, sv') \<Longrightarrow> auth_step sv sv'"
| step_me: "serve (me wb rq) sv = (r2, sv') \<Longrightarrow> auth_step sv sv'"

lemma unused_live: "family_unused wb sv \<Longrightarrow> live_in (wb_random wb 13) (sv_db sv) = 0"
  by (auto simp: family_unused_def live_in_def list_all_iff filter_empty_conv)

lemma one_issued_ok:
  assumes "always (one_issued wb) h" "serve h sv = (r, sv')" "tokens_ok (sv_db sv)" "family_unused wb sv"
  shows "tokens_ok (sv_db sv')"
proof -
  obtain s where s: "h (get_session sv) = (r, s)" "sv_db sv' = (case r of Inl e \<Rightarrow> sv_db (se_server s) | Inr a \<Rightarrow> se_db s)"
    using assms(2) by (auto simp: serve_def commit_def split: prod.splits sum.splits)
  from alwaysD [OF assms(1) s(1)] have "db_refresh_tokens (sv_db sv') = db_refresh_tokens (sv_db sv) \<or>
     (\<exists>row. add_refresh_token row (sv_db sv) = (Inr (), (sv_db sv)\<lparr>db_refresh_tokens := db_refresh_tokens (sv_db sv')\<rparr>)
        \<and> rt_family_id row = wb_random wb 13)"
    using s(2) by (cases r) (auto simp: one_issued_def same_tokens_def get_session_def add_refresh_token_Inr)
  then show ?thesis
  proof
    assume "db_refresh_tokens (sv_db sv') = db_refresh_tokens (sv_db sv)"
    from tokens_ok_cong [OF this] show ?thesis using assms(3) by simp
  next
    assume "\<exists>row. add_refresh_token row (sv_db sv) = (Inr (), (sv_db sv)\<lparr>db_refresh_tokens := db_refresh_tokens (sv_db sv')\<rparr>)
        \<and> rt_family_id row = wb_random wb 13"
    then have "tokens_ok ((sv_db sv)\<lparr>db_refresh_tokens := db_refresh_tokens (sv_db sv')\<rparr>)"
      using tokens_ok_add assms(3) unused_live [OF assms(4)] by metis
    then show ?thesis using tokens_ok_cong [of "(sv_db sv)\<lparr>db_refresh_tokens := db_refresh_tokens (sv_db sv')\<rparr>" "sv_db sv'"] by simp
  qed
qed

text \<open>Once the live token of a family is spent there is none until the next one is issued.\<close>

lemma live_in_spent:
  assumes "tokens_ok d" "stored \<in> set (db_refresh_tokens d)" "exchangeable stored"
  shows "live_in (rt_family_id stored) (set_token (rt_id stored) (\<lambda>t. t\<lparr>rt_used_at := Some now\<rparr>) d) = 0"
proof -
  let ?P = "\<lambda>t. rt_family_id t = rt_family_id stored \<and> exchangeable t"
  have "length (filter ?P (db_refresh_tokens d)) \<le> 1" using tokens_ok_live [OF assms(1)] by (simp add: live_in_def)
  moreover have "stored \<in> set (filter ?P (db_refresh_tokens d))" using assms(2,3) by simp
  ultimately have "filter ?P (db_refresh_tokens d) = [stored]" by (cases "filter ?P (db_refresh_tokens d)") auto
  then have "set (filter ?P (db_refresh_tokens d)) = {stored}" by simp
  then have only: "t \<in> set (db_refresh_tokens d) \<Longrightarrow> ?P t \<Longrightarrow> t = stored" for t by auto
  show ?thesis
    by (auto simp: live_in_def set_token_def row_set_def filter_empty_conv split: if_splits)
      (use only in \<open>auto simp: exchangeable_def\<close>)
qed

lemma refresh_ok:
  assumes "serve (refresh wb rq) sv = (r, sv')" "tokens_ok (sv_db sv)" "family_unused wb sv"
  shows "tokens_ok (sv_db sv')"
proof (cases "\<exists>t. presented_token rq = Inr (JStr t)")
  case False
  with refresh_untexted [OF assms(1)] assms(2) show ?thesis by (auto simp: refresh_failed_def)
next
  case True
  then obtain token where "presented_token rq = Inr (JStr token)" ..
  from refresh_outcome [OF assms(1) this] consider "refresh_failed r sv sv'" | "refresh_reused wb token r sv sv'"
    | "refresh_rotated wb rq token r sv sv'" by blast
  then show ?thesis
  proof cases
    case 1
    then show ?thesis using assms(2) by (simp add: refresh_failed_def)
  next
    case 2
    then show ?thesis using tokens_ok_revoke [OF assms(2)] unfolding refresh_reused_def by (metis tokens_ok_cong)
  next
    case 3
    then obtain stored user where st: "filter (\<lambda>t. rt_token_hash t = wb_sha256 wb token) (db_refresh_tokens (sv_db sv)) = [stored]"
      "exchangeable stored" and add: "add_refresh_token (issued_row wb user (Some (rt_family_id stored)) (rq_user_agent rq) (client_ip rq))
       (set_token (rt_id stored) (\<lambda>t. t\<lparr>rt_used_at := Some (wb_now wb 4)\<rparr>) (sv_db sv)) = (Inr (), sv_db sv')"
      unfolding refresh_rotated_def by blast
    have mem: "stored \<in> set (db_refresh_tokens (sv_db sv))" using st(1) by (auto simp: filter_eq_Cons_iff)
    have "live_in (wb_random wb 13) (set_token (rt_id stored) (\<lambda>t. t\<lparr>rt_used_at := Some (wb_now wb 4)\<rparr>) (sv_db sv)) = 0"
      using assms(3) by (auto simp: live_in_def set_token_def row_set_def filter_empty_conv family_unused_def list_all_iff
        split: if_splits)
    then have "live_in (rt_family_id (issued_row wb user (Some (rt_family_id stored)) (rq_user_agent rq) (client_ip rq)))
       (set_token (rt_id stored) (\<lambda>t. t\<lparr>rt_used_at := Some (wb_now wb 4)\<rparr>) (sv_db sv)) = 0"
      using live_in_spent [OF assms(2) mem st(2)] by (auto simp: issued_row_def)
    from tokens_ok_add [OF add tokens_ok_set [OF assms(2)] this] show ?thesis .
  qed
qed

text \<open>The other requests only revoke.\<close>

definition keeps_tokens_ok :: "session \<Rightarrow> bool" where
  "keeps_tokens_ok s \<longleftrightarrow> tokens_ok (se_db s) \<and> tokens_ok (sv_db (se_server s))"

interpretation tok: api_frame "keeps keeps_tokens_ok"
  by unfold_locales (auto simp: keeps_def keeps_tokens_ok_def)

lemma tok_stmt:
  "always (keeps keeps_tokens_ok) (revoke_family wb f)" "always (keeps keeps_tokens_ok) (end_sessions wb user)"
  "always (keeps keeps_tokens_ok) (audit ac og who tg ip ag dt)" "always (keeps keeps_tokens_ok) (write_db (set_user j g))"
proof -
  have revoke: "always (keeps keeps_tokens_ok) (write_db (revoke_where p now))" for p now
    by (rule alwaysI) (auto simp: keeps_def keeps_tokens_ok_def tokens_ok_revoke)
  show user: "always (keeps keeps_tokens_ok) (write_db (set_user j g))" for j g
    by (rule alwaysI) (auto simp: keeps_def keeps_tokens_ok_def set_user_def tokens_ok_def live_in_def)
  show "always (keeps keeps_tokens_ok) (revoke_family wb f)" unfolding revoke_family_def by (rule revoke)
  show "always (keeps keeps_tokens_ok) (end_sessions wb user)" unfolding end_sessions_def
    by (intro keeps.fr_then user revoke)
  show "always (keeps keeps_tokens_ok) (audit ac og who tg ip ag dt)"
    by (rule alwaysI) (auto simp: keeps_def keeps_tokens_ok_def audit_def audit_record_def tokens_ok_def live_in_def)
qed

lemma keeps_served:
  assumes "always (keeps keeps_tokens_ok) h" "serve h sv = (r, sv')" "tokens_ok (sv_db sv)"
  shows "tokens_ok (sv_db sv')"
  using assms alwaysD [OF assms(1)]
  by (cases r) (auto simp: serve_Inl serve_Inr keeps_def keeps_tokens_ok_def get_session_def)

lemma logout_keeps: "always (keeps keeps_tokens_ok) (logout wb rq)"
  unfolding logout_def
  by (intro keeps.fr_case_option keeps.fr_if keeps.fr_bind keeps.fr_ret tok.fr_select tok_stmt)

lemma logout_everywhere_keeps: "always (keeps keeps_tokens_ok) (logout_everywhere wb rq)"
  unfolding logout_everywhere_def by (intro tok.fr_user_route keeps.fr_then tok_stmt)

lemma change_password_keeps: "always (keeps keeps_tokens_ok) (change_password wb rq p)"
  unfolding change_password_def
  by (intro tok.fr_user_route keeps.fr_then tok.fr_need keeps.fr_if tok.fr_reject keeps.fr_case_sum tok_stmt)

lemma me_keeps: "always (keeps keeps_tokens_ok) (me wb rq)"
  unfolding me_def by (intro tok.fr_user_route tok.fr_query)

lemma auth_step_ok: "auth_step sv sv' \<Longrightarrow> tokens_ok (sv_db sv) \<Longrightarrow> tokens_ok (sv_db sv')"
proof (induction rule: auth_step.induct)
  case (step_register wb sv rq rp r sv')
  then show ?case using one_issued_ok [OF register_one] by blast
next
  case (step_login wb sv rq lp r sv')
  then show ?case using one_issued_ok [OF login_one] by blast
next
  case (step_refresh wb sv rq r sv')
  then show ?case using refresh_ok by blast
next
  case (step_logout wb rq sv r1 sv')
  then show ?case using keeps_served [OF logout_keeps] by blast
next
  case (step_logout_all wb rq sv r1 sv')
  then show ?case using keeps_served [OF logout_everywhere_keeps] by blast
next
  case (step_password wb rq cp sv r1 sv')
  then show ?case using keeps_served [OF change_password_keeps] by blast
next
  case (step_me wb rq sv r2 sv')
  then show ?case using keeps_served [OF me_keeps] by blast
qed

lemma auth_steps_ok: "auth_step\<^sup>*\<^sup>* sv sv' \<Longrightarrow> tokens_ok (sv_db sv) \<Longrightarrow> tokens_ok (sv_db sv')"
  by (induction rule: rtranclp_induct) (auto dest: auth_step_ok)

text \<open>The two ways a rotation is followed by a replay of the spent token.\<close>

lemma rotated_then_spent:
  assumes "refresh_rotated wb rq token r sv sv'"
  shows "\<exists>stored. filter (\<lambda>t. rt_token_hash t = wb_sha256 wb token) (db_refresh_tokens (sv_db sv')) = [stored] \<and> \<not> exchangeable stored \<and>
     (\<exists>tk ck. r = Inr (tk, ck) \<and> (rt_family_id stored \<noteq> [] \<longrightarrow> list_ex (\<lambda>t. rt_family_id t = rt_family_id stored \<and>
        rt_token_hash t = wb_sha256 wb (tk_refresh_token tk)) (db_refresh_tokens (sv_db sv'))))"
proof -
  obtain stored user tk ck where r: "r = Inr (tk, ck)" "tk_refresh_token tk = wb_random wb 12"
    and st: "filter (\<lambda>t. rt_token_hash t = wb_sha256 wb token) (db_refresh_tokens (sv_db sv)) = [stored]"
    and add: "add_refresh_token (issued_row wb user (Some (rt_family_id stored)) (rq_user_agent rq) (client_ip rq))
       (set_token (rt_id stored) (\<lambda>t. t\<lparr>rt_used_at := Some (wb_now wb 4)\<rparr>) (sv_db sv)) = (Inr (), sv_db sv')"
    using assms unfolding refresh_rotated_def by blast
  let ?g = "\<lambda>t :: refresh_token_row. if rt_id t = rt_id stored then t\<lparr>rt_used_at := Some (wb_now wb 4)\<rparr> else t"
  let ?row = "issued_row wb user (Some (rt_family_id stored)) (rq_user_agent rq) (client_ip rq)"
  have mem: "stored \<in> set (db_refresh_tokens (sv_db sv))" and h: "rt_token_hash stored = wb_sha256 wb token"
    using st by (auto simp: filter_eq_Cons_iff)
  have t': "db_refresh_tokens (sv_db sv') = map ?g (db_refresh_tokens (sv_db sv)) @ [?row]"
    and clash: "list_all (\<lambda>x. rt_token_hash ?row \<noteq> rt_token_hash x) (map ?g (db_refresh_tokens (sv_db sv)))"
    using add by (auto simp: add_refresh_token_Inr set_token_def row_set_def list_all_iff)
  have "rt_token_hash ?row \<noteq> wb_sha256 wb token"
  proof -
    have "?g stored \<in> set (map ?g (db_refresh_tokens (sv_db sv)))" using mem by (simp only: set_map image_eqI)
    then have "rt_token_hash ?row \<noteq> rt_token_hash (?g stored)" using clash unfolding list_all_iff by blast
    then show ?thesis using h by simp
  qed
  moreover have "filter (\<lambda>t. rt_token_hash t = wb_sha256 wb token) (map ?g xs)
      = map ?g (filter (\<lambda>t. rt_token_hash t = wb_sha256 wb token) xs)" for xs
    by (induction xs) auto
  ultimately have "filter (\<lambda>t. rt_token_hash t = wb_sha256 wb token) (db_refresh_tokens (sv_db sv')) = [?g stored]"
    unfolding t' filter_append by (simp only: st list.map filter.simps if_False append_Nil2)
  moreover have "\<not> exchangeable (?g stored)" by (simp add: exchangeable_def)
  moreover have "rt_family_id (?g stored) \<noteq> [] \<longrightarrow> list_ex (\<lambda>t. rt_family_id t = rt_family_id (?g stored) \<and>
        rt_token_hash t = wb_sha256 wb (tk_refresh_token tk)) (db_refresh_tokens (sv_db sv'))"
    by (simp add: t' issued_row_def r(2))
  ultimately show ?thesis using r(1) by blast
qed

lemma spent_is_reused:
  assumes "filter (\<lambda>t. rt_token_hash t = wb_sha256 wb token) (db_refresh_tokens (sv_db sv)) = [stored]" "\<not> exchangeable stored"
    "presented_token rq = Inr (JStr token)" "token \<noteq> []"
  shows "\<exists>sv'. serve (refresh wb rq) sv = (Inl reuse_error, sv') \<and> db_refresh_tokens (sv_db sv') =
    db_refresh_tokens (revoke_where (\<lambda>t. rt_family_id t = rt_family_id stored) (wb_now wb 3) (sv_db sv))"
  using refresh_text_run [OF assms(3,4), of wb "get_session sv"] assms(1,2)
  by (auto simp: serve_def get_session_def commit_def revoked_audit)

lemma revoked_all: "list_all (\<lambda>t. p t \<longrightarrow> rt_revoked_at t \<noteq> None) (db_refresh_tokens (revoke_where q now d))"
  if "\<And>t. p t \<Longrightarrow> q t" "\<And>t x. p (t\<lparr>rt_revoked_at := x\<rparr>) = p t"
  using that by (auto simp: revoke_where_def list_all_iff)

subsection \<open>The end of every session of a user\<close>

lemma current_claims_same: "current_claims wb rq s = (r, s') \<Longrightarrow> current_claims wb rq t = (r, t)"
  by (auto simp: current_claims_def eret_def eraise_def split: option.splits sum.splits token_error.splits if_splits)

lemma user_route_Inr: "user_route wb rq body s = (Inr a, s') \<longleftrightarrow>
    (\<exists>user. current_user wb rq s = (Inr user, s) \<and> body user s = (Inr a, s'))"
  by (auto simp: user_route_def ebind_eq_Inr dest: current_user_reads)

definition ended_error :: http_error where
  "ended_error = unauthorised ''session is no longer valid, sign in again''"

lemma epoch_bumped:
  assumes "current_user wb rq s = (Inr user, s)" "get_user (se_db t) (u_id user) = Some user'"
    "u_is_active user' = u_is_active user" "u_token_epoch user' = u_token_epoch user + 1"
  shows "current_user wb rq t = (Inl ended_error, t)"
proof -
  obtain cl where cl: "current_claims wb rq s = (Inr cl, s)" "get_user (se_db s) (cl_user_id cl) = Some user"
    "u_is_active user" "u_token_epoch user = cl_token_epoch cl"
    using current_user_Inr [OF assms(1)] by blast
  then have "u_id user = cl_user_id cl" by (auto simp: get_user_def dest: row_get_Some)
  then show ?thesis
    using assms(2-4) cl current_claims_same [OF cl(1), of t]
    by (simp add: current_user_def ebind_Inr ended_error_def)
qed

lemma end_sessions_run:
  "end_sessions wb user s = (Inr (), s\<lparr>se_db := revoke_where (\<lambda>t. rt_user_id t = u_id user) (wb_now wb 5)
     (set_user (u_id user) (\<lambda>u. u\<lparr>u_token_epoch := u_token_epoch u + 1\<rparr>) (se_db s))\<rparr>)"
  by (simp add: end_sessions_def)

lemma get_user_set:
  "get_user (set_user i f d) j = (if i = j then map_option f (get_user d j) else get_user d j)"
  if "\<And>u. u_id (f u) = u_id u"
  using that by (simp add: get_user_def set_user_def row_get_set)

lemma get_user_other: "get_user (revoke_where p now d) i = get_user d i" "get_user (audit_record e d) i = get_user d i"
  by (simp_all add: get_user_def revoke_where_def audit_record_def)

text \<open>What both requests leave: the caller's row with the next epoch, and the caller's tokens revoked.\<close>

definition sessions_over :: "user_row \<Rightarrow> db \<Rightarrow> bool" where
  "sessions_over user d \<longleftrightarrow> (\<exists>user'. get_user d (u_id user) = Some user' \<and> u_is_active user' = u_is_active user \<and>
      u_token_epoch user' = u_token_epoch user + 1) \<and>
     list_all (\<lambda>t. rt_user_id t = u_id user \<longrightarrow> rt_revoked_at t \<noteq> None) (db_refresh_tokens d)"

lemma current_user_row: "current_user wb rq s = (Inr user, s') \<Longrightarrow> get_user (se_db s) (u_id user) = Some user"
proof -
  assume "current_user wb rq s = (Inr user, s')"
  then obtain i where "get_user (se_db s) i = Some user" using current_user_Inr by blast
  moreover from this have "u_id user = i" unfolding get_user_def by (auto dest: row_get_Some)
  ultimately show ?thesis by simp
qed

lemma sessions_over_after:
  assumes "get_user d (u_id user) = Some u0" "u_is_active u0 = u_is_active user" "u_token_epoch u0 = u_token_epoch user"
  shows "sessions_over user (audit_record e (revoke_where (\<lambda>t. rt_user_id t = u_id user) now
     (set_user (u_id user) (\<lambda>u. u\<lparr>u_token_epoch := u_token_epoch u + 1\<rparr>) d)))"
  using assms unfolding sessions_over_def
  by (intro conjI) (simp add: get_user_other get_user_set, auto simp: audit_record_def revoke_where_def list_all_iff)

lemma audit_run: "audit ac og who tg ip ag dt s = (Inr (), s\<lparr>se_db := audit_record \<lparr>au_org_id = og, au_actor_user_id = who,
    au_action = ac, au_target_type = map_option fst tg, au_target_id = map_option snd tg, au_ip_address = ip,
    au_user_agent = ag, au_detail = dt\<rparr> (se_db s)\<rparr>)"
  by (simp add: audit_def)

lemma logout_everywhere_over:
  assumes "serve (logout_everywhere wb rq) sv = (Inr (), sv')"
  shows "\<exists>user. current_user wb rq (get_session sv) = (Inr user, get_session sv) \<and> sessions_over user (sv_db sv')"
proof -
  obtain user s' where u: "current_user wb rq (get_session sv) = (Inr user, get_session sv)"
    and s': "ethen (end_sessions wb user) (audit ''user.logout'' None (Some (u_id user)) None None None [(''scope'', JStr ''all'')])
        (get_session sv) = (Inr (), s')" "sv_db sv' = se_db s'"
    using assms by (auto simp: serve_Inr logout_everywhere_def user_route_Inr)
  have "sessions_over user (sv_db sv')"
    using s' current_user_row [OF u]
    by (auto simp: ethen_def ebind_def end_sessions_run audit_run intro!: sessions_over_after)
  with u show ?thesis by blast
qed

lemma change_password_over:
  assumes "serve (change_password wb rq p) sv = (Inr (), sv')"
  shows "\<exists>user. current_user wb rq (get_session sv) = (Inr user, get_session sv) \<and> sessions_over user (sv_db sv') \<and>
     wb_verify_password wb (cp_current_password p) (u_password_hash user) \<and>
     validate_password (wb_settings wb) (cp_new_password p) = None \<and>
     map_option u_password_hash (get_user (sv_db sv') (u_id user)) = Some (wb_hash_password wb (cp_new_password p))"
proof -
  obtain user s' where u: "current_user wb rq (get_session sv) = (Inr user, get_session sv)"
    and ok: "wb_verify_password wb (cp_current_password p) (u_password_hash user)"
    and h: "hash_password wb (cp_new_password p) = Inr (wb_hash_password wb (cp_new_password p))"
      "validate_password (wb_settings wb) (cp_new_password p) = None"
    and s': "ethen (end_sessions wb user) (audit ''user.password_changed'' None (Some (u_id user)) None (client_ip rq) (rq_user_agent rq) [])
        ((get_session sv)\<lparr>se_db := set_user (u_id user) (\<lambda>u. u\<lparr>u_password_hash := wb_hash_password wb (cp_new_password p)\<rparr>) (sv_db sv)\<rparr>)
        = (Inr (), s')" "sv_db sv' = se_db s'"
    using assms by (auto simp: serve_Inr change_password_def user_route_Inr hash_password_def get_session_def
      split: if_splits option.splits sum.splits)
  have "sessions_over user (sv_db sv') \<and>
      map_option u_password_hash (get_user (sv_db sv') (u_id user)) = Some (wb_hash_password wb (cp_new_password p))"
    using s' current_user_row [OF u]
    by (auto simp: ethen_def ebind_def end_sessions_run audit_run get_user_other get_user_set get_session_def
      intro!: sessions_over_after)
  with u ok h show ?thesis by blast
qed

lemma over_rejects:
  assumes "current_user wb rq s = (Inr user, s)" "sessions_over user (sv_db sv')"
  shows "serve (user_route wb rq body) sv' = (Inl ended_error, sv')"
    and "serve (org_route wb rq org_id minimum body2) sv' = (Inl ended_error, sv')"
proof -
  have "current_user wb rq (get_session sv') = (Inl ended_error, get_session sv')"
    using assms(2) epoch_bumped [OF assms(1), of "get_session sv'"] by (auto simp: sessions_over_def get_session_def)
  then show "serve (user_route wb rq body) sv' = (Inl ended_error, sv')"
    "serve (org_route wb rq org_id minimum body2) sv' = (Inl ended_error, sv')"
    by (simp_all add: serve_def user_route_def org_route_def ebind_Inl get_session_def)
qed

subsection \<open>Registration and sign-in\<close>

text \<open>Neither request leaves rows behind when it fails.\<close>

lemma uncommitted_rules:
  "always same_committed (in_db w)" "always same_committed (write_db f)" "always same_committed (audit ac og who tg ip ag dt)"
  "always same_committed (emod rollback)"
  by (rule uncommitted_stmt)+

lemma issue_tokens_uncommitted: "always same_committed (issue_tokens wb user fam ag ip)"
  by (rule alwaysI) (drule issue_tokens_Inr, simp add: same_committed_def)

lemma register_uncommitted: "always same_committed (register wb rq p)"
  unfolding register_def throttled_def Let_def
  by (intro uncommitted.fr_then uncommitted.fr_bind uncommitted.fr_need uncommitted.fr_limiter uncommitted.fr_case_sum
    uncommitted.fr_reject uncommitted.fr_catch uncommitted.fr_if uncommitted.fr_ret uncommitted.fr_raise uncommitted_rules
    issue_tokens_uncommitted)

lemma login_uncommitted: "always same_committed (login wb rq p)"
  unfolding login_def throttled_def Let_def
  by (intro uncommitted.fr_then uncommitted.fr_bind uncommitted.fr_need uncommitted.fr_limiter uncommitted.fr_case_sum
    uncommitted.fr_select uncommitted.fr_case_option
    uncommitted.fr_reject uncommitted.fr_if uncommitted.fr_ret uncommitted.fr_raise uncommitted_rules
    issue_tokens_uncommitted)

text \<open>What a registration that succeeds has written.\<close>

definition tenant_of :: "web \<Rightarrow> register_request \<Rightarrow> db \<Rightarrow> bool" where
  "tenant_of wb p d \<longleftrightarrow>
     get_user d (wb_random wb 14) = Some (new_user wb (lower (rg_email p)) (wb_hash_password wb (rg_password p)) (rg_name p)) \<and>
     filter (\<lambda>m. mb_org_id m = wb_random wb 15) (db_memberships d) =
       [\<lparr>mb_id = wb_random wb 17, mb_user_id = wb_random wb 14, mb_org_id = wb_random wb 15, mb_role = ''owner''\<rparr>] \<and>
     balance d (wb_random wb 15) = max 0 (cfg_signup_bonus_cents (wb_settings wb)) \<and>
     count_list (map u_email (db_users d)) (lower (rg_email p)) = 1"

lemma in_redis_db: "in_redis f s = (Inr a, s') \<Longrightarrow> se_db s' = se_db s \<and> sv_db (se_server s') = sv_db (se_server s)"
  by (auto simp: in_redis_def split: prod.splits)

lemma add_user_Inr: "add_user r d = (Inr u, d') \<longleftrightarrow>
    list_all (\<lambda>x. u_id r \<noteq> u_id x \<and> u_email r \<noteq> u_email x) (db_users d) \<and> d' = d\<lparr>db_users := db_users d @ [r]\<rparr>"
  by (auto simp: add_user_def insert_row_Inr split: sum.splits)
    (auto simp: insert_row_def list_ex_iff list_all_iff split: if_splits)

lemma add_org_Inr: "add_org r d = (Inr u, d') \<longleftrightarrow>
    list_all (\<lambda>x. o_id r \<noteq> o_id x \<and> o_slug r \<noteq> o_slug x) (db_orgs d) \<and> d' = d\<lparr>db_orgs := db_orgs d @ [r]\<rparr>"
  by (auto simp: add_org_def insert_row_Inr split: sum.splits)
    (auto simp: insert_row_def list_ex_iff list_all_iff split: if_splits)

lemma add_membership_Inr: "add_membership r d = (Inr u, d') \<longleftrightarrow>
    list_all (\<lambda>x. mb_id r \<noteq> mb_id x \<and> \<not> (mb_user_id r = mb_user_id x \<and> mb_org_id r = mb_org_id x)) (db_memberships d) \<and>
    d' = d\<lparr>db_memberships := db_memberships d @ [r]\<rparr>"
  by (auto simp: add_membership_def insert_row_Inr split: sum.splits)
    (auto simp: insert_row_def list_ex_iff list_all_iff split: if_splits)

lemma in_db_Inr: "in_db w s = (Inr a, s') \<longleftrightarrow> (\<exists>d. w (se_db s) = (Inr a, d) \<and> s' = s\<lparr>se_db := d\<rparr>)"
  by (auto simp: in_db_def split: prod.splits sum.splits)

lemma register_success:
  assumes "serve (register wb rq p) sv = (Inr out, sv')"
  shows "register_request_ok wb p \<and> validate_password (wb_settings wb) (rg_password p) = None \<and>
    (\<exists>d1 d2 d3 d4 u1 u2 u3. add_user (new_user wb (lower (rg_email p)) (wb_hash_password wb (rg_password p)) (rg_name p)) (sv_db sv) = (Inr u1, d1) \<and>
       add_org (new_org wb (rg_org_name p)) d1 = (Inr u2, d2) \<and>
       add_membership \<lparr>mb_id = wb_random wb 17, mb_user_id = wb_random wb 14, mb_org_id = wb_random wb 15, mb_role = ''owner''\<rparr> d2 = (Inr u3, d3) \<and>
       (if cfg_signup_bonus_cents (wb_settings wb) > 0
        then \<exists>e. grant [] (wb_random wb 18) (wb_random wb 19) (wb_random wb 15) (cfg_signup_bonus_cents (wb_settings wb))
          ''bonus'' ''signup bonus'' (Some (''signup:'' @ wb_random wb 15)) None d3 = (Inr e, d4)
        else d4 = d3) \<and>
       db_users (sv_db sv') = db_users d4 \<and> db_memberships (sv_db sv') = db_memberships d4 \<and> db_orgs (sv_db sv') = db_orgs d4 \<and>
       db_ledger (sv_db sv') = db_ledger d4)"
proof -
  obtain s where s: "register wb rq p (get_session sv) = (Inr out, s)" "sv_db sv' = se_db s"
    using assms by (auto simp: serve_Inr)
  obtain r s0 where lim: "limiter_check wb 0 (''register:'' @ the_ip rq) 5 3600 (get_session sv) = (Inr r, s0)"
      and s0: "se_db s0 = sv_db sv"
    unfolding limiter_check_def using in_redis_db [of _ "get_session sv"]
    by (cases "in_redis (rl_check (wb_time wb 0) (wb_random wb 0) (''register:'' @ the_ip rq) 5 3600) (get_session sv)")
      (auto simp: in_redis_def get_session_def split: prod.splits)
  let ?u = "new_user wb (lower (rg_email p)) (wb_hash_password wb (rg_password p)) (rg_name p)"
  have ids: "u_id ?u = wb_random wb 14" "o_id (new_org wb (rg_org_name p)) = wb_random wb 15"
    by (simp_all add: new_user_def new_org_def)
  let ?mb = "\<lparr>mb_id = wb_random wb 17, mb_user_id = wb_random wb 14, mb_org_id = wb_random wb 15, mb_role = ''owner''\<rparr>"
  let ?grant = "grant [] (wb_random wb 18) (wb_random wb 19) (wb_random wb 15) (cfg_signup_bonus_cents (wb_settings wb))
          ''bonus'' ''signup bonus'' (Some (''signup:'' @ wb_random wb 15)) None"
  let ?fail = "\<lambda>e :: http_error. if e = Crash IntegrityError
        then ethen (emod rollback) (reject 409 ''that email is already registered'') else eraise e"
  have ok: "register_request_ok wb p" "validate_password (wb_settings wb) (rg_password p) = None"
    and run: "\<exists>s1 s2 s3 s4. ecatch (ethen (in_db (add_user ?u)) (in_db (add_org (new_org wb (rg_org_name p))))) ?fail s0 = (Inr (), s1) \<and>
        in_db (add_membership ?mb) s1 = (Inr (), s2) \<and>
        (if cfg_signup_bonus_cents (wb_settings wb) > 0 then ethen (in_db ?grant) (eret ()) else eret ()) s2 = (Inr (), s3) \<and>
        s4 = snd (audit ''user.registered'' (Some (wb_random wb 15)) (Some (wb_random wb 14)) (Some (''user'', wb_random wb 14))
             (Some (the_ip rq)) (rq_user_agent rq) [] s3) \<and>
        (\<exists>tk. issue_tokens wb ?u None (rq_user_agent rq) (Some (the_ip rq)) s4 = (Inr tk, s))"
    using s(1) lim
    by (simp_all add: register_def Let_def throttled_def ebind_Inr hash_password_def ids ethen_eq_Inr ebind_eq_Inr
        split: if_splits option.splits) (auto simp: ethen_eq_Inr ebind_eq_Inr ids)
  then obtain s1 s2 s3 s4 tk where
      st: "ecatch (ethen (in_db (add_user ?u)) (in_db (add_org (new_org wb (rg_org_name p))))) ?fail s0 = (Inr (), s1)"
        "in_db (add_membership ?mb) s1 = (Inr (), s2)"
        "(if cfg_signup_bonus_cents (wb_settings wb) > 0 then ethen (in_db ?grant) (eret ()) else eret ()) s2 = (Inr (), s3)"
        "s4 = snd (audit ''user.registered'' (Some (wb_random wb 15)) (Some (wb_random wb 14)) (Some (''user'', wb_random wb 14))
             (Some (the_ip rq)) (rq_user_agent rq) [] s3)"
        "issue_tokens wb ?u None (rq_user_agent rq) (Some (the_ip rq)) s4 = (Inr tk, s)"
    by blast
  have "ethen (in_db (add_user ?u)) (in_db (add_org (new_org wb (rg_org_name p)))) s0 = (Inr (), s1)"
    using st(1) by (auto simp: ecatch_def eraise_def split: prod.splits sum.splits if_splits)
  then obtain d1 where d1: "add_user ?u (sv_db sv) = (Inr (), d1)" "add_org (new_org wb (rg_org_name p)) d1 = (Inr (), se_db s1)"
    by (auto simp: ethen_eq_Inr in_db_Inr s0)
  have d3: "add_membership ?mb (se_db s1) = (Inr (), se_db s2)" using st(2) by (auto simp: in_db_Inr)
  have d4: "if cfg_signup_bonus_cents (wb_settings wb) > 0 then \<exists>e. ?grant (se_db s2) = (Inr e, se_db s3) else se_db s3 = se_db s2"
    using st(3) by (auto simp: ethen_eq_Inr in_db_Inr eret_def split: if_splits)
  have "db_users (se_db s) = db_users (se_db s3) \<and> db_memberships (se_db s) = db_memberships (se_db s3) \<and>
     db_orgs (se_db s) = db_orgs (se_db s3) \<and> db_ledger (se_db s) = db_ledger (se_db s3)"
    using issue_tokens_Inr [OF st(5)] st(4) by (auto simp: add_refresh_token_Inr audit_run audit_record_def)
  with ok d1 d3 d4 show ?thesis unfolding s(2)
    by (intro conjI exI [of _ d1] exI [of _ "se_db s1"] exI [of _ "se_db s2"] exI [of _ "se_db s3"] exI [of _ "()"]) simp_all
qed

lemma row_get_last: "list_all (\<lambda>x. key r \<noteq> key x) rows \<Longrightarrow> row_get key (key r) (rows @ [r]) = Some r"
  by (induction rows) (auto simp: row_get_def dest: sym)

text \<open>No row refers to the id of the organisation that is about to be created (foreign keys).\<close>

definition org_unused :: "string \<Rightarrow> db \<Rightarrow> bool" where
  "org_unused i d = (list_all (\<lambda>r. lg_org_id r \<noteq> i) (db_ledger d) \<and> list_all (\<lambda>m. mb_org_id m \<noteq> i) (db_memberships d))"

lemma get_org_last: "list_all (\<lambda>x. o_id r \<noteq> o_id x) (db_orgs d) \<Longrightarrow> get_org (d\<lparr>db_orgs := db_orgs d @ [r]\<rparr>) (o_id r) = Some r"
  by (simp add: get_org_def row_get_last)

lemma ledger_ok_new_org:
  assumes "ledger_ok d" "org_unused i d" "o_id r = i" "o_credits_cents r = 0" "list_all (\<lambda>x. o_id r \<noteq> o_id x) (db_orgs d)"
  shows "ledger_ok (d\<lparr>db_orgs := db_orgs d @ [r]\<rparr>)"
proof -
  have "filter (\<lambda>x. lg_org_id x = i) (db_ledger d) = []" using assms(2) by (auto simp: org_unused_def list_all_iff filter_empty_conv)
  then show ?thesis using assms by (auto simp: ledger_ok_def ledger_sum_def entries_def list_all_iff)
qed

lemma ledger_ok_cong: "db_orgs d' = db_orgs d \<Longrightarrow> db_ledger d' = db_ledger d \<Longrightarrow> ledger_ok d' = ledger_ok d"
  by (simp add: ledger_ok_def ledger_sum_def entries_def)

lemma grant_new:
  assumes "grant [] i u org a k ds (Some key) None d = (Inr e, d')" "0 < a" "key \<noteq> []" "ledger_ok d"
    "list_all (\<lambda>r. lg_org_id r \<noteq> org) (db_ledger d)"
  shows "balance d' org = balance d org + a \<and> ledger_ok d' \<and> db_users d' = db_users d \<and> db_memberships d' = db_memberships d"
proof -
  let ?p = "\<lparr>po_org_id = org, po_kind = k, po_amount_cents = a, po_idempotency_key = key, po_description = ds, po_run_id = None, po_created_by = None\<rparr>"
  have post: "post_entry [] i ?p d = (Inr e, d')" using assms(1-3) by (simp add: grant_def)
  have none: "find_entry d (po_org_id ?p) (po_idempotency_key ?p) = None"
    using assms(5) by (auto simp: find_entry_def find_None_iff list_all_iff)
  then obtain o1 where o1: "get_org d org = Some o1"
    using post post_refused [of d ?p _ "[]" i] by (cases "locked_org d org") (auto simp: locked_org_Inr)
  have d': "d' = appended i ?p o1 d" using post post_appended [OF none, of o1 "[]" i] o1 by simp
  have "ledger_ok d'" by (rule post_entry_ok [OF assms(4) _ post]) simp
  moreover have "balance d' org = balance d org + a"
    using o1 get_org_set_credits [of org "o_credits_cents o1 + a" d org]
    by (simp add: d' appended_def Let_def balance_def get_org_def)
  ultimately show ?thesis by (simp add: d' appended_def Let_def set_credits_def)
qed

lemma register_tenant:
  assumes "serve (register wb rq p) sv = (Inr out, sv')" "ledger_ok (sv_db sv)" "org_unused (wb_random wb 15) (sv_db sv)"
  shows "validate_password (wb_settings wb) (rg_password p) = None \<and> tenant_of wb p (sv_db sv') \<and> ledger_ok (sv_db sv') \<and>
    list_all (\<lambda>u. u_email u \<noteq> lower (rg_email p)) (db_users (sv_db sv))"
proof -
  let ?u = "new_user wb (lower (rg_email p)) (wb_hash_password wb (rg_password p)) (rg_name p)"
  let ?o = "new_org wb (rg_org_name p)"
  let ?i = "wb_random wb 15"
  let ?mb = "\<lparr>mb_id = wb_random wb 17, mb_user_id = wb_random wb 14, mb_org_id = ?i, mb_role = ''owner''\<rparr>"
  let ?bonus = "cfg_signup_bonus_cents (wb_settings wb)"
  obtain d1 d2 d3 d4 where pw: "validate_password (wb_settings wb) (rg_password p) = None"
    and d1: "add_user ?u (sv_db sv) = (Inr (), d1)" and d2: "add_org ?o d1 = (Inr (), d2)"
    and d3: "add_membership ?mb d2 = (Inr (), d3)"
    and d4: "if ?bonus > 0 then \<exists>e. grant [] (wb_random wb 18) (wb_random wb 19) ?i ?bonus
          ''bonus'' ''signup bonus'' (Some (''signup:'' @ ?i)) None d3 = (Inr e, d4) else d4 = d3"
    and fin: "db_users (sv_db sv') = db_users d4" "db_memberships (sv_db sv') = db_memberships d4"
      "db_orgs (sv_db sv') = db_orgs d4" "db_ledger (sv_db sv') = db_ledger d4"
    using register_success [OF assms(1)] by auto
  have u: "list_all (\<lambda>x. u_id ?u \<noteq> u_id x \<and> u_email ?u \<noteq> u_email x) (db_users (sv_db sv))"
    and d1': "d1 = (sv_db sv)\<lparr>db_users := db_users (sv_db sv) @ [?u]\<rparr>" using d1 by (auto simp: add_user_Inr)
  have o': "list_all (\<lambda>x. o_id ?o \<noteq> o_id x) (db_orgs d1)" and d2': "d2 = d1\<lparr>db_orgs := db_orgs d1 @ [?o]\<rparr>"
    using d2 by (auto simp: add_org_Inr list_all_iff)
  have d3': "d3 = d2\<lparr>db_memberships := db_memberships d2 @ [?mb]\<rparr>" using d3 by (auto simp: add_membership_Inr)
  have oid: "o_id ?o = ?i" "o_credits_cents ?o = 0" by (simp_all add: new_org_def)
  have unused: "org_unused ?i d1" using assms(3) by (simp add: org_unused_def d1')
  have "ledger_ok d1" using assms(2) ledger_ok_cong [of d1 "sv_db sv"] by (simp add: d1')
  from ledger_ok_new_org [OF this unused oid o'] have "ledger_ok d2" by (simp add: d2')
  then have l3: "ledger_ok d3" using ledger_ok_cong [of d3 d2] by (simp add: d3')
  have g3: "get_org d3 ?i = Some ?o" using get_org_last [OF o'] oid by (simp add: d3' d2' get_org_def)
  then have b3: "balance d3 ?i = 0" by (simp add: balance_def oid)
  have nl: "list_all (\<lambda>r. lg_org_id r \<noteq> ?i) (db_ledger d3)" using unused by (simp add: org_unused_def d3' d2' d1')
  have d4': "balance d4 ?i = max 0 ?bonus \<and> ledger_ok d4 \<and> db_users d4 = db_users d3 \<and> db_memberships d4 = db_memberships d3"
  proof (cases "?bonus > 0")
    case True
    then obtain e where "grant [] (wb_random wb 18) (wb_random wb 19) ?i ?bonus
          ''bonus'' ''signup bonus'' (Some (''signup:'' @ ?i)) None d3 = (Inr e, d4)" using d4 by auto
    from grant_new [OF this True _ l3 nl] b3 True show ?thesis by simp
  qed (use d4 l3 b3 in simp)
  have users: "db_users (sv_db sv') = db_users (sv_db sv) @ [?u]" using d4' by (simp add: fin d3' d2' d1')
  have uid: "u_id ?u = wb_random wb 14" "u_email ?u = lower (rg_email p)" by (simp_all add: new_user_def)
  have "get_user (sv_db sv') (wb_random wb 14) = Some ?u"
    using u uid row_get_last [of u_id ?u "db_users (sv_db sv)"] by (simp add: get_user_def users list_all_iff)
  moreover have "filter (\<lambda>m. mb_org_id m = ?i) (db_memberships (sv_db sv')) = [?mb]"
    using d4' unused by (auto simp: fin d3' d2' d1' org_unused_def list_all_iff filter_empty_conv)
  moreover have "balance (sv_db sv') ?i = max 0 ?bonus" using d4' fin(3) by (simp add: balance_def get_org_def)
  moreover have "count_list (map u_email (db_users (sv_db sv'))) (lower (rg_email p)) = 1"
  proof -
    have "count_list (map u_email xs) (lower (rg_email p)) = 0" if "list_all (\<lambda>x. u_email ?u \<noteq> u_email x) xs" for xs
      using that uid by (induction xs) auto
    from this [of "db_users (sv_db sv)"] show ?thesis using u uid by (auto simp: users list_all_iff)
  qed
  moreover have "ledger_ok (sv_db sv')" using d4' ledger_ok_cong [of "sv_db sv'" d4] fin by simp
  ultimately show ?thesis using pw u uid by (auto simp: tenant_of_def list_all_iff)
qed


end
