(* ===== verification/Orgs.thy ===== *)
theory Orgs
  imports Auth_Facts
begin

text \<open>
  \<^verbatim>\<open>api/routers/orgs.py\<close> with its payloads of \<^verbatim>\<open>api/schemas.py\<close>: the settings, members and roles of an
  organisation, and its billing routes. Rows are listed in the order they were created.
\<close>

definition ROLES :: "string list" where
  "ROLES = [''owner'', ''admin'', ''member'', ''viewer'']"

definition KEY_MODES :: "string list" where
  "KEY_MODES = [''managed'', ''byok'', ''hybrid'']"

definition non_empty_str :: "string \<Rightarrow> bool" where
  "non_empty_str s = (1 \<le> length s \<and> length s \<le> 200)"

text \<open>
  A field of a partial update: \<open>None\<close> when it was not sent, \<open>Some None\<close> for an explicit null, which the
  validators accept and a column declared not null refuses at the flush.
\<close>

type_synonym 'a sent = "'a option option"

definition null_or :: "('a \<Rightarrow> bool) \<Rightarrow> 'a sent \<Rightarrow> bool" where
  "null_or p x = (case x of Some (Some v) \<Rightarrow> p v | _ \<Rightarrow> True)"

definition sent_null :: "'a sent \<Rightarrow> bool" where
  "sent_null x = (x = Some None)"

definition sent_or :: "'a sent \<Rightarrow> 'a \<Rightarrow> 'a" where
  "sent_or x old = (case x of Some (Some v) \<Rightarrow> v | _ \<Rightarrow> old)"

record org_update =
  ou_name :: "string sent"
  ou_key_mode :: "string sent"

definition org_update_ok :: "org_update \<Rightarrow> bool" where
  "org_update_ok p \<longleftrightarrow> null_or non_empty_str (ou_name p) \<and> null_or (\<lambda>m. m \<in> set KEY_MODES) (ou_key_mode p)"

definition update_org :: "web \<Rightarrow> request \<Rightarrow> string \<Rightarrow> org_update \<Rightarrow> unit api" where
  "update_org wb rq org_id p = org_route wb rq org_id (Some ''admin'') (\<lambda>ctx.
     ethen (need (org_update_ok p) (ValidationFailed ''body''))
     (ethen (need (\<not> (sent_null (ou_name p) \<or> sent_null (ou_key_mode p))) (Crash IntegrityError))
     (write_db (\<lambda>d. d\<lparr>db_orgs := row_set o_id (oc_org_id ctx) (\<lambda>r. r\<lparr>o_name := sent_or (ou_name p) (o_name r),
        o_key_mode := sent_or (ou_key_mode p) (o_key_mode r)\<rparr>) (db_orgs d)\<rparr>))))"

subsection \<open>Members\<close>

definition members_of :: "string \<Rightarrow> db \<Rightarrow> membership_row list" where
  "members_of org_id d = filter (\<lambda>m. mb_org_id m = org_id) (db_memberships d)"

definition list_members :: "web \<Rightarrow> request \<Rightarrow> string \<Rightarrow> (membership_row \<times> user_row) list api" where
  "list_members wb rq org_id = org_route wb rq org_id None (\<lambda>ctx. query (\<lambda>d.
     concat (map (\<lambda>m. map (\<lambda>u. (m, u)) (filter (\<lambda>u. u_id u = mb_user_id m) (db_users d))) (members_of (oc_org_id ctx) d))))"

record member_invite =
  mi_email :: string
  mi_role :: string

definition member_audit :: "string \<Rightarrow> request \<Rightarrow> org_context \<Rightarrow> string \<Rightarrow> jobj \<Rightarrow> unit api" where
  "member_audit action rq ctx user_id detail = audit action (Some (oc_org_id ctx)) (Some (u_id (oc_user ctx)))
     (Some (''user'', user_id)) (client_ip rq) None detail"

definition add_member :: "web \<Rightarrow> request \<Rightarrow> string \<Rightarrow> member_invite \<Rightarrow> (membership_row \<times> user_row) api" where
  "add_member wb rq org_id p = org_route wb rq org_id (Some ''admin'') (\<lambda>ctx.
     ethen (need (wb_valid_email wb (mi_email p) \<and> mi_role p \<in> set ROLES) (ValidationFailed ''body''))
     (ebind (select_one db_users (\<lambda>u. u_email u = lower (mi_email p))) (\<lambda>found.
      case found of
        None \<Rightarrow> reject 404 ''no account with that email; ask them to register first''
      | Some user \<Rightarrow>
          if mi_role p = ''owner'' \<and> \<not> can ctx ''owner'' then reject 403 ''only an owner can grant the owner role''
          else ebind (select_one db_memberships (\<lambda>m. mb_org_id m = oc_org_id ctx \<and> mb_user_id m = u_id user)) (\<lambda>existing.
            if existing \<noteq> None then reject 409 ''already a member''
            else let row = \<lparr>mb_id = wb_random wb 10, mb_user_id = u_id user, mb_org_id = oc_org_id ctx, mb_role = mi_role p\<rparr> in
              ethen (in_db (add_membership row))
              (ethen (member_audit ''member.invited'' rq ctx (u_id user) [(''role'', JStr (mi_role p))])
              (eret (row, user)))))))"

definition member :: "string \<Rightarrow> string \<Rightarrow> membership_row api" where
  "member org_id user_id =
     ebind (select_one db_memberships (\<lambda>m. mb_org_id m = org_id \<and> mb_user_id m = user_id)) (\<lambda>found.
     case found of None \<Rightarrow> reject 404 ''member not found'' | Some m \<Rightarrow> eret m)"

definition guard_last_owner :: "string \<Rightarrow> string \<Rightarrow> unit api" where
  "guard_last_owner org_id user_id =
     ebind (query (\<lambda>d. List.find (\<lambda>m. mb_org_id m = org_id \<and> mb_role m = ''owner'' \<and> mb_user_id m \<noteq> user_id) (db_memberships d)))
       (\<lambda>remaining. need (remaining \<noteq> None) (HttpError 409 ''an organisation must keep at least one owner'' None))"

definition set_role :: "string \<Rightarrow> string \<Rightarrow> db \<Rightarrow> db" where
  "set_role i role d = d\<lparr>db_memberships := row_set mb_id i (\<lambda>m. m\<lparr>mb_role := role\<rparr>) (db_memberships d)\<rparr>"

definition delete_membership :: "string \<Rightarrow> db \<Rightarrow> db" where
  "delete_membership i d = d\<lparr>db_memberships := filter (\<lambda>m. mb_id m \<noteq> i) (db_memberships d)\<rparr>"

definition change_role :: "web \<Rightarrow> request \<Rightarrow> string \<Rightarrow> string \<Rightarrow> string \<Rightarrow> unit api" where
  "change_role wb rq org_id user_id role = org_route wb rq org_id (Some ''owner'') (\<lambda>ctx.
     ethen (need (role \<in> set ROLES) (ValidationFailed ''body''))
     (ebind (member (oc_org_id ctx) user_id) (\<lambda>m.
      ethen (if mb_role m = ''owner'' \<and> role \<noteq> ''owner'' then guard_last_owner (oc_org_id ctx) user_id else eret ())
      (ethen (write_db (set_role (mb_id m) role))
        (member_audit ''member.role_changed'' rq ctx user_id [(''role'', JStr role)])))))"

definition remove_member :: "web \<Rightarrow> request \<Rightarrow> string \<Rightarrow> string \<Rightarrow> unit api" where
  "remove_member wb rq org_id user_id = org_route wb rq org_id (Some ''admin'') (\<lambda>ctx.
     ebind (member (oc_org_id ctx) user_id) (\<lambda>m.
     ethen (if mb_role m = ''owner''
            then ethen (guard_last_owner (oc_org_id ctx) user_id)
                   (need (can ctx ''owner'') (HttpError 403 ''only an owner can remove an owner'' None))
            else eret ())
     (ethen (write_db (delete_membership (mb_id m)))
       (member_audit ''member.removed'' rq ctx user_id []))))"

subsection \<open>Billing\<close>

record balance_out =
  bo_credits_cents :: int
  bo_billing_enabled :: bool
  bo_markup_percent :: int

definition balance_out_of :: "web \<Rightarrow> int \<Rightarrow> balance_out" where
  "balance_out_of wb c = \<lparr>bo_credits_cents = c, bo_billing_enabled = cfg_billing_enabled (wb_settings wb),
     bo_markup_percent = cfg_credit_markup_percent (wb_settings wb)\<rparr>"

definition get_balance :: "web \<Rightarrow> request \<Rightarrow> string \<Rightarrow> balance_out api" where
  "get_balance wb rq org_id = org_route wb rq org_id None (\<lambda>ctx. eret (balance_out_of wb (o_credits_cents (oc_org ctx))))"

definition get_ledger :: "web \<Rightarrow> request \<Rightarrow> string \<Rightarrow> int \<Rightarrow> int \<Rightarrow> ledger_row list api" where
  "get_ledger wb rq org_id limit offset = org_route wb rq org_id None (\<lambda>ctx.
     ethen (need (1 \<le> limit \<and> limit \<le> 500 \<and> 0 \<le> offset) (ValidationFailed ''query''))
     (query (\<lambda>d. take (nat limit) (drop (nat offset) (rev (entries d (oc_org_id ctx)))))))"

record topup_request =
  tr_amount_cents :: int
  tr_description :: string
  tr_idempotency_key :: "string option"

definition topup_request_ok :: "topup_request \<Rightarrow> bool" where
  "topup_request_ok p \<longleftrightarrow> 0 < tr_amount_cents p \<and> tr_amount_cents p \<le> 10000000 \<and> length (tr_description p) \<le> 400 \<and>
     (case tr_idempotency_key p of None \<Rightarrow> True | Some k \<Rightarrow> length k \<le> 128)"

definition topup :: "web \<Rightarrow> request \<Rightarrow> string \<Rightarrow> topup_request \<Rightarrow> ledger_entry api" where
  "topup wb rq org_id p = org_route wb rq org_id (Some ''owner'') (\<lambda>ctx.
     ethen (need (topup_request_ok p) (ValidationFailed ''body''))
     (ebind (in_db (grant (wb_races wb) (wb_random wb 10) (wb_random wb 11) (oc_org_id ctx) (tr_amount_cents p) ''topup''
        (tr_description p) (tr_idempotency_key p) (Some (u_id (oc_user ctx))))) (\<lambda>entry.
      ethen (audit ''credits.topup'' (Some (oc_org_id ctx)) (Some (u_id (oc_user ctx))) (Some (''org'', oc_org_id ctx))
        (client_ip rq) None [(''amount_cents'', JInt (tr_amount_cents p))])
      (eret entry))))"

definition reconcile_balance :: "web \<Rightarrow> request \<Rightarrow> string \<Rightarrow> balance_out api" where
  "reconcile_balance wb rq org_id = org_route wb rq org_id (Some ''owner'') (\<lambda>ctx.
     ebind (in_db (reconcile (oc_org_id ctx))) (\<lambda>corrected. eret (balance_out_of wb corrected)))"

subsection \<open>Ownership\<close>

text \<open>Every organisation has an owner; a membership is one row per user and organisation.\<close>

definition owners :: "string \<Rightarrow> db \<Rightarrow> string set" where
  "owners org_id d = mb_user_id ` set (filter (\<lambda>m. mb_role m = ''owner'') (members_of org_id d))"

definition tenants_ok :: "db \<Rightarrow> bool" where
  "tenants_ok d \<longleftrightarrow> distinct (map mb_id (db_memberships d)) \<and>
     distinct (map (\<lambda>m. (mb_user_id m, mb_org_id m)) (db_memberships d)) \<and>
     list_all (\<lambda>i. owners i d \<noteq> {}) (map o_id (db_orgs d))"

lemma owners_iff: "u \<in> owners org_id d \<longleftrightarrow>
    (\<exists>m \<in> set (db_memberships d). mb_org_id m = org_id \<and> mb_role m = ''owner'' \<and> mb_user_id m = u)"
  by (auto simp: owners_def members_of_def)

lemma tenants_ok_cong:
  "db_memberships d' = db_memberships d \<Longrightarrow> map o_id (db_orgs d') = map o_id (db_orgs d) \<Longrightarrow> tenants_ok d' = tenants_ok d"
proof -
  assume m: "db_memberships d' = db_memberships d" and o: "map o_id (db_orgs d') = map o_id (db_orgs d)"
  have "owners i d' = owners i d" for i by (auto simp: owners_iff m)
  then show ?thesis by (simp only: tenants_ok_def m o)
qed

lemma tenants_ok_keep_owner:
  assumes "tenants_ok d" "map o_id (db_orgs d') = map o_id (db_orgs d)"
    "distinct (map mb_id (db_memberships d'))" "distinct (map (\<lambda>m. (mb_user_id m, mb_org_id m)) (db_memberships d'))"
    "\<And>i. owners i d \<noteq> {} \<Longrightarrow> owners i d' \<noteq> {}"
  shows "tenants_ok d'"
  using assms by (simp add: tenants_ok_def list_all_iff)

text \<open>The rows that a change of one membership keeps.\<close>

lemma same_row: "tenants_ok d \<Longrightarrow> m \<in> set (db_memberships d) \<Longrightarrow> x \<in> set (db_memberships d) \<Longrightarrow> mb_id x = mb_id m \<Longrightarrow> x = m"
  by (auto simp: tenants_ok_def distinct_map dest: inj_onD)

lemma owners_other:
  assumes "tenants_ok d" "m \<in> set (db_memberships d)" "mb_role m = ''owner'' \<longrightarrow> (\<exists>u \<in> owners (mb_org_id m) d. u \<noteq> mb_user_id m)"
    "owners i d \<noteq> {}"
  shows "\<exists>x \<in> set (db_memberships d). mb_org_id x = i \<and> mb_role x = ''owner'' \<and> mb_id x \<noteq> mb_id m"
proof -
  obtain x where x: "x \<in> set (db_memberships d)" "mb_org_id x = i" "mb_role x = ''owner''"
    using assms(4) by (auto simp: owners_iff set_eq_iff)
  show ?thesis
  proof (cases "x = m")
    case True
    then obtain u where "u \<in> owners i d" "u \<noteq> mb_user_id m" using assms(3) x by blast
    then obtain y where "y \<in> set (db_memberships d)" "mb_org_id y = i" "mb_role y = ''owner''" "y \<noteq> m"
      by (auto simp: owners_iff)
    then show ?thesis using same_row [OF assms(1,2)] by blast
  next
    case False
    then show ?thesis using x same_row [OF assms(1,2)] by blast
  qed
qed

lemma tenants_ok_set_role:
  assumes "tenants_ok d" "m \<in> set (db_memberships d)"
    "role = ''owner'' \<or> (mb_role m = ''owner'' \<longrightarrow> (\<exists>u \<in> owners (mb_org_id m) d. u \<noteq> mb_user_id m))"
  shows "tenants_ok (set_role (mb_id m) role d)"
proof (rule tenants_ok_keep_owner [OF assms(1)])
  let ?f = "\<lambda>x :: membership_row. if mb_id x = mb_id m then x\<lparr>mb_role := role\<rparr> else x"
  have rows: "db_memberships (set_role (mb_id m) role d) = map ?f (db_memberships d)" by (simp add: set_role_def row_set_def)
  have keys: "mb_id (?f x) = mb_id x" "mb_user_id (?f x) = mb_user_id x" "mb_org_id (?f x) = mb_org_id x" for x by simp_all
  have ids: "map mb_id (map ?f xs) = map mb_id xs"
    "map (\<lambda>m. (mb_user_id m, mb_org_id m)) (map ?f xs) = map (\<lambda>m. (mb_user_id m, mb_org_id m)) xs" for xs
    by (induction xs) (simp_all add: keys)
  show "map o_id (db_orgs (set_role (mb_id m) role d)) = map o_id (db_orgs d)" by (simp add: set_role_def)
  show "distinct (map mb_id (db_memberships (set_role (mb_id m) role d)))"
    "distinct (map (\<lambda>m. (mb_user_id m, mb_org_id m)) (db_memberships (set_role (mb_id m) role d)))"
    using assms(1) unfolding rows ids by (simp_all add: tenants_ok_def)
  fix i assume ne: "owners i d \<noteq> {}"
  have "\<exists>x \<in> set (db_memberships d). mb_org_id x = i \<and> mb_role (?f x) = ''owner''"
  proof (cases "role = ''owner''")
    case True
    then show ?thesis using ne by (auto simp: owners_iff set_eq_iff)
  next
    case False
    then obtain x where "x \<in> set (db_memberships d)" "mb_org_id x = i" "mb_role x = ''owner''" "mb_id x \<noteq> mb_id m"
      using owners_other [OF assms(1,2) _ ne] assms(3) by blast
    then show ?thesis by (intro bexI [of _ x]) simp_all
  qed
  then obtain x where "x \<in> set (db_memberships d)" "mb_org_id x = i" "mb_role (?f x) = ''owner''" by blast
  then have "mb_user_id (?f x) \<in> owners i (set_role (mb_id m) role d)"
    unfolding owners_iff rows using keys by (intro bexI [of _ "?f x"]) (simp_all only: set_map image_eqI simp_thms)
  then show "owners i (set_role (mb_id m) role d) \<noteq> {}" by blast
qed

lemma tenants_ok_delete:
  assumes "tenants_ok d" "m \<in> set (db_memberships d)" "mb_role m = ''owner'' \<longrightarrow> (\<exists>u \<in> owners (mb_org_id m) d. u \<noteq> mb_user_id m)"
  shows "tenants_ok (delete_membership (mb_id m) d)"
proof (rule tenants_ok_keep_owner [OF assms(1)])
  show "distinct (map mb_id (db_memberships (delete_membership (mb_id m) d)))"
    "distinct (map (\<lambda>m. (mb_user_id m, mb_org_id m)) (db_memberships (delete_membership (mb_id m) d)))"
    using assms(1) by (simp_all add: delete_membership_def tenants_ok_def distinct_map_filter)
  fix i assume "owners i d \<noteq> {}"
  from owners_other [OF assms this] obtain x where "x \<in> set (db_memberships d)" "mb_org_id x = i" "mb_role x = ''owner''" "mb_id x \<noteq> mb_id m"
    by blast
  then have "mb_user_id x \<in> owners i (delete_membership (mb_id m) d)" by (auto simp: owners_iff delete_membership_def)
  then show "owners i (delete_membership (mb_id m) d) \<noteq> {}" by blast
qed (simp add: delete_membership_def)

lemma tenants_ok_add:
  assumes "tenants_ok d" "add_membership r d = (res, d')"
  shows "tenants_ok d'"
proof (cases res)
  case (Inl e)
  then show ?thesis using assms by (auto simp: add_membership_def split: sum.splits)
next
  case (Inr u)
  then have d': "list_all (\<lambda>x. mb_id r \<noteq> mb_id x \<and> \<not> (mb_user_id r = mb_user_id x \<and> mb_org_id r = mb_org_id x)) (db_memberships d)"
    "d' = d\<lparr>db_memberships := db_memberships d @ [r]\<rparr>" using assms(2) by (auto simp: add_membership_Inr)
  show ?thesis
  proof (rule tenants_ok_keep_owner [OF assms(1)])
    show "distinct (map mb_id (db_memberships d'))" "distinct (map (\<lambda>m. (mb_user_id m, mb_org_id m)) (db_memberships d'))"
      using assms(1) d' by (auto simp: tenants_ok_def list_all_iff)
    fix i assume "owners i d \<noteq> {}"
    then show "owners i d' \<noteq> {}" by (auto simp: owners_iff set_eq_iff d'(2))
  qed (simp add: d'(2))
qed

subsection \<open>The routes keep every organisation owned\<close>

definition owned :: "session \<Rightarrow> bool" where
  "owned s \<longleftrightarrow> tenants_ok (se_db s) \<and> tenants_ok (sv_db (se_server s))"

interpretation ten: api_frame "keeps owned"
  by unfold_locales (auto simp: keeps_def owned_def)

lemma member_run: "ebind (member org_id user_id) g s =
    (case one_or_none (filter (\<lambda>m. mb_org_id m = org_id \<and> mb_user_id m = user_id) (db_memberships (se_db s))) of
       Inl e \<Rightarrow> (Inl (Crash e), s) | Inr None \<Rightarrow> (Inl (HttpError 404 ''member not found'' None), s) | Inr (Some m) \<Rightarrow> g m s)"
  by (auto simp: member_def ebind_def select_one_def in_db_def reject_def eraise_def eret_def split: sum.split option.split)

lemma guard_run: "ethen (guard_last_owner org_id user_id) n s = (if \<exists>u \<in> owners org_id (se_db s). u \<noteq> user_id then n s
    else (Inl (HttpError 409 ''an organisation must keep at least one owner'' None), s))"
proof -
  have "List.find (\<lambda>m. mb_org_id m = org_id \<and> mb_role m = ''owner'' \<and> mb_user_id m \<noteq> user_id) (db_memberships (se_db s)) \<noteq> None
      \<longleftrightarrow> (\<exists>u \<in> owners org_id (se_db s). u \<noteq> user_id)"
    by (auto simp: owners_iff Bex_def find_None_iff)
  then show ?thesis by (auto simp: guard_last_owner_def ethen_def ebind_def query_def need_def eget_def eret_def eraise_def)
qed

lemma one_member: "one_or_none (filter (\<lambda>m. mb_org_id m = org_id \<and> mb_user_id m = user_id) xs) = Inr (Some m) \<Longrightarrow>
    m \<in> set xs \<and> mb_org_id m = org_id \<and> mb_user_id m = user_id"
  by (auto simp: one_or_none_Some filter_eq_Cons_iff)

lemma ten_memberships:
  "(\<And>d. db_memberships (h d) = db_memberships d \<and> map o_id (db_orgs (h d)) = map o_id (db_orgs d)) \<Longrightarrow>
   always (keeps owned) (write_db h)"
  by (rule alwaysI) (auto simp: keeps_def owned_def intro: tenants_ok_cong [THEN iffD2])

lemma ten_audit: "always (keeps owned) (audit ac og who tg ip ag dt)"
  unfolding audit_def by (rule ten_memberships) (simp add: audit_record_def)

lemma ten_in_db: "(\<And>d r d'. w d = (r, d') \<Longrightarrow> tenants_ok d \<Longrightarrow> tenants_ok d') \<Longrightarrow> always (keeps owned) (in_db w)"
  by (rule alwaysI) (auto simp: keeps_def owned_def in_db_def split: prod.splits sum.splits)

text \<open>A write whose guard was just checked.\<close>

lemma ten_after_write: "always (keeps owned) n \<Longrightarrow> tenants_ok (h (se_db s)) \<Longrightarrow> owned s \<Longrightarrow> owned (snd (ethen (write_db h) n s))"
  using always_keepsD [of owned n "s\<lparr>se_db := h (se_db s)\<rparr>"] by (simp add: owned_def)

lemma change_role_owned: "always (keeps owned) (change_role wb rq org_id user_id role)"
  unfolding change_role_def
proof (rule ten.fr_org_route, rule keeps.fr_then [OF ten.fr_need], rule alwaysI)
  fix ctx s r s'
  let ?k = "\<lambda>m. ethen (write_db (set_role (mb_id m) role)) (member_audit ''member.role_changed'' rq ctx user_id [(''role'', JStr role)])"
  assume run: "ebind (member (oc_org_id ctx) user_id) (\<lambda>m. ethen (if mb_role m = ''owner'' \<and> role \<noteq> ''owner''
      then guard_last_owner (oc_org_id ctx) user_id else eret ()) (?k m)) s = (r, s')"
  show "keeps owned s s'"
  proof (unfold keeps_def, rule impI)
    assume ok: "owned s"
    show "owned s'"
    proof (cases "\<exists>m. one_or_none (filter (\<lambda>m. mb_org_id m = oc_org_id ctx \<and> mb_user_id m = user_id) (db_memberships (se_db s))) = Inr (Some m)")
      case True
      then obtain m where one: "one_or_none (filter (\<lambda>m. mb_org_id m = oc_org_id ctx \<and> mb_user_id m = user_id) (db_memberships (se_db s))) = Inr (Some m)" ..
      note m = one_member [OF one]
      have wr: "owned (snd (?k m s))"
        if "role = ''owner'' \<or> (mb_role m = ''owner'' \<longrightarrow> (\<exists>u \<in> owners (mb_org_id m) (se_db s). u \<noteq> mb_user_id m))"
        using ten_after_write [OF ten_audit _ ok] tenants_ok_set_role [OF _ _ that] ok m by (simp add: owned_def member_audit_def)
      show ?thesis
      proof (cases "mb_role m = ''owner'' \<and> role \<noteq> ''owner''")
        case True
        with run one m ok wr show ?thesis by (auto simp: member_run guard_run split: if_splits)
      next
        case False
        with run one have "s' = snd (?k m s)" by (simp add: member_run)
        then show ?thesis using wr False by blast
      qed
    next
      case False
      with run ok show ?thesis by (auto simp: member_run split: sum.splits option.splits)
    qed
  qed
qed

lemma remove_member_owned: "always (keeps owned) (remove_member wb rq org_id user_id)"
  unfolding remove_member_def
proof (rule ten.fr_org_route, rule alwaysI)
  fix ctx s r s'
  let ?k = "\<lambda>m. ethen (write_db (delete_membership (mb_id m))) (member_audit ''member.removed'' rq ctx user_id [])"
  assume run: "ebind (member (oc_org_id ctx) user_id) (\<lambda>m. ethen (if mb_role m = ''owner''
      then ethen (guard_last_owner (oc_org_id ctx) user_id) (need (can ctx ''owner'') (HttpError 403 ''only an owner can remove an owner'' None))
      else eret ()) (?k m)) s = (r, s')"
  show "keeps owned s s'"
  proof (unfold keeps_def, rule impI)
    assume ok: "owned s"
    show "owned s'"
    proof (cases "\<exists>m. one_or_none (filter (\<lambda>m. mb_org_id m = oc_org_id ctx \<and> mb_user_id m = user_id) (db_memberships (se_db s))) = Inr (Some m)")
      case True
      then obtain m where one: "one_or_none (filter (\<lambda>m. mb_org_id m = oc_org_id ctx \<and> mb_user_id m = user_id) (db_memberships (se_db s))) = Inr (Some m)" ..
      note m = one_member [OF one]
      have wr: "owned (snd (?k m s))" if "mb_role m = ''owner'' \<longrightarrow> (\<exists>u \<in> owners (mb_org_id m) (se_db s). u \<noteq> mb_user_id m)"
        using ten_after_write [OF ten_audit _ ok] tenants_ok_delete [OF _ _ that] ok m by (simp add: owned_def member_audit_def)
      show ?thesis
      proof (cases "mb_role m = ''owner''")
        case True
        have assoc: "ethen (ethen a b) c s = ethen a (ethen b c) s" for a b c
          by (simp add: ethen_def ebind_def split: prod.split sum.split)
        from True run one m ok wr show ?thesis by (auto simp: member_run guard_run assoc split: if_splits)
      next
        case False
        with run one have "s' = snd (?k m s)" by (simp add: member_run)
        then show ?thesis using wr False by blast
      qed
    next
      case False
      with run ok show ?thesis by (auto simp: member_run split: sum.splits option.splits)
    qed
  qed
qed

lemma add_member_owned: "always (keeps owned) (add_member wb rq org_id p)"
  unfolding add_member_def member_audit_def Let_def
  by (intro ten.fr_org_route keeps.fr_then ten.fr_need keeps.fr_bind ten.fr_select keeps.fr_case_option ten.fr_reject
    keeps.fr_if ten_in_db ten_audit keeps.fr_ret) (rule tenants_ok_add)

lemma update_org_owned: "always (keeps owned) (update_org wb rq org_id p)"
  unfolding update_org_def
  by (intro ten.fr_org_route keeps.fr_then ten.fr_need ten_memberships) (simp add: row_set_keys)

text \<open>A posting changes balances and the ledger only, or adopts the state that won a lost race.\<close>

lemma post_entry_keeps:
  assumes "post_entry races i p d = (r, d')" "P d" "list_all P races"
    "\<And>d c rows. P d \<Longrightarrow> P ((set_credits (po_org_id p) c d)\<lparr>db_ledger := rows\<rparr>)"
  shows "P d'"
  using assms(1-3)
proof (induction races arbitrary: d)
  case Nil
  then show ?case by (subst (asm) post_entry.simps) (auto simp: Let_def intro: assms(4) split: option.splits sum.splits)
next
  case (Cons c cs)
  show ?case using Cons.prems Cons.IH [of c]
    by (subst (asm) (1) post_entry.simps) (auto simp: Let_def intro: assms(4) split: option.splits sum.splits if_splits)
qed

lemma set_credits_tenants: "tenants_ok d \<Longrightarrow> tenants_ok ((set_credits i c d)\<lparr>db_ledger := rows\<rparr>)"
  by (rule tenants_ok_cong [THEN iffD2]) (simp_all add: set_credits_def row_set_keys)

lemma topup_owned: "list_all tenants_ok (wb_races wb) \<Longrightarrow> always (keeps owned) (topup wb rq org_id p)"
proof -
  assume "list_all tenants_ok (wb_races wb)"
  then have "tenants_ok d'" if "grant (wb_races wb) i u org a k ds key by1 d = (r, d')" "tenants_ok d" for i u org a k ds key by1 d r d'
    using that post_entry_keeps [of "wb_races wb" i _ d r d' tenants_ok] set_credits_tenants
    by (auto simp: grant_def eraise_def split: if_splits)
  then show ?thesis unfolding topup_def
    by (intro ten.fr_org_route keeps.fr_then ten.fr_need keeps.fr_bind ten_in_db ten_audit keeps.fr_ret) blast
qed

lemma reconcile_owned: "always (keeps owned) (reconcile_balance wb rq org_id)"
  unfolding reconcile_balance_def
  by (intro ten.fr_org_route keeps.fr_bind ten_in_db keeps.fr_ret)
    (auto simp: reconcile_def set_credits_def row_set_keys intro: tenants_ok_cong [THEN iffD2] split: sum.splits)

lemma owned_served:
  assumes "always (keeps owned) h" "serve h sv = (r, sv')" "tenants_ok (sv_db sv)"
  shows "tenants_ok (sv_db sv')"
  using assms alwaysD [OF assms(1)]
  by (cases r) (auto simp: serve_Inl serve_Inr keeps_def owned_def get_session_def)

lemma register_owned:
  assumes "serve (register wb rq p) sv = (r, sv')" "tenants_ok (sv_db sv)"
  shows "tenants_ok (sv_db sv')"
proof (cases r)
  case (Inl e)
  then show ?thesis using assms failed_request [OF register_uncommitted] by metis
next
  case (Inr out)
  let ?mb = "\<lparr>mb_id = wb_random wb 17, mb_user_id = wb_random wb 14, mb_org_id = wb_random wb 15, mb_role = ''owner''\<rparr>"
  obtain d1 d2 d3 d4 where d: "add_user (new_user wb (lower (rg_email p)) (wb_hash_password wb (rg_password p)) (rg_name p)) (sv_db sv) = (Inr (), d1)"
      "add_org (new_org wb (rg_org_name p)) d1 = (Inr (), d2)" "add_membership ?mb d2 = (Inr (), d3)"
    and d4: "if 0 < cfg_signup_bonus_cents (wb_settings wb) then \<exists>e. grant [] (wb_random wb 18) (wb_random wb 19) (wb_random wb 15)
          (cfg_signup_bonus_cents (wb_settings wb)) ''bonus'' ''signup bonus'' (Some (''signup:'' @ wb_random wb 15)) None d3 = (Inr e, d4)
        else d4 = d3"
    and fin: "db_memberships (sv_db sv') = db_memberships d4" "db_orgs (sv_db sv') = db_orgs d4"
    using register_success [OF assms(1) [unfolded Inr]] by auto
  have "tenants_ok d3"
  proof -
    have mem: "db_memberships d3 = db_memberships (sv_db sv) @ [?mb]" "db_orgs d3 = db_orgs (sv_db sv) @ [new_org wb (rg_org_name p)]"
      and new: "list_all (\<lambda>x. mb_id ?mb \<noteq> mb_id x \<and> \<not> (mb_user_id ?mb = mb_user_id x \<and> mb_org_id ?mb = mb_org_id x)) (db_memberships (sv_db sv))"
      using d by (auto simp: add_user_Inr add_org_Inr add_membership_Inr list_all_iff)
    have "owners i (sv_db sv) \<subseteq> owners i d3" for i by (auto simp: owners_iff mem)
    moreover have "wb_random wb 14 \<in> owners (wb_random wb 15) d3" by (auto simp: owners_iff mem)
    ultimately show ?thesis using assms(2) new
      by (auto simp: tenants_ok_def mem new_org_def list_all_iff) blast
  qed
  then have "tenants_ok d4" using d4 post_entry_keeps [of "[]" _ _ d3 _ d4 tenants_ok] set_credits_tenants
    by (auto simp: grant_def eraise_def split: if_splits)
  then show ?thesis using tenants_ok_cong [of "sv_db sv'" d4] fin by simp
qed

inductive org_step :: "server \<Rightarrow> server \<Rightarrow> bool" where
  org_register: "serve (register wb rq rp) sv = (r1, sv') \<Longrightarrow> org_step sv sv'"
| org_update: "serve (update_org wb rq org_id up) sv = (r2, sv') \<Longrightarrow> org_step sv sv'"
| org_add: "serve (add_member wb rq org_id mp) sv = (r3, sv') \<Longrightarrow> org_step sv sv'"
| org_change: "serve (change_role wb rq org_id user_id role) sv = (r2, sv') \<Longrightarrow> org_step sv sv'"
| org_remove: "serve (remove_member wb rq org_id user_id) sv = (r2, sv') \<Longrightarrow> org_step sv sv'"
| org_topup: "list_all tenants_ok (wb_races wb) \<Longrightarrow> serve (topup wb rq org_id tp) sv = (r4, sv') \<Longrightarrow> org_step sv sv'"
| org_reconcile: "serve (reconcile_balance wb rq org_id) sv = (r5, sv') \<Longrightarrow> org_step sv sv'"

lemma org_step_ok: "org_step sv sv' \<Longrightarrow> tenants_ok (sv_db sv) \<Longrightarrow> tenants_ok (sv_db sv')"
  by (induction rule: org_step.induct)
    (blast intro: register_owned owned_served update_org_owned add_member_owned change_role_owned remove_member_owned
      topup_owned reconcile_owned)+

lemma org_steps_ok: "org_step\<^sup>*\<^sup>* sv sv' \<Longrightarrow> tenants_ok (sv_db sv) \<Longrightarrow> tenants_ok (sv_db sv')"
  by (induction rule: rtranclp_induct) (auto dest: org_step_ok)

subsection \<open>Only owners change the owners\<close>

definition same_owners :: "session \<Rightarrow> session \<Rightarrow> bool" where
  "same_owners s t \<longleftrightarrow> sv_db (se_server t) = sv_db (se_server s) \<and> (\<forall>i. owners i (se_db t) = owners i (se_db s))"

interpretation same_owners: frame same_owners
  by unfold_locales (auto simp: same_owners_def)

lemma same_owners_write: "(\<And>d i. owners i (h d) = owners i d) \<Longrightarrow> same_owners s (s\<lparr>se_db := h (se_db s)\<rparr>)"
  by (simp add: same_owners_def)

lemma owners_audit: "owners i (se_db (snd (audit ac og who tg ip ag dt s))) = owners i (se_db s)"
  "sv_db (se_server (snd (audit ac og who tg ip ag dt s))) = sv_db (se_server s)"
  by (simp_all add: audit_def audit_record_def owners_def members_of_def)

lemma owners_delete:
  assumes "tenants_ok d" "m \<in> set (db_memberships d)" "mb_role m \<noteq> ''owner''"
  shows "owners i (delete_membership (mb_id m) d) = owners i d"
  using assms(3) same_row [OF assms(1,2)] by (auto simp: owners_iff delete_membership_def set_eq_iff)

text \<open>The caller of a membership route is no owner: then its context has another role.\<close>

definition no_owner :: "web \<Rightarrow> request \<Rightarrow> string \<Rightarrow> server \<Rightarrow> bool" where
  "no_owner wb rq org_id sv = (case fst (current_user wb rq (get_session sv)) of Inl e \<Rightarrow> True
     | Inr user \<Rightarrow> \<not> u_is_superuser user \<and> list_all (\<lambda>m. \<not> (mb_org_id m = org_id \<and> mb_user_id m = u_id user \<and> mb_role m = ''owner''))
         (db_memberships (sv_db sv)))"

lemma no_owner_served:
  assumes "serve (org_route wb rq org_id minimum body) sv = (r, sv')" "no_owner wb rq org_id sv"
    "\<And>ctx s r s'. body ctx s = (r, s') \<Longrightarrow> se_db s = sv_db sv \<Longrightarrow> sv_db (se_server s) = sv_db sv \<Longrightarrow> oc_org_id ctx = org_id \<Longrightarrow>
       oc_role ctx \<noteq> ''owner'' \<Longrightarrow> case minimum of None \<Rightarrow> True | Some m \<Rightarrow> can ctx m \<Longrightarrow> same_owners s s'"
  shows "owners i (sv_db sv') = owners i (sv_db sv)"
proof -
  obtain s where s: "org_route wb rq org_id minimum body (get_session sv) = (r, s)"
      "sv_db sv' = (case r of Inl e \<Rightarrow> sv_db (se_server s) | Inr a \<Rightarrow> se_db s)"
    using assms(1) by (auto simp: serve_def commit_def split: prod.splits sum.splits)
  show ?thesis
  proof (rule org_route_cases [OF s(1)])
    fix e assume "r = Inl e" "same_rows (get_session sv) s"
    then show ?thesis using s(2) by (auto simp: get_session_def dest!: same_rowsD)
  next
    fix user ctx s1
    assume u: "current_user wb rq (get_session sv) = (Inr user, get_session sv)" and s1: "same_rows (get_session sv) s1"
      and o1: "current_org org_id user s1 = (Inr ctx, s1)" and m: "case minimum of None \<Rightarrow> True | Some m \<Rightarrow> can ctx m"
      and body: "body ctx s1 = (r, s)"
    have db: "se_db s1 = sv_db sv" "sv_db (se_server s1) = sv_db sv" using same_rowsD [OF s1] by (simp_all add: get_session_def)
    have "oc_role ctx \<noteq> ''owner''"
      using current_org_Inr [OF o1] assms(2) u by (auto simp: no_owner_def db list_all_iff)
    from assms(3) [OF body db oc_org_id_eq [OF o1] this m] show ?thesis
      using s(2) by (cases r) (auto simp: same_owners_def db)
  qed
qed

lemma add_row_same_owners:
  assumes "ethen (in_db (add_membership row)) (ethen (member_audit ac rq ctx u dt) (eret x)) s = (r, s')" "mb_role row \<noteq> ''owner''"
  shows "same_owners s s'"
proof (cases "add_membership row (se_db s)")
  case (Pair q d)
  have "owners j d = owners j (se_db s)" for j
    using Pair assms(2) by (cases q) (auto simp: add_membership_Inr owners_iff, auto simp: add_membership_def split: sum.splits)
  moreover have "s' = s\<lparr>se_db := d\<rparr> \<or> s' = snd (member_audit ac rq ctx u dt (s\<lparr>se_db := d\<rparr>))"
    using assms(1) Pair by (cases q) (auto simp: in_db_run member_audit_def)
  ultimately show ?thesis by (auto simp: same_owners_def member_audit_def owners_audit)
qed

lemma add_member_same_owners:
  assumes "serve (add_member wb rq org_id p) sv = (r, sv')" "no_owner wb rq org_id sv"
  shows "owners i (sv_db sv') = owners i (sv_db sv)"
proof (rule no_owner_served [OF assms(1) [unfolded add_member_def] assms(2)])
  fix ctx :: org_context and s s' :: session and r
  assume role: "oc_role ctx \<noteq> ''owner''"
  assume "ethen (need (wb_valid_email wb (mi_email p) \<and> mi_role p \<in> set ROLES) (ValidationFailed ''body''))
     (ebind (select_one db_users (\<lambda>u. u_email u = lower (mi_email p))) (\<lambda>found.
      case found of
        None \<Rightarrow> reject 404 ''no account with that email; ask them to register first''
      | Some user \<Rightarrow>
          if mi_role p = ''owner'' \<and> \<not> can ctx ''owner'' then reject 403 ''only an owner can grant the owner role''
          else ebind (select_one db_memberships (\<lambda>m. mb_org_id m = oc_org_id ctx \<and> mb_user_id m = u_id user)) (\<lambda>existing.
            if existing \<noteq> None then reject 409 ''already a member''
            else let row = \<lparr>mb_id = wb_random wb 10, mb_user_id = u_id user, mb_org_id = oc_org_id ctx, mb_role = mi_role p\<rparr> in
              ethen (in_db (add_membership row))
              (ethen (member_audit ''member.invited'' rq ctx (u_id user) [(''role'', JStr (mi_role p))])
              (eret (row, user)))))) s = (r, s')"
  then show "same_owners s s'"
    by (auto simp: Let_def select_one_run can_owner role same_owners.frame_refl
        split: sum.splits option.splits if_splits elim!: add_row_same_owners)
qed

lemma remove_member_same_owners:
  assumes "serve (remove_member wb rq org_id user_id) sv = (r, sv')" "no_owner wb rq org_id sv" "tenants_ok (sv_db sv)"
  shows "owners i (sv_db sv') = owners i (sv_db sv)"
proof (rule no_owner_served [OF assms(1) [unfolded remove_member_def] assms(2)])
  fix ctx :: org_context and s s' :: session and r
  assume role: "oc_role ctx \<noteq> ''owner''" and db: "se_db s = sv_db sv"
  let ?k = "\<lambda>m. ethen (write_db (delete_membership (mb_id m))) (member_audit ''member.removed'' rq ctx user_id [])"
  assume run: "ebind (member (oc_org_id ctx) user_id) (\<lambda>m. ethen (if mb_role m = ''owner''
      then ethen (guard_last_owner (oc_org_id ctx) user_id) (need (can ctx ''owner'') (HttpError 403 ''only an owner can remove an owner'' None))
      else eret ()) (?k m)) s = (r, s')"
  show "same_owners s s'"
  proof (cases "\<exists>m. one_or_none (filter (\<lambda>m. mb_org_id m = oc_org_id ctx \<and> mb_user_id m = user_id) (db_memberships (se_db s))) = Inr (Some m)")
    case True
    then obtain m where one: "one_or_none (filter (\<lambda>m. mb_org_id m = oc_org_id ctx \<and> mb_user_id m = user_id) (db_memberships (se_db s))) = Inr (Some m)" ..
    show ?thesis
    proof (cases "mb_role m = ''owner''")
      case True
      from True run one role show ?thesis
        by (auto simp: member_run guard_run ethen_assoc can_owner same_owners.frame_refl split: if_splits)
    next
      case False
      with run one have s': "s' = snd (?k m s)" by (simp add: member_run)
      have "owners j (delete_membership (mb_id m) (se_db s)) = owners j (se_db s)" for j
        using owners_delete [of "se_db s" m] one_member [OF one] assms(3) db False by simp
      then show ?thesis using s' by (simp add: same_owners_def member_audit_def owners_audit)
    qed
  next
    case False
    with run show ?thesis by (auto simp: member_run same_owners.frame_refl split: sum.splits option.splits)
  qed
qed

lemma change_role_same_owners:
  assumes "serve (change_role wb rq org_id user_id role) sv = (r, sv')" "no_owner wb rq org_id sv"
  shows "owners i (sv_db sv') = owners i (sv_db sv)"
  by (rule no_owner_served [OF assms(1) [unfolded change_role_def] assms(2)]) (simp add: can_owner)

end
