(* ===== verification/Runs_Api.thy ===== *)
theory Runs_Api
  imports Orgs Runner
begin

text \<open>
  \<^verbatim>\<open>api/routers/runs.py\<close>: submission, reading and cancellation of runs. The job queue drops a job whose
  id it has already; the bus of a run is created by its first use. The live feed of \<open>stream_run\<close> is in
  theory \<open>Events\<close>.
\<close>

definition enqueue_job :: "job \<Rightarrow> job list \<Rightarrow> job list" where
  "enqueue_job j q = (if list_ex (\<lambda>k. jb_id k = jb_id j) q then q else q @ [j])"

definition enqueue :: "job \<Rightarrow> unit api" where
  "enqueue j = emod (\<lambda>s. s\<lparr>se_server := (se_server s)\<lparr>sv_queue := enqueue_job j (sv_queue (se_server s))\<rparr>\<rparr>)"

definition bus_of :: "server \<Rightarrow> string \<Rightarrow> bus" where
  "bus_of sv run_id = dget_or (sv_buses sv) run_id (new_bus run_id)"

definition with_bus :: "string \<Rightarrow> (bus \<Rightarrow> bus) \<Rightarrow> unit api" where
  "with_bus run_id f = emod (\<lambda>s. s\<lparr>se_server := (se_server s)\<lparr>sv_buses := dset run_id (f (bus_of (se_server s) run_id))
     (sv_buses (se_server s))\<rparr>\<rparr>)"

definition owned_run :: "string \<Rightarrow> string \<Rightarrow> run_row api" where
  "owned_run org_id run_id = ebind (query (\<lambda>d. get_run_row d run_id)) (\<lambda>found. case found of
     None \<Rightarrow> reject 404 ''run not found''
   | Some run \<Rightarrow> if rn_org_id run \<noteq> org_id then reject 404 ''run not found'' else eret run)"

subsection \<open>Submission\<close>

record run_create =
  rc_workflow_id :: string
  rc_input :: string
  rc_key_mode :: "string option"
  rc_idempotency_key :: "string option"

definition run_create_ok :: "run_create \<Rightarrow> bool" where
  "run_create_ok p \<longleftrightarrow> 1 \<le> length (rc_input p) \<and> length (rc_input p) \<le> 200000 \<and>
     (case rc_key_mode p of None \<Rightarrow> True | Some m \<Rightarrow> m \<in> set KEY_MODES) \<and>
     (case rc_idempotency_key p of None \<Rightarrow> True | Some k \<Rightarrow> length k \<le> 128)"

text \<open>\<open>x or y\<close> on optional texts.\<close>

definition text_or :: "string option \<Rightarrow> string option \<Rightarrow> string option" where
  "text_or x y = (case x of Some s \<Rightarrow> if s \<noteq> [] then Some s else y | None \<Rightarrow> y)"

definition submit_key :: "run_create \<Rightarrow> string option \<Rightarrow> string option" where
  "submit_key p hdr = text_or (rc_idempotency_key p) hdr"

definition same_key_run :: "string \<Rightarrow> string option \<Rightarrow> run_row \<Rightarrow> bool" where
  "same_key_run org_id key r = (rn_org_id r = org_id \<and> rn_idempotency_key r = key)"

definition new_run :: "web \<Rightarrow> org_context \<Rightarrow> run_create \<Rightarrow> string option \<Rightarrow> string \<Rightarrow> int \<Rightarrow> run_row" where
  "new_run wb ctx p key key_mode cents = \<lparr>rn_id = wb_random wb 10, rn_org_id = oc_org_id ctx,
     rn_workflow_id = rc_workflow_id p, rn_created_by = Some (u_id (oc_user ctx)), rn_status = ''queued'',
     rn_input = rc_input p, rn_output = None, rn_error = None, rn_key_mode = key_mode, rn_cost_microcents = 0,
     rn_cost_cents = 0, rn_billable_microcents = 0, rn_tokens_in = 0, rn_tokens_out = 0, rn_steps_used = 0,
     rn_max_steps = 0, rn_max_cost_cents = cents, rn_cancel_requested = False, rn_idempotency_key = key,
     rn_started_at = None, rn_finished_at = None\<rparr>"

definition run_clash :: "run_row \<Rightarrow> run_row \<Rightarrow> bool" where
  "run_clash x y = (rn_id x = rn_id y \<or> (rn_org_id x = rn_org_id y \<and> rn_idempotency_key x \<noteq> None \<and>
     rn_idempotency_key x = rn_idempotency_key y))"

definition add_run :: "run_row \<Rightarrow> unit txn" where
  "add_run r = (\<lambda>d. case insert_row run_clash r (db_runs d) of
     Inl e \<Rightarrow> (Inl e, d) | Inr rows \<Rightarrow> (Inr (), d\<lparr>db_runs := rows\<rparr>))"

text \<open>
  The flush meets the rows other requests have committed meanwhile (the first element of \<open>wb_races\<close>);
  when they clash the rollback makes them visible.
\<close>

definition flush_run :: "web \<Rightarrow> run_row \<Rightarrow> unit api" where
  "flush_run wb r = (\<lambda>s. case wb_races wb of
     c # _ \<Rightarrow> if list_ex (run_clash r) (db_runs c)
              then (Inl (Crash IntegrityError), s\<lparr>se_server := (se_server s)\<lparr>sv_db := c\<rparr>\<rparr>) else in_db (add_run r) s
   | [] \<Rightarrow> in_db (add_run r) s)"

definition submission_ceiling :: "settings \<Rightarrow> workflow_row \<Rightarrow> int res" where
  "submission_ceiling cfg flow = rbind (limit_of (wf_graph flow) ''max_cost_cents'' (cfg_max_cost_cents_per_run cfg))
     (\<lambda>c. Inr (min c (cfg_max_cost_cents_per_run cfg)))"

definition ensure_credit :: "web \<Rightarrow> string \<Rightarrow> string \<Rightarrow> int \<Rightarrow> unit api" where
  "ensure_credit wb org_id key_mode cents = (if key_mode = ''byok'' then eret ()
     else ebind (query (\<lambda>d. ensure_can_start (wb_settings wb) d org_id cents)) (\<lambda>r. case r of
       Inr _ \<Rightarrow> eret ()
     | Inl (BillingError e) \<Rightarrow> eraise (Crash e)
     | Inl (InsufficientCredits bal req) \<Rightarrow> reject 402 (''insufficient credits: balance '' @ str_of_int bal
         @ '' cents, this run may cost up to '' @ str_of_int req)))"

definition submit_run :: "web \<Rightarrow> request \<Rightarrow> org_context \<Rightarrow> run_row \<Rightarrow> run_row api" where
  "submit_run wb rq ctx run =
     ebind (ecatch (ethen (flush_run wb run) (eret None))
       (\<lambda>e. if e = Crash IntegrityError
            then ethen (emod rollback)
              (ebind (select_one db_runs (same_key_run (oc_org_id ctx) (rn_idempotency_key run))) (\<lambda>duplicate.
               if duplicate \<noteq> None then eret duplicate else eraise e))
            else eraise e)) (\<lambda>duplicate.
     case duplicate of
       Some r \<Rightarrow> eret r
     | None \<Rightarrow>
        ethen (audit ''run.created'' (Some (oc_org_id ctx)) (Some (u_id (oc_user ctx))) (Some (''run'', rn_id run))
           (client_ip rq) None [(''workflow_id'', JStr (rn_workflow_id run)), (''key_mode'', JStr (rn_key_mode run))])
        (ethen (emod commit)
        (ethen (enqueue \<lparr>jb_id = ''run:'' @ rn_id run, jb_run = rn_id run, jb_defer = 0\<rparr>) (eret run))))"

definition admit_run :: "web \<Rightarrow> string \<Rightarrow> unit api" where
  "admit_run wb org_id =
     ebind (limiter_check wb 1 (''runs:'' @ org_id) (cfg_rate_limit_runs_per_minute (wb_settings wb)) 60) (\<lambda>throttle.
     ethen (need (rl_allowed throttle) (HttpError 429 ''run rate limit exceeded for this organisation''
        (Some (Retry_After (max (rl_retry_after_seconds throttle) 1)))))
     (ebind (eget (\<lambda>s. slots_in_use (wb_time wb 2) (''runs:'' @ org_id) (sv_redis (se_server s)))) (\<lambda>in_flight.
      need (in_flight < cfg_max_concurrent_runs_per_org (wb_settings wb))
        (HttpError 429 (''this organisation already has '' @ str_of_int in_flight @ '' runs in flight (limit ''
           @ str_of_int (cfg_max_concurrent_runs_per_org (wb_settings wb)) @ '')'') None))))"

definition accept_run :: "web \<Rightarrow> request \<Rightarrow> org_context \<Rightarrow> run_create \<Rightarrow> string option \<Rightarrow> workflow_row \<Rightarrow> run_row api" where
  "accept_run wb rq ctx p key flow =
     ethen (admit_run wb (oc_org_id ctx))
     (case submission_ceiling (wb_settings wb) flow of
        Inl e \<Rightarrow> eraise (Crash e)
      | Inr cents \<Rightarrow>
         let key_mode = (case text_or (rc_key_mode p) (Some (o_key_mode (oc_org ctx))) of Some m \<Rightarrow> m | None \<Rightarrow> []) in
         ethen (ensure_credit wb (oc_org_id ctx) key_mode cents)
           (submit_run wb rq ctx (new_run wb ctx p key key_mode cents)))"

definition submit_once :: "web \<Rightarrow> request \<Rightarrow> org_context \<Rightarrow> run_create \<Rightarrow> string option \<Rightarrow> workflow_row \<Rightarrow> run_row api" where
  "submit_once wb rq ctx p key flow =
     ebind (if key \<noteq> None \<and> key \<noteq> Some [] then select_one db_runs (same_key_run (oc_org_id ctx) key) else eret None) (\<lambda>existing.
     case existing of Some run \<Rightarrow> eret run | None \<Rightarrow> accept_run wb rq ctx p key flow)"

definition create_run :: "web \<Rightarrow> request \<Rightarrow> string \<Rightarrow> run_create \<Rightarrow> string option \<Rightarrow> run_row api" where
  "create_run wb rq org_id p hdr = org_route wb rq org_id (Some ''member'') (\<lambda>ctx.
     ethen (need (run_create_ok p) (ValidationFailed ''body''))
     (ebind (query (\<lambda>d. get_workflow_row d (rc_workflow_id p))) (\<lambda>found.
      case found of
        None \<Rightarrow> reject 404 ''workflow not found''
      | Some flow \<Rightarrow>
         if wf_org_id flow \<noteq> oc_org_id ctx \<or> \<not> wf_is_active flow then reject 404 ''workflow not found''
         else (case validate_graph (wf_preset flow) (wf_graph flow) of
           Inl (WorkflowConfigError e) \<Rightarrow> reject 422 (config_text e)
         | Inl e \<Rightarrow> eraise (Crash e)
         | Inr _ \<Rightarrow> submit_once wb rq ctx p (submit_key p hdr) flow))))"

subsection \<open>Reading\<close>

definition list_runs :: "web \<Rightarrow> request \<Rightarrow> string \<Rightarrow> int \<Rightarrow> int \<Rightarrow> string option \<Rightarrow> run_row list api" where
  "list_runs wb rq org_id limit offset status_filter = org_route wb rq org_id None (\<lambda>ctx.
     ethen (need (1 \<le> limit \<and> limit \<le> 200 \<and> 0 \<le> offset) (ValidationFailed ''query''))
     (query (\<lambda>d. take (nat limit) (drop (nat offset) (rev (filter (\<lambda>r. rn_org_id r = oc_org_id ctx \<and>
        (case status_filter of None \<Rightarrow> True | Some st \<Rightarrow> st = [] \<or> rn_status r = st)) (db_runs d)))))))"

record run_detail =
  rd_run :: run_row
  rd_steps :: "run_step_row list"
  rd_artifacts :: "artifact_row list"
  rd_tool_calls :: "tool_call_row list"

definition get_run :: "web \<Rightarrow> request \<Rightarrow> string \<Rightarrow> string \<Rightarrow> run_detail api" where
  "get_run wb rq org_id run_id = org_route wb rq org_id None (\<lambda>ctx.
     ebind (owned_run (oc_org_id ctx) run_id) (\<lambda>run. query (\<lambda>d. \<lparr>rd_run = run,
       rd_steps = sort_key rs_index (filter (\<lambda>x. rs_run_id x = run_id) (db_run_steps d)),
       rd_artifacts = filter (\<lambda>x. at_run_id x = run_id) (db_artifacts d),
       rd_tool_calls = sort_key (\<lambda>x. tw_step_index x) (sort_key tw_call_index
          (filter (\<lambda>x. tw_run_id x = run_id) (db_tool_calls d)))\<rparr>)))"

definition list_artifacts :: "web \<Rightarrow> request \<Rightarrow> string \<Rightarrow> string \<Rightarrow> artifact_row list api" where
  "list_artifacts wb rq org_id run_id = org_route wb rq org_id None (\<lambda>ctx.
     ethen (owned_run (oc_org_id ctx) run_id)
     (query (\<lambda>d. sort_key at_path (sort_key (\<lambda>x. - int (at_version x)) (filter (\<lambda>x. at_run_id x = run_id) (db_artifacts d))))))"

text \<open>\<open>ident\<close> is the primary key the database gave each artifact row.\<close>

definition get_artifact :: "(artifact_row \<Rightarrow> string) \<Rightarrow> web \<Rightarrow> request \<Rightarrow> string \<Rightarrow> string \<Rightarrow> string \<Rightarrow> artifact_row api" where
  "get_artifact ident wb rq org_id run_id artifact_id = org_route wb rq org_id None (\<lambda>ctx.
     ethen (owned_run (oc_org_id ctx) run_id)
     (ebind (query (\<lambda>d. row_get ident artifact_id (db_artifacts d))) (\<lambda>found. case found of
        None \<Rightarrow> reject 404 ''artifact not found''
      | Some a \<Rightarrow> if at_run_id a \<noteq> run_id then reject 404 ''artifact not found'' else eret a)))"

definition list_tool_calls :: "web \<Rightarrow> request \<Rightarrow> string \<Rightarrow> string \<Rightarrow> tool_call_row list api" where
  "list_tool_calls wb rq org_id run_id = org_route wb rq org_id None (\<lambda>ctx.
     ethen (owned_run (oc_org_id ctx) run_id)
     (query (\<lambda>d. sort_key tw_step_index (sort_key tw_call_index (filter (\<lambda>x. tw_run_id x = run_id) (db_tool_calls d))))))"

text \<open>The guard in front of the live feed; \<open>feed\<close> is what the subscription of this client receives.\<close>

definition stream_endpoint :: "web \<Rightarrow> request \<Rightarrow> string \<Rightarrow> string \<Rightarrow> string option \<Rightarrow> (bool \<times> event) list \<Rightarrow> event list api" where
  "stream_endpoint wb rq org_id run_id last_event_id feed = org_route wb rq org_id None (\<lambda>ctx.
     ebind (owned_run (oc_org_id ctx) run_id) (\<lambda>run. eget (\<lambda>s.
       stream_run (bus_of (se_server s) run_id) last_event_id (is_terminal (rn_status run))
         [(''status'', JStr (rn_status run)), (''output'', jstr_opt (rn_output run)), (''error'', jstr_opt (rn_error run))] feed)))"

subsection \<open>Cancellation\<close>

definition cancel_run :: "web \<Rightarrow> request \<Rightarrow> string \<Rightarrow> string \<Rightarrow> run_row api" where
  "cancel_run wb rq org_id run_id = org_route wb rq org_id (Some ''member'') (\<lambda>ctx.
     ebind (owned_run (oc_org_id ctx) run_id) (\<lambda>run.
     if is_terminal (rn_status run) then eret run
     else
       ethen (write_db (set_run_row run_id (\<lambda>r. r\<lparr>rn_cancel_requested := True\<rparr>)))
       (ethen (with_bus run_id request_cancel)
       (ethen (if rn_status run = ''queued''
          then ethen (write_db (set_run_row run_id (\<lambda>r. r\<lparr>rn_status := ''cancelled'',
                   rn_error := Some ''cancelled before it started'', rn_finished_at := Some (wb_now wb 0)\<rparr>)))
                 (with_bus run_id (\<lambda>b. snd (emit b RUN_CANCELLED (wb_isoformat wb)
                   [(''status'', JStr ''cancelled''), (''error'', JStr ''cancelled before it started'')])))
          else eret ())
       (ebind (query (\<lambda>d. get_run_row d run_id)) (\<lambda>now. case now of
           None \<Rightarrow> eraise (Crash AttributeError)
         | Some r \<Rightarrow>
            ethen (audit ''run.cancelled'' (Some (oc_org_id ctx)) (Some (u_id (oc_user ctx))) (Some (''run'', run_id))
              (client_ip rq) None [(''previous_status'', JStr (rn_status r))]) (eret r)))))))"

subsection \<open>What a submission does\<close>

lemma owned_run_run: "ebind (owned_run org_id run_id) g s = (case get_run_row (se_db s) run_id of
    None \<Rightarrow> (Inl (HttpError 404 ''run not found'' None), s)
  | Some run \<Rightarrow> if rn_org_id run \<noteq> org_id then (Inl (HttpError 404 ''run not found'' None), s) else g run s)"
  by (simp add: owned_run_def ebind_def query_def eget_def reject_def eraise_def eret_def split: option.split)

lemma add_run_Inr: "add_run r d = (Inr u, d') \<longleftrightarrow>
    list_all (\<lambda>x. \<not> run_clash r x) (db_runs d) \<and> d' = d\<lparr>db_runs := db_runs d @ [r]\<rparr>"
  by (auto simp: add_run_def insert_row_Inr split: sum.splits)
    (auto simp: insert_row_def list_ex_iff list_all_iff split: if_splits)

lemma admit_run_same: "admit_run wb org_id s = (r, s') \<Longrightarrow> same_rows s s'"
proof -
  have "always same_rows (admit_run wb org_id)" unfolding admit_run_def
    by (intro rows.fr_bind rows.fr_then rows.fr_limiter rows.fr_need rows.fr_get)
  then show "admit_run wb org_id s = (r, s') \<Longrightarrow> same_rows s s'" by (rule alwaysD)
qed

lemma admit_run_slots:
  assumes "admit_run wb org_id s = (Inr (), s')"
  shows "slots_in_use (wb_time wb 2) (''runs:'' @ org_id) (sv_redis (se_server s')) < cfg_max_concurrent_runs_per_org (wb_settings wb)"
proof -
  have lim: "limiter_check wb 1 (''runs:'' @ org_id) l w s = (q, s1) \<Longrightarrow> \<exists>rl. q = Inr rl" for q s1 l w
    by (auto simp: limiter_check_def in_redis_def split: prod.splits)
  show ?thesis using assms
    by (auto simp: admit_run_def ebind_def need_def eget_def ethen_def eret_def eraise_def split: prod.splits sum.splits if_splits)
qed

lemma ensure_credit_same: "ensure_credit wb org_id km c s = (r, s') \<Longrightarrow> s' = s"
  by (auto simp: ensure_credit_def split: if_splits sum.splits billing_error.splits)

definition affordable :: "web \<Rightarrow> db \<Rightarrow> string \<Rightarrow> string \<Rightarrow> int \<Rightarrow> bool" where
  "affordable wb d org_id km c = (km = ''byok'' \<or> \<not> cfg_billing_enabled (wb_settings wb) \<or> c \<le> balance d org_id)"

lemma ensure_credit_Inr: "ensure_credit wb org_id km c s = (Inr (), s') \<Longrightarrow> affordable wb (se_db s) org_id km c"
  by (auto simp: ensure_credit_def affordable_def ensure_can_start_def balance_def
      split: if_splits sum.splits billing_error.splits option.splits)

text \<open>A new row with its job, or the row that won a lost race.\<close>

definition run_stored :: "run_row \<Rightarrow> server \<Rightarrow> server \<Rightarrow> bool" where
  "run_stored run sv sv' \<longleftrightarrow> list_all (\<lambda>x. \<not> run_clash run x) (db_runs (sv_db sv)) \<and>
     db_runs (sv_db sv') = db_runs (sv_db sv) @ [run] \<and>
     sv_queue sv' = enqueue_job \<lparr>jb_id = ''run:'' @ rn_id run, jb_run = rn_id run, jb_defer = 0\<rparr> (sv_queue sv)"

definition run_raced :: "web \<Rightarrow> string \<Rightarrow> string option \<Rightarrow> run_row \<Rightarrow> server \<Rightarrow> server \<Rightarrow> bool" where
  "run_raced wb org_id key run sv sv' \<longleftrightarrow> (\<exists>c. filter (same_key_run org_id key) (db_runs c) = [run] \<and>
     (c = sv_db sv \<or> c \<in> set (wb_races wb)) \<and> db_runs (sv_db sv') = db_runs c \<and> sv_queue sv' = sv_queue sv)"

lemma submit_run_Inr:
  assumes "submit_run wb rq ctx run s = (Inr out, s')" "se_db s = sv_db (se_server s)"
  shows "(out = run \<and> run_stored run (se_server s) (se_server s') \<and> se_db s' = sv_db (se_server s') \<and>
       sv_redis (se_server s') = sv_redis (se_server s)) \<or>
    (run_raced wb (oc_org_id ctx) (rn_idempotency_key run) out (se_server s) (se_server s') \<and> se_db s' = sv_db (se_server s'))"
proof -
  let ?k = "rn_idempotency_key run"
  obtain q s1 where f: "flush_run wb run s = (q, s1)" by (metis surj_pair)
  show ?thesis
  proof (cases q)
    case (Inr u)
    then have st: "list_all (\<lambda>x. \<not> run_clash run x) (db_runs (se_db s))" "s1 = s\<lparr>se_db := (se_db s)\<lparr>db_runs := db_runs (se_db s) @ [run]\<rparr>\<rparr>"
      using f by (auto simp: flush_run_def in_db_Inr add_run_Inr split: list.splits if_splits)
    have "out = run \<and> s' = (commit (snd (audit ''run.created'' (Some (oc_org_id ctx)) (Some (u_id (oc_user ctx))) (Some (''run'', rn_id run))
           (client_ip rq) None [(''workflow_id'', JStr (rn_workflow_id run)), (''key_mode'', JStr (rn_key_mode run))] s1)))
        \<lparr>se_server := (se_server (commit (snd (audit ''run.created'' (Some (oc_org_id ctx)) (Some (u_id (oc_user ctx))) (Some (''run'', rn_id run))
           (client_ip rq) None [(''workflow_id'', JStr (rn_workflow_id run)), (''key_mode'', JStr (rn_key_mode run))] s1))))
          \<lparr>sv_queue := enqueue_job \<lparr>jb_id = ''run:'' @ rn_id run, jb_run = rn_id run, jb_defer = 0\<rparr> (sv_queue (se_server s1))\<rparr>\<rparr>"
      using assms(1) f Inr by (auto simp: submit_run_def ecatch_def ethen_Inr ebind_def enqueue_def eret_def commit_def audit_run)
    then show ?thesis using st assms(2) by (simp add: run_stored_def commit_def audit_run audit_record_def)
  next
    case (Inl e)
    then have e: "e = Crash IntegrityError" and dup: "ethen (emod rollback)
              (ebind (select_one db_runs (same_key_run (oc_org_id ctx) ?k)) (\<lambda>duplicate.
               if duplicate \<noteq> None then eret duplicate else eraise e)) s1 = (Inr (Some out), s')"
      using assms(1) f by (auto simp: submit_run_def ecatch_def ethen_Inl ebind_def eraise_def eret_def select_one_def in_db_def
        ethen_def emod_def reject_def split: if_splits prod.splits sum.splits option.splits)
    obtain c where c: "sv_db (se_server s1) = c" "sv_queue (se_server s1) = sv_queue (se_server s)" "c = sv_db (se_server s) \<or> c \<in> set (wb_races wb)"
      using f Inl assms(2) by (auto simp: flush_run_def in_db_def add_run_def split: list.splits if_splits sum.splits prod.splits)
    have "filter (same_key_run (oc_org_id ctx) ?k) (db_runs c) = [out] \<and> s' = rollback s1"
      using dup c by (auto simp: select_one_run rollback_def one_or_none_Some split: sum.splits if_splits)
    then show ?thesis using c by (auto simp: run_raced_def rollback_def)
  qed
qed

text \<open>The three ways a submission answers with a run.\<close>

definition run_admitted :: "web \<Rightarrow> string \<Rightarrow> run_create \<Rightarrow> string option \<Rightarrow> run_row \<Rightarrow> server \<Rightarrow> bool" where
  "run_admitted wb org_id p hdr run sv \<longleftrightarrow> rn_org_id run = org_id \<and> rn_status run = ''queued'' \<and>
     rn_idempotency_key run = submit_key p hdr \<and> rn_input run = rc_input p \<and>
     (\<exists>flow. get_workflow_row (sv_db sv) (rn_workflow_id run) = Some flow \<and> wf_org_id flow = org_id \<and> wf_is_active flow \<and>
        (\<exists>ids. validate_graph (wf_preset flow) (wf_graph flow) = Inr ids) \<and>
        submission_ceiling (wb_settings wb) flow = Inr (rn_max_cost_cents run)) \<and>
     affordable wb (sv_db sv) org_id (rn_key_mode run) (rn_max_cost_cents run)"

lemma create_run_Inr:
  assumes "serve (create_run wb rq org_id p hdr) sv = (Inr run, sv')"
  shows "(submit_key p hdr \<notin> {None, Some []} \<and> filter (same_key_run org_id (submit_key p hdr)) (db_runs (sv_db sv)) = [run] \<and>
       sv_db sv' = sv_db sv \<and> sv_queue sv' = sv_queue sv)
    \<or> ((submit_key p hdr \<notin> {None, Some []} \<longrightarrow> filter (same_key_run org_id (submit_key p hdr)) (db_runs (sv_db sv)) = []) \<and>
       (run_stored run sv sv' \<and> run_admitted wb org_id p hdr run sv \<and>
          slots_in_use (wb_time wb 2) (''runs:'' @ org_id) (sv_redis sv') < cfg_max_concurrent_runs_per_org (wb_settings wb)
        \<or> run_raced wb org_id (submit_key p hdr) run sv sv'))"
proof -
  let ?k = "submit_key p hdr"
  obtain s' where s': "create_run wb rq org_id p hdr (get_session sv) = (Inr run, s')" "sv' = se_server (commit s')"
    using assms by (auto simp: serve_Inr commit_def)
  show ?thesis
  proof (rule org_route_cases [OF s'(1) [unfolded create_run_def]])
    fix e assume "Inr run = (Inl e :: http_error + run_row)"
    then show ?thesis by simp
  next
    fix user ctx s1
    assume s1: "same_rows (get_session sv) s1" and o1: "current_org org_id user s1 = (Inr ctx, s1)"
      and body: "ethen (need (run_create_ok p) (ValidationFailed ''body''))
     (ebind (query (\<lambda>d. get_workflow_row d (rc_workflow_id p))) (\<lambda>found.
      case found of
        None \<Rightarrow> reject 404 ''workflow not found''
      | Some flow \<Rightarrow>
         if wf_org_id flow \<noteq> oc_org_id ctx \<or> \<not> wf_is_active flow then reject 404 ''workflow not found''
         else (case validate_graph (wf_preset flow) (wf_graph flow) of
           Inl (WorkflowConfigError e) \<Rightarrow> reject 422 (config_text e)
         | Inl e \<Rightarrow> eraise (Crash e)
         | Inr _ \<Rightarrow> submit_once wb rq ctx p (submit_key p hdr) flow))) s1 = (Inr run, s')"
    have oid: "oc_org_id ctx = org_id" by (rule oc_org_id_eq [OF o1])
    have db: "se_db s1 = sv_db sv" "sv_db (se_server s1) = sv_db sv" "sv_queue (se_server s1) = sv_queue sv"
      using same_rowsD [OF s1] by (simp_all add: get_session_def)
    obtain flow ids where flow: "get_workflow_row (sv_db sv) (rc_workflow_id p) = Some flow" "wf_org_id flow = org_id" "wf_is_active flow"
        "validate_graph (wf_preset flow) (wf_graph flow) = Inr ids"
      using body by (auto simp: db oid split: if_splits option.splits sum.splits exn.splits)
    have run1: "submit_once wb rq ctx p ?k flow s1 = (Inr run, s')" using body flow by (simp add: db oid split: if_splits)
    define km where "km = (case text_or (rc_key_mode p) (Some (o_key_mode (oc_org ctx))) of Some m \<Rightarrow> m | None \<Rightarrow> [])"
    show ?thesis
    proof (cases "?k \<notin> {None, Some []} \<and> filter (same_key_run org_id ?k) (db_runs (sv_db sv)) \<noteq> []")
      case True
      with run1 have "filter (same_key_run org_id ?k) (db_runs (sv_db sv)) = [run] \<and> s' = s1"
        by (cases "one_or_none (filter (same_key_run org_id ?k) (db_runs (sv_db sv)))")
          (auto simp: submit_once_def select_one_run db oid one_or_none_Some one_or_none_None split: option.splits)
      then show ?thesis using True s'(2) db by (auto simp: commit_def)
    next
      case False
      have "accept_run wb rq ctx p ?k flow s1 = (Inr run, s')"
      proof (cases "?k \<notin> {None, Some []}")
        case True
        then have "filter (same_key_run org_id ?k) (db_runs (sv_db sv)) = []" using False by blast
        with run1 True show ?thesis by (simp add: submit_once_def select_one_run db oid)
      next
        case False
        then have "\<not> (?k \<noteq> None \<and> ?k \<noteq> Some [])" by auto
        with run1 show ?thesis unfolding submit_once_def by (simp only: if_False ebind_simps option.case)
      qed
      then obtain s2 where s2: "admit_run wb org_id s1 = (Inr (), s2)"
          "(case submission_ceiling (wb_settings wb) flow of
                   Inl e \<Rightarrow> eraise (Crash e)
                 | Inr cents \<Rightarrow> ethen (ensure_credit wb (oc_org_id ctx) km cents)
                      (submit_run wb rq ctx (new_run wb ctx p ?k km cents))) s2 = (Inr run, s')"
        unfolding accept_run_def Let_def km_def [symmetric] by (auto simp: ethen_eq_Inr oid)
      then obtain cents where c: "submission_ceiling (wb_settings wb) flow = Inr cents" by (auto split: sum.splits)
      then obtain s3 where s3: "ensure_credit wb org_id km cents s2 = (Inr (), s3)"
          "submit_run wb rq ctx (new_run wb ctx p ?k km cents) s3 = (Inr run, s')"
        using s2(2) by (auto simp: ethen_eq_Inr oid)
      have "s3 = s2" by (rule ensure_credit_same [OF s3(1)])
      have db2: "se_db s2 = sv_db sv" "sv_db (se_server s2) = sv_db sv" "sv_queue (se_server s2) = sv_queue sv"
        using same_rowsD [OF admit_run_same [OF s2(1)]] db by simp_all
      have aff: "affordable wb (sv_db sv) org_id km cents" using ensure_credit_Inr [OF s3(1)] db2 by simp
      have sub: "submit_run wb rq ctx (new_run wb ctx p ?k km cents) s2 = (Inr run, s')" using s3(2) \<open>s3 = s2\<close> by simp
      from submit_run_Inr [OF sub] db2 consider
          (new) "run = new_run wb ctx p ?k km cents" "run_stored run (se_server s2) (se_server s')" "sv_redis (se_server s') = sv_redis (se_server s2)"
            "se_db s' = sv_db (se_server s')"
        | (raced) "run_raced wb (oc_org_id ctx) ?k run (se_server s2) (se_server s')" "se_db s' = sv_db (se_server s')"
        by (auto simp: new_run_def)
      then show ?thesis
      proof cases
        case new
        have "run_stored run sv sv'" using new db2 s'(2) by (simp add: run_stored_def commit_def)
        moreover have "run_admitted wb org_id p hdr run sv"
          using flow c aff new(1) by (auto simp: run_admitted_def new_run_def oid)
        moreover have "sv_redis sv' = sv_redis (se_server s2)" using new(3) s'(2) by (simp add: commit_def)
        ultimately show ?thesis using admit_run_slots [OF s2(1)] False by auto
      next
        case raced
        then have "run_raced wb org_id ?k run sv sv'" using db2 s'(2) by (auto simp: run_raced_def commit_def oid)
        then show ?thesis using False by blast
      qed
    qed
  qed
qed

subsection \<open>What a cancellation does\<close>

lemma bus_of_with: "bus_of (sv\<lparr>sv_buses := dset i b bs\<rparr>) j = (if i = j then b else dget_or bs j (new_bus j))"
  by (simp add: bus_of_def)

lemma with_bus_run: "ethen (with_bus i f) n s = n (s\<lparr>se_server := (se_server s)\<lparr>sv_buses := dset i (f (bus_of (se_server s) i))
     (sv_buses (se_server s))\<rparr>\<rparr>)"
  "with_bus i f s = (Inr (), s\<lparr>se_server := (se_server s)\<lparr>sv_buses := dset i (f (bus_of (se_server s) i)) (sv_buses (se_server s))\<rparr>\<rparr>)"
  by (simp_all add: with_bus_def)

lemma cancel_emit: "is_cancelled (snd (emit (request_cancel b) ty ts pl))" "is_cancelled (request_cancel b)"
  "ev_type (last (bus_published (snd (emit b2 ty ts pl)))) = ty" "bus_published (snd (emit b2 ty ts pl)) \<noteq> []"
  by (simp_all add: is_cancelled_def request_cancel_def emit_def Let_def)

definition cancelled_row :: "web \<Rightarrow> run_row \<Rightarrow> run_row" where
  "cancelled_row wb r = (if rn_status r = ''queued''
     then r\<lparr>rn_cancel_requested := True, rn_status := ''cancelled'', rn_error := Some ''cancelled before it started'',
            rn_finished_at := Some (wb_now wb 0)\<rparr>
     else r\<lparr>rn_cancel_requested := True\<rparr>)"

lemma get_run_audit: "get_run_row (audit_record e d) i = get_run_row d i" "db_runs (audit_record e d) = db_runs d"
  by (simp_all add: get_run_row_def audit_record_def)

lemma cancel_run_Inr:
  assumes "serve (cancel_run wb rq org_id run_id) sv = (Inr run, sv')"
  shows "\<exists>r0. get_run_row (sv_db sv) run_id = Some r0 \<and> rn_org_id r0 = org_id \<and>
    (if is_terminal (rn_status r0) then run = r0 \<and> sv_db sv' = sv_db sv \<and> sv_buses sv' = sv_buses sv
     else run = cancelled_row wb r0 \<and> get_run_row (sv_db sv') run_id = Some run \<and>
       is_cancelled (bus_of sv' run_id) \<and>
       (rn_status r0 = ''queued'' \<longrightarrow> ev_type (last (bus_published (bus_of sv' run_id))) = RUN_CANCELLED) \<and>
       (\<forall>i. i \<noteq> run_id \<longrightarrow> get_run_row (sv_db sv') i = get_run_row (sv_db sv) i))"
proof -
  obtain s' where s': "cancel_run wb rq org_id run_id (get_session sv) = (Inr run, s')" "sv' = se_server (commit s')"
    using assms by (auto simp: serve_Inr commit_def)
  show ?thesis
  proof (rule org_route_cases [OF s'(1) [unfolded cancel_run_def]])
    fix user :: user_row and ctx :: org_context and s1 :: session
    let ?audit = "\<lambda>r :: run_row. ethen (audit ''run.cancelled'' (Some (oc_org_id ctx)) (Some (u_id (oc_user ctx))) (Some (''run'', run_id))
              (client_ip rq) None [(''previous_status'', JStr (rn_status r))]) (eret r)"
    let ?fin = "ebind (query (\<lambda>d. get_run_row d run_id)) (\<lambda>now. case now of
           None \<Rightarrow> eraise (Crash AttributeError) | Some r \<Rightarrow> ?audit r)"
    assume s1: "same_rows (get_session sv) s1" and o1: "current_org org_id user s1 = (Inr ctx, s1)"
      and body: "ebind (owned_run (oc_org_id ctx) run_id) (\<lambda>run.
     if is_terminal (rn_status run) then eret run
     else
       ethen (write_db (set_run_row run_id (\<lambda>r. r\<lparr>rn_cancel_requested := True\<rparr>)))
       (ethen (with_bus run_id request_cancel)
       (ethen (if rn_status run = ''queued''
          then ethen (write_db (set_run_row run_id (\<lambda>r. r\<lparr>rn_status := ''cancelled'',
                   rn_error := Some ''cancelled before it started'', rn_finished_at := Some (wb_now wb 0)\<rparr>)))
                 (with_bus run_id (\<lambda>b. snd (emit b RUN_CANCELLED (wb_isoformat wb)
                   [(''status'', JStr ''cancelled''), (''error'', JStr ''cancelled before it started'')])))
          else eret ()) ?fin))) s1 = (Inr run, s')"
    have oid: "oc_org_id ctx = org_id" by (rule oc_org_id_eq [OF o1])
    have db: "se_db s1 = sv_db sv" "sv_db (se_server s1) = sv_db sv" "sv_buses (se_server s1) = sv_buses sv"
      using same_rowsD [OF s1] by (simp_all add: get_session_def)
    obtain r0 where r0: "get_run_row (sv_db sv) run_id = Some r0" "rn_org_id r0 = org_id"
      using body by (auto simp: owned_run_run db oid split: option.splits if_splits)
    show ?thesis
    proof (cases "is_terminal (rn_status r0)")
      case True
      with body r0 have "run = r0 \<and> s' = s1" by (auto simp: owned_run_run db oid)
      then show ?thesis using r0 True s'(2) db by (auto simp: commit_def)
    next
      case False
      show ?thesis
      proof (cases "rn_status r0 = ''queued''")
        case True
        with body r0 False have "run = cancelled_row wb r0 \<and> get_run_row (se_db s') run_id = Some run \<and>
            is_cancelled (bus_of (se_server s') run_id) \<and>
            ev_type (last (bus_published (bus_of (se_server s') run_id))) = RUN_CANCELLED \<and>
            (\<forall>i. i \<noteq> run_id \<longrightarrow> get_run_row (se_db s') i = get_run_row (sv_db sv) i)"
          by (auto simp: owned_run_run db oid with_bus_run ethen_assoc get_run_set audit_run get_run_audit cancelled_row_def
            bus_of_with cancel_emit)
        then show ?thesis using r0 False s'(2) by (auto simp: commit_def bus_of_def)
      next
        case nq: False
        with body r0 False have "run = cancelled_row wb r0 \<and> get_run_row (se_db s') run_id = Some run \<and>
            is_cancelled (bus_of (se_server s') run_id) \<and>
            (\<forall>i. i \<noteq> run_id \<longrightarrow> get_run_row (se_db s') i = get_run_row (sv_db sv) i)"
          by (auto simp: owned_run_run db oid with_bus_run ethen_assoc get_run_set audit_run get_run_audit cancelled_row_def
            bus_of_with cancel_emit)
        then show ?thesis using r0 False nq s'(2) by (auto simp: commit_def bus_of_def)
      qed
    qed
  qed simp
qed

end
