(* ===== verification/Worker.thy ===== *)
theory Worker
  imports Runs_Api
begin

text \<open>
  \<^verbatim>\<open>worker/main.py\<close>: the job that executes a run under a concurrency slot of its organisation, and the
  periodic jobs. Clock readings of Redis and the outside of the execution are arguments.
\<close>

definition slot_ttl :: "settings \<Rightarrow> int" where
  "slot_ttl cfg = cfg_run_timeout_seconds cfg + 300"

definition retry_job :: "string \<Rightarrow> job" where
  "retry_job run_id = \<lparr>jb_id = ''run:'' @ run_id @ '':retry'', jb_run = run_id, jb_defer = 15\<rparr>"

definition run_workflow :: "outside \<Rightarrow> rat \<Rightarrow> rat \<Rightarrow> string \<Rightarrow> server \<Rightarrow> unit res \<times> server" where
  "run_workflow xo t0 t1 run_id sv = (case get_run_row (sv_db sv) run_id of
     None \<Rightarrow> (Inr (), sv)
   | Some run \<Rightarrow>
       if rn_status run \<noteq> ''queued'' then (Inr (), sv)
       else let cfg = xo_settings xo; bucket = ''runs:'' @ rn_org_id run in
         case acquire_slot t0 bucket (cfg_max_concurrent_runs_per_org cfg) (slot_ttl cfg) (sv_redis sv) of
           (False, rd) \<Rightarrow> (Inr (), sv\<lparr>sv_redis := rd, sv_queue := enqueue_job (retry_job run_id) (sv_queue sv)\<rparr>)
         | (True, rd) \<Rightarrow>
             (case execute_run xo run_id (sv_db sv, bus_of sv run_id) of
                (r, d, b) \<Rightarrow> (r, sv\<lparr>sv_db := d, sv_buses := dset run_id b (sv_buses sv),
                   sv_redis := release_slot t1 bucket rd\<rparr>)))"

text \<open>The sweep of orphaned runs, with the event of each on its bus.\<close>

definition reap_orphans :: "settings \<Rightarrow> time \<Rightarrow> string \<Rightarrow> server \<Rightarrow> server" where
  "reap_orphans cfg now ts sv = (case mark_orphaned_runs now (slot_ttl cfg) (sv_db sv) of
     ((n, found), d) \<Rightarrow> fold (\<lambda>(i, payload) sv. sv\<lparr>sv_buses := dset i (snd (emit (bus_of sv i) RUN_ERROR ts payload)) (sv_buses sv)\<rparr>)
       found (sv\<lparr>sv_db := d\<rparr>))"

subsection \<open>Re-deriving the slot counters\<close>

definition SLOT_PREFIX :: string where
  "SLOT_PREFIX = ''slots:runs:''"

definition running_of :: "db \<Rightarrow> string \<Rightarrow> int" where
  "running_of d org_id = int (length (filter (\<lambda>r. rn_status r = ''running'' \<and> rn_org_id r = org_id) (db_runs d)))"

definition correct_slot :: "rat \<Rightarrow> int \<Rightarrow> db \<Rightarrow> string \<Rightarrow> redis \<Rightarrow> redis" where
  "correct_slot now ttl d key rd = (
     let org_id = drop (length SLOT_PREFIX) key; expected = running_of d org_id in
     if slots_in_use now (''runs:'' @ org_id) rd > expected then rd_put key expected (Some (now + of_int ttl)) rd else rd)"

definition slot_keys :: "rat \<Rightarrow> redis \<Rightarrow> string list" where
  "slot_keys now rd = filter (\<lambda>k. take (length SLOT_PREFIX) k = SLOT_PREFIX \<and> rd_get now k rd \<noteq> None) (dkeys (rd_counters rd))"

definition release_stale_slots :: "rat \<Rightarrow> int \<Rightarrow> db \<Rightarrow> redis \<Rightarrow> redis" where
  "release_stale_slots now ttl d rd = fold (correct_slot now ttl d) (slot_keys now rd) rd"

subsection \<open>The slots held by running jobs\<close>

text \<open>
  The workers of a deployment: the clock, Redis, and the jobs that hold a slot with the instant they
  took it. A job is stopped after \<open>jobmax\<close> seconds (\<open>job_timeout\<close>), and releases its slot on every
  way out.
\<close>

record slots =
  sl_now :: rat
  sl_redis :: redis
  sl_held :: "(string \<times> rat) list"

definition in_time :: "int \<Rightarrow> rat \<Rightarrow> slots \<Rightarrow> bool" where
  "in_time jobmax t s \<longleftrightarrow> sl_now s \<le> t \<and> list_all (\<lambda>h. t \<le> snd h + of_int jobmax) (sl_held s)"

inductive slot_step :: "int \<Rightarrow> int \<Rightarrow> int \<Rightarrow> slots \<Rightarrow> slots \<Rightarrow> bool" for limit ttl jobmax :: int where
  slot_taken: "in_time jobmax t s \<Longrightarrow> acquire_slot t b limit ttl (sl_redis s) = (True, rd) \<Longrightarrow>
     slot_step limit ttl jobmax s \<lparr>sl_now = t, sl_redis = rd, sl_held = (b, t) # sl_held s\<rparr>"
| slot_refused: "in_time jobmax t s \<Longrightarrow> acquire_slot t b limit ttl (sl_redis s) = (False, rd) \<Longrightarrow>
     slot_step limit ttl jobmax s \<lparr>sl_now = t, sl_redis = rd, sl_held = sl_held s\<rparr>"
| slot_dropped: "in_time jobmax t s \<Longrightarrow> (b, a) \<in> set (sl_held s) \<Longrightarrow>
     slot_step limit ttl jobmax s \<lparr>sl_now = t, sl_redis = release_slot t b (sl_redis s), sl_held = remove1 (b, a) (sl_held s)\<rparr>"

definition held_by :: "string \<Rightarrow> slots \<Rightarrow> int" where
  "held_by b s = int (length (filter (\<lambda>h. fst h = b) (sl_held s)))"

text \<open>A counter equals the jobs that hold a slot, and does not expire before the last of them must have ended.\<close>

definition counter_ok :: "int \<Rightarrow> slots \<Rightarrow> string \<Rightarrow> bool" where
  "counter_ok ttl s b \<longleftrightarrow> (case dget (rd_counters (sl_redis s)) (''slots:'' @ b) of
     None \<Rightarrow> held_by b s = 0
   | Some c \<Rightarrow> (if held_by b s = 0
       then ck_value c = 0 \<or> (\<exists>D. ck_deadline c = Some D \<and> D \<le> sl_now s)
       else ck_value c = held_by b s \<and> (case ck_deadline c of None \<Rightarrow> True
         | Some D \<Rightarrow> (\<forall>h \<in> set (sl_held s). fst h = b \<longrightarrow> snd h + of_int ttl \<le> D))))"

definition slots_ok :: "int \<Rightarrow> int \<Rightarrow> slots \<Rightarrow> bool" where
  "slots_ok limit ttl s \<longleftrightarrow> (\<forall>b. counter_ok ttl s b \<and> held_by b s \<le> max 0 limit) \<and> (\<forall>h \<in> set (sl_held s). snd h \<le> sl_now s)"

lemma slots_ok_start: "slots_ok limit ttl \<lparr>sl_now = t, sl_redis = empty_redis, sl_held = []\<rparr>"
  by (simp add: slots_ok_def counter_ok_def held_by_def empty_redis_def)

lemma counter_value:
  assumes "counter_ok ttl s b" "in_time jobmax t s" "jobmax < ttl"
  shows "rd_value t (''slots:'' @ b) (sl_redis s) = held_by b s"
proof (cases "dget (rd_counters (sl_redis s)) (''slots:'' @ b)")
  case None
  then show ?thesis using assms(1) by (simp add: counter_ok_def rd_value_def rd_get_def)
next
  case (Some c)
  show ?thesis
  proof (cases "held_by b s = 0")
    case True
    then show ?thesis using assms Some by (auto simp: counter_ok_def rd_value_def rd_get_def in_time_def split: option.splits)
  next
    case False
    then have "filter (\<lambda>h. fst h = b) (sl_held s) \<noteq> []" by (auto simp: held_by_def)
    then obtain h where h: "h \<in> set (sl_held s)" "fst h = b" by (auto simp: filter_empty_conv)
    have "t \<le> snd h + of_int jobmax" using assms(2) h(1) by (auto simp: in_time_def list_all_iff)
    also have "\<dots> < snd h + of_int ttl" using assms(3) by simp
    finally have "t < snd h + of_int ttl" .
    then show ?thesis using assms(1) Some False h
      by (fastforce simp: counter_ok_def rd_value_def rd_get_def split: option.splits)
  qed
qed

lemma counter_later: "counter_ok ttl s b \<Longrightarrow> sl_now s \<le> t \<Longrightarrow> counter_ok ttl (s\<lparr>sl_now := t\<rparr>) b"
  by (auto simp: counter_ok_def held_by_def split: option.splits if_splits)

lemma counter_put:
  assumes "counter_ok ttl s b'" "b' \<noteq> b" "filter (\<lambda>h. fst h = b') hs = filter (\<lambda>h. fst h = b') (sl_held s)" "sl_now s \<le> t"
  shows "counter_ok ttl \<lparr>sl_now = t, sl_redis = rd_put (''slots:'' @ b) v dl (sl_redis s), sl_held = hs\<rparr> b'"
proof -
  have "h \<in> set hs \<and> fst h = b' \<longleftrightarrow> h \<in> set (sl_held s) \<and> fst h = b'" for h
    using arg_cong [OF assms(3), of set] by auto
  then have same: "(\<forall>h \<in> set hs. fst h = b' \<longrightarrow> Q h) = (\<forall>h \<in> set (sl_held s). fst h = b' \<longrightarrow> Q h)" for Q by blast
  have key: "dget (rd_counters (rd_put (''slots:'' @ b) v dl (sl_redis s))) (''slots:'' @ b') = dget (rd_counters (sl_redis s)) (''slots:'' @ b')"
    using assms(2) by (simp add: rd_put_def)
  have n: "held_by b' \<lparr>sl_now = t, sl_redis = r, sl_held = hs\<rparr> = held_by b' s" for r by (simp add: held_by_def assms(3))
  have "counter_ok ttl (s\<lparr>sl_now := t\<rparr>) b'" by (rule counter_later [OF assms(1,4)])
  then show ?thesis unfolding counter_ok_def n slots.select_convs key same
    by (cases "dget (rd_counters (sl_redis s)) (''slots:'' @ b')") (simp_all add: held_by_def split: if_splits option.splits)
qed

lemma slot_step_ok:
  assumes "slot_step limit ttl jobmax s s'" "slots_ok limit ttl s" "jobmax < ttl"
  shows "slots_ok limit ttl s'"
  using assms
proof (cases rule: slot_step.cases)
  case (slot_taken t b rd)
  have cnt: "counter_ok ttl s b" "held_by b s \<le> max 0 limit" for b using assms(2) by (auto simp: slots_ok_def)
  note val = counter_value [OF cnt(1) slot_taken(2) assms(3)]
  have rd: "rd = rd_put (''slots:'' @ b) (held_by b s + 1) (Some (t + of_int ttl)) (sl_redis s)" "held_by b s < limit"
    using slot_taken(3) val [of b] by (auto simp: acquire_slot_def Let_def split: if_splits)
  have old: "\<forall>h \<in> set (sl_held s). snd h \<le> t" "sl_now s \<le> t"
    using assms(2) slot_taken(2) by (auto simp: slots_ok_def in_time_def)
  have "counter_ok ttl s' b'" for b'
  proof (cases "b' = b")
    case True
    have "held_by b s' = held_by b s + 1" "held_by b s \<ge> 0" by (simp_all add: slot_taken(1) held_by_def)
    then show ?thesis using True old by (auto simp: slot_taken(1) rd(1) counter_ok_def rd_put_def)
  next
    case False
    then show ?thesis unfolding slot_taken(1) rd(1) using cnt(1) old by (intro counter_put) auto
  qed
  moreover have "held_by b' s' \<le> max 0 limit" for b'
    using cnt(2) [of b'] rd(2) by (auto simp: slot_taken(1) held_by_def)
  ultimately show ?thesis using old by (auto simp: slots_ok_def slot_taken(1))
next
  case (slot_refused t b rd)
  then have "s' = s\<lparr>sl_now := t\<rparr>" "sl_now s \<le> t"
    by (auto simp: acquire_slot_def Let_def in_time_def split: if_splits)
  then show ?thesis using assms(2) counter_later [of ttl s]
    by (auto simp: slots_ok_def held_by_def)
next
  case (slot_dropped t b a)
  have cnt: "counter_ok ttl s b" "held_by b s \<le> max 0 limit" for b using assms(2) by (auto simp: slots_ok_def)
  note val = counter_value [OF cnt(1) slot_dropped(2) assms(3)]
  have old: "\<forall>h \<in> set (sl_held s). snd h \<le> t" "sl_now s \<le> t"
    using assms(2) slot_dropped(2) by (auto simp: slots_ok_def in_time_def)
  have held: "held_by b s' = held_by b s - 1"
  proof -
    have "filter (\<lambda>h. fst h = b) (remove1 (b, a) (sl_held s)) = remove1 (b, a) (filter (\<lambda>h. fst h = b) (sl_held s))"
      by (simp add: filter_remove1)
    moreover have "(b, a) \<in> set (filter (\<lambda>h. fst h = b) (sl_held s))" using slot_dropped(3) by simp
    moreover from this have "0 < length (filter (\<lambda>h. fst h = b) (sl_held s))" by (rule length_pos_if_in_set)
    ultimately show ?thesis by (simp add: slot_dropped(1) held_by_def length_remove1 of_nat_diff Suc_leI)
  qed
  have pos: "0 < held_by b s"
    using slot_dropped(3) by (force simp: held_by_def filter_empty_conv)
  have other: "filter (\<lambda>h. fst h = b') (remove1 (b, a) (sl_held s)) = filter (\<lambda>h. fst h = b') (sl_held s)" if "b' \<noteq> b" for b'
    using that by (simp add: filter_remove1 remove1_idem)
  have rel: "release_slot t b (sl_redis s) = rd_put (''slots:'' @ b) (held_by b s - 1) (rd_deadline t (''slots:'' @ b) (sl_redis s)) (sl_redis s)"
    using val [of b] pos by (simp add: release_slot_def Let_def)
  obtain c where c: "dget (rd_counters (sl_redis s)) (''slots:'' @ b) = Some c" "ck_value c = held_by b s"
      "case ck_deadline c of None \<Rightarrow> True | Some D \<Rightarrow> (\<forall>h \<in> set (sl_held s). fst h = b \<longrightarrow> snd h + of_int ttl \<le> D)"
    using cnt(1) [of b] pos by (auto simp: counter_ok_def split: option.splits)
  have dl: "rd_deadline t (''slots:'' @ b) (sl_redis s) = ck_deadline c"
    using val [of b] pos c(1) by (auto simp: rd_deadline_def rd_value_def split: option.splits)
  have "counter_ok ttl s' b'" for b'
  proof (cases "b' = b")
    case True
    have "h \<in> set (remove1 (b, a) (sl_held s)) \<Longrightarrow> h \<in> set (sl_held s)" for h by (rule subsetD [OF set_remove1_subset])
    then show ?thesis using True held c(3)
      by (auto simp: counter_ok_def slot_dropped(1) rel [unfolded dl] rd_put_def split: option.splits)
  next
    case False
    then show ?thesis unfolding slot_dropped(1) rel using cnt(1) old other by (intro counter_put) auto
  qed
  moreover have "held_by b' s' \<le> max 0 limit" for b'
    using cnt(2) [of b'] held other [of b'] by (cases "b' = b") (auto simp: slot_dropped(1) held_by_def)
  moreover have "\<forall>h \<in> set (sl_held s'). snd h \<le> sl_now s'"
    using old set_remove1_subset [of "(b, a)" "sl_held s"] by (auto simp: slot_dropped(1))
  ultimately show ?thesis by (simp add: slots_ok_def)
qed

lemma slot_steps_ok:
  "(slot_step limit ttl jobmax)\<^sup>*\<^sup>* s s' \<Longrightarrow> slots_ok limit ttl s \<Longrightarrow> jobmax < ttl \<Longrightarrow> slots_ok limit ttl s'"
  by (induction rule: rtranclp_induct) (auto intro: slot_step_ok)

text \<open>
  What the sweep leaves in a counter. The claim of a run is part of the transaction that executes it, so
  a sweep that meets running jobs sees no \<open>running\<close> row of theirs and drops the counter to zero.
\<close>

lemma correct_slot_value:
  assumes "0 < ttl"
  shows "slots_in_use now (''runs:'' @ org_id) (correct_slot now ttl d (SLOT_PREFIX @ org_id) rd)
    = min (slots_in_use now (''runs:'' @ org_id) rd) (running_of d org_id)"
proof -
  have "\<not> now + rat_of_int ttl \<le> now" using assms by simp
  then show ?thesis
    by (auto simp: correct_slot_def Let_def slots_in_use_def SLOT_PREFIX_def rd_value_put min_def)
qed

lemma running_of_none: "list_all (\<lambda>r. rn_status r \<noteq> ''running'') (db_runs d) \<Longrightarrow> running_of d org_id = 0"
  by (simp add: running_of_def list_all_iff)

subsection \<open>What a job does\<close>

lemma job_skips:
  "get_run_row (sv_db sv) i = Some r \<Longrightarrow> rn_status r \<noteq> ''queued'' \<Longrightarrow> run_workflow xo t0 t1 i sv = (Inr (), sv)"
  by (simp add: run_workflow_def)

text \<open>A job that takes a slot gives it back, whatever the execution does.\<close>

lemma job_returns_slot:
  assumes "get_run_row (sv_db sv) i = Some r" "rn_status r = ''queued''"
    "slots_in_use t0 (''runs:'' @ rn_org_id r) (sv_redis sv) < cfg_max_concurrent_runs_per_org (xo_settings xo)"
  shows "snd (run_workflow xo t0 t1 i sv) = (case execute_run xo i (sv_db sv, bus_of sv i) of (q, d, b) \<Rightarrow>
    sv\<lparr>sv_db := d, sv_buses := dset i b (sv_buses sv), sv_redis := release_slot t1 (''runs:'' @ rn_org_id r)
      (snd (acquire_slot t0 (''runs:'' @ rn_org_id r) (cfg_max_concurrent_runs_per_org (xo_settings xo)) (slot_ttl (xo_settings xo)) (sv_redis sv)))\<rparr>)"
  using assms by (simp add: run_workflow_def Let_def acquire_slot_def slots_in_use_def split: prod.split)

end
