(* ===== verification/Crypto.thy ===== *)
theory Crypto
  imports Config Models "HOL-Library.Word"
begin

text \<open>
  \<^verbatim>\<open>core/crypto.py\<close> and \<^verbatim>\<open>scripts/rotate_keys.py\<close>: the envelope around stored provider keys and its
  rotation. Base64 and UTF-8 are those of the standard library; the AEAD cipher and the random
  source are libraries and are fields of \<open>cipher\<close>, each random draw with its own index.
\<close>

type_synonym byte = "8 word"
type_synonym bytes = "byte list"

record cipher =
  ci_encrypt :: "bytes \<Rightarrow> bytes \<Rightarrow> bytes \<Rightarrow> bytes \<Rightarrow> bytes res"
  ci_decrypt :: "bytes \<Rightarrow> bytes \<Rightarrow> bytes \<Rightarrow> bytes \<Rightarrow> bytes res"
  ci_urandom :: "nat \<Rightarrow> nat \<Rightarrow> bytes"

subsection \<open>Bytes\<close>

definition utf8_char :: "char \<Rightarrow> bytes" where
  "utf8_char c = (let n = code_of c in if n < 128 then [word_of_nat n] else [word_of_nat (192 + n div 64), word_of_nat (128 + n mod 64)])"

definition utf8_encode :: "string \<Rightarrow> bytes" where
  "utf8_encode s = concat (map utf8_char s)"

definition continuation :: "byte \<Rightarrow> bool" where
  "continuation b = (unat b div 64 = 2)"

text \<open>Strict decoding. A code point outside the alphabet of the model is \<open>sub_char\<close>.\<close>

definition decode_error :: exn where
  "decode_error = OtherError ''UnicodeDecodeError''"

fun utf8_decode :: "bytes \<Rightarrow> string res" where
  "utf8_decode [] = Inr []"
| "utf8_decode (a # bs) = (let n = unat a in
     if n < 128 then rbind (utf8_decode bs) (\<lambda>s. Inr (char_of n # s))
     else if 194 \<le> n \<and> n < 224 then (case bs of
         b # r \<Rightarrow> if continuation b
            then rbind (utf8_decode r) (\<lambda>s. Inr ((if n < 196 then char_of ((n - 192) * 64 + unat b mod 64) else sub_char) # s))
            else Inl decode_error
       | [] \<Rightarrow> Inl decode_error)
     else if 224 \<le> n \<and> n < 240 then (case bs of
         b # c # r \<Rightarrow> if continuation b \<and> continuation c \<and> (n = 224 \<longrightarrow> 160 \<le> unat b) \<and> (n = 237 \<longrightarrow> unat b < 160)
            then rbind (utf8_decode r) (\<lambda>s. Inr (sub_char # s)) else Inl decode_error
       | _ \<Rightarrow> Inl decode_error)
     else if 240 \<le> n \<and> n < 245 then (case bs of
         b # c # d # r \<Rightarrow> if continuation b \<and> continuation c \<and> continuation d \<and> (n = 240 \<longrightarrow> 144 \<le> unat b) \<and> (n = 244 \<longrightarrow> unat b < 144)
            then rbind (utf8_decode r) (\<lambda>s. Inr (sub_char # s)) else Inl decode_error
       | _ \<Rightarrow> Inl decode_error)
     else Inl decode_error)"

definition b64_alphabet :: string where
  "b64_alphabet = ''ABCDEFGHIJKLMNOPQRSTUVWXYZabcdefghijklmnopqrstuvwxyz0123456789+/''"

definition b64_char :: "nat \<Rightarrow> char" where
  "b64_char n = b64_alphabet ! n"

definition b64_val :: "char \<Rightarrow> nat option" where
  "b64_val c = (let n = length (takeWhile (\<lambda>x. x \<noteq> c) b64_alphabet) in if n < 64 then Some n else None)"

fun b64e :: "bytes \<Rightarrow> string" where
  "b64e [] = []"
| "b64e [a] = [b64_char (unat a div 4), b64_char (unat a mod 4 * 16), CHR ''='', CHR ''='']"
| "b64e [a, b] = [b64_char (unat a div 4), b64_char (unat a mod 4 * 16 + unat b div 16), b64_char (unat b mod 16 * 4), CHR ''='']"
| "b64e (a # b # c # r) = b64_char (unat a div 4) # b64_char (unat a mod 4 * 16 + unat b div 16)
     # b64_char (unat b mod 16 * 4 + unat c div 64) # b64_char (unat c mod 64) # b64e r"

text \<open>
  The decoder of the standard library: characters outside the alphabet are skipped, a complete pad
  ends the input, an incomplete group is an error. The position in the group of four, the bits left
  over and the pads seen.
\<close>

definition b64_error :: exn where
  "b64_error = OtherError ''Error''"

fun b64_scan :: "nat \<Rightarrow> nat \<Rightarrow> nat \<Rightarrow> string \<Rightarrow> bytes res" where
  "b64_scan q l pads [] = (if q = 0 then Inr [] else Inl b64_error)"
| "b64_scan q l pads (c # cs) = (
     if c = CHR ''='' then
       (if 2 \<le> q \<and> 4 \<le> q + pads + 1 then Inr [] else b64_scan q l (if 2 \<le> q then pads + 1 else pads) cs)
     else (case b64_val c of
       None \<Rightarrow> b64_scan q l pads cs
     | Some v \<Rightarrow>
         if q = 0 then b64_scan 1 v 0 cs
         else if q = 1 then rbind (b64_scan 2 (v mod 16) 0 cs) (\<lambda>r. Inr (word_of_nat (l * 4 + v div 16) # r))
         else if q = 2 then rbind (b64_scan 3 (v mod 4) 0 cs) (\<lambda>r. Inr (word_of_nat (l * 16 + v div 4) # r))
         else rbind (b64_scan 0 0 0 cs) (\<lambda>r. Inr (word_of_nat (l * 64 + v) # r))))"

definition b64d :: "string \<Rightarrow> bytes res" where
  "b64d s = b64_scan 0 0 0 s"

subsection \<open>The envelope\<close>

record envelope =
  ev_version :: string
  ev_kek_version :: string
  ev_wrapped_dek :: string
  ev_dek_nonce :: string
  ev_ciphertext :: string
  ev_kek_nonce :: string

definition parse_envelope :: "string \<Rightarrow> envelope res" where
  "parse_envelope blob = (case split_on (CHR ''.'') blob of
     [v, w, dn, ct, kn] \<Rightarrow> if v = ''v1'' then Inr \<lparr>ev_version = ''v1'', ev_kek_version = ''1'', ev_wrapped_dek = w, ev_dek_nonce = dn,
         ev_ciphertext = ct, ev_kek_nonce = kn\<rparr> else Inl (CryptoError ''malformed ciphertext'')
   | [v, k, w, dn, ct, kn] \<Rightarrow> if v = ''v2'' then Inr \<lparr>ev_version = ''v2'', ev_kek_version = k, ev_wrapped_dek = w, ev_dek_nonce = dn,
         ev_ciphertext = ct, ev_kek_nonce = kn\<rparr> else Inl (CryptoError ''malformed ciphertext'')
   | _ \<Rightarrow> Inl (CryptoError ''malformed ciphertext''))"

definition render_envelope :: "envelope \<Rightarrow> string" where
  "render_envelope e = join ''.'' [ev_version e, ev_kek_version e, ev_wrapped_dek e, ev_dek_nonce e, ev_ciphertext e, ev_kek_nonce e]"

definition kek_bytes :: "string \<Rightarrow> string \<Rightarrow> bytes res" where
  "kek_bytes version key_b64 = rbind (b64d key_b64) (\<lambda>key.
     if length key \<noteq> 32 then Inl (CryptoError (''MASTER_KEYS['' @ version @ ''] must decode to exactly 32 bytes'')) else Inr key)"

definition kek :: "settings \<Rightarrow> string \<Rightarrow> bytes res" where
  "kek cfg version = (if cfg_master_keys cfg = [] then Inl (CryptoError ''MASTER_KEYS is not configured'')
     else case dget (cfg_master_keys cfg) version of
       None \<Rightarrow> Inl (CryptoError (''ciphertext was wrapped with KEK version '' @ py_repr version
         @ '', which is not configured; restore it before decrypting''))
     | Some k \<Rightarrow> kek_bytes version k)"

definition encrypt_secret :: "settings \<Rightarrow> cipher \<Rightarrow> nat \<Rightarrow> string \<Rightarrow> string \<Rightarrow> string res" where
  "encrypt_secret cfg ci i plaintext aad = (
     if plaintext = [] then Inl (CryptoError ''refusing to encrypt an empty secret'')
     else rbind (active_master_key cfg) (\<lambda>(version, key_b64).
       rbind (kek_bytes version key_b64) (\<lambda>k.
       let dek = ci_urandom ci i 32; dek_nonce = ci_urandom ci (i + 1) 12; kek_nonce = ci_urandom ci (i + 2) 12 in
       rbind (ci_encrypt ci dek dek_nonce (utf8_encode plaintext) (utf8_encode aad)) (\<lambda>ciphertext.
       rbind (ci_encrypt ci k kek_nonce dek (utf8_encode aad)) (\<lambda>wrapped.
       Inr (render_envelope \<lparr>ev_version = ''v2'', ev_kek_version = version, ev_wrapped_dek = b64e wrapped,
         ev_dek_nonce = b64e dek_nonce, ev_ciphertext = b64e ciphertext, ev_kek_nonce = b64e kek_nonce\<rparr>))))))"

definition decrypt_secret :: "settings \<Rightarrow> cipher \<Rightarrow> string \<Rightarrow> string \<Rightarrow> string res" where
  "decrypt_secret cfg ci blob aad =
     rbind (parse_envelope blob) (\<lambda>env.
     rbind (kek cfg (ev_kek_version env)) (\<lambda>k.
     rbind (b64d (ev_kek_nonce env)) (\<lambda>kn.
     rbind (b64d (ev_wrapped_dek env)) (\<lambda>w.
     rbind (ci_decrypt ci k kn w (utf8_encode aad)) (\<lambda>dek.
     rbind (b64d (ev_dek_nonce env)) (\<lambda>dn.
     rbind (b64d (ev_ciphertext env)) (\<lambda>ct.
     rbind (ci_decrypt ci dek dn ct (utf8_encode aad)) utf8_decode)))))))"

definition needs_rewrap :: "settings \<Rightarrow> string \<Rightarrow> bool res" where
  "needs_rewrap cfg blob =
     rbind (parse_envelope blob) (\<lambda>env.
     rbind (active_master_key cfg) (\<lambda>(active, _). Inr (ev_version env \<noteq> ''v2'' \<or> ev_kek_version env \<noteq> active)))"

definition rewrap :: "settings \<Rightarrow> cipher \<Rightarrow> nat \<Rightarrow> string \<Rightarrow> string \<Rightarrow> string res" where
  "rewrap cfg ci i blob aad = rbind (decrypt_secret cfg ci blob aad) (\<lambda>s. encrypt_secret cfg ci i s aad)"

definition mask_secret :: "string \<Rightarrow> string" where
  "mask_secret s = (if length s \<le> 12 then replicate (length s) (CHR ''*'') else take 6 s @ ''...'' @ drop (length s - 4) s)"

definition fingerprint :: "(string \<Rightarrow> string) \<Rightarrow> string \<Rightarrow> string" where
  "fingerprint sha256 s = take 16 (sha256 s)"

definition generate_master_key :: "cipher \<Rightarrow> nat \<Rightarrow> string" where
  "generate_master_key ci i = b64e (ci_urandom ci i 32)"

subsection \<open>Rotation\<close>

text \<open>One transaction over all rows. The test of a row is outside the handler that collects failures.\<close>

definition rotation_status :: "settings \<Rightarrow> db \<Rightarrow> (string \<times> nat \<times> api_key_row list) res" where
  "rotation_status cfg d = rbind (active_master_key cfg) (\<lambda>(version, _).
     rbind (rmap (\<lambda>row. rbind (needs_rewrap cfg (ak_ciphertext row)) (\<lambda>b. Inr (row, b))) (db_api_keys d)) (\<lambda>rows.
     Inr (version, length (db_api_keys d), map fst (filter snd rows))))"

fun rotate_rows :: "settings \<Rightarrow> cipher \<Rightarrow> nat \<Rightarrow> api_key_row list \<Rightarrow> (nat \<times> nat \<times> api_key_row list) res" where
  "rotate_rows cfg ci i [] = Inr (0, 0, [])"
| "rotate_rows cfg ci i (row # rows) =
     rbind (needs_rewrap cfg (ak_ciphertext row)) (\<lambda>needed.
     if \<not> needed then rbind (rotate_rows cfg ci (i + 3) rows) (\<lambda>(rotated, failed, rest). Inr (rotated, failed, row # rest))
     else (case rewrap cfg ci i (ak_ciphertext row) (ak_org_id row) of
       Inr blob \<Rightarrow> rbind (rotate_rows cfg ci (i + 3) rows) (\<lambda>(rotated, failed, rest).
           Inr (rotated + 1, failed, row\<lparr>ak_ciphertext := blob\<rparr> # rest))
     | Inl e \<Rightarrow> if is_exception e
         then rbind (rotate_rows cfg ci (i + 3) rows) (\<lambda>(rotated, failed, rest). Inr (rotated, failed + 1, row # rest))
         else Inl e))"

definition rotate_keys :: "settings \<Rightarrow> cipher \<Rightarrow> db \<Rightarrow> (nat \<times> nat) res \<times> db" where
  "rotate_keys cfg ci d = (case rotate_rows cfg ci 0 (db_api_keys d) of
     Inl e \<Rightarrow> (Inl e, d)
   | Inr (rotated, failed, rows) \<Rightarrow>
       (if failed > 0 then Inl (OtherError ''SystemExit'') else Inr (rotated, failed), d\<lparr>db_api_keys := rows\<rparr>))"

subsection \<open>Round trips of the encodings\<close>

lemma unat_byte: "n < 256 \<Longrightarrow> unat (word_of_nat n :: byte) = n"
  by (simp add: unat_of_nat take_bit_eq_mod)

lemma byte_less: "unat (a :: byte) < 256"
  using unsigned_less [of a] by simp

lemma utf8_char_decode: "utf8_decode (utf8_char c @ r) = rbind (utf8_decode r) (\<lambda>t. Inr (c # t))"
proof (cases "code_of c < 128")
  case True
  then show ?thesis by (simp add: utf8_char_def unat_byte)
next
  case False
  have c: "code_of c < 256" by simp
  have hi: "192 + code_of c div 64 < 196" "194 \<le> 192 + code_of c div 64" and lo: "128 + code_of c mod 64 < 192" "(128 + code_of c mod 64) div 64 = 2"
    "(128 + code_of c mod 64) mod 64 = code_of c mod 64"
    using c False mod_mult_self4 [of 64 2 "code_of c mod 64"] by (linarith | simp)+
  have u: "unat (word_of_nat (192 + code_of c div 64) :: byte) = 192 + code_of c div 64"
    "unat (word_of_nat (128 + code_of c mod 64) :: byte) = 128 + code_of c mod 64"
    using hi lo by (intro unat_byte; linarith)+
  have n: "\<not> 192 + code_of c div 64 < 128" "192 + code_of c div 64 < 224" "192 + code_of c div 64 - 192 = code_of c div 64"
    using hi by linarith+
  show ?thesis
    using False by (simp only: utf8_char_def Let_def if_False append_Cons append_Nil utf8_decode.simps u n hi continuation_def lo if_True
      list.case) (simp add: continuation_def u lo)
qed

lemma utf8_round_trip: "utf8_decode (utf8_encode s) = Inr s"
  by (induction s) (simp_all add: utf8_encode_def utf8_char_decode)

lemma utf8_encode_eq: "utf8_encode s = utf8_encode t \<longleftrightarrow> s = t"
  by (metis utf8_round_trip sum.inject(2))

lemma b64_table: "n < 64 \<Longrightarrow> b64_val (b64_char n) = Some n \<and> b64_char n \<noteq> CHR ''='' \<and> b64_char n \<noteq> CHR ''.''"
proof -
  have "list_all (\<lambda>n. b64_val (b64_char n) = Some n \<and> b64_char n \<noteq> CHR ''='' \<and> b64_char n \<noteq> CHR ''.'') [0..<64]"
    by code_simp
  then show "n < 64 \<Longrightarrow> ?thesis" by (simp add: list_all_iff)
qed

lemma b64_six:
  "unat (a :: byte) div 4 < 64" "unat (a :: byte) mod 4 * 16 + unat (b :: byte) div 16 < 64" "unat a mod 4 * 16 < 64"
  "unat b mod 16 * 4 + unat (c :: byte) div 64 < 64" "unat b mod 16 * 4 < 64" "unat c mod 64 < 64"
  using byte_less [of a] byte_less [of b] byte_less [of c] by linarith+

lemma b64_bits:
  "word_of_nat (unat (a :: byte) div 4 * 4 + unat a mod 4 * 16 div 16) = a"
  "word_of_nat (unat (a :: byte) div 4 * 4 + (unat a mod 4 * 16 + unat (b :: byte) div 16) div 16) = a"
  "word_of_nat ((unat a mod 4 * 16 + unat b div 16) mod 16 * 16 + unat b mod 16 * 4 div 4) = b"
  "word_of_nat ((unat a mod 4 * 16 + unat b div 16) mod 16 * 16 + (unat b mod 16 * 4 + unat (c :: byte) div 64) div 4) = b"
  "word_of_nat ((unat b mod 16 * 4 + unat c div 64) mod 4 * 64 + unat c mod 64) = c"
proof -
  have w: "word_of_nat n = (x :: byte)" if "n = unat x" for n x using that by simp
  have lt: "unat a < 256" "unat b < 256" "unat c < 256" by (rule byte_less)+
  show "word_of_nat (unat (a :: byte) div 4 * 4 + unat a mod 4 * 16 div 16) = a" by (rule w) simp
  have q: "(x * 16 + z) div 16 = x" "(x * 16 + z) mod 16 = z" if "z < 16" for x z :: nat using that by simp_all
  have r: "(x * 4 + z) div 4 = x" "(x * 4 + z) mod 4 = z" if "z < 4" for x z :: nat using that by simp_all
  have d: "unat b div 16 < 16" "unat c div 64 < 4" using lt by linarith+
  show "word_of_nat (unat (a :: byte) div 4 * 4 + (unat a mod 4 * 16 + unat (b :: byte) div 16) div 16) = a"
    unfolding q [OF d(1)] by (rule w) simp
  show "word_of_nat ((unat a mod 4 * 16 + unat b div 16) mod 16 * 16 + unat b mod 16 * 4 div 4) = b"
    unfolding q [OF d(1)] by (rule w) simp
  show "word_of_nat ((unat a mod 4 * 16 + unat b div 16) mod 16 * 16 + (unat b mod 16 * 4 + unat (c :: byte) div 64) div 4) = b"
    unfolding q [OF d(1)] r [OF d(2)] by (rule w) simp
  show "word_of_nat ((unat b mod 16 * 4 + unat c div 64) mod 4 * 64 + unat c mod 64) = c"
    unfolding r [OF d(2)] by (rule w) simp
qed

lemma b64_round_trip: "b64d (b64e bs) = Inr bs"
proof -
  have "b64_scan 0 0 0 (b64e bs) = Inr bs"
  proof (induction bs rule: b64e.induct)
    case (2 a)
    then show ?case using b64_table [OF b64_six(1) [of a]] b64_table [OF b64_six(3) [of a]]
      by (simp add: b64_bits)
  next
    case (3 a b)
    then show ?case using b64_table [OF b64_six(1) [of a]] b64_table [OF b64_six(2) [of a b]] b64_table [OF b64_six(5) [of b]]
        b64_bits(2) [of a b] b64_bits(3) [of a b]
      by simp
  next
    case (4 a b c r)
    then show ?case using b64_table [OF b64_six(1) [of a]] b64_table [OF b64_six(2) [of a b]] b64_table [OF b64_six(4) [of b c]]
        b64_table [OF b64_six(6) [of c]] b64_bits(2) [of a b] b64_bits(4) [of a b c] b64_bits(5) [of b c]
      by simp
  qed simp
  then show ?thesis by (simp add: b64d_def)
qed

lemma b64_no_dot: "CHR ''.'' \<notin> set (b64e bs)"
proof (induction bs rule: b64e.induct)
  case (2 a)
  then show ?case using b64_table [OF b64_six(1) [of a]] b64_table [OF b64_six(3) [of a]] by auto
next
  case (3 a b)
  then show ?case using b64_table [OF b64_six(1) [of a]] b64_table [OF b64_six(2) [of a b]] b64_table [OF b64_six(5) [of b]] by auto
next
  case (4 a b c r)
  then show ?case using b64_table [OF b64_six(1) [of a]] b64_table [OF b64_six(2) [of a b]] b64_table [OF b64_six(4) [of b c]]
        b64_table [OF b64_six(6) [of c]] by auto
qed simp

lemma parse_render:
  assumes "ev_version e = ''v2''" "\<forall>f \<in> {ev_kek_version e, ev_wrapped_dek e, ev_dek_nonce e, ev_ciphertext e, ev_kek_nonce e}. CHR ''.'' \<notin> set f"
  shows "parse_envelope (render_envelope e) = Inr e"
proof -
  have "split_on (CHR ''.'') (render_envelope e) =
      [ev_version e, ev_kek_version e, ev_wrapped_dek e, ev_dek_nonce e, ev_ciphertext e, ev_kek_nonce e]"
    unfolding render_envelope_def using assms by (intro split_join) auto
  then show ?thesis using assms(1) by (simp add: parse_envelope_def)
qed

subsection \<open>Secrets\<close>

text \<open>
  What is relied on in the cipher: under a key of 32 bytes and a nonce of 12 bytes a message is read back
  under the same associated data, and under other associated data authentication fails.
\<close>

definition aead_ok :: "cipher \<Rightarrow> bool" where
  "aead_ok ci \<longleftrightarrow> (\<forall>k n m a. length k = 32 \<and> length n = 12 \<longrightarrow> (\<exists>c. ci_encrypt ci k n m a = Inr c \<and>
     ci_decrypt ci k n c a = Inr m \<and> (\<forall>a'. a' \<noteq> a \<longrightarrow> ci_decrypt ci k n c a' = Inl InvalidTag)))"

definition urandom_ok :: "cipher \<Rightarrow> bool" where
  "urandom_ok ci \<longleftrightarrow> (\<forall>i n. length (ci_urandom ci i n) = n)"

text \<open>No configured version has a dot, which separates the fields of the envelope.\<close>

definition plain_versions :: "settings \<Rightarrow> bool" where
  "plain_versions cfg = list_all (\<lambda>v. CHR ''.'' \<notin> set v) (dkeys (cfg_master_keys cfg))"

text \<open>A deployment that still has, under each version of another, the same key.\<close>

definition keeps_keys :: "settings \<Rightarrow> settings \<Rightarrow> bool" where
  "keeps_keys cfg cfg' = list_all (\<lambda>(v, k). dget (cfg_master_keys cfg') v = Some k) (cfg_master_keys cfg)"

definition sealed :: "settings \<Rightarrow> cipher \<Rightarrow> string \<Rightarrow> string \<Rightarrow> string \<Rightarrow> bool" where
  "sealed cfg ci blob aad s \<longleftrightarrow> decrypt_secret cfg ci blob aad = Inr s \<and>
     (\<forall>other. other \<noteq> aad \<longrightarrow> decrypt_secret cfg ci blob other = Inl InvalidTag)"

lemma kek_bytes_length: "kek_bytes v k = Inr b \<Longrightarrow> length b = 32"
  by (auto simp: kek_bytes_def rbind_eq_Inr split: if_splits)

lemma dget_in: "dget d k = Some v \<Longrightarrow> (k, v) \<in> set d"
  by (metis map_of_SomeD)

lemma aeadD:
  assumes "aead_ok ci" "length k = 32" "length n = 12" "ci_encrypt ci k n m a = Inr c"
  shows "ci_decrypt ci k n c a = Inr m \<and> (\<forall>a'. a' \<noteq> a \<longrightarrow> ci_decrypt ci k n c a' = Inl InvalidTag)"
proof -
  obtain c' where "ci_encrypt ci k n m a = Inr c'" "ci_decrypt ci k n c' a = Inr m"
      "\<forall>a'. a' \<noteq> a \<longrightarrow> ci_decrypt ci k n c' a' = Inl InvalidTag"
    using assms(1-3) unfolding aead_ok_def by blast
  then show ?thesis using assms(4) by simp
qed

lemma encrypt_sealed:
  assumes "encrypt_secret cfg ci i s aad = Inr blob" "aead_ok ci" "urandom_ok ci" "plain_versions cfg" "keeps_keys cfg cfg'"
  shows "sealed cfg' ci blob aad s \<and> needs_rewrap cfg blob = Inr False"
proof -
  let ?dek = "ci_urandom ci i 32" and ?dn = "ci_urandom ci (i + 1) 12" and ?kn = "ci_urandom ci (i + 2) 12"
  obtain v kb k ct w where a: "active_master_key cfg = Inr (v, kb)" "kek_bytes v kb = Inr k"
      and c: "ci_encrypt ci ?dek ?dn (utf8_encode s) (utf8_encode aad) = Inr ct" "ci_encrypt ci k ?kn ?dek (utf8_encode aad) = Inr w"
      and blob: "blob = render_envelope \<lparr>ev_version = ''v2'', ev_kek_version = v, ev_wrapped_dek = b64e w,
         ev_dek_nonce = b64e ?dn, ev_ciphertext = b64e ct, ev_kek_nonce = b64e ?kn\<rparr>"
    using assms(1) by (auto simp: encrypt_secret_def rbind_eq_Inr Let_def split: if_splits)
  have key: "(v, kb) \<in> set (cfg_master_keys cfg)" by (rule dget_in [OF active_master_key_configured [OF a(1)]])
  then have v: "CHR ''.'' \<notin> set v" "dget (cfg_master_keys cfg') v = Some kb"
    using assms(4,5) by (auto simp: plain_versions_def keeps_keys_def list_all_iff dkeys_def)
  have parse: "parse_envelope blob = Inr \<lparr>ev_version = ''v2'', ev_kek_version = v, ev_wrapped_dek = b64e w,
         ev_dek_nonce = b64e ?dn, ev_ciphertext = b64e ct, ev_kek_nonce = b64e ?kn\<rparr>"
    unfolding blob by (rule parse_render) (simp_all add: v b64_no_dot)
  have "cfg_master_keys cfg' \<noteq> []" using v(2) by auto
  then have kek: "kek cfg' v = Inr k" using v(2) a(2) by (simp add: kek_def)
  have len: "length k = 32" "length ?dek = 32" "length ?dn = 12" "length ?kn = 12"
    using kek_bytes_length [OF a(2)] assms(3) by (simp_all add: urandom_ok_def)
  note aead = aeadD [OF assms(2)]
  have dec: "ci_decrypt ci k ?kn w (utf8_encode aad) = Inr ?dek" "ci_decrypt ci ?dek ?dn ct (utf8_encode aad) = Inr (utf8_encode s)"
    and other: "a' \<noteq> utf8_encode aad \<Longrightarrow> ci_decrypt ci k ?kn w a' = Inl InvalidTag" for a'
    using aead [OF len(1,4) c(2)] aead [OF len(2,3) c(1)] by simp_all
  have "decrypt_secret cfg' ci blob aad = Inr s"
    by (simp add: decrypt_secret_def parse kek b64_round_trip dec [simplified] utf8_round_trip)
  moreover have "decrypt_secret cfg' ci blob x = Inl InvalidTag" if "x \<noteq> aad" for x
    using that by (simp add: decrypt_secret_def parse kek b64_round_trip other [simplified] utf8_encode_eq)
  ultimately show ?thesis by (simp add: sealed_def needs_rewrap_def parse a(1))
qed

lemma encrypt_total:
  assumes "aead_ok ci" "urandom_ok ci" "active_master_key cfg = Inr (v, kb)" "kek_bytes v kb = Inr k" "s \<noteq> []"
  shows "\<exists>blob. encrypt_secret cfg ci i s aad = Inr blob"
proof -
  have "length k = 32" "length (ci_urandom ci i 32) = 32" "length (ci_urandom ci (i + 1) 12) = 12" "length (ci_urandom ci (i + 2) 12) = 12"
    using kek_bytes_length [OF assms(4)] assms(2) by (simp_all add: urandom_ok_def)
  then obtain c w where "ci_encrypt ci (ci_urandom ci i 32) (ci_urandom ci (i + 1) 12) (utf8_encode s) (utf8_encode aad) = Inr c"
      "ci_encrypt ci k (ci_urandom ci (i + 2) 12) (ci_urandom ci i 32) (utf8_encode aad) = Inr w"
    using assms(1) unfolding aead_ok_def by metis
  then show ?thesis using assms(3-5) by (simp add: encrypt_secret_def)
qed

text \<open>What an earlier deployment wrote is outdated as soon as another version is active.\<close>

lemma encrypt_outdated:
  assumes "encrypt_secret cfg ci i s aad = Inr blob" "plain_versions cfg" "active_master_key cfg = Inr (v, kb)" "active_master_key cfg' = Inr (v', kb')"
  shows "needs_rewrap cfg' blob = Inr (v \<noteq> v')"
proof -
  obtain w dn ct kn where blob: "blob = render_envelope \<lparr>ev_version = ''v2'', ev_kek_version = v, ev_wrapped_dek = b64e w,
         ev_dek_nonce = b64e dn, ev_ciphertext = b64e ct, ev_kek_nonce = b64e kn\<rparr>"
    using assms(1,3) by (auto simp: encrypt_secret_def rbind_eq_Inr Let_def split: if_splits)
  have "CHR ''.'' \<notin> set v"
    using dget_in [OF active_master_key_configured [OF assms(3)]] assms(2) by (auto simp: plain_versions_def list_all_iff dkeys_def)
  then have "parse_envelope blob = Inr \<lparr>ev_version = ''v2'', ev_kek_version = v, ev_wrapped_dek = b64e w,
         ev_dek_nonce = b64e dn, ev_ciphertext = b64e ct, ev_kek_nonce = b64e kn\<rparr>"
    unfolding blob by (intro parse_render) (simp_all add: b64_no_dot)
  then show ?thesis using assms(4) by (simp add: needs_rewrap_def)
qed

lemma keeps_keys_refl: "distinct (dkeys (cfg_master_keys cfg)) \<Longrightarrow> keeps_keys cfg cfg"
  by (auto simp: keeps_keys_def list_all_iff dkeys_def)

text \<open>Rotation: a row is left as it is, or carries the same secret under the active key.\<close>

definition rotated_row :: "settings \<Rightarrow> cipher \<Rightarrow> api_key_row \<Rightarrow> api_key_row \<Rightarrow> bool" where
  "rotated_row cfg ci row row' \<longleftrightarrow> row' = row \<or> (\<exists>blob s. row' = row\<lparr>ak_ciphertext := blob\<rparr> \<and>
     decrypt_secret cfg ci (ak_ciphertext row) (ak_org_id row) = Inr s \<and> sealed cfg ci blob (ak_org_id row) s \<and>
     needs_rewrap cfg blob = Inr False)"

lemma rewrap_sealed:
  assumes "rewrap cfg ci i blob aad = Inr blob'" "aead_ok ci" "urandom_ok ci" "plain_versions cfg" "distinct (dkeys (cfg_master_keys cfg))"
  shows "\<exists>s. decrypt_secret cfg ci blob aad = Inr s \<and> sealed cfg ci blob' aad s \<and> needs_rewrap cfg blob' = Inr False"
  using assms(1) encrypt_sealed [OF _ assms(2-4) keeps_keys_refl [OF assms(5)]] by (auto simp: rewrap_def rbind_eq_Inr)

lemma rotate_rows_ok:
  assumes "rotate_rows cfg ci i rows = Inr (rotated, failed, rows')" "aead_ok ci" "urandom_ok ci" "plain_versions cfg"
    "distinct (dkeys (cfg_master_keys cfg))"
  shows "list_all2 (rotated_row cfg ci) rows rows' \<and>
    (failed = 0 \<longrightarrow> list_all (\<lambda>r. needs_rewrap cfg (ak_ciphertext r) = Inr False) rows') \<and> rotated + failed \<le> length rows"
  using assms(1)
proof (induction rows arbitrary: i rotated failed rows')
  case (Cons row rows)
  obtain needed where n: "needs_rewrap cfg (ak_ciphertext row) = Inr needed"
    using Cons.prems by (auto simp: rbind_eq_Inr)
  obtain r f rest where rest: "rotate_rows cfg ci (i + 3) rows = Inr (r, f, rest)" and out:
      "(rotated, failed, rows') = (if \<not> needed then (r, f, row # rest) else case rewrap cfg ci i (ak_ciphertext row) (ak_org_id row) of
         Inr blob \<Rightarrow> (r + 1, f, row\<lparr>ak_ciphertext := blob\<rparr> # rest) | Inl e \<Rightarrow> (r, f + 1, row # rest))"
    using Cons.prems n by (cases needed) (auto simp: rbind_eq_Inr split: sum.splits if_splits)
  note ih = Cons.IH [OF rest]
  show ?case
  proof (cases "needed \<and> (\<exists>blob. rewrap cfg ci i (ak_ciphertext row) (ak_org_id row) = Inr blob)")
    case True
    then obtain blob where b: "rewrap cfg ci i (ak_ciphertext row) (ak_org_id row) = Inr blob" by blast
    from rewrap_sealed [OF b assms(2-5)] show ?thesis using True ih out b by (auto simp: rotated_row_def)
  next
    case False
    then show ?thesis using ih out n
      by (cases needed; cases "rewrap cfg ci i (ak_ciphertext row) (ak_org_id row)") (auto simp: rotated_row_def)
  qed
qed simp

end
