(* ===== verification/Keys_Api.thy ===== *)
theory Keys_Api
  imports Orgs Crypto Router
begin

text \<open>
  \<^verbatim>\<open>api/routers/keys.py\<close> with \<open>ApiKeyCreate\<close> of \<^verbatim>\<open>api/schemas.py\<close>: storing, listing and deleting the provider
  keys of an organisation, and what the resolver of theory \<open>Router\<close> and the rotation of theory
  \<open>Crypto\<close> make of the stored rows.
\<close>

definition PROVIDER_NAMES :: "string list" where
  "PROVIDER_NAMES = [''anthropic'', ''openai'', ''xai'', ''google'', ''openrouter'']"

record api_key_create =
  kc_provider :: string
  kc_api_key :: string

definition no_whitespace :: "string \<Rightarrow> string option" where
  "no_whitespace v = (let stripped = strip v in if stripped = [] \<or> CHR '' '' \<in> set stripped then None else Some stripped)"

definition api_key_create_ok :: "api_key_create \<Rightarrow> bool" where
  "api_key_create_ok p \<longleftrightarrow> kc_provider p \<in> set PROVIDER_NAMES \<and> 16 \<le> length (kc_api_key p) \<and> length (kc_api_key p) \<le> 500 \<and>
     no_whitespace (kc_api_key p) \<noteq> None"

definition add_api_key :: "api_key_row \<Rightarrow> unit txn" where
  "add_api_key r = (\<lambda>d. case insert_row (\<lambda>x y. ak_id x = ak_id y \<or> (ak_org_id x = ak_org_id y \<and> ak_provider x = ak_provider y))
       r (db_api_keys d) of
     Inl e \<Rightarrow> (Inl e, d) | Inr rows \<Rightarrow> (Inr (), d\<lparr>db_api_keys := rows\<rparr>))"

definition set_api_key :: "string \<Rightarrow> (api_key_row \<Rightarrow> api_key_row) \<Rightarrow> db \<Rightarrow> db" where
  "set_api_key i f d = d\<lparr>db_api_keys := row_set ak_id i f (db_api_keys d)\<rparr>"

definition replaced_key :: "string \<Rightarrow> string \<Rightarrow> string \<Rightarrow> api_key_row \<Rightarrow> api_key_row" where
  "replaced_key blob shown digest r = r\<lparr>ak_ciphertext := blob, ak_mask := shown, ak_fingerprint := digest, ak_is_active := True,
     ak_last_error := None\<rparr>"

definition key_audit :: "string \<Rightarrow> request \<Rightarrow> org_context \<Rightarrow> string \<Rightarrow> string \<Rightarrow> string \<Rightarrow> unit api" where
  "key_audit action rq ctx i provider digest = audit action (Some (oc_org_id ctx)) (Some (u_id (oc_user ctx))) (Some (''api_key'', i))
     (client_ip rq) None [(''provider'', JStr provider), (''fingerprint'', JStr digest)]"

text \<open>The secret, stripped, is encrypted first; a key the organisation has for the provider is replaced in place.\<close>

definition store_key :: "web \<Rightarrow> org_context \<Rightarrow> string \<Rightarrow> string \<Rightarrow> string \<Rightarrow> string \<Rightarrow> api_key_row api" where
  "store_key wb ctx provider blob shown digest =
     ebind (select_one db_api_keys (\<lambda>r. ak_org_id r = oc_org_id ctx \<and> ak_provider r = provider)) (\<lambda>existing.
     case existing of
       Some old \<Rightarrow> ethen (write_db (set_api_key (ak_id old) (replaced_key blob shown digest))) (eret (replaced_key blob shown digest old))
     | None \<Rightarrow>
        let row = \<lparr>ak_id = wb_random wb 1, ak_org_id = oc_org_id ctx, ak_provider = provider, ak_ciphertext = blob, ak_mask = shown,
          ak_fingerprint = digest, ak_is_active = True, ak_last_used_at = None, ak_last_error = None,
          ak_created_by = Some (u_id (oc_user ctx))\<rparr> in
        ethen (in_db (add_api_key row)) (eret row))"

definition upsert_key :: "web \<Rightarrow> cipher \<Rightarrow> request \<Rightarrow> string \<Rightarrow> api_key_create \<Rightarrow> api_key_row api" where
  "upsert_key wb ci rq org_id p = org_route wb rq org_id (Some ''admin'') (\<lambda>ctx.
     ethen (need (api_key_create_ok p) (ValidationFailed ''body''))
     (let secret = strip (kc_api_key p) in
      case encrypt_secret (wb_settings wb) ci 0 secret (oc_org_id ctx) of
        Inl e \<Rightarrow> eraise (Crash e)
      | Inr blob \<Rightarrow>
          ebind (store_key wb ctx (kc_provider p) blob (mask_secret secret) (fingerprint (wb_sha256 wb) secret)) (\<lambda>key.
          ethen (key_audit ''api_key.added'' rq ctx (ak_id key) (kc_provider p) (fingerprint (wb_sha256 wb) secret)) (eret key))))"

definition list_keys :: "web \<Rightarrow> request \<Rightarrow> string \<Rightarrow> api_key_row list api" where
  "list_keys wb rq org_id = org_route wb rq org_id None (\<lambda>ctx.
     query (\<lambda>d. sort_key ak_provider (filter (\<lambda>r. ak_org_id r = oc_org_id ctx) (db_api_keys d))))"

definition delete_key :: "web \<Rightarrow> request \<Rightarrow> string \<Rightarrow> string \<Rightarrow> unit api" where
  "delete_key wb rq org_id key_id = org_route wb rq org_id (Some ''admin'') (\<lambda>ctx.
     ebind (query (\<lambda>d. row_get ak_id key_id (db_api_keys d))) (\<lambda>found.
     case found of
       None \<Rightarrow> reject 404 ''key not found''
     | Some key \<Rightarrow>
        if ak_org_id key \<noteq> oc_org_id ctx then reject 404 ''key not found''
        else ethen (write_db (\<lambda>d. d\<lparr>db_api_keys := filter (\<lambda>r. ak_id r \<noteq> key_id) (db_api_keys d)\<rparr>))
               (key_audit ''api_key.deleted'' rq ctx key_id (ak_provider key) (ak_fingerprint key))))"

subsection \<open>What a stored key is\<close>

text \<open>The unique constraints of the table, and the rows the resolver of an organisation finds.\<close>

definition keys_unique :: "api_key_row list \<Rightarrow> bool" where
  "keys_unique rows \<longleftrightarrow> distinct (map ak_id rows) \<and> distinct (map (\<lambda>r. (ak_org_id r, ak_provider r)) rows)"

definition usable_keys :: "string \<Rightarrow> string \<Rightarrow> api_key_row list \<Rightarrow> api_key_row list" where
  "usable_keys org_id provider rows = filter (\<lambda>r. ak_org_id r = org_id \<and> ak_provider r = provider \<and> ak_is_active r) rows"

lemma row_get_in: "distinct (map key rows) \<Longrightarrow> r \<in> set rows \<Longrightarrow> row_get key (key r) rows = Some r"
  by (induction rows) (auto simp: row_get_def image_iff)

lemma unique_filter:
  assumes "distinct (map f xs)" "x \<in> set xs" "\<And>y. P y \<Longrightarrow> f y = f x" "P x"
  shows "filter P xs = [x]"
  using assms(1,2)
proof (induction xs)
  case (Cons a xs)
  show ?case
  proof (cases "a = x")
    case True
    then have "\<forall>y \<in> set xs. \<not> P y" using Cons.prems assms(3) by (metis distinct.simps(2) image_eqI list.map(2) list.set_map)
    then show ?thesis using True assms(4) by simp
  next
    case False
    then have "f a \<noteq> f x" using Cons.prems by (auto simp: image_iff)
    then have "\<not> P a" using assms(3) by blast
    then show ?thesis using Cons False by simp
  qed
qed simp

lemma store_key_run:
  assumes "store_key wb ctx provider blob shown digest s = (Inr row, s')" "keys_unique (db_api_keys (se_db s))"
  shows "se_server s' = se_server s \<and> keys_unique (db_api_keys (se_db s')) \<and> row \<in> set (db_api_keys (se_db s')) \<and>
    ak_org_id row = oc_org_id ctx \<and> ak_provider row = provider \<and> ak_ciphertext row = blob \<and> ak_is_active row \<and>
    ak_mask row = shown \<and> ak_fingerprint row = digest \<and>
    (\<forall>r. ak_org_id r \<noteq> oc_org_id ctx \<or> ak_provider r \<noteq> provider \<longrightarrow> (r \<in> set (db_api_keys (se_db s')) \<longleftrightarrow> r \<in> set (db_api_keys (se_db s))))"
proof -
  let ?rows = "db_api_keys (se_db s)" and ?P = "\<lambda>r. ak_org_id r = oc_org_id ctx \<and> ak_provider r = provider"
  let ?f = "replaced_key blob shown digest"
  have f: "ak_id (?f r) = ak_id r" "ak_org_id (?f r) = ak_org_id r" "ak_provider (?f r) = ak_provider r" for r
    by (simp_all add: replaced_key_def)
  obtain x where x: "one_or_none (filter ?P ?rows) = Inr x"
    using assms(1) by (auto simp: store_key_def select_one_run split: sum.splits)
  show ?thesis
  proof (cases x)
    case None
    then have none: "\<forall>r \<in> set ?rows. \<not> ?P r" using x by (simp add: one_or_none_None filter_empty_conv)
    from assms(1) x None obtain r where r: "row = r" "ak_org_id r = oc_org_id ctx" "ak_provider r = provider" "ak_ciphertext r = blob"
        "ak_is_active r" "ak_mask r = shown" "ak_fingerprint r = digest" "in_db (add_api_key r) s = (Inr (), s')"
      by (auto simp: store_key_def select_one_run Let_def ethen_eq_Inr)
    then have s': "list_all (\<lambda>y. ak_id r \<noteq> ak_id y) ?rows" "s' = s\<lparr>se_db := (se_db s)\<lparr>db_api_keys := ?rows @ [r]\<rparr>\<rparr>"
      by (auto simp: in_db_def add_api_key_def insert_row_Inr list_all_iff split: sum.splits)
    then have "keys_unique (?rows @ [r])" using assms(2) none r(2,3)
      by (auto simp: keys_unique_def list_all_iff)
    then show ?thesis using s' r by auto
  next
    case (Some old)
    then have old: "filter ?P ?rows = [old]" using x by (simp add: one_or_none_Some)
    then have o1: "old \<in> set ?rows" "?P old" by (auto simp: filter_eq_Cons_iff)
    have run: "row = ?f old" "s' = s\<lparr>se_db := set_api_key (ak_id old) ?f (se_db s)\<rparr>"
      using assms(1) x Some by (simp_all add: store_key_def select_one_run)
    have get: "row_get ak_id (ak_id old) ?rows = Some old"
      using row_get_in [OF _ o1(1)] assms(2) by (simp add: keys_unique_def)
    have rows': "db_api_keys (se_db s') = map (\<lambda>r. if r = old then ?f r else r) ?rows"
      using row_set_unique [OF _ get, of ?f] assms(2) by (simp add: run(2) set_api_key_def keys_unique_def)
    have "map ak_id (db_api_keys (se_db s')) = map ak_id ?rows"
      "map (\<lambda>r. (ak_org_id r, ak_provider r)) (db_api_keys (se_db s')) = map (\<lambda>r. (ak_org_id r, ak_provider r)) ?rows"
      by (simp_all add: rows' f)
    then have "keys_unique (db_api_keys (se_db s'))" using assms(2) unfolding keys_unique_def by simp
    moreover have "r \<in> set (db_api_keys (se_db s')) \<longleftrightarrow> r \<in> set ?rows" if "\<not> ?P r" for r
      using that o1(2) f by (auto simp: rows' image_iff)
    moreover have "row \<in> set (db_api_keys (se_db s'))" using o1(1) by (auto simp: rows' run(1))
    ultimately show ?thesis using o1(2) run by (auto simp: replaced_key_def)
  qed
qed

lemma key_audit_run: "ethen (key_audit ac rq ctx i pv dg) m s = m (snd (key_audit ac rq ctx i pv dg s))"
  "db_api_keys (se_db (snd (key_audit ac rq ctx i pv dg s))) = db_api_keys (se_db s)"
  "se_server (snd (key_audit ac rq ctx i pv dg s)) = se_server s"
  by (simp_all add: key_audit_def audit_def audit_record_def)

lemma upsert_key_Inr:
  assumes "serve (upsert_key wb ci rq org_id p) sv = (Inr row, sv')" "keys_unique (db_api_keys (sv_db sv))"
  shows "keys_unique (db_api_keys (sv_db sv')) \<and> row \<in> set (db_api_keys (sv_db sv')) \<and> ak_is_active row \<and> ak_org_id row = org_id \<and>
    ak_provider row = kc_provider p \<and> encrypt_secret (wb_settings wb) ci 0 (strip (kc_api_key p)) org_id = Inr (ak_ciphertext row) \<and>
    ak_mask row = mask_secret (strip (kc_api_key p)) \<and> ak_fingerprint row = fingerprint (wb_sha256 wb) (strip (kc_api_key p)) \<and>
    (\<forall>r. ak_org_id r \<noteq> org_id \<or> ak_provider r \<noteq> kc_provider p \<longrightarrow> (r \<in> set (db_api_keys (sv_db sv')) \<longleftrightarrow> r \<in> set (db_api_keys (sv_db sv))))"
proof -
  let ?s = "strip (kc_api_key p)"
  obtain s' where s': "upsert_key wb ci rq org_id p (get_session sv) = (Inr row, s')" "sv' = se_server (commit s')"
    using assms(1) by (auto simp: serve_Inr commit_def)
  show ?thesis
  proof (rule org_route_cases [OF s'(1) [unfolded upsert_key_def]])
    fix user ctx s1
    assume s1: "same_rows (get_session sv) s1" and o1: "current_org org_id user s1 = (Inr ctx, s1)"
      and body: "ethen (need (api_key_create_ok p) (ValidationFailed ''body''))
     (let secret = ?s in
      case encrypt_secret (wb_settings wb) ci 0 secret (oc_org_id ctx) of
        Inl e \<Rightarrow> eraise (Crash e)
      | Inr blob \<Rightarrow>
          ebind (store_key wb ctx (kc_provider p) blob (mask_secret secret) (fingerprint (wb_sha256 wb) secret)) (\<lambda>key.
          ethen (key_audit ''api_key.added'' rq ctx (ak_id key) (kc_provider p) (fingerprint (wb_sha256 wb) secret)) (eret key))) s1 = (Inr row, s')"
    have oid: "oc_org_id ctx = org_id" by (rule oc_org_id_eq [OF o1])
    have rows: "db_api_keys (se_db s1) = db_api_keys (sv_db sv)" using same_rowsD [OF s1] by (simp add: get_session_def)
    obtain blob where blob: "encrypt_secret (wb_settings wb) ci 0 ?s org_id = Inr blob"
      using body by (auto simp: oid Let_def split: if_splits sum.splits)
    obtain s2 where "store_key wb ctx (kc_provider p) blob (mask_secret ?s) (fingerprint (wb_sha256 wb) ?s) s1 = (Inr row, s2)"
        "db_api_keys (se_db s') = db_api_keys (se_db s2)"
      using body blob by (auto simp: oid Let_def ebind_eq_Inr key_audit_run split: if_splits)
    with store_key_run [of wb ctx "kc_provider p" blob "mask_secret ?s" "fingerprint (wb_sha256 wb) ?s" s1 row s2] assms(2)
    show ?thesis by (simp add: s'(2) commit_def oid rows blob)
  qed simp
qed

subsection \<open>Resolving a stored key\<close>

lemma byok_stored:
  assumes "keys_unique rows" "row \<in> set rows" "ak_is_active row" "ak_org_id row = kr_org_id kr" "ak_provider row = provider_value p"
    "kr_byok_cache kr = []" "decrypt (ak_ciphertext row) (kr_org_id kr) = Inr s"
  shows "byok_key decrypt rows p kr = (Inr s, kr\<lparr>kr_byok_cache := [(p, s)]\<rparr>)"
proof -
  have "filter (\<lambda>r. ak_org_id r = kr_org_id kr \<and> ak_provider r = provider_value p \<and> ak_is_active r) rows = [row]"
    by (rule unique_filter [where f = "\<lambda>r. (ak_org_id r, ak_provider r)"]) (use assms(1-5) in \<open>auto simp: keys_unique_def\<close>)
  then show ?thesis using assms(6,7) by (simp add: byok_key_def)
qed

lemma resolve_byok:
  assumes "get_spec model = Inr spec" "\<not> uses_platform (kr_mode kr) model" "byok_key decrypt rows (ms_provider spec) kr = (Inr s, kr')"
  shows "resolve_key cfg decrypt rows model kr = (Inr \<lparr>rk_provider = ms_provider spec, rk_api_key = s, rk_billed_to_platform = False\<rparr>, kr')"
  using assms by (simp add: resolve_key_def Let_def ebind_Inr eret_def)

subsection \<open>Resolving after a rotation\<close>

lemma rotated_same:
  assumes "rotated_row cfg ci row row'"
  shows "ak_id row' = ak_id row \<and> ak_org_id row' = ak_org_id row \<and> ak_provider row' = ak_provider row \<and> ak_is_active row' = ak_is_active row \<and>
    decrypt_secret cfg ci (ak_ciphertext row') (ak_org_id row) = decrypt_secret cfg ci (ak_ciphertext row) (ak_org_id row)"
  using assms by (auto simp: rotated_row_def sealed_def)

lemma byok_rows:
  assumes "list_all2 (\<lambda>r r'. ak_org_id r' = ak_org_id r \<and> ak_provider r' = ak_provider r \<and> ak_is_active r' = ak_is_active r \<and>
     decrypt' (ak_ciphertext r') (ak_org_id r) = decrypt (ak_ciphertext r) (ak_org_id r)) rows rows'"
  shows "byok_key decrypt' rows' p kr = byok_key decrypt rows p kr"
proof -
  let ?P = "\<lambda>r. ak_org_id r = kr_org_id kr \<and> ak_provider r = provider_value p \<and> ak_is_active r"
  have "list_all2 (\<lambda>r r'. ?P r \<and> decrypt' (ak_ciphertext r') (kr_org_id kr) = decrypt (ak_ciphertext r) (kr_org_id kr))
      (filter ?P rows) (filter ?P rows')"
    using assms by (induction rule: list_all2_induct) auto
  then show ?thesis
    by (auto simp: byok_key_def list_all2_Cons1 list_all2_Cons2 split: option.split list.split sum.split)
qed

lemma resolve_rows:
  assumes "\<And>p. byok_key decrypt' rows' p kr = byok_key decrypt rows p kr" "\<And>p. platform_key cfg' p = platform_key cfg p"
  shows "resolve_key cfg' decrypt' rows' model kr = resolve_key cfg decrypt rows model kr"
proof (cases "get_spec model")
  case (Inr spec)
  have "ebind (byok_key decrypt' rows' p) f kr = ebind (byok_key decrypt rows p) f kr" for p f
    by (simp add: ebind_def assms(1))
  then show ?thesis using Inr assms(2) by (cases "uses_platform (kr_mode kr) model") (simp_all add: resolve_key_def Let_def)
qed (simp add: resolve_key_def)

text \<open>A ciphertext that needs no rewrapping is read with the active key alone.\<close>

lemma active_alone:
  assumes "active_master_key cfg = Inr (v, k)" "needs_rewrap cfg blob = Inr False"
  shows "decrypt_secret (cfg\<lparr>cfg_master_keys := [(v, k)]\<rparr>) ci blob aad = decrypt_secret cfg ci blob aad"
proof -
  obtain env where env: "parse_envelope blob = Inr env" "ev_kek_version env = v"
    using assms by (auto simp: needs_rewrap_def rbind_eq_Inr)
  have "dget (cfg_master_keys cfg) v = Some k" by (rule active_master_key_configured [OF assms(1)])
  moreover from this have "cfg_master_keys cfg \<noteq> []" by auto
  ultimately have "kek (cfg\<lparr>cfg_master_keys := [(v, k)]\<rparr>) v = kek cfg v" by (simp add: kek_def)
  then show ?thesis by (simp add: decrypt_secret_def env)
qed

lemma rotate_keys_ok:
  assumes "aead_ok ci" "urandom_ok ci" "plain_versions cfg" "distinct (dkeys (cfg_master_keys cfg))"
  shows "list_all2 (rotated_row cfg ci) (db_api_keys d) (db_api_keys (snd (rotate_keys cfg ci d))) \<and>
    (\<forall>counts. fst (rotate_keys cfg ci d) = Inr counts \<longrightarrow>
       list_all (\<lambda>r. needs_rewrap cfg (ak_ciphertext r) = Inr False) (db_api_keys (snd (rotate_keys cfg ci d))))"
proof (cases "rotate_rows cfg ci 0 (db_api_keys d)")
  case (Inl e)
  then show ?thesis by (simp add: rotate_keys_def list_all2_same rotated_row_def)
next
  case (Inr x)
  obtain rotated failed rows where x: "x = (rotated, failed, rows)" by (metis surj_pair)
  from rotate_rows_ok [OF Inr [unfolded x] assms] show ?thesis by (simp add: rotate_keys_def Inr x)
qed

end
