(* ===== verification/Api_Samples.thy ===== *)
theory Api_Samples
  imports Samples Worker Keys_Api
begin

text \<open>
  Concrete inputs for the witnesses of theory \<open>Service\<close>: a server with one organisation, its owner and
  a second account, and an outside whose access token is the id of its subject. Nothing here models code.
\<close>

definition sample_web :: web where
  "sample_web = \<lparr>wb_settings = sample_settings\<lparr>cfg_jwt_secret := ''s'', cfg_master_keys := [(''1'', b64e (replicate 32 0))]\<rparr>, wb_now = (\<lambda>_. 5), wb_time = (\<lambda>_. 100), wb_monotonic = (\<lambda>_. 400), wb_isoformat = ''now'',
     wb_random = (\<lambda>n. [''abcdefghijklmnopqrstuvwxyz'' ! n]), wb_hash_password = (\<lambda>p. CHR ''h'' # p),
     wb_verify_password = (\<lambda>p h. h = CHR ''h'' # p), wb_needs_rehash = (\<lambda>_. False),
     wb_jwt_encode = (\<lambda>_ _ _. ''u1''),
     wb_jwt_decode = (\<lambda>token _ _. Inr [(''sub'', JStr token), (''typ'', JStr ''access''), (''epoch'', JInt 0), (''exp'', JInt 1000)]),
     wb_sha256 = (\<lambda>t. CHR ''#'' # t), wb_valid_email = (\<lambda>_. True), wb_races = []\<rparr>"

definition sample_user :: "string \<Rightarrow> user_row" where
  "sample_user i = \<lparr>u_id = i, u_email = CHR ''@'' # i, u_password_hash = ''hold'', u_name = None, u_is_active = True,
     u_is_superuser = False, u_last_login_at = None, u_token_epoch = 0\<rparr>"

definition sample_owner :: membership_row where
  "sample_owner = \<lparr>mb_id = ''m1'', mb_user_id = ''u1'', mb_org_id = ''o1'', mb_role = ''owner''\<rparr>"

definition sample_token :: refresh_token_row where
  "sample_token = \<lparr>rt_id = ''t1'', rt_user_id = ''u1'', rt_token_hash = ''#tok'', rt_family_id = ''f'', rt_expires_at = 9,
     rt_used_at = None, rt_revoked_at = None, rt_user_agent = None, rt_ip_address = None\<rparr>"

definition sample_server :: server where
  "sample_server = \<lparr>sv_db = sample_db\<lparr>db_users := [sample_user ''u1'', sample_user ''u2''],
     db_memberships := [sample_owner], db_refresh_tokens := [sample_token]\<rparr>,
     sv_redis = empty_redis, sv_queue = [], sv_buses = [], sv_prices = new_price_book 300\<rparr>"

definition sample_request :: "string \<Rightarrow> request" where
  "sample_request user = \<lparr>rq_bearer = Some user, rq_forwarded_for = None, rq_client_host = None, rq_user_agent = None,
     rq_refresh_cookie = Some ''tok'', rq_json = None\<rparr>"

lemmas sample_defs = sample_web_def sample_user_def sample_owner_def sample_token_def sample_server_def sample_request_def
  sample_db_def sample_settings_def default_settings_def sample_org_def sample_grant_def sample_run_def sample_workflow_def
  empty_db_def

text \<open>The fields of the samples, so that a run is evaluated without unfolding the records.\<close>

lemma sample_web_fields [simp]:
  "wb_now sample_web n = 5" "wb_time sample_web n = 100" "wb_random sample_web n = [''abcdefghijklmnopqrstuvwxyz'' ! n]"
  "wb_sha256 sample_web t = CHR ''#'' # t" "wb_valid_email sample_web t = True" "wb_races sample_web = []"
  "wb_jwt_encode sample_web pl k alg = ''u1''" "wb_hash_password sample_web pw = CHR ''h'' # pw"
  "cfg_jwt_secret (wb_settings sample_web) = ''s''" "cfg_access_token_ttl_minutes (wb_settings sample_web) = 15"
  "cfg_refresh_token_ttl_days (wb_settings sample_web) = 30" "cfg_password_min_length (wb_settings sample_web) = 12"
  "cfg_signup_bonus_cents (wb_settings sample_web) = 100" "cfg_rate_limit_api_per_minute (wb_settings sample_web) = 300"
  "cfg_rate_limit_runs_per_minute (wb_settings sample_web) = 20" "cfg_max_concurrent_runs_per_org (wb_settings sample_web) = 5"
  "cfg_master_keys (wb_settings sample_web) = [(''1'', b64e (replicate 32 0))]" "cfg_master_key_version (wb_settings sample_web) = ''1''"
  "cfg_max_cost_cents_per_run (wb_settings sample_web) = 500" "cfg_billing_enabled (wb_settings sample_web) = True"
  by (simp_all add: sample_web_def sample_settings_def default_settings_def)

lemma sample_server_fields [simp]:
  "db_users (sv_db sample_server) = [sample_user ''u1'', sample_user ''u2'']"
  "db_memberships (sv_db sample_server) = [sample_owner]" "db_refresh_tokens (sv_db sample_server) = [sample_token]"
  "db_orgs (sv_db sample_server) = [sample_org]" "db_ledger (sv_db sample_server) = [sample_grant]"
  "db_runs (sv_db sample_server) = [sample_run]" "db_workflows (sv_db sample_server) = [sample_workflow]"
  "db_api_keys (sv_db sample_server) = []" "sv_redis sample_server = empty_redis" "sv_queue sample_server = []" "sv_buses sample_server = []"
  by (simp_all add: sample_server_def sample_db_def empty_db_def)

lemma sample_row_fields [simp]:
  "u_id (sample_user i) = i" "u_is_active (sample_user i) = True" "u_is_superuser (sample_user i) = False"
  "u_token_epoch (sample_user i) = 0" "u_email (sample_user i) = CHR ''@'' # i"
  "rt_id sample_token = ''t1''" "rt_user_id sample_token = ''u1''" "rt_token_hash sample_token = ''#tok''"
  "rt_family_id sample_token = ''f''" "rt_expires_at sample_token = 9" "rt_used_at sample_token = None"
  "rt_revoked_at sample_token = None" "mb_id sample_owner = ''m1''" "mb_user_id sample_owner = ''u1''"
  "mb_org_id sample_owner = ''o1''" "mb_role sample_owner = ''owner''" "o_id sample_org = ''o1''" "o_is_active sample_org = True"
  "o_key_mode sample_org = ''managed''" "o_credits_cents sample_org = 500" "o_slug sample_org = ''org''"
  by (simp_all add: sample_user_def sample_token_def sample_owner_def sample_org_def)

lemma sample_session [simp]: "se_db (get_session sample_server) = sv_db sample_server" "se_server (get_session sample_server) = sample_server"
  by (simp_all add: get_session_def)

lemma sample_claims: "i \<noteq> [] \<Longrightarrow> current_claims sample_web (sample_request i) s = (Inr \<lparr>cl_user_id = i, cl_email = JStr [], cl_token_epoch = 0,
    cl_is_superuser = False, cl_orgs = [], cl_expires_at = 1000000000\<rparr>, s)"
  by (simp del: sample_web_fields add: current_claims_def decode_access_token_def jwt_secret_def sample_defs from_timestamp_def int_or_raise_def
      jget_def eret_def dget_or_def as_str_def)

lemma sample_current:
  "current_user sample_web (sample_request ''u1'') (get_session sample_server) = (Inr (sample_user ''u1''), get_session sample_server)"
  "current_user sample_web (sample_request ''u2'') (get_session sample_server) = (Inr (sample_user ''u2''), get_session sample_server)"
  by (simp_all add: current_user_def ebind_Inr sample_claims get_user_def row_get_def)

lemma sample_tokens_ok: "tokens_ok (sv_db sample_server)"
  by (simp add: tokens_ok_def live_in_def)

lemma sample_tenants_ok: "tenants_ok (sv_db sample_server)"
  by (simp add: tenants_ok_def owners_def members_of_def)

lemma sample_presented: "presented_token (sample_request i) = Inr (JStr ''tok'')"
  by (simp add: presented_token_def sample_request_def Let_def jget_def)

text \<open>The first call on an empty limiter is admitted.\<close>

lemma sample_limiter: "0 < l \<Longrightarrow> sv_redis (se_server s) = empty_redis \<Longrightarrow> limiter_check sample_web n b l w s =
   (Inr \<lparr>rl_allowed = True, rl_limit = l, rl_used = 1, rl_retry_after_seconds = 0\<rparr>,
    s\<lparr>se_server := (se_server s)\<lparr>sv_redis := empty_redis\<lparr>rd_windows := [(''rl:'' @ b, [(100, wb_random sample_web n)])]\<rparr>\<rparr>\<rparr>)"
  by (simp add: limiter_check_def in_redis_def rl_check_def sliding_window_def empty_redis_def zrem_upto_def Let_def dget_or_def zadd_def)

definition sample_registration :: register_request where
  "sample_registration = \<lparr>rg_email = ''e'', rg_password = ''correct horse'', rg_name = None, rg_org_name = ''W''\<rparr>"

lemma sample_registers: "\<exists>out sv'. serve (register sample_web (sample_request []) sample_registration) sample_server = (Inr out, sv')"
proof -
  have "strip ''correct horse'' = ''correct horse''" by code_simp
  then have pw: "hash_password sample_web ''correct horse'' = Inr ''hcorrect horse''"
    by (simp add: hash_password_def validate_password_def)
  have l: "lower ''e'' = ''e''" "slugify ''W'' = ''w''" by code_simp+
  have user: "add_user (new_user sample_web ''e'' h None) (sv_db sample_server) =
      (Inr (), (sv_db sample_server)\<lparr>db_users := db_users (sv_db sample_server) @ [new_user sample_web ''e'' h None]\<rparr>)" for h
    by (simp add: add_user_Inr new_user_def)
  have org: "add_org (new_org sample_web ''W'') d = (Inr (), d\<lparr>db_orgs := db_orgs d @ [new_org sample_web ''W'']\<rparr>)"
    if "db_orgs d = [sample_org]" for d
    using that by (simp add: add_org_Inr new_org_def l)
  let ?m = "\<lparr>mb_id = ''r'', mb_user_id = ''o'', mb_org_id = ''p'', mb_role = ''owner''\<rparr>"
  have member: "add_membership ?m d = (Inr (), d\<lparr>db_memberships := db_memberships d @ [?m]\<rparr>)"
    if "db_memberships d = [sample_owner]" for d
    using that by (simp add: add_membership_Inr)
  have caught: "ecatch (ethen (in_db (add_user (new_user sample_web ''e'' h None))) (in_db (add_org (new_org sample_web ''W'')))) f s =
      (Inr (), s\<lparr>se_db := (sv_db sample_server)\<lparr>db_users := [sample_user ''u1'', sample_user ''u2'', new_user sample_web ''e'' h None],
        db_orgs := [sample_org, new_org sample_web ''W'']\<rparr>\<rparr>)" if "se_db s = sv_db sample_server" for s h f
    using that by (simp add: ecatch_def ethen_def ebind_def user org in_db_def)
  have ids: "u_id (new_user sample_web ''e'' h None) = ''o''" "o_id (new_org sample_web ''W'') = ''p''" for h
    by (simp_all add: new_user_def new_org_def)
  let ?d = "(sv_db sample_server)\<lparr>db_users := [sample_user ''u1'', sample_user ''u2'', new_user sample_web ''e'' ''hcorrect horse'' None],
     db_orgs := [sample_org, new_org sample_web ''W''], db_memberships := [sample_owner, ?m]\<rparr>"
  have "get_org ?d ''p'' = Some (new_org sample_web ''W'')" by (simp add: get_org_def row_get_def ids)
  moreover have "find_entry ?d ''p'' ''signup:p'' = None" by (simp add: find_entry_def sample_grant_def)
  ultimately obtain e d4 where bonus: "grant [] ''s'' ''t'' ''p'' 100 ''bonus'' ''signup bonus'' (Some ''signup:p'') None ?d = (Inr e, d4)"
      "db_refresh_tokens d4 = [sample_token]"
    by (simp add: grant_def post_appended appended_def Let_def set_credits_def)
  have issued: "issue_tokens sample_web u None ag ip s = (Inr \<lparr>tk_access_token = ''u1'', tk_refresh_token = ''m'', tk_expires_in = 900\<rparr>,
      s\<lparr>se_db := (se_db s)\<lparr>db_refresh_tokens := [sample_token, issued_row sample_web u None ag ip]\<rparr>\<rparr>)"
    if "db_refresh_tokens (se_db s) = [sample_token]" for u ag ip s
    using that by (simp add: issue_tokens_def create_access_token_def jwt_secret_def in_db_run add_refresh_token_def insert_row_def
        issued_row_def Let_def eret_def)
  show ?thesis
    by (simp add: serve_def register_def register_request_ok_def sample_registration_def sample_limiter ebind_Inr throttled_def pw l
        Let_def caught ethen_Inr in_db_run ids member bonus issued revoked_audit eret_def)
qed

text \<open>The owner's routes on the sample organisation.\<close>

lemma sample_limits: "limiter_check sample_web n b l w s = (case sliding_window 100 w l (wb_random sample_web n)
    (dget_or (rd_windows (sv_redis (se_server s))) (''rl:'' @ b) []) of ((ok, used, reset), z) \<Rightarrow>
   (Inr \<lparr>rl_allowed = ok, rl_limit = l, rl_used = used, rl_retry_after_seconds = reset\<rparr>,
    s\<lparr>se_server := (se_server s)\<lparr>sv_redis := (sv_redis (se_server s))\<lparr>rd_windows := dset (''rl:'' @ b) z (rd_windows (sv_redis (se_server s)))\<rparr>\<rparr>\<rparr>))"
  by (simp add: limiter_check_def in_redis_def rl_check_def Let_def split: prod.split)

definition sample_context :: org_context where
  "sample_context = \<lparr>oc_org = sample_org, oc_user = sample_user ''u1'', oc_role = ''owner''\<rparr>"

lemma sample_window: "sliding_window 100 60 l m [] = (if 0 < l then ((True, 1, 0), [(100, m)]) else ((False, 0, 60), []))"
  "sliding_window 100 60 l m [(100, m')] = (if 1 < l then ((True, 2, 0), zadd 100 m [(100, m')]) else ((False, 1, 60), [(100, m')]))"
proof -
  have "fl 40 = 40" "fl 160 = 160" "fl 60 = 60" by code_simp+
  then show "sliding_window 100 60 l m [] = (if 0 < l then ((True, 1, 0), [(100, m)]) else ((False, 0, 60), []))"
    "sliding_window 100 60 l m [(100, m')] = (if 1 < l then ((True, 2, 0), zadd 100 m [(100, m')]) else ((False, 1, 60), [(100, m')]))"
    by (auto simp: sliding_window_def zrem_upto_def Let_def zadd_def)
qed

lemma sample_route:
  assumes "current_user sample_web (sample_request ''u1'') s = (Inr (sample_user ''u1''), s)"
    "db_memberships (se_db s) = [sample_owner]" "db_orgs (se_db s) = [sample_org]"
    "dget_or (rd_windows (sv_redis (se_server s))) ''rl:api:u1'' [] = z" "z = [] \<or> z = [(100, ''a'')]"
    "minimum \<in> {Some ''owner'', Some ''admin'', Some ''member'', None}"
  shows "org_route sample_web (sample_request ''u1'') ''o1'' minimum body s = body sample_context
    (s\<lparr>se_server := (se_server s)\<lparr>sv_redis := (sv_redis (se_server s))\<lparr>rd_windows := dset ''rl:api:u1'' [(100, ''a'')] (rd_windows (sv_redis (se_server s)))\<rparr>\<rparr>\<rparr>)"
proof -
  have z: "zadd 100 ''a'' [(100, ''a'')] = [(100, ''a'')]" by (simp add: zadd_def)
  have org: "current_org ''o1'' (sample_user ''u1'') t = (Inr sample_context, t)"
    if "db_memberships (se_db t) = [sample_owner]" "db_orgs (se_db t) = [sample_org]" for t
    using that by (simp add: current_org_def select_one_run get_org_def row_get_def sample_context_def eret_def)
  show ?thesis using assms
    by (auto simp: org_route_def ebind_Inr enforce_api_rate_limit_def sample_limits sample_window org ethen_def require_role_def
        can_def ROLE_ORDER_def dget_or_def sample_context_def eret_def ebind_def need_def z split: prod.splits)
qed

definition sample_submission :: run_create where
  "sample_submission = \<lparr>rc_workflow_id = ''w1'', rc_input = ''go'', rc_key_mode = None, rc_idempotency_key = Some ''k''\<rparr>"

lemma sample_current_any:
  "get_user (se_db s) ''u1'' = Some (sample_user ''u1'') \<Longrightarrow>
   current_user sample_web (sample_request ''u1'') s = (Inr (sample_user ''u1''), s)"
  by (simp add: current_user_def ebind_Inr sample_claims eret_def)

lemma sample_submits:
  "\<exists>run sv1 run' sv2. serve (create_run sample_web (sample_request ''u1'') ''o1'' sample_submission None) sample_server = (Inr run, sv1) \<and>
     length (db_runs (sv_db sv1)) = 2 \<and>
     serve (create_run sample_web (sample_request ''u1'') ''o1'' sample_submission None) sv1 = (Inr run', sv2)"
proof -
  have valid: "validate_graph ''pipeline'' sample_graph = Inr [JStr ''a1'']" by code_simp
  have user: "get_user d ''u1'' = Some (sample_user ''u1'')" if "db_users d = [sample_user ''u1'', sample_user ''u2'']" for d
    using that by (simp add: get_user_def row_get_def)
  have flow: "get_workflow_row d ''w1'' = Some sample_workflow" if "db_workflows d = [sample_workflow]" for d
    using that by (simp add: get_workflow_row_def row_get_def sample_workflow_def)
  have wf: "wf_org_id sample_workflow = ''o1''" "wf_is_active sample_workflow" "wf_preset sample_workflow = ''pipeline''"
      "wf_graph sample_workflow = sample_graph" by (simp_all add: sample_workflow_def)
  have ceiling: "submission_ceiling (wb_settings sample_web) sample_workflow = Inr 500"
    by (simp add: submission_ceiling_def limit_of_def wf sample_graph_def int_or_raise_def dget_or_def rbind_def)
  have sub: "run_create_ok sample_submission" "rc_workflow_id sample_submission = ''w1''" "submit_key sample_submission None = Some ''k''"
    "rc_key_mode sample_submission = None"
    by (simp_all add: run_create_ok_def sample_submission_def submit_key_def text_or_def)
  have ctx: "oc_org_id sample_context = ''o1''" "oc_org sample_context = sample_org" "oc_user sample_context = sample_user ''u1''"
    by (simp_all add: oc_org_id_def sample_context_def)
  have admit: "admit_run sample_web ''o1'' s = (Inr (), s\<lparr>se_server := (se_server s)\<lparr>sv_redis := (sv_redis (se_server s))\<lparr>rd_windows :=
      dset ''rl:runs:o1'' [(100, ''b'')] (rd_windows (sv_redis (se_server s)))\<rparr>\<rparr>\<rparr>)"
    if "dget (rd_windows (sv_redis (se_server s))) ''rl:runs:o1'' = None" "rd_counters (sv_redis (se_server s)) = []" for s
    using that by (simp add: admit_run_def ebind_def ethen_def sample_limits sample_window dget_or_def eget_def slots_in_use_def
      rd_value_def rd_get_def need_def eret_def)
  have credit: "ensure_credit sample_web ''o1'' ''managed'' 500 s = (Inr (), s)" if "db_orgs (se_db s) = [sample_org]" for s
    using that by (simp add: ensure_credit_def ensure_can_start_def get_org_def row_get_def eret_def)
  let ?run = "new_run sample_web sample_context sample_submission (Some ''k'') ''managed'' 500"
  have run: "rn_id ?run = ''k''" "rn_idempotency_key ?run = Some ''k''" "rn_org_id ?run = ''o1''"
    by (simp_all add: new_run_def ctx)
  have submit: "\<exists>s'. submit_run sample_web rq sample_context ?run s = (Inr ?run, s') \<and> db_runs (se_db s') = [sample_run, ?run] \<and>
      db_users (se_db s') = db_users (se_db s) \<and> db_memberships (se_db s') = db_memberships (se_db s) \<and>
      db_orgs (se_db s') = db_orgs (se_db s) \<and> db_workflows (se_db s') = db_workflows (se_db s) \<and>
      sv_redis (se_server s') = sv_redis (se_server s)" if "db_runs (se_db s) = [sample_run]" for s rq
  proof -
    have "\<not> run_clash ?run sample_run" by (simp add: run_clash_def run sample_run_def)
    then have "flush_run sample_web ?run s = (Inr (), s\<lparr>se_db := (se_db s)\<lparr>db_runs := [sample_run, ?run]\<rparr>\<rparr>)"
      using that by (simp add: flush_run_def in_db_def add_run_def insert_row_def)
    then show ?thesis
      by (simp add: submit_run_def ebind_def ethen_def ecatch_def audit_run enqueue_def emod_def eret_def commit_def audit_record_def)
  qed
  let ?h = "create_run sample_web (sample_request ''u1'') ''o1'' sample_submission None"
  obtain s1 where s1: "?h (get_session sample_server) = (Inr ?run, s1)" "db_runs (se_db s1) = [sample_run, ?run]"
      "db_users (se_db s1) = [sample_user ''u1'', sample_user ''u2'']" "db_memberships (se_db s1) = [sample_owner]"
      "db_orgs (se_db s1) = [sample_org]" "db_workflows (se_db s1) = [sample_workflow]"
      "rd_windows (sv_redis (se_server s1)) = [(''rl:api:u1'', [(100, ''a'')]), (''rl:runs:o1'', [(100, ''b'')])]"
  proof -
    let ?s = "(get_session sample_server)\<lparr>se_server := sample_server\<lparr>sv_redis := \<lparr>rd_windows =
       [(''rl:api:u1'', [(100, ''a'')]), (''rl:runs:o1'', [(100, ''b'')])], rd_counters = []\<rparr>\<rparr>\<rparr>"
    have "?h (get_session sample_server) = submit_run sample_web (sample_request ''u1'') sample_context ?run ?s"
      by (simp add: create_run_def sample_route sample_current_any user dget_or_def empty_redis_def sub flow wf valid ctx
        submit_once_def select_one_run same_key_run_def sample_run_def accept_run_def ebind_Inr ethen_Inr admit ceiling credit text_or_def Let_def)
    then show ?thesis using submit [of ?s "sample_request ''u1''"] that by auto
  qed
  let ?sv = "se_server (commit s1)"
  have "\<exists>s2. ?h (get_session ?sv) = (Inr ?run, s2)"
    using s1 by (simp add: create_run_def sample_route sample_current_any user dget_or_def sub flow wf valid ctx get_session_def commit_def
        submit_once_def select_one_run same_key_run_def run sample_run_def eret_def)
  then obtain s2 where "?h (get_session ?sv) = (Inr ?run, s2)" ..
  with s1(1,2) show ?thesis by (simp add: serve_def) (simp add: commit_def)
qed

lemma sample_cancels:
  "\<exists>run sv1. serve (cancel_run sample_web (sample_request ''u1'') ''o1'' ''r1'') sample_server = (Inr run, sv1)"
proof -
  have user: "get_user d ''u1'' = Some (sample_user ''u1'')" if "db_users d = [sample_user ''u1'', sample_user ''u2'']" for d
    using that by (simp add: get_user_def row_get_def)
  have run: "get_run_row d ''r1'' = Some sample_run" if "db_runs d = [sample_run]" for d
    using that by (simp add: get_run_row_def row_get_def sample_run_def)
  have ctx: "oc_org_id sample_context = ''o1''" by (simp add: oc_org_id_def sample_context_def)
  have set: "get_run_row (set_run_row ''r1'' f d) ''r1'' = map_option f (get_run_row d ''r1'')" if "\<And>r. rn_id (f r) = rn_id r" for f d
    using get_run_set [of f "''r1''" d "''r1''"] that by simp
  show ?thesis
    by (simp add: serve_def cancel_run_def sample_route sample_current_any user dget_or_def empty_redis_def owned_run_run run ctx
      sample_run_def is_terminal_def TERMINAL_STATUSES_def ethen_assoc with_bus_run set eret_def)
qed

end
