(* ===== verification/Service.thy ===== *)
theory Service
  imports Api_Samples
begin

text \<open>
  What the HTTP service and the worker guarantee: sessions, tenants, ownership, limits, submission and
  cancellation. Each property is a few steps over the lemmas of the theory of its component.
\<close>

section \<open>Sessions\<close>

lemma refresh_success:
  assumes "serve (refresh wb rq) sv = (Inr out, sv')" "presented_token rq = Inr (JStr token)"
  shows "refresh_rotated wb rq token (Inr out) sv sv' \<and> token \<noteq> []"
proof -
  have "token \<noteq> []" using assms by (auto simp: serve_Inr refresh_def get_session_def split: if_splits)
  then show ?thesis using refresh_outcome [OF assms] by (auto simp: refresh_failed_def refresh_reused_def)
qed

text \<open>A digest that no live row carries is refused, whoever presents the token.\<close>

lemma dead_token_refused:
  assumes "presented_token rq = Inr (JStr token)"
    "list_all (\<lambda>t. rt_token_hash t = wb_sha256 wb token \<longrightarrow> \<not> exchangeable t) (db_refresh_tokens (sv_db sv))"
  shows "\<exists>e. fst (serve (refresh wb rq) sv) = Inl e"
proof -
  obtain r sv' where s: "serve (refresh wb rq) sv = (r, sv')" by (metis surj_pair)
  have "\<not> refresh_rotated wb rq token r sv sv'"
    using assms(2) by (auto simp: refresh_rotated_def filter_eq_Cons_iff)
  then show ?thesis using refresh_outcome [OF s assms(1)] s by (auto simp: refresh_failed_def refresh_reused_def)
qed

lemma revoke_all_iff: "list_all P (db_refresh_tokens (revoke_where p now d)) =
    list_all (\<lambda>t. P (if p t \<and> rt_revoked_at t = None then t\<lparr>rt_revoked_at := Some now\<rparr> else t)) (db_refresh_tokens d)"
  by (simp add: revoke_where_def list.pred_map comp_def)

text \<open>After a rotation the old and the new token lie in one family.\<close>

lemma rotated_family:
  assumes "refresh_rotated wb rq token (Inr (tk, ck)) sv sv1" "distinct (map rt_token_hash (db_refresh_tokens (sv_db sv)))"
    "list_all (\<lambda>t. rt_family_id t \<noteq> []) (db_refresh_tokens (sv_db sv))"
  obtains stored where "filter (\<lambda>t. rt_token_hash t = wb_sha256 wb token) (db_refresh_tokens (sv_db sv1)) = [stored]" "\<not> exchangeable stored"
    "list_all (\<lambda>t. rt_token_hash t \<in> {wb_sha256 wb token, wb_sha256 wb (tk_refresh_token tk)} \<longrightarrow> rt_family_id t = rt_family_id stored)
       (db_refresh_tokens (sv_db sv1))"
proof -
  obtain old user where old: "filter (\<lambda>t. rt_token_hash t = wb_sha256 wb token) (db_refresh_tokens (sv_db sv)) = [old]"
    and tk: "tk_refresh_token tk = wb_random wb 12"
    and add: "add_refresh_token (issued_row wb user (Some (rt_family_id old)) (rq_user_agent rq) (client_ip rq))
       (set_token (rt_id old) (\<lambda>t. t\<lparr>rt_used_at := Some (wb_now wb 4)\<rparr>) (sv_db sv)) = (Inr (), sv_db sv1)"
    using assms(1) unfolding refresh_rotated_def by auto
  let ?g = "\<lambda>t :: refresh_token_row. if rt_id t = rt_id old then t\<lparr>rt_used_at := Some (wb_now wb 4)\<rparr> else t"
  let ?row = "issued_row wb user (Some (rt_family_id old)) (rq_user_agent rq) (client_ip rq)"
  have mem: "old \<in> set (db_refresh_tokens (sv_db sv))" "rt_token_hash old = wb_sha256 wb token"
    using old by (auto simp: filter_eq_Cons_iff)
  have rows: "db_refresh_tokens (sv_db sv1) = map ?g (db_refresh_tokens (sv_db sv)) @ [?row]"
    and new: "list_all (\<lambda>x. rt_token_hash ?row \<noteq> rt_token_hash x) (map ?g (db_refresh_tokens (sv_db sv)))"
    using add by (auto simp: add_refresh_token_Inr set_token_def row_set_def list_all_iff)
  have row: "rt_token_hash ?row = wb_sha256 wb (tk_refresh_token tk)" "rt_family_id ?row = rt_family_id old"
    using assms(3) mem by (auto simp: issued_row_def tk list_all_iff)
  have ne: "rt_token_hash t \<noteq> wb_sha256 wb (tk_refresh_token tk)" if "t \<in> set (db_refresh_tokens (sv_db sv))" for t
    using new that unfolding row(1) list.pred_map by (auto simp: list_all_iff split: if_splits)
  have "filter (\<lambda>t. rt_token_hash t = wb_sha256 wb token) (map ?g xs) = map ?g (filter (\<lambda>t. rt_token_hash t = wb_sha256 wb token) xs)" for xs
    by (induction xs) auto
  then have one: "filter (\<lambda>t. rt_token_hash t = wb_sha256 wb token) (db_refresh_tokens (sv_db sv1)) = [?g old]"
    unfolding rows filter_append using ne [OF mem(1)] mem(2) row(1) by (simp add: old)
  have "rt_family_id t = rt_family_id old" if "t \<in> set (db_refresh_tokens (sv_db sv1))"
    "rt_token_hash t \<in> {wb_sha256 wb token, wb_sha256 wb (tk_refresh_token tk)}" for t
  proof (cases "t = ?row")
    case True
    then show ?thesis using row by simp
  next
    case False
    then have t: "t \<in> set (map ?g (db_refresh_tokens (sv_db sv)))" using that(1) unfolding rows by simp
    then have "rt_token_hash t \<noteq> wb_sha256 wb (tk_refresh_token tk)" by (auto dest: ne split: if_splits)
    then have "t \<in> set (filter (\<lambda>t. rt_token_hash t = wb_sha256 wb token) (db_refresh_tokens (sv_db sv1)))" using that by simp
    then show ?thesis unfolding one by simp
  qed
  then show ?thesis by (intro that [OF one]) (auto simp: exchangeable_def list_all_iff)
qed

text \<open>C19. Replaying a refresh token after it was exchanged is answered by the revocation of its whole
  family, which survives the failed request: neither the replayed token nor the one it was exchanged
  for is accepted from anyone afterwards.\<close>

theorem replay_revokes_the_family:
  assumes "tokens_ok (sv_db sv)" "list_all (\<lambda>t. rt_family_id t \<noteq> []) (db_refresh_tokens (sv_db sv))"
    and "presented_token rq = Inr (JStr token)" "serve (refresh wb rq) sv = (Inr (tk, ck), sv1)"
    and "presented_token rq1 = Inr (JStr token)" "serve (refresh wb1 rq1) sv1 = (r, sv2)" "wb_sha256 wb1 = wb_sha256 wb"
    and "presented_token rq2 = Inr (JStr stolen)" "stolen \<in> {token, tk_refresh_token tk}" "wb_sha256 wb2 = wb_sha256 wb"
  shows "r = Inl reuse_error \<and> (\<exists>e. fst (serve (refresh wb2 rq2) sv2) = Inl e)"
proof -
  have dist: "distinct (map rt_token_hash (db_refresh_tokens (sv_db sv)))" using assms(1) by (simp add: tokens_ok_def)
  obtain stored where st: "filter (\<lambda>t. rt_token_hash t = wb_sha256 wb token) (db_refresh_tokens (sv_db sv1)) = [stored]" "\<not> exchangeable stored"
    and fam: "list_all (\<lambda>t. rt_token_hash t \<in> {wb_sha256 wb token, wb_sha256 wb (tk_refresh_token tk)} \<longrightarrow>
      rt_family_id t = rt_family_id stored) (db_refresh_tokens (sv_db sv1))"
    by (rule rotated_family [OF conjunct1 [OF refresh_success [OF assms(4,3)]] dist assms(2)])
  have "token \<noteq> []" using refresh_success [OF assms(4,3)] ..
  from spent_is_reused [OF st [unfolded assms(7) [symmetric]] assms(5) this] have r: "r = Inl reuse_error"
    and rows: "db_refresh_tokens (sv_db sv2) =
      db_refresh_tokens (revoke_where (\<lambda>t. rt_family_id t = rt_family_id stored) (wb_now wb1 3) (sv_db sv1))"
    using assms(6) by auto
  have "list_all (\<lambda>t. rt_token_hash t = wb_sha256 wb2 stolen \<longrightarrow> \<not> exchangeable t) (db_refresh_tokens (sv_db sv2))"
    unfolding rows assms(10) revoke_all_iff using fam
  proof (rule list.pred_mono_strong)
    fix t :: refresh_token_row
    assume "rt_token_hash t \<in> {wb_sha256 wb token, wb_sha256 wb (tk_refresh_token tk)} \<longrightarrow> rt_family_id t = rt_family_id stored"
    moreover have "wb_sha256 wb stolen \<in> {wb_sha256 wb token, wb_sha256 wb (tk_refresh_token tk)}" using assms(9) by blast
    ultimately show "rt_token_hash (if rt_family_id t = rt_family_id stored \<and> rt_revoked_at t = None
        then t\<lparr>rt_revoked_at := Some (wb_now wb1 3)\<rparr> else t) = wb_sha256 wb stolen \<longrightarrow>
      \<not> exchangeable (if rt_family_id t = rt_family_id stored \<and> rt_revoked_at t = None
        then t\<lparr>rt_revoked_at := Some (wb_now wb1 3)\<rparr> else t)"
      by (cases "rt_family_id t = rt_family_id stored") (auto simp: exchangeable_def)
  qed
  from dead_token_refused [OF assms(8) this] show ?thesis using r by blast
qed

lemma sample_rotates: "\<exists>tk ck sv1. serve (refresh sample_web (sample_request i)) sample_server = (Inr (tk, ck), sv1)"
  by (simp add: serve_def refresh_text_run [OF sample_presented] exchangeable_def get_user_def row_get_def
      issue_tokens_def create_access_token_def jwt_secret_def in_db_run add_refresh_token_def insert_row_def
      set_token_def row_set_def issued_row_def Let_def eret_def ebind_def)

theorem replay_revokes_the_family_witness:
  "\<exists>tk ck sv1 sv2. serve (refresh sample_web (sample_request [])) sample_server = (Inr (tk, ck), sv1) \<and>
     serve (refresh sample_web (sample_request [])) sv1 = (Inl reuse_error, sv2) \<and>
     (\<exists>e. fst (serve (refresh sample_web (sample_request [])) sv2) = Inl e)"
proof -
  obtain tk ck sv1 where 1: "serve (refresh sample_web (sample_request [])) sample_server = (Inr (tk, ck), sv1)"
    using sample_rotates by blast
  obtain r sv2 where 2: "serve (refresh sample_web (sample_request [])) sv1 = (r, sv2)" by (metis surj_pair)
  have "list_all (\<lambda>t. rt_family_id t \<noteq> []) (db_refresh_tokens (sv_db sample_server))"
    by simp
  from replay_revokes_the_family [OF sample_tokens_ok this sample_presented 1 sample_presented 2 _ sample_presented] 1 2
  show ?thesis by auto
qed

text \<open>C20. Whatever sequence of registrations, sign-ins, refreshes, sign-outs and password changes is served,
  at most one refresh token of a family can be exchanged, and no two tokens share an id or a digest.\<close>

theorem one_live_token_per_family:
  assumes "auth_step\<^sup>*\<^sup>* sv sv'" "tokens_ok (sv_db sv)"
  shows "live_in f (sv_db sv') \<le> 1 \<and> distinct (map rt_token_hash (db_refresh_tokens (sv_db sv'))) \<and>
    distinct (map rt_id (db_refresh_tokens (sv_db sv')))"
  using auth_steps_ok [OF assms] tokens_ok_live by (simp add: tokens_ok_def)

theorem one_live_token_per_family_witness:
  "\<exists>tk ck sv1. serve (refresh sample_web (sample_request [])) sample_server = (Inr (tk, ck), sv1) \<and> live_in ''f'' (sv_db sv1) \<le> 1"
proof -
  obtain tk ck sv1 where 1: "serve (refresh sample_web (sample_request [])) sample_server = (Inr (tk, ck), sv1)"
    using sample_rotates by blast
  have "auth_step sample_server sv1"
    by (rule step_refresh [OF _ 1]) (simp add: family_unused_def)
  from one_live_token_per_family [OF r_into_rtranclp [of auth_step, OF this] sample_tokens_ok] 1 show ?thesis by blast
qed

text \<open>C21. After a global sign-out or a password change every refresh token of the user is revoked, and an
  access token issued before is refused on every route, whatever its remaining life.\<close>

theorem sign_out_ends_every_session:
  assumes "serve (logout_everywhere wb rq) sv = (Inr (), sv') \<or> serve (change_password wb rq p) sv = (Inr (), sv')"
    and "current_user wb rq (get_session sv) = (Inr user, s)"
    and "current_claims wb' rq' s' = (Inr cl, s'')" "cl_user_id cl = u_id user" "cl_token_epoch cl \<le> u_token_epoch user"
  shows "list_all (\<lambda>t. rt_user_id t = u_id user \<longrightarrow> rt_revoked_at t \<noteq> None) (db_refresh_tokens (sv_db sv')) \<and>
    serve (user_route wb' rq' body) sv' = (Inl ended_error, sv') \<and>
    serve (org_route wb' rq' org_id minimum body') sv' = (Inl ended_error, sv')"
proof -
  have over: "sessions_over user (sv_db sv')"
    using assms(1,2) logout_everywhere_over change_password_over by fastforce
  then have "current_user wb' rq' (get_session sv') = (Inl ended_error, get_session sv')"
    using current_claims_same [OF assms(3), of "get_session sv'"] assms(4,5) current_user_Inr [OF assms(2)]
    by (auto simp: current_user_def ebind_Inr sessions_over_def get_session_def ended_error_def)
  then show ?thesis using over
    by (simp add: serve_def user_route_def org_route_def ebind_Inl sessions_over_def) (simp add: get_session_def)
qed

theorem sign_out_ends_every_session_witness:
  "\<exists>sv'. serve (logout_everywhere sample_web (sample_request ''u1'')) sample_server = (Inr (), sv') \<and>
     serve (user_route sample_web (sample_request ''u1'') eret) sv' = (Inl ended_error, sv')"
proof -
  let ?h = "logout_everywhere sample_web (sample_request ''u1'')"
  obtain sv' where 1: "serve ?h sample_server = (Inr (), sv')"
    using sample_current(1) by (auto simp: logout_everywhere_def user_route_def serve_def ebind_Inr end_sessions_run audit_run
        ethen_def ebind_def)
  from sign_out_ends_every_session [OF disjI1 [OF 1] sample_current(1) sample_claims [of "''u1''"], of eret "''o1''" None "\<lambda>_. eret ()"]
  have "serve (user_route sample_web (sample_request ''u1'') eret) sv' = (Inl ended_error, sv')" by (simp add: sample_user_def)
  with 1 show ?thesis by blast
qed

section \<open>Tenants\<close>

text \<open>A registration that answers with tokens has met the password policy, was for an address no account
  had, and leaves exactly one account with that address: the single owner of a new organisation, whose
  balance is the signup bonus and whose books balance.\<close>

theorem registration_creates_a_tenant:
  assumes "serve (register wb rq p) sv = (Inr out, sv')" "ledger_ok (sv_db sv)" "org_unused (wb_random wb 15) (sv_db sv)"
  shows "validate_password (wb_settings wb) (rg_password p) = None \<and>
    list_all (\<lambda>u. u_email u \<noteq> lower (rg_email p)) (db_users (sv_db sv)) \<and>
    tenant_of wb p (sv_db sv') \<and> ledger_ok (sv_db sv')"
  using register_tenant [OF assms] by blast

theorem registration_creates_a_tenant_witness:
  "\<exists>out sv'. serve (register sample_web (sample_request []) sample_registration) sample_server = (Inr out, sv') \<and>
     tenant_of sample_web sample_registration (sv_db sv')"
proof -
  obtain out sv' where 1: "serve (register sample_web (sample_request []) sample_registration) sample_server = (Inr out, sv')"
    using sample_registers by blast
  have "ledger_ok (sv_db sample_server)" "org_unused (wb_random sample_web 15) (sv_db sample_server)"
    using sample_ledger_ok by (simp_all add: org_unused_def ledger_ok_def entries_def ledger_sum_def stale_db_def sample_db_def sample_grant_def)
  from registration_creates_a_tenant [OF 1 this] 1 show ?thesis by blast
qed

definition refused :: "'a api \<Rightarrow> server \<Rightarrow> bool" where
  "refused h sv \<longleftrightarrow> (\<exists>e sv'. serve h sv = (Inl e, sv') \<and> sv_db sv' = sv_db sv \<and> sv_queue sv' = sv_queue sv \<and> sv_buses sv' = sv_buses sv)"

lemma outsider_route:
  assumes "current_user wb rq (get_session sv) = (Inr user, get_session sv)" "\<not> u_is_superuser user"
    "list_all (\<lambda>m. \<not> (mb_org_id m = org_id \<and> mb_user_id m = u_id user)) (db_memberships (sv_db sv))"
  shows "refused (org_route wb rq org_id minimum body) sv"
  using outsider_refused [OF _ assms, of minimum body] unfolding refused_def by (metis surj_pair)



text \<open>C23. The limiter admits at most \<open>limit\<close> calls of a bucket in any window: of the instants admitted up to any
  call, at most \<open>limit\<close> lie after the start of the window that ends there. For clocks that do not run
  backwards.\<close>

theorem window_admits_at_most_limit:
  assumes "sorted (map fst calls)" "distinct (map snd calls)" "\<forall>c \<in> set calls. 0 \<le> fst c" "calls \<noteq> []"
  shows "int (later (fl (fst (last calls) - of_int window)) (admitted window limit [] calls)) \<le> max 0 limit"
  by (rule window_admits [OF assms])

theorem window_admits_at_most_limit_witness:
  "later (fl (30 - of_int 60)) (admitted 60 2 [] [(10, ''a''), (20, ''b''), (30, ''c'')]) \<le> 2"
  using window_admits_at_most_limit [of "[(10, ''a''), (20, ''b''), (30, ''c'')]" 60 2] by simp

section \<open>Ownership\<close>

text \<open>C24. Through any sequence of registrations, invitations, role changes, removals and billing requests,
  every organisation keeps an owner, and a user has at most one membership in it.\<close>

theorem every_organisation_keeps_an_owner:
  assumes "org_step\<^sup>*\<^sup>* sv sv'" "tenants_ok (sv_db sv)" "org \<in> set (db_orgs (sv_db sv'))"
  shows "owners (o_id org) (sv_db sv') \<noteq> {} \<and>
    distinct (map (\<lambda>m. (mb_user_id m, mb_org_id m)) (db_memberships (sv_db sv')))"
  using org_steps_ok [OF assms(1,2)] assms(3) by (auto simp: tenants_ok_def list_all_iff)

text \<open>Here the only owner asks to be removed.\<close>

theorem every_organisation_keeps_an_owner_witness:
  "\<exists>r sv'. serve (remove_member sample_web (sample_request ''u1'') ''o1'' ''u1'') sample_server = (r, sv') \<and>
     (sample_org \<in> set (db_orgs (sv_db sv')) \<longrightarrow> owners ''o1'' (sv_db sv') \<noteq> {})"
proof -
  obtain r sv' where 1: "serve (remove_member sample_web (sample_request ''u1'') ''o1'' ''u1'') sample_server = (r, sv')"
    by (metis surj_pair)
  from every_organisation_keeps_an_owner [OF r_into_rtranclp [of org_step, OF org_remove [OF 1]] sample_tenants_ok, of sample_org] 1
  show ?thesis by simp
qed



section \<open>Runs\<close>

text \<open>C26. Submitting again under an idempotency key answers with the run of the first submission and changes
  nothing - no second run, no second job, no second audit entry - also when the first one lost a race
  for the key.\<close>

lemma submitted_once:
  assumes "serve (create_run wb rq org_id p hdr) sv = (Inr run, sv')" "submit_key p hdr = Some k" "k \<noteq> []"
  shows "filter (same_key_run org_id (Some k)) (db_runs (sv_db sv')) = [run]"
  using create_run_Inr [OF assms(1)] assms(2,3)
  by (auto simp: run_stored_def run_raced_def run_admitted_def same_key_run_def)



text \<open>C27. A run cancelled while it is queued never starts: its row says so, clients are told, and the job that
  is still queued finds it and leaves everything as it is - no slot, no model call, no charge.\<close>

theorem cancelled_run_never_starts:
  assumes "serve (cancel_run wb rq org_id run_id) sv = (Inr run, sv1)"
    and "get_run_row (sv_db sv) run_id = Some r0" "rn_status r0 = ''queued''"
  shows "rn_status run = ''cancelled'' \<and> get_run_row (sv_db sv1) run_id = Some run \<and>
    ev_type (last (bus_published (bus_of sv1 run_id))) = RUN_CANCELLED \<and>
    run_workflow xo t0 t1 run_id sv1 = (Inr (), sv1)"
proof -
  have "\<not> is_terminal (rn_status r0)" by (simp add: is_terminal_def TERMINAL_STATUSES_def assms(3))
  then have run: "run = cancelled_row wb r0" "get_run_row (sv_db sv1) run_id = Some run"
      "ev_type (last (bus_published (bus_of sv1 run_id))) = RUN_CANCELLED"
    using cancel_run_Inr [OF assms(1)] assms(2,3) by auto
  moreover have "rn_status run = ''cancelled''" by (simp add: run(1) cancelled_row_def assms(3))
  ultimately show ?thesis using job_skips [OF run(2)] by simp
qed

theorem cancelled_run_never_starts_witness:
  "\<exists>run sv1. serve (cancel_run sample_web (sample_request ''u1'') ''o1'' ''r1'') sample_server = (Inr run, sv1) \<and>
     run_workflow sample_outside 0 0 ''r1'' sv1 = (Inr (), sv1)"
proof -
  obtain run sv1 where 1: "serve (cancel_run sample_web (sample_request ''u1'') ''o1'' ''r1'') sample_server = (Inr run, sv1)"
    using sample_cancels by blast
  have "get_run_row (sv_db sample_server) ''r1'' = Some sample_run" "rn_status sample_run = ''queued''"
    by (simp_all add: get_run_row_def row_get_def sample_run_def)
  from cancelled_run_never_starts [OF 1 this] 1 show ?thesis by blast
qed



end
