(* ===== verification/Secrets.thy ===== *)
theory Secrets
  imports Api_Samples
begin

text \<open>
  What the service guarantees about the provider keys of its organisations: storing, isolation,
  resolution by the engine, and rotation of the key that protects them.
\<close>

text \<open>
  A cipher for the witnesses: a tag made of the associated data goes before the message. Any cipher with the
  contract of theory \<open>Crypto\<close> serves; this one models no code.
\<close>

definition toy_tag :: "bytes \<Rightarrow> bytes" where
  "toy_tag a = replicate (length a) 1 @ 0 # a"

definition toy_cipher :: cipher where
  "toy_cipher = \<lparr>ci_encrypt = (\<lambda>k n m a. Inr (toy_tag a @ m)),
     ci_decrypt = (\<lambda>k n c a. if take (length (toy_tag a)) c = toy_tag a then Inr (drop (length (toy_tag a)) c) else Inl InvalidTag),
     ci_urandom = (\<lambda>i n. replicate n 0)\<rparr>"

lemma toy_tag_unique:
  assumes "take (length (toy_tag a')) (toy_tag a @ m) = toy_tag a'"
  shows "a' = a"
proof -
  have "toy_tag a @ m = toy_tag a' @ drop (length (toy_tag a')) (toy_tag a @ m)" by (metis assms append_take_drop_id)
  then have eq: "replicate (length a) 1 @ 0 # (a @ m) = replicate (length a') 1 @ 0 # (a' @ drop (length (toy_tag a')) (toy_tag a @ m))"
    by (simp add: toy_tag_def)
  have tw: "takeWhile (\<lambda>x. x = 1) (replicate n (1 :: byte) @ 0 # r) = replicate n 1" for n r
    by (induction n) simp_all
  have "replicate (length a) (1 :: byte) = replicate (length a') 1" using arg_cong [OF eq, of "takeWhile (\<lambda>x. x = 1)"] unfolding tw .
  then have "length a = length a'" by (metis length_replicate)
  with eq show ?thesis by simp
qed

lemma toy_ok: "aead_ok toy_cipher" "urandom_ok toy_cipher"
proof -
  have "ci_decrypt toy_cipher k n (toy_tag a @ m) a' = Inl InvalidTag" if "a' \<noteq> a" for k n m a a'
    using toy_tag_unique [of a' a m] that by (auto simp: toy_cipher_def)
  moreover have "ci_decrypt toy_cipher k n (toy_tag a @ m) a = Inr m" "ci_encrypt toy_cipher k n m a = Inr (toy_tag a @ m)" for k n m a
    by (simp_all add: toy_cipher_def)
  ultimately show "aead_ok toy_cipher" unfolding aead_ok_def by blast
  show "urandom_ok toy_cipher" by (simp add: urandom_ok_def toy_cipher_def)
qed

lemma sample_key: "active_master_key (wb_settings sample_web) = Inr (''1'', b64e (replicate 32 0))"
  "kek_bytes v (b64e (replicate 32 x)) = Inr (replicate 32 x)"
  "plain_versions (wb_settings sample_web)" "distinct (dkeys (cfg_master_keys (wb_settings sample_web)))"
  by (simp_all add: active_master_key_def kek_bytes_def b64_round_trip plain_versions_def dkeys_def)

definition sample_new_key :: api_key_create where
  "sample_new_key = \<lparr>kc_provider = ''anthropic'', kc_api_key = '' sk-0123456789abcdef''\<rparr>"

lemma sample_new_key_facts:
  "api_key_create_ok sample_new_key" "strip (kc_api_key sample_new_key) = ''sk-0123456789abcdef''"
  "kc_provider sample_new_key = ''anthropic''"
  by code_simp+

lemma sample_stores:
  "\<exists>row sv'. serve (upsert_key sample_web toy_cipher (sample_request ''u1'') ''o1'' sample_new_key) sample_server = (Inr row, sv')"
proof -
  obtain blob where "encrypt_secret (wb_settings sample_web) toy_cipher 0 ''sk-0123456789abcdef'' ''o1'' = Inr blob"
    using encrypt_total [OF toy_ok sample_key(1,2)] by blast
  moreover have "oc_org_id sample_context = ''o1''" by (simp add: oc_org_id_def sample_context_def)
  moreover have "\<exists>row s'. store_key sample_web sample_context pv blob shown dg s = (Inr row, s')" if "db_api_keys (se_db s) = []" for pv blob shown dg s
    using that by (simp add: store_key_def select_one_run Let_def in_db_run add_api_key_def insert_row_def)
  moreover have "get_user (sv_db sample_server) ''u1'' = Some (sample_user ''u1'')" by (simp add: get_user_def row_get_def)
  ultimately show ?thesis
    by (simp add: serve_Inr upsert_key_def sample_route sample_current_any dget_or_def empty_redis_def sample_new_key_facts
      Let_def ebind_eq_Inr key_audit_run)
qed

text \<open>
  C29. The key that an organisation stores, stripped, is the one every own-key call of the organisation to a
  model of that provider uses, billed to the organisation. The stored ciphertext opens under the id of no other organisation, the
  keys of the others are left as they were, and there is one key per organisation and provider.
\<close>

theorem stored_key_is_the_key_used:
  assumes "serve (upsert_key wb ci rq org_id p) sv = (Inr row, sv')" "keys_unique (db_api_keys (sv_db sv))"
    "aead_ok ci" "urandom_ok ci" "plain_versions (wb_settings wb)" "distinct (dkeys (cfg_master_keys (wb_settings wb)))"
  shows "(\<forall>model spec kr. get_spec model = Inr spec \<and> provider_value (ms_provider spec) = kc_provider p \<and>
        kr_org_id kr = org_id \<and> kr_byok_cache kr = [] \<and> \<not> uses_platform (kr_mode kr) model \<longrightarrow>
        fst (resolve_key (wb_settings wb) (decrypt_secret (wb_settings wb) ci) (db_api_keys (sv_db sv')) model kr) =
          Inr \<lparr>rk_provider = ms_provider spec, rk_api_key = strip (kc_api_key p), rk_billed_to_platform = False\<rparr>) \<and>
    (\<forall>other. other \<noteq> org_id \<longrightarrow> decrypt_secret (wb_settings wb) ci (ak_ciphertext row) other = Inl InvalidTag) \<and>
    (\<forall>r. ak_org_id r \<noteq> org_id \<longrightarrow> (r \<in> set (db_api_keys (sv_db sv')) \<longleftrightarrow> r \<in> set (db_api_keys (sv_db sv)))) \<and>
    keys_unique (db_api_keys (sv_db sv'))"
proof -
  note up = upsert_key_Inr [OF assms(1,2)]
  then have "encrypt_secret (wb_settings wb) ci 0 (strip (kc_api_key p)) org_id = Inr (ak_ciphertext row)" by blast
  from encrypt_sealed [OF this assms(3-5) keeps_keys_refl [OF assms(6)]]
  have seal: "sealed (wb_settings wb) ci (ak_ciphertext row) org_id (strip (kc_api_key p))" by blast
  have "fst (resolve_key (wb_settings wb) (decrypt_secret (wb_settings wb) ci) (db_api_keys (sv_db sv')) model kr) =
      Inr \<lparr>rk_provider = ms_provider spec, rk_api_key = strip (kc_api_key p), rk_billed_to_platform = False\<rparr>"
    if "get_spec model = Inr spec" "provider_value (ms_provider spec) = kc_provider p" "kr_org_id kr = org_id" "kr_byok_cache kr = []"
      "\<not> uses_platform (kr_mode kr) model" for model spec kr
    using resolve_byok [OF that(1,5) byok_stored [of _ row kr "ms_provider spec"]] up that seal by (simp add: sealed_def)
  then show ?thesis using up seal by (auto simp: sealed_def)
qed

theorem stored_key_is_the_key_used_witness:
  "\<exists>row sv'. serve (upsert_key sample_web toy_cipher (sample_request ''u1'') ''o1'' sample_new_key) sample_server = (Inr row, sv') \<and>
     fst (resolve_key (wb_settings sample_web) (decrypt_secret (wb_settings sample_web) toy_cipher) (db_api_keys (sv_db sv'))
       ''claude-haiku-4-5'' \<lparr>kr_org_id = ''o1'', kr_mode = Byok, kr_byok_cache = []\<rparr>) =
     Inr \<lparr>rk_provider = Anthropic, rk_api_key = ''sk-0123456789abcdef'', rk_billed_to_platform = False\<rparr>"
proof -
  obtain row sv' where s: "serve (upsert_key sample_web toy_cipher (sample_request ''u1'') ''o1'' sample_new_key) sample_server = (Inr row, sv')"
    using sample_stores by blast
  have unique: "keys_unique (db_api_keys (sv_db sample_server))" by (simp add: keys_unique_def)
  obtain spec where spec: "get_spec ''claude-haiku-4-5'' = Inr spec" "ms_provider spec = Anthropic"
  proof -
    have "case get_spec ''claude-haiku-4-5'' of Inr x \<Rightarrow> ms_provider x = Anthropic | Inl _ \<Rightarrow> False" by code_simp
    then show ?thesis using that by (auto split: sum.splits)
  qed
  have "\<not> uses_platform Byok ''claude-haiku-4-5''" "provider_value Anthropic = ''anthropic''" by (simp_all add: uses_platform_def)
  with conjunct1 [OF stored_key_is_the_key_used [OF s unique toy_ok sample_key(3,4)], rule_format,
      of "''claude-haiku-4-5''" spec "\<lparr>kr_org_id = ''o1'', kr_mode = Byok, kr_byok_cache = []\<rparr>"] spec
  show ?thesis using s by (simp add: sample_new_key_facts)
qed

text \<open>
  C30. Rotation is invisible to the engine: whatever it reports, every credential resolves (or fails) after it as
  before, for every organisation, mode and model. After a rotation that reports success the versions that are not active can be
  removed from the configuration and everything still resolves the same.
\<close>

theorem rotation_preserves_resolution:
  assumes "aead_ok ci" "urandom_ok ci" "plain_versions cfg" "distinct (dkeys (cfg_master_keys cfg))"
    "rotate_keys cfg ci d = (outcome, d')"
  shows "resolve_key cfg (decrypt_secret cfg ci) (db_api_keys d') model kr = resolve_key cfg (decrypt_secret cfg ci) (db_api_keys d) model kr \<and>
    (\<forall>counts v k. outcome = Inr counts \<and> active_master_key cfg = Inr (v, k) \<longrightarrow>
      resolve_key (cfg\<lparr>cfg_master_keys := [(v, k)]\<rparr>) (decrypt_secret (cfg\<lparr>cfg_master_keys := [(v, k)]\<rparr>) ci) (db_api_keys d') model kr =
      resolve_key cfg (decrypt_secret cfg ci) (db_api_keys d) model kr)"
proof -
  have rows: "list_all2 (rotated_row cfg ci) (db_api_keys d) (db_api_keys d')"
    and fin: "outcome = Inr counts \<Longrightarrow> list_all (\<lambda>r. needs_rewrap cfg (ak_ciphertext r) = Inr False) (db_api_keys d')" for counts
    using rotate_keys_ok [OF assms(1-4), of d] by (simp_all add: assms(5))
  have "byok_key (decrypt_secret cfg ci) (db_api_keys d') p kr = byok_key (decrypt_secret cfg ci) (db_api_keys d) p kr" for p
    by (rule byok_rows, rule list_all2_mono [OF rows]) (simp add: rotated_same)
  moreover have "byok_key (decrypt_secret (cfg\<lparr>cfg_master_keys := [(v, k)]\<rparr>) ci) (db_api_keys d') p kr =
      byok_key (decrypt_secret cfg ci) (db_api_keys d) p kr" if "outcome = Inr counts" "active_master_key cfg = Inr (v, k)" for counts v k p
  proof (rule byok_rows)
    have "list_all2 (\<lambda>r r'. rotated_row cfg ci r r' \<and> needs_rewrap cfg (ak_ciphertext r') = Inr False) (db_api_keys d) (db_api_keys d')"
      using rows fin [OF that(1)] by (simp add: list_all2_conv_all_nth list_all_length)
    then show "list_all2 (\<lambda>r r'. ak_org_id r' = ak_org_id r \<and> ak_provider r' = ak_provider r \<and> ak_is_active r' = ak_is_active r \<and>
       decrypt_secret (cfg\<lparr>cfg_master_keys := [(v, k)]\<rparr>) ci (ak_ciphertext r') (ak_org_id r) = decrypt_secret cfg ci (ak_ciphertext r) (ak_org_id r))
       (db_api_keys d) (db_api_keys d')"
      by (rule list_all2_mono) (auto simp: active_alone [OF that(2)] dest: rotated_same)
  qed
  moreover have "platform_key (cfg\<lparr>cfg_master_keys := ks\<rparr>) p = platform_key cfg p" for ks p by (cases p) simp_all
  ultimately show ?thesis by (auto intro!: resolve_rows)
qed

text \<open>The stored key of the sample under a configuration whose newest version is \<open>2\<close>.\<close>

definition sample_rotated :: settings where
  "sample_rotated = (wb_settings sample_web)\<lparr>cfg_master_keys := [(''1'', b64e (replicate 32 0)), (''2'', b64e (replicate 32 1))],
     cfg_master_key_version := ''2''\<rparr>"

lemma sample_rotated_facts:
  "active_master_key sample_rotated = Inr (''2'', b64e (replicate 32 1))" "plain_versions sample_rotated"
  "distinct (dkeys (cfg_master_keys sample_rotated))" "keeps_keys (wb_settings sample_web) sample_rotated"
  by (simp_all add: active_master_key_def sample_rotated_def plain_versions_def dkeys_def keeps_keys_def)

theorem rotation_preserves_resolution_witness:
  "\<exists>row d'. encrypt_secret (wb_settings sample_web) toy_cipher 0 ''s'' (ak_org_id row) = Inr (ak_ciphertext row) \<and>
     rotate_keys sample_rotated toy_cipher (sample_db\<lparr>db_api_keys := [row]\<rparr>) = (Inr (1, 0), d') \<and>
     resolve_key (sample_rotated\<lparr>cfg_master_keys := [(''2'', b64e (replicate 32 1))]\<rparr>)
       (decrypt_secret (sample_rotated\<lparr>cfg_master_keys := [(''2'', b64e (replicate 32 1))]\<rparr>) toy_cipher) (db_api_keys d')
       ''claude-haiku-4-5'' \<lparr>kr_org_id = ''o1'', kr_mode = Byok, kr_byok_cache = []\<rparr> =
     resolve_key sample_rotated (decrypt_secret sample_rotated toy_cipher) [row]
       ''claude-haiku-4-5'' \<lparr>kr_org_id = ''o1'', kr_mode = Byok, kr_byok_cache = []\<rparr>"
proof -
  obtain blob where blob: "encrypt_secret (wb_settings sample_web) toy_cipher 0 ''s'' ''o1'' = Inr blob"
    using encrypt_total [OF toy_ok sample_key(1,2)] by blast
  define row where "row = \<lparr>ak_id = ''k'', ak_org_id = ''o1'', ak_provider = ''anthropic'', ak_ciphertext = blob, ak_mask = [], ak_fingerprint = [],
    ak_is_active = True, ak_last_used_at = None, ak_last_error = None, ak_created_by = None\<rparr>"
  have old: "needs_rewrap sample_rotated blob = Inr True" "decrypt_secret sample_rotated toy_cipher blob ''o1'' = Inr ''s''"
    using encrypt_outdated [OF blob sample_key(3,1) sample_rotated_facts(1)] encrypt_sealed [OF blob toy_ok sample_key(3) sample_rotated_facts(4)]
    by (simp_all add: sealed_def)
  obtain blob' where "encrypt_secret sample_rotated toy_cipher 0 ''s'' ''o1'' = Inr blob'"
    using encrypt_total [OF toy_ok sample_rotated_facts(1) sample_key(2)] by blast
  then obtain d' where d': "rotate_keys sample_rotated toy_cipher (sample_db\<lparr>db_api_keys := [row]\<rparr>) = (Inr (1, 0), d')"
    by (simp add: rotate_keys_def row_def old rewrap_def)
  have "encrypt_secret (wb_settings sample_web) toy_cipher 0 ''s'' (ak_org_id row) = Inr (ak_ciphertext row)" using blob by (simp add: row_def)
  then show ?thesis
    using rotation_preserves_resolution [OF toy_ok sample_rotated_facts(2,3) d', of "''claude-haiku-4-5''" "\<lparr>kr_org_id = ''o1'', kr_mode = Byok, kr_byok_cache = []\<rparr>"]
      d' sample_rotated_facts(1) by (intro exI [of _ row] exI [of _ d']) simp
qed

end
