(* ===== verification/Agents_Api.thy ===== *)
theory Agents_Api
  imports Runs_Api
begin

text \<open>
  \<^verbatim>\<open>api/routers/agents.py\<close> with the agent payloads of \<^verbatim>\<open>api/schemas.py\<close>. A model outside the registry is no
  \<open>ValueError\<close>, so it leaves the validator as it is; an explicit null that the schema lets through meets
  the columns that are not null at the flush, and null tools the response model.
\<close>

definition EFFORTS :: "string list" where
  "EFFORTS = [''low'', ''medium'', ''high'', ''xhigh'', ''max'']"

definition sized :: "nat \<Rightarrow> nat \<Rightarrow> string \<Rightarrow> bool" where
  "sized lo hi s = (lo \<le> length s \<and> length s \<le> hi)"

definition max_tokens_ok :: "int \<Rightarrow> bool" where
  "max_tokens_ok n = (256 \<le> n \<and> n \<le> 128000)"

text \<open>The validator of the tools: \<open>list(dict.fromkeys(value))\<close> of known names.\<close>

definition known_tools :: "string list \<Rightarrow> string list option" where
  "known_tools value = (if list_all (\<lambda>n. n \<in> known_names) value then Some (dkeys (dict_of (map (\<lambda>n. (n, ())) value))) else None)"

definition tools_ok :: "string list \<Rightarrow> bool" where
  "tools_ok value = (length value \<le> 16 \<and> known_tools value \<noteq> None)"

definition tools_value :: "string list \<Rightarrow> json list" where
  "tools_value value = map JStr (case known_tools value of Some ns \<Rightarrow> ns | None \<Rightarrow> [])"

record agent_create =
  ac_name :: string
  ac_role :: string
  ac_system_prompt :: string
  ac_model :: string
  ac_effort :: string
  ac_max_tokens :: int
  ac_tools :: "string list"

definition agent_create_ok :: "agent_create \<Rightarrow> bool" where
  "agent_create_ok p \<longleftrightarrow> non_empty_str (ac_name p) \<and> sized 1 100 (ac_role p) \<and> sized 0 100000 (ac_system_prompt p) \<and>
     sized 1 80 (ac_model p) \<and> ac_effort p \<in> set EFFORTS \<and> max_tokens_ok (ac_max_tokens p) \<and> tools_ok (ac_tools p)"

definition known_model :: "string \<Rightarrow> unit api" where
  "known_model m = (case get_spec m of Inl e \<Rightarrow> eraise (Crash e) | Inr _ \<Rightarrow> eret ())"

definition check_agent_create :: "agent_create \<Rightarrow> unit api" where
  "check_agent_create p = ethen (if sized 1 80 (ac_model p) then known_model (ac_model p) else eret ())
     (need (agent_create_ok p) (ValidationFailed ''body''))"

definition get_agent_row :: "db \<Rightarrow> string \<Rightarrow> agent_row option" where
  "get_agent_row d i = row_get ag_id i (db_agents d)"

definition set_agent_row :: "string \<Rightarrow> (agent_row \<Rightarrow> agent_row) \<Rightarrow> db \<Rightarrow> db" where
  "set_agent_row i f d = d\<lparr>db_agents := row_set ag_id i f (db_agents d)\<rparr>"

definition add_agent :: "agent_row \<Rightarrow> unit txn" where
  "add_agent r = (\<lambda>d. case insert_row (\<lambda>x y. ag_id x = ag_id y) r (db_agents d) of
     Inl e \<Rightarrow> (Inl e, d) | Inr rows \<Rightarrow> (Inr (), d\<lparr>db_agents := rows\<rparr>))"

definition owned_agent :: "string \<Rightarrow> string \<Rightarrow> agent_row api" where
  "owned_agent org_id agent_id = ebind (query (\<lambda>d. get_agent_row d agent_id)) (\<lambda>found. case found of
     None \<Rightarrow> reject 404 ''agent not found''
   | Some r \<Rightarrow> if ag_org_id r \<noteq> org_id then reject 404 ''agent not found'' else eret r)"

definition row_audit :: "string \<Rightarrow> string \<Rightarrow> request \<Rightarrow> org_context \<Rightarrow> string \<Rightarrow> jobj \<Rightarrow> unit api" where
  "row_audit action kind rq ctx i detail = audit action (Some (oc_org_id ctx)) (Some (u_id (oc_user ctx))) (Some (kind, i))
     (client_ip rq) None detail"

definition new_agent :: "web \<Rightarrow> org_context \<Rightarrow> agent_create \<Rightarrow> agent_row" where
  "new_agent wb ctx p = \<lparr>ag_id = wb_random wb 1, ag_org_id = oc_org_id ctx, ag_name = ac_name p, ag_role = ac_role p,
     ag_system_prompt = ac_system_prompt p, ag_model = ac_model p, ag_effort = ac_effort p, ag_max_tokens = ac_max_tokens p,
     ag_tools = tools_value (ac_tools p), ag_is_active = True, ag_created_by = Some (u_id (oc_user ctx))\<rparr>"

definition create_agent :: "web \<Rightarrow> request \<Rightarrow> string \<Rightarrow> agent_create \<Rightarrow> agent_row api" where
  "create_agent wb rq org_id p = org_route wb rq org_id (Some ''member'') (\<lambda>ctx.
     ethen (check_agent_create p)
     (let row = new_agent wb ctx p in
      ethen (in_db (add_agent row))
      (ethen (row_audit ''agent.created'' ''agent'' rq ctx (ag_id row) [(''name'', JStr (ag_name row)), (''model'', JStr (ag_model row))])
      (eret row))))"

definition list_agents :: "web \<Rightarrow> request \<Rightarrow> string \<Rightarrow> bool \<Rightarrow> agent_row list api" where
  "list_agents wb rq org_id include_inactive = org_route wb rq org_id None (\<lambda>ctx. query (\<lambda>d.
     filter (\<lambda>r. ag_org_id r = oc_org_id ctx \<and> (include_inactive \<or> ag_is_active r)) (db_agents d)))"

definition get_agent :: "web \<Rightarrow> request \<Rightarrow> string \<Rightarrow> string \<Rightarrow> agent_row api" where
  "get_agent wb rq org_id agent_id = org_route wb rq org_id None (\<lambda>ctx. owned_agent (oc_org_id ctx) agent_id)"

record agent_update =
  ap_name :: "string sent"
  ap_role :: "string sent"
  ap_system_prompt :: "string sent"
  ap_model :: "string sent"
  ap_effort :: "string sent"
  ap_max_tokens :: "int sent"
  ap_tools :: "string list sent"
  ap_is_active :: "bool sent"

definition agent_update_ok :: "agent_update \<Rightarrow> bool" where
  "agent_update_ok p \<longleftrightarrow> null_or non_empty_str (ap_name p) \<and> null_or (sized 1 100) (ap_role p) \<and>
     null_or (sized 0 100000) (ap_system_prompt p) \<and> null_or (\<lambda>e. e \<in> set EFFORTS) (ap_effort p) \<and>
     null_or max_tokens_ok (ap_max_tokens p) \<and> null_or tools_ok (ap_tools p)"

definition check_agent_update :: "agent_update \<Rightarrow> unit api" where
  "check_agent_update p = ethen (case ap_model p of Some (Some m) \<Rightarrow> known_model m | _ \<Rightarrow> eret ())
     (need (agent_update_ok p) (ValidationFailed ''body''))"

definition agent_nulls :: "agent_update \<Rightarrow> bool" where
  "agent_nulls p \<longleftrightarrow> sent_null (ap_name p) \<or> sent_null (ap_role p) \<or> sent_null (ap_system_prompt p) \<or> sent_null (ap_model p) \<or>
     sent_null (ap_effort p) \<or> sent_null (ap_max_tokens p) \<or> sent_null (ap_is_active p)"

definition changed_agent :: "agent_update \<Rightarrow> agent_row \<Rightarrow> agent_row" where
  "changed_agent p r = r\<lparr>ag_name := sent_or (ap_name p) (ag_name r), ag_role := sent_or (ap_role p) (ag_role r),
     ag_system_prompt := sent_or (ap_system_prompt p) (ag_system_prompt r), ag_model := sent_or (ap_model p) (ag_model r),
     ag_effort := sent_or (ap_effort p) (ag_effort r), ag_max_tokens := sent_or (ap_max_tokens p) (ag_max_tokens r),
     ag_tools := (case ap_tools p of Some (Some ns) \<Rightarrow> tools_value ns | _ \<Rightarrow> ag_tools r),
     ag_is_active := sent_or (ap_is_active p) (ag_is_active r)\<rparr>"

definition field_name :: "string \<Rightarrow> 'a sent \<Rightarrow> string list" where
  "field_name n x = (if x = None then [] else [n])"

definition agent_fields :: "agent_update \<Rightarrow> string list" where
  "agent_fields p = sort (field_name ''name'' (ap_name p) @ field_name ''role'' (ap_role p) @ field_name ''system_prompt'' (ap_system_prompt p)
     @ field_name ''model'' (ap_model p) @ field_name ''effort'' (ap_effort p) @ field_name ''max_tokens'' (ap_max_tokens p)
     @ field_name ''tools'' (ap_tools p) @ field_name ''is_active'' (ap_is_active p))"

definition update_agent :: "web \<Rightarrow> request \<Rightarrow> string \<Rightarrow> string \<Rightarrow> agent_update \<Rightarrow> agent_row api" where
  "update_agent wb rq org_id agent_id p = org_route wb rq org_id (Some ''member'') (\<lambda>ctx.
     ethen (check_agent_update p)
     (ebind (owned_agent (oc_org_id ctx) agent_id) (\<lambda>r.
      ethen (need (\<not> agent_nulls p) (Crash IntegrityError))
      (ethen (write_db (set_agent_row agent_id (changed_agent p)))
      (ethen (row_audit ''agent.updated'' ''agent'' rq ctx agent_id [(''fields'', JList (map JStr (agent_fields p)))])
      (ethen (need (\<not> sent_null (ap_tools p)) (Crash (OtherError ''ResponseValidationError'')))
      (eret (changed_agent p r))))))))"

definition deactivate_agent :: "web \<Rightarrow> request \<Rightarrow> string \<Rightarrow> string \<Rightarrow> unit api" where
  "deactivate_agent wb rq org_id agent_id = org_route wb rq org_id (Some ''admin'') (\<lambda>ctx.
     ebind (owned_agent (oc_org_id ctx) agent_id) (\<lambda>r.
     ethen (write_db (set_agent_row agent_id (\<lambda>r. r\<lparr>ag_is_active := False\<rparr>)))
       (row_audit ''agent.deleted'' ''agent'' rq ctx agent_id [])))"

subsection \<open>Well-formed agents\<close>

text \<open>
  What the validators leave in a row, which later code relies on: a model that can be routed and priced, a
  known effort, a token limit in range and distinct names of known tools.
\<close>

definition agent_ok :: "agent_row \<Rightarrow> bool" where
  "agent_ok r \<longleftrightarrow> non_empty_str (ag_name r) \<and> sized 1 100 (ag_role r) \<and> sized 0 100000 (ag_system_prompt r) \<and>
     (\<exists>spec. get_spec (ag_model r) = Inr spec) \<and> ag_effort r \<in> set EFFORTS \<and> max_tokens_ok (ag_max_tokens r) \<and>
     (\<exists>ns. ag_tools r = map JStr ns \<and> distinct ns \<and> set ns \<subseteq> known_names)"

definition agents_ok :: "db \<Rightarrow> bool" where
  "agents_ok d \<longleftrightarrow> list_all agent_ok (db_agents d)"

lemma tools_value_ok: "\<exists>ns. tools_value value = map JStr ns \<and> distinct ns \<and> set ns \<subseteq> known_names"
proof (cases "known_tools value")
  case None
  then show ?thesis by (intro exI [of _ "[]"]) (simp add: tools_value_def)
next
  case (Some ns)
  then have ns: "ns = dkeys (dict_of (map (\<lambda>n. (n, ())) value))" "set value \<subseteq> known_names"
    by (auto simp: known_tools_def list_all_iff split: if_splits)
  have "set ns = set value" unfolding ns(1) dkeys_def by (simp add: keys_dict_of image_image)
  moreover have "distinct ns" unfolding ns(1) dkeys_def by (rule distinct_dict_of)
  ultimately show ?thesis using Some ns(2) by (intro exI [of _ ns]) (simp add: tools_value_def)
qed

lemma new_agent_ok: "agent_create_ok p \<Longrightarrow> get_spec (ac_model p) = Inr spec \<Longrightarrow> agent_ok (new_agent wb ctx p)"
  using tools_value_ok by (auto simp: agent_ok_def new_agent_def agent_create_ok_def)

lemma changed_agent_ok:
  assumes "agent_update_ok p" "\<not> agent_nulls p" "case ap_model p of Some (Some m) \<Rightarrow> \<exists>spec. get_spec m = Inr spec | _ \<Rightarrow> True" "agent_ok r"
  shows "agent_ok (changed_agent p r)"
proof -
  have field: "P (sent_or x old)" if "null_or P x" "P old" for P x old
    using that by (auto simp: sent_or_def null_or_def split: option.splits)
  have "null_or (\<lambda>m. \<exists>spec. get_spec m = Inr spec) (ap_model p)" using assms(3) by (auto simp: null_or_def split: option.splits)
  moreover have "\<exists>ns. (case ap_tools p of Some (Some ns) \<Rightarrow> tools_value ns | _ \<Rightarrow> ag_tools r) = map JStr ns \<and> distinct ns \<and> set ns \<subseteq> known_names"
    using tools_value_ok assms(4) by (auto simp: agent_ok_def split: option.split)
  ultimately show ?thesis
    using assms(1,4) field [of non_empty_str "ap_name p" "ag_name r"] field [of "sized 1 100" "ap_role p" "ag_role r"]
      field [of "sized 0 100000" "ap_system_prompt p" "ag_system_prompt r"] field [of "\<lambda>m. \<exists>spec. get_spec m = Inr spec" "ap_model p" "ag_model r"]
      field [of "\<lambda>e. e \<in> set EFFORTS" "ap_effort p" "ag_effort r"] field [of max_tokens_ok "ap_max_tokens p" "ag_max_tokens r"]
    unfolding agent_ok_def agent_update_ok_def changed_agent_def by simp
qed

lemma known_model_run: "ethen (known_model m) k s = (case get_spec m of Inl e \<Rightarrow> (Inl (Crash e), s) | Inr _ \<Rightarrow> k s)"
  by (simp add: known_model_def ethen_def ebind_def eraise_def eret_def split: sum.split)

lemma row_audit_run: "ethen (row_audit ac kind rq ctx i dt) m s = m (snd (row_audit ac kind rq ctx i dt s))"
  "db_agents (se_db (snd (row_audit ac kind rq ctx i dt s))) = db_agents (se_db s)"
  "db_workflows (se_db (snd (row_audit ac kind rq ctx i dt s))) = db_workflows (se_db s)"
  "se_server (snd (row_audit ac kind rq ctx i dt s)) = se_server s"
  "fst (row_audit ac kind rq ctx i dt s) = Inr ()"
  by (simp_all add: row_audit_def audit_def audit_record_def)

end
