(* ===== verification/Workflows_Api.thy ===== *)
theory Workflows_Api
  imports Agents_Api
begin

text \<open>
  \<^verbatim>\<open>api/routers/workflows.py\<close> with the workflow payloads of \<^verbatim>\<open>api/schemas.py\<close>: a topology is checked when
  it is saved, with the agents it refers to, and the presets are described.
\<close>

definition PRESET_NAMES :: "string list" where
  "PRESET_NAMES = map fst PRESETS"

record preset_info =
  pi_name :: string
  pi_summary :: string
  pi_required_keys :: "string list"
  pi_optional_keys :: "string list"

definition PRESET_DOCS :: "preset_info list" where
  "PRESET_DOCS = [
     \<lparr>pi_name = ''pipeline'', pi_summary = ''Linear hand-off: each agent builds on the previous agent'' @ [CHR 0x27] @ ''s output.'',
        pi_required_keys = [''nodes''], pi_optional_keys = [''max_steps'', ''max_cost_cents'']\<rparr>,
     \<lparr>pi_name = ''supervisor'', pi_summary = ''A manager decomposes the task, delegates, and decides when it is done.'',
        pi_required_keys = [''supervisor_agent_id'', ''workers''], pi_optional_keys = [''max_rounds'', ''max_steps'', ''max_cost_cents'']\<rparr>,
     \<lparr>pi_name = ''debate'', pi_summary = ''Agents argue for N rounds, then a judge rules. Higher cost, higher quality.'',
        pi_required_keys = [''debaters'', ''judge_agent_id''], pi_optional_keys = [''rounds'', ''max_steps'', ''max_cost_cents'']\<rparr>,
     \<lparr>pi_name = ''blackboard'', pi_summary = ''A planner posts a dependency-ordered task list; workers claim ready tasks.'',
        pi_required_keys = [''planner_agent_id'', ''workers''], pi_optional_keys = [''max_tasks'', ''max_steps'', ''max_cost_cents'']\<rparr>,
     \<lparr>pi_name = ''swarm'', pi_summary = ''Peer-to-peer hand-off: whoever holds the task decides who gets it next.'',
        pi_required_keys = [''entry_agent_id'', ''agents''], pi_optional_keys = [''max_hops'', ''max_steps'', ''max_cost_cents'']\<rparr>,
     \<lparr>pi_name = ''custom'', pi_summary = ''Arbitrary directed graph with agent and router nodes '' @ [sub_char] @ '' the visual editor.'',
        pi_required_keys = [''start'', ''nodes''], pi_optional_keys = [''edges'', ''max_hops'', ''max_steps'', ''max_cost_cents'']\<rparr>]"

definition list_presets :: "preset_info list api" where
  "list_presets = eret PRESET_DOCS"

record workflow_create =
  wc_name :: string
  wc_description :: string
  wc_preset :: string
  wc_graph :: jobj

definition workflow_create_ok :: "workflow_create \<Rightarrow> bool" where
  "workflow_create_ok p \<longleftrightarrow> non_empty_str (wc_name p) \<and> sized 0 4000 (wc_description p) \<and> wc_preset p \<in> set PRESET_NAMES"

text \<open>
  The active agents among the referenced ones. A number or a boolean is refused by the driver, which
  expects text, and a null by the sort or the join of the names that are missing.
\<close>

definition missing_agents :: "db \<Rightarrow> string \<Rightarrow> json list \<Rightarrow> string list res" where
  "missing_agents d org_id referenced = (
     if list_ex (\<lambda>v. hash_key v = None) referenced then Inl TypeError
     else if list_ex (\<lambda>v. v \<noteq> JNull \<and> as_str v = None) referenced then Inl (OtherError ''DBAPIError'')
     else if JNull \<in> set referenced then Inl TypeError
     else Inr (sort (remdups (filter (\<lambda>i. \<not> list_ex (\<lambda>r. ag_id r = i \<and> ag_org_id r = org_id \<and> ag_is_active r) (db_agents d))
       (map j_str referenced)))))"

definition check_topology :: "string \<Rightarrow> string \<Rightarrow> jobj \<Rightarrow> unit api" where
  "check_topology org_id preset graph = (case validate_graph preset graph of
     Inl (WorkflowConfigError e) \<Rightarrow> reject 422 (config_text e)
   | Inl e \<Rightarrow> eraise (Crash e)
   | Inr referenced \<Rightarrow>
       if referenced = [] then eret ()
       else ebind (query (\<lambda>d. missing_agents d org_id referenced)) (\<lambda>found. case found of
         Inl e \<Rightarrow> eraise (Crash e)
       | Inr missing \<Rightarrow> need (missing = [])
           (HttpError 422 (''graph references unknown or inactive agents: '' @ join '', '' missing) None)))"

definition add_workflow :: "workflow_row \<Rightarrow> unit txn" where
  "add_workflow r = (\<lambda>d. case insert_row (\<lambda>x y. wf_id x = wf_id y) r (db_workflows d) of
     Inl e \<Rightarrow> (Inl e, d) | Inr rows \<Rightarrow> (Inr (), d\<lparr>db_workflows := rows\<rparr>))"

definition set_workflow_row :: "string \<Rightarrow> (workflow_row \<Rightarrow> workflow_row) \<Rightarrow> db \<Rightarrow> db" where
  "set_workflow_row i f d = d\<lparr>db_workflows := row_set wf_id i f (db_workflows d)\<rparr>"

definition owned_workflow :: "string \<Rightarrow> string \<Rightarrow> workflow_row api" where
  "owned_workflow org_id workflow_id = ebind (query (\<lambda>d. get_workflow_row d workflow_id)) (\<lambda>found. case found of
     None \<Rightarrow> reject 404 ''workflow not found''
   | Some r \<Rightarrow> if wf_org_id r \<noteq> org_id then reject 404 ''workflow not found'' else eret r)"

definition new_workflow :: "web \<Rightarrow> org_context \<Rightarrow> workflow_create \<Rightarrow> workflow_row" where
  "new_workflow wb ctx p = \<lparr>wf_id = wb_random wb 1, wf_org_id = oc_org_id ctx, wf_name = wc_name p, wf_description = wc_description p,
     wf_preset = wc_preset p, wf_graph = wc_graph p, wf_is_active = True, wf_created_by = Some (u_id (oc_user ctx))\<rparr>"

definition create_workflow :: "web \<Rightarrow> request \<Rightarrow> string \<Rightarrow> workflow_create \<Rightarrow> workflow_row api" where
  "create_workflow wb rq org_id p = org_route wb rq org_id (Some ''member'') (\<lambda>ctx.
     ethen (need (workflow_create_ok p) (ValidationFailed ''body''))
     (ethen (check_topology (oc_org_id ctx) (wc_preset p) (wc_graph p))
     (let row = new_workflow wb ctx p in
      ethen (in_db (add_workflow row))
      (ethen (row_audit ''workflow.created'' ''workflow'' rq ctx (wf_id row) [(''preset'', JStr (wf_preset row))])
      (eret row)))))"

definition list_workflows :: "web \<Rightarrow> request \<Rightarrow> string \<Rightarrow> bool \<Rightarrow> workflow_row list api" where
  "list_workflows wb rq org_id include_inactive = org_route wb rq org_id None (\<lambda>ctx. query (\<lambda>d.
     filter (\<lambda>r. wf_org_id r = oc_org_id ctx \<and> (include_inactive \<or> wf_is_active r)) (db_workflows d)))"

definition get_workflow :: "web \<Rightarrow> request \<Rightarrow> string \<Rightarrow> string \<Rightarrow> workflow_row api" where
  "get_workflow wb rq org_id workflow_id = org_route wb rq org_id None (\<lambda>ctx. owned_workflow (oc_org_id ctx) workflow_id)"

record workflow_update =
  wu_name :: "string sent"
  wu_description :: "string sent"
  wu_preset :: "string sent"
  wu_graph :: "jobj sent"
  wu_is_active :: "bool sent"

definition workflow_update_ok :: "workflow_update \<Rightarrow> bool" where
  "workflow_update_ok p \<longleftrightarrow> null_or non_empty_str (wu_name p) \<and> null_or (sized 0 4000) (wu_description p) \<and>
     null_or (\<lambda>n. n \<in> set PRESET_NAMES) (wu_preset p)"

text \<open>
  The topology after the change: a null preset is an unknown one, and a null graph has no \<open>get\<close>. Neither is
  checked when the payload names neither.
\<close>

definition check_change :: "string \<Rightarrow> workflow_update \<Rightarrow> workflow_row \<Rightarrow> unit api" where
  "check_change org_id p r = (
     if wu_preset p = None \<and> wu_graph p = None then eret ()
     else if sent_null (wu_preset p) then reject 422 (''unknown preset None; available presets: '' @ join '', '' PRESET_NAMES)
     else if sent_null (wu_graph p) then eraise (Crash AttributeError)
     else check_topology org_id (sent_or (wu_preset p) (wf_preset r)) (sent_or (wu_graph p) (wf_graph r)))"

definition workflow_nulls :: "workflow_update \<Rightarrow> bool" where
  "workflow_nulls p \<longleftrightarrow> sent_null (wu_name p) \<or> sent_null (wu_description p) \<or> sent_null (wu_is_active p)"

definition changed_workflow :: "workflow_update \<Rightarrow> workflow_row \<Rightarrow> workflow_row" where
  "changed_workflow p r = r\<lparr>wf_name := sent_or (wu_name p) (wf_name r), wf_description := sent_or (wu_description p) (wf_description r),
     wf_preset := sent_or (wu_preset p) (wf_preset r), wf_graph := sent_or (wu_graph p) (wf_graph r),
     wf_is_active := sent_or (wu_is_active p) (wf_is_active r)\<rparr>"

definition workflow_fields :: "workflow_update \<Rightarrow> string list" where
  "workflow_fields p = sort (field_name ''name'' (wu_name p) @ field_name ''description'' (wu_description p)
     @ field_name ''preset'' (wu_preset p) @ field_name ''graph'' (wu_graph p) @ field_name ''is_active'' (wu_is_active p))"

definition update_workflow :: "web \<Rightarrow> request \<Rightarrow> string \<Rightarrow> string \<Rightarrow> workflow_update \<Rightarrow> workflow_row api" where
  "update_workflow wb rq org_id workflow_id p = org_route wb rq org_id (Some ''member'') (\<lambda>ctx.
     ethen (need (workflow_update_ok p) (ValidationFailed ''body''))
     (ebind (owned_workflow (oc_org_id ctx) workflow_id) (\<lambda>r.
      ethen (check_change (oc_org_id ctx) p r)
      (ethen (need (\<not> workflow_nulls p) (Crash IntegrityError))
      (ethen (write_db (set_workflow_row workflow_id (changed_workflow p)))
      (ethen (row_audit ''workflow.updated'' ''workflow'' rq ctx workflow_id [(''fields'', JList (map JStr (workflow_fields p)))])
      (eret (changed_workflow p r))))))))"

definition deactivate_workflow :: "web \<Rightarrow> request \<Rightarrow> string \<Rightarrow> string \<Rightarrow> unit api" where
  "deactivate_workflow wb rq org_id workflow_id = org_route wb rq org_id (Some ''admin'') (\<lambda>ctx.
     ebind (owned_workflow (oc_org_id ctx) workflow_id) (\<lambda>r.
     write_db (set_workflow_row workflow_id (\<lambda>r. r\<lparr>wf_is_active := False\<rparr>))))"

end
