(* ===== verification/Saved_Work.thy ===== *)
theory Saved_Work
  imports Workflows_Api Api_Samples
begin

text \<open>
  What the agent and workflow routes guarantee about the rows they leave: any history of requests keeps
  agents well formed and topologies valid, and a workflow that was saved resolves its agents when it runs.
\<close>

text \<open>A statement that only reads; the rest may rely on what it found.\<close>

context frame
begin

lemma after_check:
  assumes "\<And>s r s'. m s = (r, s') \<Longrightarrow> s' = s" "\<And>s a r t. m s = (Inr a, s) \<Longrightarrow> f a s = (r, t) \<Longrightarrow> R s t"
  shows "always R (ebind m f)"
proof (rule alwaysI)
  fix s r t assume run: "ebind m f s = (r, t)"
  obtain q s' where q: "m s = (q, s')" by (metis surj_pair)
  have "s' = s" by (rule assms(1) [OF q])
  with run q assms(2) show "R s t" by (cases q) (auto simp: ebind_def frame_refl)
qed

lemma after_then:
  assumes "\<And>s r s'. m s = (r, s') \<Longrightarrow> s' = s" "\<And>s a r t. m s = (Inr a, s) \<Longrightarrow> n s = (r, t) \<Longrightarrow> R s t"
  shows "always R (ethen m n)"
  unfolding ethen_def by (rule after_check [OF assms])

end

definition flow_ok :: "workflow_row \<Rightarrow> bool" where
  "flow_ok w \<longleftrightarrow> (\<exists>ids. validate_graph (wf_preset w) (wf_graph w) = Inr ids)"

definition config_ok :: "db \<Rightarrow> bool" where
  "config_ok d \<longleftrightarrow> agents_ok d \<and> list_all flow_ok (db_workflows d) \<and> distinct (map wf_id (db_workflows d))"

definition configured :: "session \<Rightarrow> bool" where
  "configured s \<longleftrightarrow> config_ok (se_db s) \<and> config_ok (sv_db (se_server s))"

interpretation saved: api_frame "keeps configured"
  by unfold_locales (auto simp: keeps_def configured_def)

lemma saved_write: "(\<And>d. config_ok d \<Longrightarrow> config_ok (h d)) \<Longrightarrow> always (keeps configured) (write_db h)"
  by (rule alwaysI) (auto simp: keeps_def configured_def)

lemma saved_audit: "always (keeps configured) (row_audit ac kind rq ctx i dt)"
  by (rule alwaysI) (auto simp: keeps_def configured_def config_ok_def agents_ok_def row_audit_def audit_def audit_record_def)

lemma saved_serve:
  assumes "always (keeps configured) h" "serve h sv = (r, sv')" "config_ok (sv_db sv)"
  shows "config_ok (sv_db sv')"
proof -
  obtain q s where q: "h (get_session sv) = (q, s)" by (metis surj_pair)
  have "configured s" using alwaysD [OF assms(1) q] assms(3) by (auto simp: keeps_def configured_def get_session_def)
  then show ?thesis using assms(2) q by (cases q) (auto simp: serve_def commit_def configured_def)
qed

subsection \<open>Checks before the work\<close>

lemma check_agent_create_run:
  "check_agent_create p s = (r, s') \<Longrightarrow> s' = s"
  "check_agent_create p s = (Inr a, s') \<Longrightarrow> agent_create_ok p \<and> (\<exists>spec. get_spec (ac_model p) = Inr spec)"
  by (auto simp: check_agent_create_def known_model_run agent_create_ok_def split: if_splits sum.splits)

lemma check_agent_update_run:
  "check_agent_update p s = (r, s') \<Longrightarrow> s' = s"
  "check_agent_update p s = (Inr a, s') \<Longrightarrow> agent_update_ok p \<and>
     (case ap_model p of Some (Some m) \<Rightarrow> \<exists>spec. get_spec m = Inr spec | _ \<Rightarrow> True)"
  by (auto simp: check_agent_update_def known_model_run split: if_splits sum.splits option.splits)

lemma check_topology_run:
  "check_topology org_id preset graph s = (r, s') \<Longrightarrow> s' = s"
  "check_topology org_id preset graph s = (Inr a, s') \<Longrightarrow> \<exists>ids. validate_graph preset graph = Inr ids \<and>
     (ids = [] \<or> missing_agents (se_db s) org_id ids = Inr [])"
  by (auto simp: check_topology_def eraise_def eret_def split: if_splits sum.splits exn.splits)

lemma check_change_run:
  "check_change org_id p w s = (r, s') \<Longrightarrow> s' = s"
  "check_change org_id p w s = (Inr a, s') \<Longrightarrow> flow_ok w \<Longrightarrow> flow_ok (changed_workflow p w)"
proof -
  show "check_change org_id p w s = (r, s') \<Longrightarrow> s' = s"
    by (auto simp: check_change_def dest: check_topology_run(1) split: if_splits)
  assume run: "check_change org_id p w s = (Inr a, s')" and ok: "flow_ok w"
  show "flow_ok (changed_workflow p w)"
  proof (cases "wu_preset p = None \<and> wu_graph p = None")
    case True
    then show ?thesis using ok by (simp add: flow_ok_def changed_workflow_def sent_or_def)
  next
    case False
    then have "check_topology org_id (sent_or (wu_preset p) (wf_preset w)) (sent_or (wu_graph p) (wf_graph w)) s = (Inr a, s')"
      using run by (auto simp: check_change_def split: if_splits)
    from check_topology_run(2) [OF this] show ?thesis by (auto simp: flow_ok_def changed_workflow_def)
  qed
qed

lemma owned_reads: "owned_agent org_id i s = (r, s') \<Longrightarrow> s' = s" "owned_workflow org_id i s = (q, s') \<Longrightarrow> s' = s"
  by (auto simp: owned_agent_def owned_workflow_def split: option.splits if_splits)

lemma owned_workflow_found:
  "owned_workflow org_id i s = (Inr w, s') \<Longrightarrow> get_workflow_row (se_db s) i = Some w \<and> wf_org_id w = org_id"
  by (auto simp: owned_workflow_def split: option.splits if_splits)

subsection \<open>The operations\<close>

lemma add_agent_saved: "config_ok d \<Longrightarrow> agent_ok r \<Longrightarrow> config_ok (snd (add_agent r d))"
  by (auto simp: add_agent_def config_ok_def agents_ok_def insert_row_Inr split: sum.split)

lemma add_workflow_saved: "config_ok d \<Longrightarrow> flow_ok r \<Longrightarrow> config_ok (snd (add_workflow r d))"
  by (auto simp: add_workflow_def config_ok_def agents_ok_def insert_row_Inr list_all_iff split: sum.split)

lemma in_db_saved: "(\<And>d. config_ok d \<Longrightarrow> config_ok (snd (w d))) \<Longrightarrow> always (keeps configured) (in_db w)"
proof (rule alwaysI)
  fix s r s'
  assume w: "\<And>d. config_ok d \<Longrightarrow> config_ok (snd (w d))" and run: "in_db w s = (r, s')"
  have "s' = s\<lparr>se_db := snd (w (se_db s))\<rparr>" using run by (auto simp: in_db_def split: prod.splits sum.splits)
  then show "keeps configured s s'" using w by (simp add: keeps_def configured_def)
qed

lemma set_agent_saved: "(\<And>r. agent_ok r \<Longrightarrow> agent_ok (f r)) \<Longrightarrow> config_ok d \<Longrightarrow> config_ok (set_agent_row i f d)"
  by (auto simp: set_agent_row_def config_ok_def agents_ok_def row_set_def list_all_iff)

lemma set_workflow_saved:
  assumes "config_ok d" "get_workflow_row d i = Some w" "flow_ok w \<Longrightarrow> flow_ok (f w)" "\<And>r. wf_id (f r) = wf_id r"
  shows "config_ok (set_workflow_row i f d)"
proof -
  have w: "w \<in> set (db_workflows d)" using row_get_Some [of wf_id i "db_workflows d" w] assms(2) by (simp add: get_workflow_row_def)
  have "row_set wf_id i f (db_workflows d) = map (\<lambda>x. if x = w then f x else x) (db_workflows d)"
    using row_set_unique [of wf_id "db_workflows d" i w f] assms(1,2) by (simp add: config_ok_def get_workflow_row_def)
  then have "list_all flow_ok (row_set wf_id i f (db_workflows d))" using assms(1,3) w by (auto simp: config_ok_def list_all_iff)
  then show ?thesis using assms(1) row_set_keys [of wf_id f i "db_workflows d"] assms(4)
    by (simp add: config_ok_def set_workflow_row_def agents_ok_def)
qed

lemma create_agent_saved: "always (keeps configured) (create_agent wb rq org_id p)"
  unfolding create_agent_def Let_def
proof (rule saved.fr_org_route, rule keeps.after_then)
  fix ctx s a r t
  assume c: "check_agent_create p s = (Inr a, s)"
    and run: "ethen (in_db (add_agent (new_agent wb ctx p))) (ethen (row_audit ''agent.created'' ''agent'' rq ctx (ag_id (new_agent wb ctx p))
        [(''name'', JStr (ag_name (new_agent wb ctx p))), (''model'', JStr (ag_model (new_agent wb ctx p)))]) (eret (new_agent wb ctx p))) s = (r, t)"
  have "agent_ok (new_agent wb ctx p)" using check_agent_create_run(2) [OF c] new_agent_ok by blast
  then have "always (keeps configured) (ethen (in_db (add_agent (new_agent wb ctx p))) (ethen (row_audit ''agent.created'' ''agent'' rq ctx (ag_id (new_agent wb ctx p))
        [(''name'', JStr (ag_name (new_agent wb ctx p))), (''model'', JStr (ag_model (new_agent wb ctx p)))]) (eret (new_agent wb ctx p))))"
    by (intro keeps.fr_then in_db_saved add_agent_saved saved_audit keeps.fr_ret)
  then show "keeps configured s t" using run by (rule alwaysD)
qed (rule check_agent_create_run(1))

lemma update_agent_saved: "always (keeps configured) (update_agent wb rq org_id i p)"
  unfolding update_agent_def
proof (rule saved.fr_org_route, rule keeps.after_then)
  fix ctx s a r t
  let ?h = "ebind (owned_agent (oc_org_id ctx) i) (\<lambda>r. ethen (need (\<not> agent_nulls p) (Crash IntegrityError))
      (ethen (write_db (set_agent_row i (changed_agent p)))
      (ethen (row_audit ''agent.updated'' ''agent'' rq ctx i [(''fields'', JList (map JStr (agent_fields p)))])
      (ethen (need (\<not> sent_null (ap_tools p)) (Crash (OtherError ''ResponseValidationError'')))
      (eret (changed_agent p r))))))"
  assume c: "check_agent_update p s = (Inr a, s)" and run: "?h s = (r, t)"
  have ok: "agent_ok r \<Longrightarrow> agent_ok (changed_agent p r)" if "\<not> agent_nulls p" for r
    using changed_agent_ok that check_agent_update_run(2) [OF c] by blast
  have "always (keeps configured) (ethen (need (\<not> agent_nulls p) (Crash IntegrityError))
      (ethen (write_db (set_agent_row i (changed_agent p))) m))" if "always (keeps configured) m" for m :: "agent_row api"
  proof (cases "agent_nulls p")
    case True
    then show ?thesis by (intro alwaysI) (auto simp: keeps_def)
  next
    case False
    with ok that show ?thesis by (intro keeps.fr_then saved.fr_need saved_write set_agent_saved) auto
  qed
  then have "always (keeps configured) ?h"
    by (intro keeps.after_check owned_reads(1)) (blast intro: alwaysD keeps.fr_then saved_audit saved.fr_need keeps.fr_ret)+
  then show "keeps configured s t" using run by (rule alwaysD)
qed (rule check_agent_update_run(1))

lemma deactivate_agent_saved: "always (keeps configured) (deactivate_agent wb rq org_id i)"
  unfolding deactivate_agent_def
proof (rule saved.fr_org_route, rule keeps.fr_bind)
  fix ctx show "always (keeps configured) (owned_agent (oc_org_id ctx) i)"
    by (rule alwaysI) (auto simp: keeps_def dest: owned_reads)
next
  fix ctx r show "always (keeps configured) (ethen (write_db (set_agent_row i (\<lambda>r. r\<lparr>ag_is_active := False\<rparr>)))
       (row_audit ''agent.deleted'' ''agent'' rq ctx i []))"
    by (intro keeps.fr_then saved_write set_agent_saved saved_audit) (auto simp: agent_ok_def)
qed

lemma create_workflow_saved: "always (keeps configured) (create_workflow wb rq org_id p)"
  unfolding create_workflow_def Let_def
proof (rule saved.fr_org_route, rule keeps.fr_then [OF saved.fr_need], rule keeps.after_then)
  fix ctx s a r t
  let ?w = "new_workflow wb ctx p"
  let ?h = "ethen (in_db (add_workflow ?w)) (ethen (row_audit ''workflow.created'' ''workflow'' rq ctx (wf_id ?w)
      [(''preset'', JStr (wf_preset ?w))]) (eret ?w))"
  assume c: "check_topology (oc_org_id ctx) (wc_preset p) (wc_graph p) s = (Inr a, s)" and run: "?h s = (r, t)"
  have "flow_ok ?w" using check_topology_run(2) [OF c] by (auto simp: flow_ok_def new_workflow_def)
  then have "always (keeps configured) ?h"
    by (intro keeps.fr_then in_db_saved add_workflow_saved saved_audit keeps.fr_ret)
  then show "keeps configured s t" using run by (rule alwaysD)
qed (rule check_topology_run(1))

lemma update_workflow_saved: "always (keeps configured) (update_workflow wb rq org_id i p)"
  unfolding update_workflow_def
proof (rule saved.fr_org_route, rule keeps.fr_then [OF saved.fr_need], rule keeps.after_check)
  fix ctx s w r t
  assume found: "owned_workflow (oc_org_id ctx) i s = (Inr w, s)"
    and run: "ethen (check_change (oc_org_id ctx) p w) (ethen (need (\<not> workflow_nulls p) (Crash IntegrityError))
      (ethen (write_db (set_workflow_row i (changed_workflow p)))
      (ethen (row_audit ''workflow.updated'' ''workflow'' rq ctx i [(''fields'', JList (map JStr (workflow_fields p)))])
      (eret (changed_workflow p w))))) s = (r, t)"
  obtain q u where q: "check_change (oc_org_id ctx) p w s = (q, u)" by (metis surj_pair)
  have u: "u = s" by (rule check_change_run(1) [OF q])
  show "keeps configured s t"
  proof (cases "\<exists>a. q = Inr a \<and> \<not> workflow_nulls p")
    case False
    then have "t = s" using run q u by (cases q) (auto simp: ethen_Inl ethen_Inr)
    then show ?thesis by (simp add: keeps_def)
  next
    case True
    then obtain a where a: "check_change (oc_org_id ctx) p w s = (Inr a, s)" and n: "\<not> workflow_nulls p" using q u by blast
    have t: "t = snd (row_audit ''workflow.updated'' ''workflow'' rq ctx i [(''fields'', JList (map JStr (workflow_fields p)))]
        (s\<lparr>se_db := set_workflow_row i (changed_workflow p) (se_db s)\<rparr>))"
      using run n by (auto simp: ethen_Inr [where m = "check_change (oc_org_id ctx) p w" and s = s, OF a] row_audit_run)
    have "config_ok (se_db s) \<Longrightarrow> config_ok (set_workflow_row i (changed_workflow p) (se_db s))"
      using set_workflow_saved [of "se_db s" i w "changed_workflow p"] owned_workflow_found [OF found] check_change_run(2) [OF a]
      by (simp add: changed_workflow_def)
    then show ?thesis unfolding t
      by (auto simp: keeps_def configured_def row_audit_run config_ok_def agents_ok_def)
  qed
qed (rule owned_reads(2))

lemma deactivate_workflow_saved: "always (keeps configured) (deactivate_workflow wb rq org_id i)"
  unfolding deactivate_workflow_def
proof (rule saved.fr_org_route, rule keeps.after_check)
  fix ctx s w r t
  assume found: "owned_workflow (oc_org_id ctx) i s = (Inr w, s)"
    and run: "write_db (set_workflow_row i (\<lambda>r. r\<lparr>wf_is_active := False\<rparr>)) s = (r, t)"
  have "config_ok (se_db s) \<Longrightarrow> config_ok (set_workflow_row i (\<lambda>r. r\<lparr>wf_is_active := False\<rparr>) (se_db s))"
    using set_workflow_saved [of "se_db s" i w "\<lambda>r. r\<lparr>wf_is_active := False\<rparr>"] owned_workflow_found [OF found] by (simp add: flow_ok_def)
  then show "keeps configured s t" using run by (auto simp: keeps_def configured_def)
qed (rule owned_reads(2))

subsection \<open>Histories\<close>

text \<open>Any request to the agent and workflow routes, with any outcome, and any that leaves both tables alone.\<close>

inductive config_step :: "server \<Rightarrow> server \<Rightarrow> bool" where
  config_create_agent: "serve (create_agent wb rq org_id ac) sv = (ra, sv') \<Longrightarrow> config_step sv sv'"
| config_update_agent: "serve (update_agent wb rq org_id i ap) sv = (ra, sv') \<Longrightarrow> config_step sv sv'"
| config_deactivate_agent: "serve (deactivate_agent wb rq org_id i) sv = (ru, sv') \<Longrightarrow> config_step sv sv'"
| config_create_workflow: "serve (create_workflow wb rq org_id wc) sv = (rw, sv') \<Longrightarrow> config_step sv sv'"
| config_update_workflow: "serve (update_workflow wb rq org_id i wu) sv = (rw, sv') \<Longrightarrow> config_step sv sv'"
| config_deactivate_workflow: "serve (deactivate_workflow wb rq org_id i) sv = (ru, sv') \<Longrightarrow> config_step sv sv'"
| config_other: "db_agents (sv_db sv') = db_agents (sv_db sv) \<Longrightarrow> db_workflows (sv_db sv') = db_workflows (sv_db sv) \<Longrightarrow> config_step sv sv'"

lemma config_step_ok: "config_step sv sv' \<Longrightarrow> config_ok (sv_db sv) \<Longrightarrow> config_ok (sv_db sv')"
  by (induction rule: config_step.induct)
    (erule (1) saved_serve [OF create_agent_saved] saved_serve [OF update_agent_saved] saved_serve [OF deactivate_agent_saved]
       saved_serve [OF create_workflow_saved] saved_serve [OF update_workflow_saved] saved_serve [OF deactivate_workflow_saved]
     | simp add: config_ok_def agents_ok_def)+

lemma config_steps_ok: "config_step\<^sup>*\<^sup>* sv sv' \<Longrightarrow> config_ok (sv_db sv) \<Longrightarrow> config_ok (sv_db sv')"
  by (induction rule: rtranclp_induct) (auto dest: config_step_ok)

subsection \<open>Resolving the agents of a saved topology\<close>

definition resolves :: "db \<Rightarrow> string \<Rightarrow> json \<Rightarrow> bool" where
  "resolves d org_id v \<longleftrightarrow> (\<forall>what. \<exists>spec. find_agent (load_agents d org_id) v what = Inr spec \<and> JStr (as_id spec) = v)"

lemma load_agents_get:
  assumes "r \<in> set (db_agents d)" "ag_org_id r = org_id" "ag_is_active r"
  shows "\<exists>spec. dget (load_agents d org_id) (ag_id r) = Some spec \<and> as_id spec = ag_id r"
proof -
  let ?xs = "map (\<lambda>r. (ag_id r, to_spec r)) (filter (\<lambda>r. ag_org_id r = org_id \<and> ag_is_active r) (db_agents d))"
  have "ag_id r \<in> set (dkeys (dict_of ?xs))" using assms by (simp add: dkeys_def keys_dict_of image_image)
  then obtain spec where spec: "dget (load_agents d org_id) (ag_id r) = Some spec"
    using dget_in_dkeys [of "dict_of ?xs" "ag_id r"] by (auto simp: load_agents_def)
  then have "(ag_id r, spec) \<in> set ?xs" using set_dict_of [of ?xs] by (auto simp: load_agents_def dest: map_of_SomeD)
  then show ?thesis using spec by (auto simp: to_spec_def)
qed

lemma missing_none: "missing_agents d org_id ids = Inr [] \<Longrightarrow> v \<in> set ids \<Longrightarrow> resolves d org_id v"
proof -
  assume m: "missing_agents d org_id ids = Inr []" and v: "v \<in> set ids"
  have "v \<noteq> JNull \<and> (v = JNull \<or> (\<exists>i. as_str v = Some i))"
    using m v by (auto simp: missing_agents_def list_ex_iff split: if_splits)
  then obtain i where i: "v = JStr i" by auto
  have none: "filter (\<lambda>i. \<not> list_ex (\<lambda>r. ag_id r = i \<and> ag_org_id r = org_id \<and> ag_is_active r) (db_agents d)) (map j_str ids) = []"
    using m by (auto simp: missing_agents_def remdups_eq_nil_iff split: if_splits dest: arg_cong [of _ _ length])
  have "i \<in> set (map j_str ids)" using v i by force
  with none have "list_ex (\<lambda>r. ag_id r = i \<and> ag_org_id r = org_id \<and> ag_is_active r) (db_agents d)" unfolding filter_empty_conv by blast
  then obtain r where "r \<in> set (db_agents d)" "ag_id r = i" "ag_org_id r = org_id" "ag_is_active r" by (auto simp: list_ex_iff)
  with load_agents_get [of r d org_id] show ?thesis by (auto simp: resolves_def find_agent_def i)
qed

lemma topology_resolves:
  assumes "check_topology org_id preset graph s = (Inr a, s')"
  shows "\<exists>ids. validate_graph preset graph = Inr ids \<and> list_all (resolves (se_db s) org_id) ids"
  using check_topology_run(2) [OF assms] missing_none by (fastforce simp: list_all_iff)

lemma resolves_agents: "db_agents d = db_agents d' \<Longrightarrow> resolves d = resolves d'"
  by (simp add: resolves_def load_agents_def fun_eq_iff)

lemma create_workflow_Inr:
  assumes "serve (create_workflow wb rq org_id p) sv = (Inr w, sv')"
  shows "w \<in> set (db_workflows (sv_db sv')) \<and> wf_org_id w = org_id \<and> wf_is_active w \<and> wf_preset w = wc_preset p \<and> wf_graph w = wc_graph p \<and>
    (\<exists>ids. validate_graph (wf_preset w) (wf_graph w) = Inr ids \<and> list_all (resolves (sv_db sv') org_id) ids)"
proof -
  obtain s' where s': "create_workflow wb rq org_id p (get_session sv) = (Inr w, s')" "sv' = se_server (commit s')"
    using assms(1) by (auto simp: serve_Inr commit_def)
  show ?thesis
  proof (rule org_route_cases [OF s'(1) [unfolded create_workflow_def]])
    fix user ctx s1
    let ?w = "new_workflow wb ctx p"
    assume o1: "current_org org_id user s1 = (Inr ctx, s1)"
      and body: "ethen (need (workflow_create_ok p) (ValidationFailed ''body''))
     (ethen (check_topology (oc_org_id ctx) (wc_preset p) (wc_graph p))
     (let row = ?w in
      ethen (in_db (add_workflow row))
      (ethen (row_audit ''workflow.created'' ''workflow'' rq ctx (wf_id row) [(''preset'', JStr (wf_preset row))])
      (eret row)))) s1 = (Inr w, s')"
    have oid: "oc_org_id ctx = org_id" by (rule oc_org_id_eq [OF o1])
    obtain a where c: "check_topology org_id (wc_preset p) (wc_graph p) s1 = (Inr a, s1)"
      using body by (auto simp: oid Let_def ethen_eq_Inr dest: check_topology_run(1) split: if_splits)
    then have rest: "ethen (in_db (add_workflow ?w)) (ethen (row_audit ''workflow.created'' ''workflow'' rq ctx (wf_id ?w)
        [(''preset'', JStr (wf_preset ?w))]) (eret ?w)) s1 = (Inr w, s')"
      using body by (simp add: oid Let_def ethen_Inr [where m = "check_topology org_id (wc_preset p) (wc_graph p)" and s = s1, OF c] split: if_splits)
    then have "w = ?w \<and> ?w \<in> set (db_workflows (se_db s')) \<and> db_agents (se_db s') = db_agents (se_db s1)"
      by (auto simp: in_db_run add_workflow_def insert_row_Inr row_audit_run split: sum.splits)
    then show ?thesis using topology_resolves [OF c] resolves_agents [of "se_db s'" "se_db s1"]
      by (auto simp: s'(2) commit_def new_workflow_def oid)
  qed simp
qed

lemma update_workflow_Inr:
  assumes "serve (update_workflow wb rq org_id i p) sv = (Inr w, sv')" "wu_preset p \<noteq> None \<or> wu_graph p \<noteq> None"
  shows "get_workflow_row (sv_db sv') i = Some w \<and> wf_org_id w = org_id \<and>
    (\<exists>ids. validate_graph (wf_preset w) (wf_graph w) = Inr ids \<and> list_all (resolves (sv_db sv') org_id) ids)"
proof -
  obtain s' where s': "update_workflow wb rq org_id i p (get_session sv) = (Inr w, s')" "sv' = se_server (commit s')"
    using assms(1) by (auto simp: serve_Inr commit_def)
  show ?thesis
  proof (rule org_route_cases [OF s'(1) [unfolded update_workflow_def]])
    fix user ctx s1
    assume o1: "current_org org_id user s1 = (Inr ctx, s1)"
      and body: "ethen (need (workflow_update_ok p) (ValidationFailed ''body''))
     (ebind (owned_workflow (oc_org_id ctx) i) (\<lambda>r.
      ethen (check_change (oc_org_id ctx) p r)
      (ethen (need (\<not> workflow_nulls p) (Crash IntegrityError))
      (ethen (write_db (set_workflow_row i (changed_workflow p)))
      (ethen (row_audit ''workflow.updated'' ''workflow'' rq ctx i [(''fields'', JList (map JStr (workflow_fields p)))])
      (eret (changed_workflow p r))))))) s1 = (Inr w, s')"
    have oid: "oc_org_id ctx = org_id" by (rule oc_org_id_eq [OF o1])
    obtain r where r: "owned_workflow org_id i s1 = (Inr r, s1)"
      using body by (auto simp: oid ebind_eq_Inr dest: owned_reads(2) split: if_splits)
    then obtain a where c: "check_change org_id p r s1 = (Inr a, s1)"
      using body by (auto simp: oid ebind_Inr [where m = "owned_workflow org_id i" and s = s1, OF r] ethen_eq_Inr dest: check_change_run(1) split: if_splits)
    have s2: "w = changed_workflow p r" "s' = snd (row_audit ''workflow.updated'' ''workflow'' rq ctx i [(''fields'', JList (map JStr (workflow_fields p)))]
        (s1\<lparr>se_db := set_workflow_row i (changed_workflow p) (se_db s1)\<rparr>))"
      using body by (auto simp: oid ebind_Inr [where m = "owned_workflow org_id i" and s = s1, OF r]
        ethen_Inr [where m = "check_change org_id p r" and s = s1, OF c] row_audit_run split: if_splits)
    have "check_topology org_id (wf_preset w) (wf_graph w) s1 = (Inr a, s1)"
      using c assms(2) by (auto simp: check_change_def s2(1) changed_workflow_def split: if_splits)
    from topology_resolves [OF this] have ids: "\<exists>ids. validate_graph (wf_preset w) (wf_graph w) = Inr ids \<and> list_all (resolves (se_db s1) org_id) ids" .
    have same: "resolves (se_db s') = resolves (se_db s1)" by (rule resolves_agents) (simp add: s2(2) row_audit_run set_workflow_row_def)
    have "get_workflow_row (se_db s1) i = Some r" "wf_org_id r = org_id" using owned_workflow_found [OF r] by auto
    moreover have "get_workflow_row (se_db s') i = map_option (changed_workflow p) (get_workflow_row (se_db s1) i)"
      using row_get_set [of wf_id "changed_workflow p" i i "db_workflows (se_db s1)"]
      by (simp add: s2(2) get_workflow_row_def row_audit_run set_workflow_row_def changed_workflow_def)
    moreover have "wf_org_id (changed_workflow p r) = wf_org_id r" by (simp add: changed_workflow_def)
    ultimately show ?thesis using ids same by (simp add: s'(2) commit_def s2(1))
  qed simp
qed

subsection \<open>Properties\<close>

text \<open>An office with one agent, in which the owner saves a pipeline.\<close>

definition sample_office :: server where
  "sample_office = sample_server\<lparr>sv_db := (sv_db sample_server)\<lparr>db_agents := [(sample_agent ''a1'')\<lparr>ag_max_tokens := 1000\<rparr>]\<rparr>\<rparr>"

definition sample_flow :: workflow_create where
  "sample_flow = \<lparr>wc_name = ''Flow'', wc_description = [], wc_preset = ''pipeline'', wc_graph = sample_graph\<rparr>"

lemma sample_office_ok: "config_ok (sv_db sample_office)"
proof -
  have "validate_graph ''pipeline'' sample_graph = Inr [JStr ''a1'']" by code_simp
  then have "flow_ok sample_workflow" by (simp add: flow_ok_def sample_workflow_def)
  moreover have "agent_ok ((sample_agent ''a1'')\<lparr>ag_max_tokens := 1000\<rparr>)"
  proof -
    have "case get_spec ''claude-opus-4-8'' of Inr _ \<Rightarrow> True | Inl _ \<Rightarrow> False" by code_simp
    then show ?thesis by (auto simp: agent_ok_def sample_agent_def non_empty_str_def sized_def EFFORTS_def max_tokens_ok_def split: sum.splits)
  qed
  ultimately show ?thesis by (simp add: config_ok_def agents_ok_def sample_office_def)
qed

lemma sample_saves: "\<exists>w sv'. serve (create_workflow sample_web (sample_request ''u1'') ''o1'' sample_flow) sample_office = (Inr w, sv')"
proof -
  have valid: "validate_graph ''pipeline'' sample_graph = Inr [JStr ''a1'']" by code_simp
  have office: "get_user (sv_db sample_office) ''u1'' = Some (sample_user ''u1'')" "db_memberships (sv_db sample_office) = [sample_owner]"
    "db_orgs (sv_db sample_office) = [sample_org]" "sv_redis sample_office = empty_redis" "db_workflows (sv_db sample_office) = [sample_workflow]"
    by (simp_all add: sample_office_def get_user_def row_get_def)
  have "missing_agents d ''o1'' [JStr ''a1''] = Inr []" if "db_agents d = db_agents (sv_db sample_office)" for d
    using that by (simp add: missing_agents_def sample_office_def sample_agent_def)
  then have top: "check_topology ''o1'' ''pipeline'' sample_graph s = (Inr (), s)" if "db_agents (se_db s) = db_agents (sv_db sample_office)" for s
    using that by (simp add: check_topology_def valid)
  have p: "workflow_create_ok sample_flow" "wc_preset sample_flow = ''pipeline''" "wc_graph sample_flow = sample_graph"
    "wf_id (new_workflow sample_web sample_context sample_flow) = ''b''" "wf_id sample_workflow = ''w1''"
    by (simp_all add: workflow_create_ok_def sample_flow_def non_empty_str_def sized_def PRESET_NAMES_def PRESETS_def new_workflow_def sample_workflow_def)
  have ctx: "oc_org_id sample_context = ''o1''" by (simp add: oc_org_id_def sample_context_def)
  show ?thesis
    by (simp add: serve_Inr create_workflow_def sample_route sample_current_any office dget_or_def empty_redis_def p ctx get_session_def Let_def
      ethen_Inr [OF top] in_db_run add_workflow_def insert_row_def row_audit_run)
qed

text \<open>C31. Through any sequence of requests to the agent and workflow routes, whatever their outcome, every stored agent
  has a model that is in the registry, a known effort, a token limit in range and distinct names of known tools, and every
  stored workflow has a topology that the validator accepts.\<close>

theorem saved_configuration_stays_valid:
  assumes "config_step\<^sup>*\<^sup>* sv sv'" "config_ok (sv_db sv)"
  shows "list_all agent_ok (db_agents (sv_db sv')) \<and> list_all flow_ok (db_workflows (sv_db sv'))"
  using config_steps_ok [OF assms] by (simp add: config_ok_def agents_ok_def)

theorem saved_configuration_stays_valid_witness:
  "\<exists>w sv'. serve (create_workflow sample_web (sample_request ''u1'') ''o1'' sample_flow) sample_office = (Inr w, sv') \<and>
     list_all flow_ok (db_workflows (sv_db sv'))"
  using sample_saves saved_configuration_stays_valid [OF r_into_rtranclp [of config_step, OF config_create_workflow] sample_office_ok] by blast



end
