(* ===== verification/Admin_Api.thy ===== *)
theory Admin_Api
  imports Keys_Api Agents_Api
begin

text \<open>
  \<^verbatim>\<open>api/routers/admin.py\<close> (price overrides and credit adjustments of the operator), and the catalogues of
  \<^verbatim>\<open>api/routers/models.py\<close> and \<^verbatim>\<open>api/routers/tools.py\<close>. The price book is that of the serving process.
\<close>

subsection \<open>Prices\<close>

text \<open>\<open>default_price_book().refresh(session)\<close>; with the two readings it may take of the clock.\<close>

definition refresh_prices :: "web \<Rightarrow> bool \<Rightarrow> unit api" where
  "refresh_prices wb force = emod (\<lambda>s. s\<lparr>se_server := (se_server s)\<lparr>sv_prices :=
     pb_refresh (sv_prices (se_server s)) (price_rows (se_db s)) (wb_monotonic wb 0) (wb_monotonic wb 1) force\<rparr>\<rparr>)"

record price_in =
  pr_model :: string
  pr_input_per_mtok :: rat
  pr_output_per_mtok :: rat
  pr_cached_input_per_mtok :: "rat option"
  pr_note :: string

definition price_in_ok :: "price_in \<Rightarrow> bool" where
  "price_in_ok p \<longleftrightarrow> 0 \<le> pr_input_per_mtok p \<and> 0 \<le> pr_output_per_mtok p \<and>
     (case pr_cached_input_per_mtok p of None \<Rightarrow> True | Some c \<Rightarrow> 0 \<le> c) \<and> length (pr_note p) \<le> 300"

definition price_row :: "user_row \<Rightarrow> price_in \<Rightarrow> model_price_row" where
  "price_row user p = \<lparr>mp_model = pr_model p, mp_input_per_mtok = pr_input_per_mtok p, mp_output_per_mtok = pr_output_per_mtok p,
     mp_cached_input_per_mtok = pr_cached_input_per_mtok p, mp_note = pr_note p, mp_updated_by = Some (u_id user)\<rparr>"

definition put_price :: "model_price_row \<Rightarrow> db \<Rightarrow> db" where
  "put_price r d = d\<lparr>db_model_prices := (if row_get mp_model (mp_model r) (db_model_prices d) = None then db_model_prices d @ [r]
     else row_set mp_model (mp_model r) (\<lambda>_. r) (db_model_prices d))\<rparr>"

definition list_prices :: "web \<Rightarrow> request \<Rightarrow> model_price_row list api" where
  "list_prices wb rq = superuser_route wb rq (\<lambda>_. query db_model_prices)"

definition price_audit :: "string \<Rightarrow> user_row \<Rightarrow> string \<Rightarrow> jobj \<Rightarrow> unit api" where
  "price_audit action user model detail = audit action None (Some (u_id user)) (Some (''model_price'', model)) None None detail"

text \<open>The printed form of a rate goes to the audit entry only.\<close>

definition upsert_price :: "web \<Rightarrow> (rat \<Rightarrow> string) \<Rightarrow> request \<Rightarrow> price_in \<Rightarrow> model_price_row api" where
  "upsert_price wb show_float rq p = superuser_route wb rq (\<lambda>user.
     ethen (need (price_in_ok p) (ValidationFailed ''body''))
     (ethen (known_model (pr_model p))
     (let row = price_row user p in
      ethen (write_db (put_price row))
      (ethen (refresh_prices wb True)
      (ethen (price_audit ''admin.model_price_updated'' user (pr_model p)
         [(''input_per_mtok'', JFloat (pr_input_per_mtok p) (show_float (pr_input_per_mtok p))),
          (''output_per_mtok'', JFloat (pr_output_per_mtok p) (show_float (pr_output_per_mtok p)))])
      (eret row))))))"

definition delete_price :: "web \<Rightarrow> request \<Rightarrow> string \<Rightarrow> unit api" where
  "delete_price wb rq model = superuser_route wb rq (\<lambda>user.
     ebind (query (\<lambda>d. row_get mp_model model (db_model_prices d))) (\<lambda>row.
     if row = None then reject 404 ''no override for that model''
     else ethen (write_db (\<lambda>d. d\<lparr>db_model_prices := filter (\<lambda>r. mp_model r \<noteq> model) (db_model_prices d)\<rparr>))
       (ethen (refresh_prices wb True)
         (price_audit ''admin.model_price_deleted'' user model []))))"

subsection \<open>Credits\<close>

record adjust_credits_in =
  aj_org_id :: string
  aj_amount_cents :: int
  aj_description :: string
  aj_idempotency_key :: string

definition adjust_credits_in_ok :: "adjust_credits_in \<Rightarrow> bool" where
  "adjust_credits_in_ok p \<longleftrightarrow> length (aj_description p) \<le> 400 \<and> 8 \<le> length (aj_idempotency_key p) \<and> length (aj_idempotency_key p) \<le> 128"

definition adjust_credits :: "web \<Rightarrow> request \<Rightarrow> adjust_credits_in \<Rightarrow> ledger_row api" where
  "adjust_credits wb rq p = superuser_route wb rq (\<lambda>user.
     ethen (need (adjust_credits_in_ok p) (ValidationFailed ''body''))
     (ebind (query (\<lambda>d. get_org d (aj_org_id p))) (\<lambda>org.
      if org = None then reject 404 ''organisation not found''
      else if aj_amount_cents p = 0 then reject 422 ''amount must not be zero''
      else ebind (in_db (post_entry (wb_races wb) (wb_random wb 10) \<lparr>po_org_id = aj_org_id p, po_kind = ''adjustment'',
              po_amount_cents = aj_amount_cents p, po_idempotency_key = aj_idempotency_key p,
              po_description = aj_description p, po_run_id = None, po_created_by = Some (u_id user)\<rparr>)) (\<lambda>entry.
        ethen (audit ''credits.adjustment'' (Some (aj_org_id p)) (Some (u_id user)) (Some (''org'', aj_org_id p)) None None
          [(''amount_cents'', JInt (aj_amount_cents p))])
        (ebind (query (\<lambda>d. row_get lg_id (le_id entry) (db_ledger d))) (\<lambda>row. case row of
           None \<Rightarrow> eraise (Crash (OtherError ''AssertionError''))
         | Some r \<Rightarrow> eret r))))))"

subsection \<open>Catalogues\<close>

record model_out =
  mo_id :: string
  mo_provider :: string
  mo_display_name :: string
  mo_input_per_mtok :: rat
  mo_output_per_mtok :: rat
  mo_cached_input_per_mtok :: "rat option"
  mo_max_output_tokens :: int
  mo_context_window :: int
  mo_supports_effort :: bool
  mo_available :: bool

definition offered_model :: "settings \<Rightarrow> price_book \<Rightarrow> string list \<Rightarrow> string \<Rightarrow> model_spec \<Rightarrow> model_out res" where
  "offered_model cfg book org_providers key_mode spec = (
     let has_platform = has_key (platform_key cfg (ms_provider spec));
         has_own = provider_value (ms_provider spec) \<in> set org_providers in
     rbind (rate_for book (ms_id spec)) (\<lambda>rate. Inr \<lparr>mo_id = ms_id spec, mo_provider = provider_value (ms_provider spec),
       mo_display_name = ms_display_name spec, mo_input_per_mtok = rt_input_per_mtok rate, mo_output_per_mtok = rt_output_per_mtok rate,
       mo_cached_input_per_mtok = rt_cached_input_per_mtok rate, mo_max_output_tokens = ms_max_output_tokens spec,
       mo_context_window = ms_context_window spec, mo_supports_effort = (ms_effort_style spec \<noteq> EffortNone),
       mo_available = (if key_mode = ''byok'' then has_own else has_platform \<or> has_own)\<rparr>))"

definition list_available_models :: "web \<Rightarrow> request \<Rightarrow> string \<Rightarrow> model_out list api" where
  "list_available_models wb rq org_id = org_route wb rq org_id None (\<lambda>ctx.
     ebind (query (\<lambda>d. map ak_provider (filter (\<lambda>r. ak_org_id r = oc_org_id ctx \<and> ak_is_active r) (db_api_keys d)))) (\<lambda>org_providers.
     ethen (refresh_prices wb False)
     (ebind (eget (\<lambda>s. rmap (offered_model (wb_settings wb) (sv_prices (se_server s)) org_providers (o_key_mode (oc_org ctx))) (list_models None)))
       (\<lambda>out. case out of Inl e \<Rightarrow> eraise (Crash e) | Inr rows \<Rightarrow> eret rows))))"

record tool_catalogue =
  tg_tools :: "tool_info list"
  tg_max_iterations :: int
  tg_max_calls_per_turn :: int
  tg_tools_enabled :: bool

definition tool_out :: "settings \<Rightarrow> tool_info \<Rightarrow> tool_info" where
  "tool_out cfg info = info\<lparr>ti_available := ti_available info \<and> cfg_tools_enabled cfg,
     ti_unavailable_reason := (if \<not> cfg_tools_enabled cfg then Some ''tools are disabled on this deployment''
       else ti_unavailable_reason info)\<rparr>"

definition list_tools :: "web \<Rightarrow> request \<Rightarrow> tool_catalogue api" where
  "list_tools wb rq = ebind (current_claims wb rq) (\<lambda>_.
     let cfg = wb_settings wb in
     eret \<lparr>tg_tools = map (tool_out cfg) (catalogue cfg), tg_max_iterations = cfg_max_tool_iterations cfg,
       tg_max_calls_per_turn = cfg_max_tool_calls_per_turn cfg, tg_tools_enabled = cfg_tools_enabled cfg\<rparr>)"

end
