(* ===== verification/Shell.thy ===== *)
theory Shell
  imports Api_Samples
begin

text \<open>
  The shell around the routers: the exception handlers and operational endpoints of \<^verbatim>\<open>api/main.py\<close> and the
  middleware of \<^verbatim>\<open>api/middleware.py\<close>. An application takes a request and answers or raises; the routes of
  the other theories are the innermost one. Names of headers are in lower case, as the server reads them.
\<close>

record http_in =
  hi_path :: string
  hi_headers :: "(string, string) dict"
  hi_request_id :: "string option"

record response =
  rp_status :: nat
  rp_body :: jobj
  rp_headers :: "(string, string) dict"

type_synonym 's app = "http_in \<Rightarrow> ('s, exn, response) eff"

definition json_response :: "nat \<Rightarrow> jobj \<Rightarrow> response" where
  "json_response st body = \<lparr>rp_status = st, rp_body = body, rp_headers = []\<rparr>"

subsection \<open>Exception handlers\<close>

definition error_body :: "string \<Rightarrow> http_in \<Rightarrow> jobj" where
  "error_body detail rq = [(''detail'', JStr detail), (''request_id'', case hi_request_id rq of None \<Rightarrow> JNull | Some i \<Rightarrow> JStr i)]"

text \<open>The first of the validation errors: the parts of its location, of which the first is left out, and its message.\<close>

definition validation_error :: "(string list \<times> string option) list \<Rightarrow> http_in \<Rightarrow> response" where
  "validation_error errors rq = (
     let (loc, msg) = (case errors of e # _ \<Rightarrow> e | [] \<Rightarrow> ([], None));
         location = join ''.'' (drop 1 loc) in
     json_response 422 (error_body (if location \<noteq> [] then location @ '': '' @ (case msg of Some m \<Rightarrow> m | None \<Rightarrow> ''invalid request'')
       else ''invalid request'') rq))"

text \<open>\<open>None\<close> for what no handler inside the middleware takes.\<close>

definition handled :: "exn \<Rightarrow> http_in \<Rightarrow> response option" where
  "handled e rq = (case e of
     WorkflowConfigError _ \<Rightarrow> Some (json_response 422 (error_body (exn_text e) rq))
   | UnknownModelError _ \<Rightarrow> Some (json_response 422 (error_body (exn_text e) rq))
   | CryptoError _ \<Rightarrow> Some (json_response 500 (error_body ''could not process the stored credential'' rq))
   | _ \<Rightarrow> None)"

definition unhandled_error :: "http_in \<Rightarrow> response" where
  "unhandled_error rq = json_response 500 (error_body ''internal server error'' rq)"

text \<open>A route as an application: the outcome of \<open>serve\<close>, rendered. The errors of a validation are those of the framework.\<close>

definition header_of :: "header option \<Rightarrow> (string, string) dict" where
  "header_of h = (case h of None \<Rightarrow> [] | Some WWW_Authenticate \<Rightarrow> [(''www-authenticate'', ''Bearer'')]
     | Some (Retry_After n) \<Rightarrow> [(''retry-after'', str_of_int n)])"

definition route_app :: "nat \<Rightarrow> ('a \<Rightarrow> jobj) \<Rightarrow> (string \<Rightarrow> (string list \<times> string option) list) \<Rightarrow> 'a api \<Rightarrow> server app" where
  "route_app ok render errors h rq = (\<lambda>sv. case serve h sv of
     (Inr a, sv') \<Rightarrow> (Inr (json_response ok (render a)), sv')
   | (Inl (HttpError st detail hdr), sv') \<Rightarrow> (Inr \<lparr>rp_status = st, rp_body = [(''detail'', JStr detail)], rp_headers = header_of hdr\<rparr>, sv')
   | (Inl (ValidationFailed what), sv') \<Rightarrow> (Inr (validation_error (errors what) rq), sv')
   | (Inl (Crash e), sv') \<Rightarrow> (case handled e rq of Some r \<Rightarrow> (Inr r, sv') | None \<Rightarrow> (Inl e, sv')))"

subsection \<open>Middleware\<close>

text \<open>\<open>new_id\<close> is the generated id of a request that has none; logging is not modelled.\<close>

definition identified :: "string \<Rightarrow> http_in \<Rightarrow> string" where
  "identified new_id rq = (case dget (hi_headers rq) ''x-request-id'' of Some i \<Rightarrow> if i \<noteq> [] then i else new_id | None \<Rightarrow> new_id)"

definition request_context :: "string \<Rightarrow> 's app \<Rightarrow> 's app" where
  "request_context new_id app rq = ebind (app (rq\<lparr>hi_request_id := Some (identified new_id rq)\<rparr>)) (\<lambda>r.
     eret (r\<lparr>rp_headers := dset ''x-request-id'' (identified new_id rq) (rp_headers r)\<rparr>))"

definition body_size_limit :: "int \<Rightarrow> 's app \<Rightarrow> 's app" where
  "body_size_limit max_bytes app rq = (case dget (hi_headers rq) ''content-length'' of
     None \<Rightarrow> app rq
   | Some declared \<Rightarrow> (case int_literal declared of
       None \<Rightarrow> eret (json_response 400 [(''detail'', JStr ''invalid content-length'')])
     | Some n \<Rightarrow> if n > max_bytes then eret (json_response 413 [(''detail'', JStr ''request body too large'')]) else app rq))"

definition set_default :: "string \<times> string \<Rightarrow> (string, string) dict \<Rightarrow> (string, string) dict" where
  "set_default kv d = (if dget d (fst kv) = None then d @ [kv] else d)"

definition SECURITY_HEADERS :: "(string \<times> string) list" where
  "SECURITY_HEADERS = [(''x-content-type-options'', ''nosniff''), (''x-frame-options'', ''DENY''), (''referrer-policy'', ''no-referrer''),
     (''permissions-policy'', ''geolocation=(), microphone=(), camera=()'')]"

definition security_headers :: "settings \<Rightarrow> 's app \<Rightarrow> 's app" where
  "security_headers cfg app rq = ebind (app rq) (\<lambda>r.
     eret (r\<lparr>rp_headers := fold set_default (SECURITY_HEADERS @
       (if is_production cfg then [(''strict-transport-security'', ''max-age=31536000; includeSubDomains'')] else [])) (rp_headers r)\<rparr>))"

text \<open>
  The last one added is the outermost. The handler of \<open>Exception\<close> is outside all of them, in the
  framework, where the id of the request is known; the trusted-host and CORS middleware in between are the
  framework's own and are not modelled.
\<close>

definition server_error :: "string \<Rightarrow> 's app \<Rightarrow> 's app" where
  "server_error new_id app rq = ecatch (app rq) (\<lambda>e. if is_exception e
     then eret (unhandled_error (rq\<lparr>hi_request_id := Some (identified new_id rq)\<rparr>)) else eraise e)"

definition application :: "settings \<Rightarrow> string \<Rightarrow> 's app \<Rightarrow> 's app" where
  "application cfg new_id routes = server_error new_id (request_context new_id (body_size_limit (cfg_max_request_bytes cfg) (security_headers cfg routes)))"

subsection \<open>Health\<close>

definition VERSION :: string where "VERSION = ''1.0.0''"

definition health_out :: "settings \<Rightarrow> string \<Rightarrow> string \<Rightarrow> string \<Rightarrow> jobj" where
  "health_out cfg st database redis_status = [(''status'', JStr st), (''env'', JStr (cfg_env cfg)), (''version'', JStr VERSION),
     (''database'', JStr database), (''redis'', JStr redis_status)]"

definition health :: "settings \<Rightarrow> response" where
  "health cfg = json_response 200 (health_out cfg ''ok'' ''skipped'' ''skipped'')"

definition readiness :: "settings \<Rightarrow> unit res \<Rightarrow> unit res \<Rightarrow> response res" where
  "readiness cfg database redis_ping = (
     let probe = (\<lambda>r. case r of Inr () \<Rightarrow> Inr ''ok'' | Inl e \<Rightarrow> if is_exception e then Inr ''unavailable'' else Inl e) in
     rbind (probe database) (\<lambda>db_status. rbind (probe redis_ping) (\<lambda>redis_status.
     let healthy = (db_status = ''ok'' \<and> redis_status = ''ok'') in
     Inr (json_response (if healthy then 200 else 503) (health_out cfg (if healthy then ''ok'' else ''degraded'') db_status redis_status)))))"

subsection \<open>Answers\<close>

text \<open>The request as the routes see it.\<close>

definition tagged :: "string \<Rightarrow> http_in \<Rightarrow> http_in" where
  "tagged new_id rq = rq\<lparr>hi_request_id := Some (identified new_id rq)\<rparr>"

lemma tagged_simps [simp]: "hi_headers (tagged new_id rq) = hi_headers rq" "hi_request_id (tagged new_id rq) = Some (identified new_id rq)"
  by (simp_all add: tagged_def)

lemma context_answers:
  "request_context new_id app rq sv = (r, sv') \<Longrightarrow> (case r of
     Inl e \<Rightarrow> app (tagged new_id rq) sv = (Inl e, sv')
   | Inr p \<Rightarrow> dget (rp_headers p) ''x-request-id'' = Some (identified new_id rq) \<and>
       (\<exists>p0. app (tagged new_id rq) sv = (Inr p0, sv') \<and> rp_status p = rp_status p0 \<and> rp_body p = rp_body p0))"
  by (auto simp: request_context_def tagged_def ebind_def eret_def split: prod.splits sum.splits)

lemma headers_answer:
  "security_headers cfg app rq sv = (r, sv') \<Longrightarrow> (case r of Inl e \<Rightarrow> app rq sv = (Inl e, sv')
   | Inr p \<Rightarrow> \<exists>p0. app rq sv = (Inr p0, sv') \<and> rp_status p = rp_status p0 \<and> rp_body p = rp_body p0)"
  by (auto simp: security_headers_def ebind_def eret_def split: prod.splits sum.splits)

text \<open>What the limit says of the length a request declares; \<open>None\<close> when it is let through.\<close>

definition limit_status :: "settings \<Rightarrow> http_in \<Rightarrow> nat option" where
  "limit_status cfg rq = (case dget (hi_headers rq) ''content-length'' of
     None \<Rightarrow> None
   | Some d \<Rightarrow> (case int_literal d of None \<Rightarrow> Some 400 | Some n \<Rightarrow> if n > cfg_max_request_bytes cfg then Some 413 else None))"

lemma limit_cases:
  "body_size_limit (cfg_max_request_bytes cfg) app rq sv = (case limit_status cfg rq of None \<Rightarrow> app rq sv
     | Some st \<Rightarrow> (Inr (json_response st [(''detail'', JStr (if st = 400 then ''invalid content-length'' else ''request body too large''))]), sv))"
  by (simp add: body_size_limit_def limit_status_def eret_def split: option.splits)

lemma limited_answers:
  assumes "limit_status cfg rq = Some st"
  shows "\<exists>p. application cfg new_id routes rq sv = (Inr p, sv) \<and> rp_status p = st \<and>
    dget (rp_headers p) ''x-request-id'' = Some (identified new_id rq)"
proof -
  have l: "limit_status cfg (tagged new_id rq) = Some st" using assms by (simp add: limit_status_def)
  show ?thesis
    unfolding application_def server_error_def request_context_def tagged_def [symmetric]
    by (simp add: ecatch_def ebind_def eret_def limit_cases l json_response_def)
qed

lemma admitted_answers:
  assumes "limit_status cfg rq = None" "routes (tagged new_id rq) sv = (Inl e, sv')"
  shows "application cfg new_id routes rq sv =
    (if is_exception e then (Inr (unhandled_error (tagged new_id rq)), sv') else (Inl e, sv'))"
proof -
  have l: "limit_status cfg (tagged new_id rq) = None" using assms(1) by (simp add: limit_status_def)
  show ?thesis
    unfolding application_def server_error_def request_context_def tagged_def [symmetric]
    by (simp add: ecatch_def ebind_def eret_def eraise_def limit_cases l security_headers_def assms(2))
qed

lemma admitted_passes:
  assumes "limit_status cfg rq = None" "routes (tagged new_id rq) sv = (Inr p0, sv')"
  shows "\<exists>p. application cfg new_id routes rq sv = (Inr p, sv') \<and> rp_status p = rp_status p0 \<and> rp_body p = rp_body p0 \<and>
    dget (rp_headers p) ''x-request-id'' = Some (identified new_id rq)"
proof -
  have l: "limit_status cfg (tagged new_id rq) = None" using assms(1) by (simp add: limit_status_def)
  show ?thesis
    unfolding application_def server_error_def request_context_def tagged_def [symmetric]
    by (simp add: ecatch_def ebind_def eret_def eraise_def limit_cases l security_headers_def assms(2))
qed



end
