(* ===== verification/Web.thy ===== *)
theory Web
  imports Tools Config
begin

text \<open>
  \<^verbatim>\<open>core/tools/web.py\<close>: the guard against server-side request forgery, the fetch that re-checks every
  hop, the text of a page and the two search providers. The parts of the standard library that decide
  what is safe are modelled as Python 3.12 has them: \<open>urlparse\<close> and \<open>ipaddress\<close>. The HTTP client, the
  resolver, the tokens of the HTML parser and the byte decoder are fields of \<open>network\<close>.
\<close>

subsection \<open>Addresses\<close>

datatype ip = V4 nat | V6 nat

definition ip4 :: "nat \<Rightarrow> nat \<Rightarrow> nat \<Rightarrow> nat \<Rightarrow> nat" where
  "ip4 a b c d = ((a * 256 + b) * 256 + c) * 256 + d"

definition parse_octet :: "string \<Rightarrow> nat option" where
  "parse_octet s = (
     if s = [] \<or> \<not> list_all is_digit s \<or> length s > 3 \<or> (s \<noteq> ''0'' \<and> hd s = CHR ''0'') then None
     else let n = digits_val 0 s in if n > 255 then None else Some n)"

definition parse_v4 :: "string \<Rightarrow> nat option" where
  "parse_v4 s = (case map parse_octet (split_on (CHR ''.'') s) of
     [Some a, Some b, Some c, Some d] \<Rightarrow> Some (ip4 a b c d) | _ \<Rightarrow> None)"

definition parse_hextet :: "string \<Rightarrow> nat option" where
  "parse_hextet s = (if s = [] \<or> length s > 4 then None
     else fold (\<lambda>c acc. case (acc, hex_val c) of (Some n, Some d) \<Rightarrow> Some (16 * n + d) | _ \<Rightarrow> None) s (Some 0))"

text \<open>The hextets of the parts, and a list of them as one number.\<close>

fun parse_hextets :: "string list \<Rightarrow> nat list option" where
  "parse_hextets [] = Some []"
| "parse_hextets (p # ps) = (case (parse_hextet p, parse_hextets ps) of (Some n, Some ns) \<Rightarrow> Some (n # ns) | _ \<Rightarrow> None)"

definition hextets :: "nat list \<Rightarrow> nat" where
  "hextets ns = fold (\<lambda>n acc. acc * 65536 + n) ns 0"

text \<open>An IPv4 low4 stands for its two hextets; the empty parts between the ends mark the skipped run.\<close>

definition v6_parts :: "string list \<Rightarrow> (string list \<times> nat list) option" where
  "v6_parts parts = (if CHR ''.'' \<in> set (last parts)
     then map_option (\<lambda>n. (butlast parts, [n div 65536, n mod 65536])) (parse_v4 (last parts)) else Some (parts, []))"

definition inner_empty :: "string list \<Rightarrow> nat list" where
  "inner_empty parts = filter (\<lambda>i. parts ! i = []) [1..<length parts - 1]"

definition fill_skipped :: "string list \<Rightarrow> nat list \<Rightarrow> nat option" where
  "fill_skipped parts low4 = (
     let n = length parts; widths = n + length low4; all_parts = parts @ map (\<lambda>_. ''0'') low4 in
     case inner_empty all_parts of
       i # j # _ \<Rightarrow> None
     | [i] \<Rightarrow>
        (let hi = (if parts ! 0 = [] then i - 1 else i); lo = (if all_parts ! (widths - 1) = [] then widths - i - 2 else widths - i - 1) in
         if parts ! 0 = [] \<and> hi \<noteq> 0 \<or> all_parts ! (widths - 1) = [] \<and> lo \<noteq> 0 \<or> hi + lo > 7 then None
         else (case (parse_hextets (take hi parts), parse_hextets (if lo = 0 then [] else drop (Suc i) parts)) of
             (Some hs, Some ls) \<Rightarrow> Some (hextets (hs @ replicate (8 - hi - lo) 0 @ ls @ low4)) | _ \<Rightarrow> None))
     | [] \<Rightarrow> if widths \<noteq> 8 then None
        else (case parse_hextets parts of Some hs \<Rightarrow> Some (hextets (hs @ low4)) | None \<Rightarrow> None))"

definition parse_v6_int :: "string \<Rightarrow> nat option" where
  "parse_v6_int s = (
     let parts = split_on (CHR '':'') s in
     if s = [] \<or> length parts < 3 then None
     else case v6_parts parts of
       None \<Rightarrow> None
     | Some (ps, low4) \<Rightarrow> if length ps + length low4 > 9 then None else fill_skipped ps low4)"

definition parse_v6 :: "string \<Rightarrow> nat option" where
  "parse_v6 s = (
     if CHR ''/'' \<in> set s then None
     else case split_on (CHR ''%'') s of
       [addr] \<Rightarrow> parse_v6_int addr
     | [addr, scope] \<Rightarrow> if scope = [] then None else parse_v6_int addr
     | _ \<Rightarrow> None)"

definition ip_address :: "string \<Rightarrow> ip option" where
  "ip_address s = (case parse_v4 s of Some n \<Rightarrow> Some (V4 n) | None \<Rightarrow> map_option V6 (parse_v6 s))"

text \<open>Membership in a network of the given length of the prefix.\<close>

definition in_net :: "nat \<Rightarrow> nat \<Rightarrow> nat \<times> nat \<Rightarrow> bool" where
  "in_net w a net = (a div 2 ^ (w - snd net) = fst net div 2 ^ (w - snd net))"

definition in_any :: "nat \<Rightarrow> nat \<Rightarrow> (nat \<times> nat) list \<Rightarrow> bool" where
  "in_any w a nets = list_ex (in_net w a) nets"

definition V4_PRIVATE :: "(nat \<times> nat) list" where
  "V4_PRIVATE = [(ip4 0 0 0 0, 8), (ip4 10 0 0 0, 8), (ip4 127 0 0 0, 8), (ip4 169 254 0 0, 16), (ip4 172 16 0 0, 12),
     (ip4 192 0 0 0, 24), (ip4 192 0 0 170, 31), (ip4 192 0 2 0, 24), (ip4 192 168 0 0, 16), (ip4 198 18 0 0, 15),
     (ip4 198 51 100 0, 24), (ip4 203 0 113 0, 24), (ip4 240 0 0 0, 4), (ip4 255 255 255 255, 32)]"

definition V4_EXCEPTIONS :: "(nat \<times> nat) list" where
  "V4_EXCEPTIONS = [(ip4 192 0 0 9, 32), (ip4 192 0 0 10, 32)]"

definition ip6 :: "nat list \<Rightarrow> nat" where
  "ip6 hs = hextets (hs @ replicate (8 - length hs) 0)"

definition V6_PRIVATE :: "(nat \<times> nat) list" where
  "V6_PRIVATE = [(1, 128), (0, 128), (ip6 [0, 0, 0, 0, 0, 0xFFFF], 96), (ip6 [0x64, 0xFF9B, 1], 48), (ip6 [0x100], 64),
     (ip6 [0x2001], 23), (ip6 [0x2001, 0xDB8], 32), (ip6 [0x2002], 16), (ip6 [0xFC00], 7), (ip6 [0xFE80], 10)]"

definition V6_EXCEPTIONS :: "(nat \<times> nat) list" where
  "V6_EXCEPTIONS = [(ip6 [0x2001, 1, 0, 0, 0, 0, 0, 1], 128), (ip6 [0x2001, 1, 0, 0, 0, 0, 0, 2], 128), (ip6 [0x2001, 3], 32),
     (ip6 [0x2001, 4, 0x112], 48), (ip6 [0x2001, 0x20], 28), (ip6 [0x2001, 0x30], 28)]"

definition V6_RESERVED :: "(nat \<times> nat) list" where
  "V6_RESERVED = [(0, 8), (ip6 [0x100], 8), (ip6 [0x200], 7), (ip6 [0x400], 6), (ip6 [0x800], 5), (ip6 [0x1000], 4),
     (ip6 [0x4000], 3), (ip6 [0x6000], 3), (ip6 [0x8000], 3), (ip6 [0xA000], 3), (ip6 [0xC000], 3), (ip6 [0xE000], 4),
     (ip6 [0xF000], 5), (ip6 [0xF800], 6), (ip6 [0xFE00], 9)]"

definition v4_private :: "nat \<Rightarrow> bool" where
  "v4_private n = (in_any 32 n V4_PRIVATE \<and> \<not> in_any 32 n V4_EXCEPTIONS)"

fun is_private :: "ip \<Rightarrow> bool" where
  "is_private (V4 n) = v4_private n"
| "is_private (V6 n) = (if n div 2 ^ 32 = 0xFFFF then v4_private (n mod 2 ^ 32)
     else in_any 128 n V6_PRIVATE \<and> \<not> in_any 128 n V6_EXCEPTIONS)"

fun is_loopback :: "ip \<Rightarrow> bool" where
  "is_loopback (V4 n) = in_net 32 n (ip4 127 0 0 0, 8)" | "is_loopback (V6 n) = (n = 1)"

fun is_link_local :: "ip \<Rightarrow> bool" where
  "is_link_local (V4 n) = in_net 32 n (ip4 169 254 0 0, 16)" | "is_link_local (V6 n) = in_net 128 n (ip6 [0xFE80], 10)"

fun is_multicast :: "ip \<Rightarrow> bool" where
  "is_multicast (V4 n) = in_net 32 n (ip4 224 0 0 0, 4)" | "is_multicast (V6 n) = in_net 128 n (ip6 [0xFF00], 8)"

fun is_reserved :: "ip \<Rightarrow> bool" where
  "is_reserved (V4 n) = in_net 32 n (ip4 240 0 0 0, 4)" | "is_reserved (V6 n) = in_any 128 n V6_RESERVED"

fun is_unspecified :: "ip \<Rightarrow> bool" where
  "is_unspecified (V4 n) = (n = 0)" | "is_unspecified (V6 n) = (n = 0)"

definition is_public :: "string \<Rightarrow> bool" where
  "is_public address = (case ip_address address of
     None \<Rightarrow> False
   | Some a \<Rightarrow> \<not> (is_private a \<or> is_loopback a \<or> is_link_local a \<or> is_multicast a \<or> is_reserved a \<or> is_unspecified a))"

subsection \<open>Locators\<close>

text \<open>The scheme and the network location of \<open>urlparse\<close>; no character of the model normalises to a delimiter.\<close>

definition scheme_char :: "char \<Rightarrow> bool" where
  "scheme_char c = (is_alpha c \<or> is_digit c \<or> c \<in> {CHR ''+'', CHR ''-'', CHR ''.''})"

definition cut_at :: "char \<Rightarrow> string \<Rightarrow> string" where
  "cut_at c s = takeWhile (\<lambda>x. x \<noteq> c) s"

definition after_first :: "char \<Rightarrow> string \<Rightarrow> string" where
  "after_first c s = drop 1 (dropWhile (\<lambda>x. x \<noteq> c) s)"

definition clean_url :: "string \<Rightarrow> string" where
  "clean_url url = filter (\<lambda>c. code_of c \<notin> {9, 10, 13 :: nat}) (dropWhile (\<lambda>c. code_of c \<le> (32 :: nat)) url)"

definition split_scheme :: "string \<Rightarrow> string \<times> string" where
  "split_scheme url = (let pre = cut_at (CHR '':'') url in
     if CHR '':'' \<in> set url \<and> pre \<noteq> [] \<and> is_alpha (hd pre) \<and> list_all scheme_char pre
     then (lower pre, after_first (CHR '':'') url) else ([], url))"

definition bracketed_host_ok :: "string \<Rightarrow> bool" where
  "bracketed_host_ok h = (
     if take 1 h = ''v'' then (let hex = takeWhile (\<lambda>c. hex_val c \<noteq> None) (drop 1 h); r = dropWhile (\<lambda>c. hex_val c \<noteq> None) (drop 1 h) in
        hex \<noteq> [] \<and> take 1 r = ''.'' \<and> drop 1 r \<noteq> [] \<and> nl \<notin> set (drop 1 r))
     else (case ip_address h of Some (V6 _) \<Rightarrow> True | _ \<Rightarrow> False))"

definition split_netloc :: "string \<Rightarrow> string res" where
  "split_netloc rest = (
     if take 2 rest \<noteq> ''//'' then Inr []
     else let netloc = takeWhile (\<lambda>c. c \<notin> {CHR ''/'', CHR ''?'', CHR ''#''}) (drop 2 rest);
              op = (CHR ''['' \<in> set netloc); cl = (CHR '']'' \<in> set netloc) in
       if op \<noteq> cl then Inl (ValueError ''Invalid IPv6 URL'')
       else if op \<and> \<not> bracketed_host_ok (cut_at (CHR '']'') (after_first (CHR ''['') netloc)) then Inl (ValueError ''Invalid IPv6 URL'')
       else Inr netloc)"

definition hostname_of :: "string \<Rightarrow> string" where
  "hostname_of netloc = (
     let hostinfo = after_last (CHR ''@'') netloc;
         h = (if CHR ''['' \<in> set hostinfo then cut_at (CHR '']'') (after_first (CHR ''['') hostinfo) else cut_at (CHR '':'') hostinfo)
     in lower (cut_at (CHR ''%'') h) @ dropWhile (\<lambda>x. x \<noteq> CHR ''%'') h)"

definition urlparse :: "string \<Rightarrow> (string \<times> string) res" where
  "urlparse url = (let (scheme, rest) = split_scheme (clean_url url) in
     rbind (split_netloc rest) (\<lambda>netloc. Inr (scheme, hostname_of netloc)))"

subsection \<open>The outside\<close>

datatype http_failure = HttpxError string | OtherFailure exn

record http_response =
  hr_status :: nat
  hr_is_redirect :: bool
  hr_headers :: "(string, string) dict"
  hr_url :: string
  hr_content :: string
  hr_encoding :: "string option"

datatype html_event = StartTag string | EndTag string | Text string

text \<open>
  Resolver and client answer per hop; a resolver that does not know the host answers \<open>Inl None\<close>. Content is
  a string of bytes. A search answers with the JSON it returned, \<open>None\<close> when its body is no JSON.
\<close>

record network =
  nw_resolve :: "nat \<Rightarrow> string \<Rightarrow> exn option + string list"
  nw_get :: "nat \<Rightarrow> string \<Rightarrow> http_failure + http_response"
  nw_join :: "string \<Rightarrow> string \<Rightarrow> string res"
  nw_decode :: "string \<Rightarrow> string \<Rightarrow> string res"
  nw_html :: "string \<Rightarrow> html_event list"
  nw_brave :: "string \<Rightarrow> int \<Rightarrow> string \<Rightarrow> http_failure + json option"
  nw_tavily :: "string \<Rightarrow> int \<Rightarrow> string \<Rightarrow> http_failure + json option"

subsection \<open>The guard\<close>

definition ALLOWED_SCHEMES :: "string list" where
  "ALLOWED_SCHEMES = [''http'', ''https'']"

definition METADATA_HOSTS :: "string list" where
  "METADATA_HOSTS = [''metadata.google.internal'', ''metadata.goog'']"

text \<open>The host itself or a subdomain of one that is listed.\<close>

definition listed :: "string list \<Rightarrow> string \<Rightarrow> bool" where
  "listed hosts host = list_ex (\<lambda>h. host = lower h \<or> suffix (CHR ''.'' # lower h) host) hosts"

definition resolve_host :: "network \<Rightarrow> nat \<Rightarrow> string \<Rightarrow> string list res" where
  "resolve_host nw i host = (case nw_resolve nw i host of
     Inr addresses \<Rightarrow> Inr addresses
   | Inl None \<Rightarrow> Inl (ToolError (''could not resolve host '' @ py_repr host))
   | Inl (Some e) \<Rightarrow> Inl e)"

definition assert_safe_url :: "settings \<Rightarrow> network \<Rightarrow> nat \<Rightarrow> string \<Rightarrow> string res" where
  "assert_safe_url cfg nw i url = rbind (urlparse url) (\<lambda>(scheme, hostname).
     if scheme \<notin> set ALLOWED_SCHEMES then Inl (ToolError (''only http and https URLs are allowed, got '' @ py_repr scheme))
     else if hostname = [] then Inl (ToolError ''the URL has no host'')
     else let host = lower hostname in
       if host \<in> set METADATA_HOSTS then Inl (ToolError ''that host is not allowed'')
       else if listed (cfg_tool_blocked_hosts cfg) host then Inl (ToolError (host @ '' is on the deny list''))
       else if cfg_tool_allowed_hosts cfg \<noteq> [] \<and> \<not> listed (cfg_tool_allowed_hosts cfg) host
         then Inl (ToolError (host @ '' is not on this deployment'' @ [squote] @ ''s allow list''))
       else rbind (resolve_host nw i host) (\<lambda>addresses.
         if list_all is_public addresses then Inr url else Inl (ToolError (host @ '' resolves to a non-public address''))))"

subsection \<open>Text of a page\<close>

record text_extractor =
  te_parts :: "string list"
  te_skip_depth :: nat
  te_title :: "string option"
  te_in_title :: bool

definition SKIP_TAGS :: "string list" where
  "SKIP_TAGS = [''script'', ''style'', ''noscript'', ''svg'', ''head'']"

definition BREAK_TAGS :: "string list" where
  "BREAK_TAGS = [''p'', ''br'', ''div'', ''li'', ''tr'', ''h1'', ''h2'', ''h3'', ''h4'', ''h5'', ''h6'']"

fun handle_event :: "html_event \<Rightarrow> text_extractor \<Rightarrow> text_extractor" where
  "handle_event (StartTag tag) p = (
     if tag \<in> set SKIP_TAGS then p\<lparr>te_skip_depth := te_skip_depth p + 1\<rparr>
     else if tag = ''title'' then p\<lparr>te_in_title := True\<rparr>
     else if tag \<in> set BREAK_TAGS then p\<lparr>te_parts := te_parts p @ [[nl]]\<rparr> else p)"
| "handle_event (EndTag tag) p = (
     if tag \<in> set SKIP_TAGS \<and> te_skip_depth p \<noteq> 0 then p\<lparr>te_skip_depth := te_skip_depth p - 1\<rparr>
     else if tag = ''title'' then p\<lparr>te_in_title := False\<rparr>
     else if tag \<in> set BREAK_TAGS then p\<lparr>te_parts := te_parts p @ [[nl]]\<rparr> else p)"
| "handle_event (Text chars) p = (
     if te_in_title p \<and> te_title p = None then p\<lparr>te_title := Some (strip chars)\<rparr>
     else if te_skip_depth p \<noteq> 0 then p
     else p\<lparr>te_parts := te_parts p @ [chars]\<rparr>)"

definition BLANKS :: regex where
  "BLANKS = RRep greedy 1 (\<lambda>c. code_of c \<in> {32, 9, 13, 12, 11 :: nat})"

definition BLANK_LINES :: regex where
  "BLANK_LINES = rseq [RClass (\<lambda>c. c = nl), RRep greedy 0 is_space, RClass (\<lambda>c. c = nl), RRep greedy 0 is_space, RRep greedy 1 (\<lambda>c. c = nl)]"

definition extracted_text :: "text_extractor \<Rightarrow> string" where
  "extracted_text p = strip (re_sub BLANK_LINES [nl, nl] (re_sub BLANKS '' '' (concat (te_parts p))))"

definition html_to_text :: "network \<Rightarrow> string \<Rightarrow> string \<times> string option" where
  "html_to_text nw html = (let p = fold handle_event (nw_html nw html)
       \<lparr>te_parts = [], te_skip_depth = 0, te_title = None, te_in_title = False\<rparr> in (extracted_text p, te_title p))"

subsection \<open>Fetching\<close>

definition MAX_RESPONSE_BYTES :: nat where "MAX_RESPONSE_BYTES = 2 * 1024 * 1024"
definition MAX_REDIRECTS :: nat where "MAX_REDIRECTS = 3"

definition failure_exn :: "string \<Rightarrow> http_failure \<Rightarrow> exn" where
  "failure_exn what f = (case f of HttpxError name \<Rightarrow> ToolError (what @ '' failed: '' @ name) | OtherFailure e \<Rightarrow> e)"

text \<open>The hops left, the number of this one and its URL; the requests made come with the outcome.\<close>

fun fetch_hops :: "settings \<Rightarrow> network \<Rightarrow> nat \<Rightarrow> nat \<Rightarrow> string \<Rightarrow> (nat \<times> string) list \<times> (string \<times> http_response) res" where
  "fetch_hops cfg nw 0 i current = ([], Inl (ToolError (''too many redirects (limit '' @ str_of_nat MAX_REDIRECTS @ '')'')))"
| "fetch_hops cfg nw (Suc k) i current = (case assert_safe_url cfg nw i current of
     Inl e \<Rightarrow> ([], Inl e)
   | Inr _ \<Rightarrow> (let (rest, outcome) =
       (case nw_get nw i current of
          Inl f \<Rightarrow> ([], Inl (failure_exn ''request'' f))
        | Inr response \<Rightarrow>
            if \<not> hr_is_redirect response then ([], Inr (current, response))
            else (case dget_or (hr_headers response) ''location'' [] of
                [] \<Rightarrow> ([], Inl (ToolError ''the server returned a redirect with no location''))
              | location \<Rightarrow> (case nw_join nw (hr_url response) location of
                  Inl e \<Rightarrow> ([], Inl e) | Inr next_url \<Rightarrow> fetch_hops cfg nw k (Suc i) next_url)))
      in ((i, current) # rest, outcome)))"

definition render_page :: "network \<Rightarrow> string \<Rightarrow> http_response \<Rightarrow> int \<Rightarrow> tool_result res" where
  "render_page nw current response max_chars = (
     if hr_status response \<ge> 400 then Inr \<lparr>tr_content = ''HTTP '' @ str_of_nat (hr_status response) @ '' from '' @ current, tr_is_error = True,
         tr_metadata = [(''status'', JInt (int (hr_status response))), (''url'', JStr current)]\<rparr>
     else let content_type = dget_or (hr_headers response) ''content-type'' [] in
       rbind (nw_decode nw (case hr_encoding response of Some enc \<Rightarrow> if enc \<noteq> [] then enc else ''utf-8'' | None \<Rightarrow> ''utf-8'')
         (take MAX_RESPONSE_BYTES (hr_content response))) (\<lambda>decoded.
       let (body, title) = (if contains ''html'' content_type then html_to_text nw decoded else (decoded, None));
           header = (case title of Some t \<Rightarrow> if t \<noteq> [] then ''# '' @ t @ [nl, nl] else [] | None \<Rightarrow> []) in
       Inr \<lparr>tr_content = header @ ''Source: '' @ current @ [nl, nl] @ take (nat max_chars) body, tr_is_error = False,
         tr_metadata = [(''url'', JStr current), (''status'', JInt (int (hr_status response))), (''content_type'', JStr content_type),
           (''title'', case title of Some t \<Rightarrow> JStr t | None \<Rightarrow> JNull)]\<rparr>))"

definition web_fetch :: "settings \<Rightarrow> network \<Rightarrow> jobj \<Rightarrow> (nat \<times> string) list \<times> tool_result res" where
  "web_fetch cfg nw args = (
     case rbind (require_str args ''url'' 2000) (\<lambda>url. rbind (optional_int args ''max_chars'' 20000 500 100000) (\<lambda>m. Inr (url, m))) of
       Inl e \<Rightarrow> ([], Inl e)
     | Inr (url, max_chars) \<Rightarrow>
        (let (requests, outcome) = fetch_hops cfg nw (MAX_REDIRECTS + 1) 0 url in
         (requests, rbind outcome (\<lambda>(current, response). render_page nw current response max_chars))))"

subsection \<open>Searching\<close>

record search_item =
  si_title :: json
  si_url :: json
  si_snippet :: json

definition strip_tags :: "json \<Rightarrow> json res" where
  "strip_tags v = (case v of
     JStr s \<Rightarrow> Inr (JStr (strip (re_sub (rseq [RClass (\<lambda>c. c = CHR ''<''), RRep greedy 1 (\<lambda>c. c \<noteq> CHR ''>''), RClass (\<lambda>c. c = CHR ''>'')]) [] s)))
   | _ \<Rightarrow> Inl TypeError)"

text \<open>\<open>v[:n]\<close> for a count that is positive: a text is cut, too, and a dictionary has no such key.\<close>

definition sliced :: "nat \<Rightarrow> json \<Rightarrow> json res" where
  "sliced n v = (case v of JList xs \<Rightarrow> Inr (JList (take n xs)) | JStr s \<Rightarrow> Inr (JStr (take n s)) | JObj _ \<Rightarrow> Inl KeyError | _ \<Rightarrow> Inl TypeError)"

definition dict_get :: "json \<Rightarrow> string \<Rightarrow> json \<Rightarrow> json res" where
  "dict_get v k dflt = (case v of JObj d \<Rightarrow> Inr (dget_or d k dflt) | _ \<Rightarrow> Inl AttributeError)"

definition result_items :: "int \<Rightarrow> json \<Rightarrow> json list res" where
  "result_items n results = rbind (sliced (nat n) (if truthy results then results else JList [])) (\<lambda>v. case v of
     JList xs \<Rightarrow> Inr xs | JStr s \<Rightarrow> Inr (map (\<lambda>c. JStr [c]) s) | _ \<Rightarrow> Inl TypeError)"

definition payload_of :: "http_failure + json option \<Rightarrow> json res" where
  "payload_of answer = (case answer of
     Inl f \<Rightarrow> Inl (failure_exn ''search request'' f)
   | Inr None \<Rightarrow> Inl (ValueError ''invalid JSON'')
   | Inr (Some v) \<Rightarrow> Inr v)"

definition brave_item :: "json \<Rightarrow> search_item res" where
  "brave_item item = rbind (dict_get item ''title'' (JStr [])) (\<lambda>t. rbind (dict_get item ''url'' (JStr [])) (\<lambda>u.
     rbind (dict_get item ''description'' (JStr [])) (\<lambda>x. rbind (strip_tags x) (\<lambda>sn. Inr \<lparr>si_title = t, si_url = u, si_snippet = sn\<rparr>))))"

definition brave_search :: "network \<Rightarrow> string \<Rightarrow> int \<Rightarrow> string \<Rightarrow> search_item list res" where
  "brave_search nw q n api_key = (
     if api_key = [] then Inl (ToolError ''the Brave search key is not configured'')
     else rbind (payload_of (nw_brave nw q n api_key)) (\<lambda>payload.
       rbind (dict_get payload ''web'' (JObj [])) (\<lambda>w. rbind (dict_get w ''results'' JNull) (\<lambda>results.
       rbind (result_items n results) (rmap brave_item)))))"

definition tavily_item :: "json \<Rightarrow> search_item res" where
  "tavily_item item = rbind (dict_get item ''title'' (JStr [])) (\<lambda>t. rbind (dict_get item ''url'' (JStr [])) (\<lambda>u.
     rbind (dict_get item ''content'' (JStr [])) (\<lambda>x. rbind (sliced 400 x) (\<lambda>sn. Inr \<lparr>si_title = t, si_url = u, si_snippet = sn\<rparr>))))"

definition tavily_search :: "network \<Rightarrow> string \<Rightarrow> int \<Rightarrow> string \<Rightarrow> search_item list res" where
  "tavily_search nw q n api_key = (
     if api_key = [] then Inl (ToolError ''the Tavily key is not configured'')
     else rbind (payload_of (nw_tavily nw q n api_key)) (\<lambda>payload.
       rbind (dict_get payload ''results'' JNull) (\<lambda>results. rbind (result_items n results) (rmap tavily_item))))"

definition render_item :: "nat \<times> search_item \<Rightarrow> string" where
  "render_item p = str_of_nat (Suc (fst p)) @ ''. '' @ j_str (si_title (snd p)) @ [nl] @ ''   '' @ j_str (si_url (snd p)) @ [nl]
     @ ''   '' @ j_str (si_snippet (snd p))"

definition web_search :: "settings \<Rightarrow> network \<Rightarrow> jobj \<Rightarrow> tool_result res" where
  "web_search cfg nw args = rbind (require_str args ''query'' 500) (\<lambda>q. rbind (optional_int args ''count'' 5 1 10) (\<lambda>n.
     rbind (if cfg_search_provider cfg = ''brave'' then brave_search nw q n (case cfg_brave_search_api_key cfg of Some k \<Rightarrow> k | None \<Rightarrow> [])
            else if cfg_search_provider cfg = ''tavily'' then tavily_search nw q n (case cfg_tavily_api_key cfg of Some k \<Rightarrow> k | None \<Rightarrow> [])
            else Inl (ToolError ''no search provider is configured on this deployment'')) (\<lambda>results.
     if results = [] then Inr \<lparr>tr_content = ''No results for '' @ py_repr q @ ''.'', tr_is_error = False, tr_metadata = [(''count'', JInt 0)]\<rparr>
     else Inr \<lparr>tr_content = join [nl, nl] (map render_item (List.enumerate 0 results)), tr_is_error = False,
       tr_metadata = [(''count'', JInt (int (length results))), (''provider'', JStr (cfg_search_provider cfg))]\<rparr>)))"

text \<open>The network tools as the engine calls them.\<close>

definition web_tools :: "settings \<Rightarrow> network \<Rightarrow> tool \<Rightarrow> jobj \<Rightarrow> tool_result res" where
  "web_tools cfg nw t args = (case t of WebFetch \<Rightarrow> snd (web_fetch cfg nw args) | WebSearch \<Rightarrow> web_search cfg nw args
     | _ \<Rightarrow> Inl (OtherError ''NotImplementedError''))"

end
