(* ===== verification/Web_Guard.thy ===== *)
theory Web_Guard
  imports Web
begin

text \<open>
  What the guard of \<^verbatim>\<open>core/tools/web.py\<close> lets through: the tables of the standard library leave no
  address of a local, private or reserved block, and a fetch stays on such addresses over all its redirects.
\<close>

text \<open>
  Where a request may go: outside this-network, loopback, link-local, the private ranges and everything from multicast up;
  for IPv6 global unicast only, and the former site-local prefix, which no property of the library names.
\<close>

fun routable :: "ip \<Rightarrow> bool" where
  "routable (V4 n) = (n div 2 ^ 24 \<notin> {0, 10, 127} \<and> n div 2 ^ 24 < 224 \<and> n div 2 ^ 16 \<noteq> 169 * 256 + 254 \<and>
     n div 2 ^ 20 \<noteq> 172 * 16 + 1 \<and> n div 2 ^ 16 \<noteq> 192 * 256 + 168)"
| "routable (V6 n) = (n div 2 ^ 125 = 1 \<or> n div 2 ^ 118 = 0x3FB)"

lemma skip_block: "c * k \<le> h \<Longrightarrow> h div k \<noteq> c \<Longrightarrow> 0 < k \<Longrightarrow> (c + 1) * k \<le> (h :: nat)"
proof -
  assume h: "c * k \<le> h" "h div k \<noteq> c" "0 < k"
  then have "c + 1 \<le> h div k" using less_eq_div_iff_mult_less_eq [OF h(3), of c h] by linarith
  then show "(c + 1) * k \<le> h" using less_eq_div_iff_mult_less_eq [OF h(3), of "c + 1" h] by blast
qed

lemma parse_octet_less: "parse_octet s = Some n \<Longrightarrow> n < 256"
  by (auto simp: parse_octet_def Let_def split: if_splits)

lemma ip4_less: "a < 256 \<Longrightarrow> b < 256 \<Longrightarrow> c < 256 \<Longrightarrow> d < 256 \<Longrightarrow> ip4 a b c d < 2 ^ 32"
  unfolding ip4_def by simp

lemma parse_v4_less: "parse_v4 s = Some n \<Longrightarrow> n < 2 ^ 32"
proof -
  assume "parse_v4 s = Some n"
  then obtain a b c d where "n = ip4 a b c d" "a < 256" "b < 256" "c < 256" "d < 256"
    by (auto simp: parse_v4_def map_eq_Cons_conv split: list.splits option.splits dest!: parse_octet_less)
  then show ?thesis using ip4_less by blast
qed

lemma hex_val_less: "hex_val c = Some d \<Longrightarrow> d < 16"
  by (auto simp: hex_val_def is_digit_def Let_def split: if_splits)

lemma parse_hextet_less: "parse_hextet s = Some n \<Longrightarrow> n < 65536"
proof -
  let ?f = "\<lambda>c acc. case (acc, hex_val c) of (Some n, Some d) \<Rightarrow> Some (16 * n + d) | _ \<Rightarrow> None"
  have none: "fold ?f s None = None" for s by (induction s) auto
  have step: "fold ?f s (Some m) = Some n \<Longrightarrow> m < 16 ^ k \<Longrightarrow> n < 16 ^ (k + length s)" for s m k
  proof (induction s arbitrary: m k)
    case (Cons c s)
    then obtain d where d: "hex_val c = Some d" using none [of s] by (cases "hex_val c") auto
    have "16 * m + d < 16 ^ Suc k" using Cons.prems(2) hex_val_less [OF d] by simp
    from Cons.IH [OF _ this] Cons.prems(1) d show ?case by simp
  qed simp
  assume p: "parse_hextet s = Some n"
  then have "n < 16 ^ length s" "length s \<le> 4" using step [of s 0 0] by (auto simp: parse_hextet_def split: if_splits)
  then have "n < 16 ^ 4" by (meson less_le_trans power_increasing one_le_numeral)
  then show ?thesis by simp
qed

lemma parse_hextets_ok: "parse_hextets ps = Some ns \<Longrightarrow> length ns = length ps \<and> list_all (\<lambda>n. n < 65536) ns"
  by (induction ps arbitrary: ns) (auto split: option.splits dest: parse_hextet_less)

lemma hextets_less: "list_all (\<lambda>n. n < 65536) ns \<Longrightarrow> hextets ns < 65536 ^ length ns"
proof -
  have "list_all (\<lambda>n. n < 65536) ns \<Longrightarrow> a < 65536 ^ k \<Longrightarrow> fold (\<lambda>n acc. acc * 65536 + n) ns a < 65536 ^ (k + length ns)" for a k
  proof (induction ns arbitrary: a k)
    case (Cons n ns)
    then have "a * 65536 + n < 65536 ^ Suc k" by simp
    from Cons.IH [OF _ this] Cons.prems(1) show ?case by simp
  qed simp
  from this [of 0 0] show "list_all (\<lambda>n. n < 65536) ns \<Longrightarrow> hextets ns < 65536 ^ length ns" by (simp add: hextets_def)
qed

lemma parse_v6_less: "parse_v6 s = Some n \<Longrightarrow> n < 2 ^ 128"
proof -
  assume "parse_v6 s = Some n"
  then obtain addr where a: "parse_v6_int addr = Some n" by (auto simp: parse_v6_def split: if_splits list.splits)
  then obtain ps low where p: "v6_parts (split_on (CHR '':'') addr) = Some (ps, low)" "fill_skipped ps low = Some n"
    by (auto simp: parse_v6_int_def Let_def split: if_splits option.splits)
  have low: "list_all (\<lambda>n. n < 65536) low"
  proof -
    have "m div 65536 < 65536 \<and> m mod 65536 < 65536" if "m < 2 ^ 32" for m :: nat using that by simp
    then show ?thesis using p(1) by (auto simp: v6_parts_def split: if_splits dest!: parse_v4_less)
  qed
  have "\<exists>ns. n = hextets ns \<and> length ns \<le> 8 \<and> list_all (\<lambda>n. n < 65536) ns"
  proof -
    let ?all = "ps @ map (\<lambda>_. ''0'') low"
    consider "inner_empty ?all = []" | i where "inner_empty ?all = [i]"
      using p(2) by (cases "inner_empty ?all"; cases "tl (inner_empty ?all)") (auto simp: fill_skipped_def Let_def)
    then show ?thesis
    proof cases
      case 1
      then obtain hs where "parse_hextets ps = Some hs" "n = hextets (hs @ low)" "length ps + length low = 8"
        using p(2) by (auto simp: fill_skipped_def Let_def split: if_splits option.splits)
      then show ?thesis using parse_hextets_ok [of ps hs] low by (intro exI [of _ "hs @ low"]) simp
    next
      case (2 i)
      let ?w = "length ps + length low"
      define hi where "hi = (if ps ! 0 = [] then i - 1 else i)"
      define lo where "lo = (if ?all ! (?w - 1) = [] then ?w - i - 2 else ?w - i - 1)"
      obtain hs ls where hs: "parse_hextets (take hi ps) = Some hs" "parse_hextets (if lo = 0 then [] else drop (Suc i) ps) = Some ls"
          "n = hextets (hs @ replicate (8 - hi - lo) 0 @ ls @ low)" "hi + lo \<le> 7" "?all ! (?w - 1) = [] \<longrightarrow> lo = 0"
        using p(2) 2 unfolding fill_skipped_def hi_def lo_def by (auto simp: Let_def split: if_splits option.splits)
      have "i \<in> set (inner_empty ?all)" using 2 by simp
      then have i: "i < ?w - 1" "?all ! i = []" by (auto simp: inner_empty_def)
      have tail: "?all ! k \<noteq> []" if "length ps \<le> k" "k < ?w" for k using that by (simp add: nth_append)
      then have ip: "i < length ps" using i by (cases "i < length ps") simp_all
      have last: "?all ! (?w - 1) \<noteq> []" if "low \<noteq> []" using tail [of "?w - 1"] that by (cases low) auto
      have "length ls + length low \<le> lo"
      proof (cases "lo = 0")
        case True
        then have "low = []" using last i(1) by (cases "low = []") (auto simp: lo_def)
        then show ?thesis using hs(2) True by simp
      next
        case False
        then have "lo = ?w - i - 1" "length ls = length ps - Suc i" using hs(5) parse_hextets_ok [OF hs(2)] by (auto simp: lo_def)
        then show ?thesis using ip by simp
      qed
      moreover have "length hs \<le> hi" using parse_hextets_ok [OF hs(1)] by simp
      ultimately have "length (hs @ replicate (8 - hi - lo) 0 @ ls @ low) \<le> 8" using hs(4) by simp
      then show ?thesis using hs(3) low parse_hextets_ok [OF hs(1)] parse_hextets_ok [OF hs(2)]
        by (intro exI [of _ "hs @ replicate (8 - hi - lo) 0 @ ls @ low"]) (auto simp: list_all_iff)
    qed
  qed
  then obtain ns where ns: "n = hextets ns" "length ns \<le> 8" "list_all (\<lambda>n. n < 65536) ns" by blast
  have "n < 65536 ^ length ns" using hextets_less [OF ns(3)] ns(1) by simp
  also have "\<dots> \<le> 65536 ^ 8" using ns(2) by (intro power_increasing) simp_all
  finally show ?thesis by simp
qed

lemma div_up: "(a :: nat) div 2 ^ k = c \<Longrightarrow> a div 2 ^ (k + j) = c div 2 ^ j"
  by (simp add: power_add div_mult2_eq)

lemma v4_routable:
  assumes "\<not> (is_private (V4 n) \<or> is_multicast (V4 n))" "n < 2 ^ 32"
  shows "routable (V4 n)"
proof (cases "in_any 32 n V4_EXCEPTIONS")
  case True
  then show ?thesis by (auto simp: in_any_def in_net_def V4_EXCEPTIONS_def ip4_def)
next
  case False
  then have p: "\<not> in_any 32 n V4_PRIVATE" using assms(1) by (simp add: v4_private_def)
  have "n div 2 ^ 28 \<noteq> 14" "n div 2 ^ 28 \<noteq> 15" using p assms(1) by (simp_all add: in_any_def in_net_def V4_PRIVATE_def ip4_def)
  moreover have "n div 2 ^ 28 < 16" using assms(2) by simp
  ultimately have "n div 2 ^ 28 < 14" by linarith
  then have "n div 2 ^ 24 < 224" using div_up [of n 24 "n div 2 ^ 24" 4] by simp
  then show ?thesis using p by (simp add: in_any_def in_net_def V4_PRIVATE_def ip4_def)
qed

lemma pads: "replicate 7 (0::nat) = [0, 0, 0, 0, 0, 0, 0]" "replicate 6 (0::nat) = [0, 0, 0, 0, 0, 0]" "replicate 5 (0::nat) = [0, 0, 0, 0, 0]"
    "replicate 2 (0::nat) = [0, 0]"
  by (simp_all add: numeral_eq_Suc)

lemma v6_blocks: "n div 2 ^ (118 + j) = n div 2 ^ 118 div (2 ^ j :: nat)"
  by (simp add: power_add div_mult2_eq)

lemma v6_reserved_blocks:
  "is_reserved (V6 n) = (let h = n div 2 ^ 118 in h div 4 = 0 \<or> h div 4 = 1 \<or> h div 8 = 1 \<or> h div 16 = 1 \<or> h div 32 = 1 \<or> h div 64 = 1 \<or>
     h div 128 \<in> {2, 3, 4, 5, 6} \<or> h div 64 = 14 \<or> h div 32 = 30 \<or> h div 16 = 62 \<or> h div 2 = 508)"
  using v6_blocks [of n 2] v6_blocks [of n 3] v6_blocks [of n 4] v6_blocks [of n 5] v6_blocks [of n 6] v6_blocks [of n 7] v6_blocks [of n 1]
  by (simp add: in_any_def in_net_def V6_RESERVED_def ip6_def hextets_def pads Let_def disj_assoc)

lemma v6_private_blocks:
  assumes "\<not> is_private (V6 n)" "\<not> is_reserved (V6 n)"
  shows "n div 2 ^ 125 = 1 \<or> (n div 2 ^ 118 div 8 \<noteq> 126 \<and> n div 2 ^ 118 \<noteq> 0x3FA)"
proof (cases "in_any 128 n V6_EXCEPTIONS")
  case True
  then consider "n div 2 ^ 0 = 42540488241204005274814694018844196865" | "n div 2 ^ 0 = 42540488241204005274814694018844196866"
    | "n div 2 ^ 96 = 0x20010003" | "n div 2 ^ 80 = 0x200100040112" | "n div 2 ^ 100 = 0x2001002" | "n div 2 ^ 100 = 0x2001003"
    by (auto simp: in_any_def in_net_def V6_EXCEPTIONS_def ip6_def hextets_def pads)
  then show ?thesis by cases (drule div_up [where j = 125] div_up [where j = 29] div_up [where j = 45] div_up [where j = 25], simp)+
next
  case False
  have "n div 2 ^ 32 \<noteq> 0xFFFF"
  proof
    assume a: "n div 2 ^ 32 = 0xFFFF"
    then have "n div 2 ^ (32 + 86) = 0" using div_up [OF a, of 86] by simp
    then show False using assms(2) unfolding v6_reserved_blocks by (simp add: Let_def)
  qed
  then have "\<not> in_any 128 n V6_PRIVATE" using assms(1) False by (simp split: if_splits)
  then show ?thesis using v6_blocks [of n 3] by (simp add: in_any_def in_net_def V6_PRIVATE_def ip6_def hextets_def pads)
qed

lemma v6_routable:
  assumes "\<not> (is_private (V6 n) \<or> is_multicast (V6 n) \<or> is_reserved (V6 n))" "n < 2 ^ 128"
  shows "routable (V6 n)"
proof -
  define h where "h = n div 2 ^ 118"
  have r: "\<not> (h div 4 = 0 \<or> h div 4 = 1 \<or> h div 8 = 1 \<or> h div 16 = 1 \<or> h div 32 = 1 \<or> h div 64 = 1 \<or>
     h div 128 \<in> {2, 3, 4, 5, 6} \<or> h div 64 = 14 \<or> h div 32 = 30 \<or> h div 16 = 62 \<or> h div 2 = 508)"
    using assms(1) unfolding v6_reserved_blocks h_def Let_def by blast
  have m: "h div 4 \<noteq> 255" using assms(1) v6_blocks [of n 2] by (simp add: h_def in_net_def ip6_def hextets_def pads)
  have p: "n div 2 ^ 125 = 1 \<or> (h div 8 \<noteq> 126 \<and> h \<noteq> 0x3FA)" using v6_private_blocks [of n] assms(1) by (simp add: h_def)
  have h: "h < 1024" using assms(2) by (simp add: h_def)
  have g: "n div 2 ^ 125 = h div 128" using v6_blocks [of n 7] by (simp add: h_def)
  show ?thesis
  proof (cases "h div 128 = 1")
    case False
    have "1 * 8 \<le> h" using r skip_block [of 0 4 h] skip_block [of 1 4 h] by simp
    then have "1 * 16 \<le> h" using r skip_block [of 1 8 h] by simp
    then have "1 * 32 \<le> h" using r skip_block [of 1 16 h] by simp
    then have "1 * 64 \<le> h" using r skip_block [of 1 32 h] by simp
    then have "1 * 128 \<le> h" using r skip_block [of 1 64 h] by simp
    then have "2 * 128 \<le> h" using False skip_block [of 1 128 h] by simp
    then have "3 * 128 \<le> h" using r skip_block [of 2 128 h] by simp
    then have "4 * 128 \<le> h" using r skip_block [of 3 128 h] by simp
    then have "5 * 128 \<le> h" using r skip_block [of 4 128 h] by simp
    then have "6 * 128 \<le> h" using r skip_block [of 5 128 h] by simp
    then have "14 * 64 \<le> h" using r skip_block [of 6 128 h] by simp
    then have "30 * 32 \<le> h" using r skip_block [of 14 64 h] by simp
    then have "62 * 16 \<le> h" using r skip_block [of 30 32 h] by simp
    then have "126 * 8 \<le> h" using r skip_block [of 62 16 h] by simp
    then have "508 * 2 \<le> h" using False g p skip_block [of 126 8 h] by simp
    then have "1018 * 1 \<le> h" using r skip_block [of 508 2 h] by simp
    then have "1019 * 1 \<le> h" using False g p skip_block [of 1018 1 h] by simp
    moreover have "\<not> 255 * 4 \<le> h" using m h skip_block [of 255 4 h] by auto
    ultimately have "h = 0x3FB" by simp
    then show ?thesis by (simp add: h_def)
  qed (use g in simp)
qed

lemma public_routable: "is_public address \<Longrightarrow> \<exists>a. ip_address address = Some a \<and> routable a"
proof -
  assume p: "is_public address"
  then obtain a where a: "ip_address address = Some a" by (auto simp: is_public_def split: option.splits)
  have "routable a"
  proof (cases a)
    case (V4 n)
    then have "n < 2 ^ 32" using a parse_v4_less by (auto simp: ip_address_def split: option.splits)
    then show ?thesis using v4_routable [of n] p a V4 by (simp add: is_public_def)
  next
    case (V6 n)
    then have "n < 2 ^ 128" using a parse_v6_less by (auto simp: ip_address_def split: option.splits)
    then show ?thesis using v6_routable [of n] p a V6 by (simp add: is_public_def)
  qed
  then show ?thesis using a by blast
qed

definition reachable_address :: "string \<Rightarrow> bool" where
  "reachable_address address = (case ip_address address of None \<Rightarrow> False | Some a \<Rightarrow> routable a)"

lemma public_reachable: "is_public address \<Longrightarrow> reachable_address address"
  using public_routable [of address] by (auto simp: reachable_address_def)

text \<open>A request the policy of a deployment allows: the scheme, the host and every address it has at this hop.\<close>

definition allowed_request :: "settings \<Rightarrow> network \<Rightarrow> nat \<times> string \<Rightarrow> bool" where
  "allowed_request cfg nw request = (case urlparse (snd request) of
     Inl _ \<Rightarrow> False
   | Inr (scheme, hostname) \<Rightarrow> (case nw_resolve nw (fst request) (lower hostname) of
       Inl _ \<Rightarrow> False
     | Inr addresses \<Rightarrow> scheme \<in> {''http'', ''https''} \<and> hostname \<noteq> [] \<and> lower hostname \<notin> set METADATA_HOSTS \<and>
        \<not> listed (cfg_tool_blocked_hosts cfg) (lower hostname) \<and>
        (cfg_tool_allowed_hosts cfg = [] \<or> listed (cfg_tool_allowed_hosts cfg) (lower hostname)) \<and>
        list_all reachable_address addresses))"

lemma assert_safe_url_allowed: "assert_safe_url cfg nw i url = Inr v \<Longrightarrow> v = url \<and> allowed_request cfg nw (i, url)"
  by (auto simp: assert_safe_url_def allowed_request_def resolve_host_def ALLOWED_SCHEMES_def Let_def list_all_iff rbind_def
      split: sum.splits option.splits if_splits prod.splits intro: public_reachable)

lemma fetch_hops_allowed:
  "fetch_hops cfg nw k i url = (requests, r) \<Longrightarrow> length requests \<le> k \<and> map fst requests = [i..<i + length requests] \<and>
     list_all (allowed_request cfg nw) requests"
proof (induction k arbitrary: i url requests r)
  case (Suc k)
  show ?case
  proof (cases "assert_safe_url cfg nw i url")
    case (Inr v)
    then have ok: "allowed_request cfg nw (i, url)" using assert_safe_url_allowed by blast
    from Suc.prems Inr consider "requests = [(i, url)]" | next_url rest where "requests = (i, url) # rest" "fetch_hops cfg nw k (Suc i) next_url = (rest, r)"
      by (auto simp: Let_def split: sum.splits if_splits list.splits prod.splits)
    then show ?thesis
    proof cases
      case 2
      from Suc.IH [OF 2(2)] show ?thesis using ok 2(1) by (simp add: upt_conv_Cons del: upt_Suc)
    qed (simp add: ok)
  qed (use Suc.prems in simp)
qed simp

subsection \<open>A redirect to a private address\<close>

definition sample_page :: http_response where
  "sample_page = \<lparr>hr_status = 302, hr_is_redirect = True, hr_headers = [(''location'', ''http://local/'')], hr_url = ''http://a.b/x'', hr_content = [], hr_encoding = None\<rparr>"

definition sample_network :: network where
  "sample_network = \<lparr>nw_resolve = (\<lambda>i host. Inr (if host = ''a.b'' then [''93.184.216.34''] else [''10.0.0.1''])), nw_get = (\<lambda>i url. Inr sample_page),
     nw_join = (\<lambda>base location. Inr location), nw_decode = (\<lambda>enc bytes. Inr bytes), nw_html = (\<lambda>html. []),
     nw_brave = (\<lambda>q n key. Inr None), nw_tavily = (\<lambda>q n key. Inr None)\<rparr>"

lemma sample_hosts: "urlparse ''http://A.b/x'' = Inr (''http'', ''a.b'')" "urlparse ''http://local/'' = Inr (''http'', ''local'')"
  by code_simp+

lemma sample_public: "ip_address ''93.184.216.34'' = Some (V4 1572395042)" "ip_address ''10.0.0.1'' = Some (V4 167772161)"
  by (simp_all add: ip_address_def parse_v4_def parse_octet_def is_digit_def ip4_def Let_def)

lemma sample_is_public: "is_public ''93.184.216.34''" 
  unfolding is_public_def sample_public
  by (simp add: in_any_def in_net_def V4_PRIVATE_def V4_EXCEPTIONS_def v4_private_def ip4_def)

lemma sample_not_public: "\<not> is_public ''10.0.0.1''" 
  unfolding is_public_def sample_public
  by (simp add: in_any_def in_net_def V4_PRIVATE_def V4_EXCEPTIONS_def v4_private_def ip4_def)

lemma sample_answers: "nw_get sample_network i url = Inr sample_page" "nw_join sample_network base location = Inr location"
    "hr_is_redirect sample_page" "hr_url sample_page = ''http://a.b/x''" "dget_or (hr_headers sample_page) ''location'' [] = ''http://local/''"
  by (simp_all add: sample_network_def sample_page_def dget_or_def)

lemma default_hosts: "cfg_tool_blocked_hosts default_settings = []" "cfg_tool_allowed_hosts default_settings = []"
  by (simp_all add: default_settings_def)

lemma sample_lower: "lower ''a.b'' = ''a.b''" "lower ''local'' = ''local''" by code_simp+

lemma sample_url: "require_str [(''url'', JStr ''http://A.b/x'')] ''url'' 2000 = Inr ''http://A.b/x''"
  by code_simp

lemma sample_limit: "optional_int [(''url'', JStr ''http://A.b/x'')] ''max_chars'' 20000 500 100000 = Inr 20000"
  by code_simp

lemma sample_safe: "assert_safe_url default_settings sample_network i ''http://A.b/x'' = Inr ''http://A.b/x''"
  by (simp add: assert_safe_url_def sample_hosts ALLOWED_SCHEMES_def METADATA_HOSTS_def sample_lower default_hosts listed_def resolve_host_def sample_network_def sample_is_public)

lemma sample_refused: "assert_safe_url default_settings sample_network i ''http://local/'' = Inl (ToolError ''local resolves to a non-public address'')"
  by (simp add: assert_safe_url_def sample_hosts ALLOWED_SCHEMES_def METADATA_HOSTS_def sample_lower default_hosts listed_def resolve_host_def sample_network_def sample_not_public)

lemma sample_fetch: "web_fetch default_settings sample_network [(''url'', JStr ''http://A.b/x'')] =
    ([(0, ''http://A.b/x'')], Inl (ToolError ''local resolves to a non-public address''))"
  unfolding web_fetch_def sample_url sample_limit MAX_REDIRECTS_def
  by (simp add: numeral_eq_Suc sample_safe sample_refused sample_answers)

subsection \<open>Fetches stay public\<close>



end
