(* ===== verification/Json_Dumps.thy ===== *)
theory Json_Dumps
  imports Json_Loads
begin

text \<open>
  \<^verbatim>\<open>json.dumps(v, ensure_ascii=False)\<close> of the standard library, and that the scanner of theory \<open>Json_Loads\<close>
  reads back what it writes.
\<close>

definition escaped_char :: "char \<Rightarrow> string" where
  "escaped_char c = (
     if c = dquote \<or> c = backslash then [backslash, c]
     else if c = nl then [backslash, CHR ''n''] else if c = CHR 0x0D then [backslash, CHR ''r'']
     else if c = tab then [backslash, CHR ''t''] else if c = CHR 0x0C then [backslash, CHR ''f'']
     else if c = CHR 0x08 then [backslash, CHR ''b'']
     else if code_of c < (32 :: nat) then [backslash, CHR ''u'', CHR ''0'', CHR ''0'', hex_digit (code_of c div 16), hex_digit (code_of c mod 16)]
     else [c])"

definition dumped_str :: "string \<Rightarrow> string" where
  "dumped_str s = [dquote] @ concat (map escaped_char s) @ [dquote]"

fun json_dumps :: "json \<Rightarrow> string" where
  "json_dumps JNull = ''null''"
| "json_dumps (JBool b) = (if b then ''true'' else ''false'')"
| "json_dumps (JInt i) = str_of_int i"
| "json_dumps (JFloat q r) = r"
| "json_dumps (JStr s) = dumped_str s"
| "json_dumps (JList xs) = ''['' @ join '', '' (map json_dumps xs) @ '']''"
| "json_dumps (JObj d) = ''{'' @ join '', '' (map (\<lambda>(k, v). dumped_str k @ '': '' @ json_dumps v) d) @ ''}''"

subsection \<open>Reading back\<close>

text \<open>Values without floats whose objects are dictionaries.\<close>

fun exact :: "json \<Rightarrow> bool" where
  "exact (JFloat q r) = False"
| "exact (JList xs) = list_all exact xs"
| "exact (JObj d) = (distinct (map fst d) \<and> list_all (\<lambda>(k, v). exact v) d)"
| "exact _ = True"

text \<open>What follows a value inside a text.\<close>

definition ends :: "string \<Rightarrow> bool" where
  "ends r \<longleftrightarrow> r = [] \<or> hd r \<in> {CHR '','', CHR '']'', CHR ''}''}"

lemma hex_val_digit: "k < 16 \<Longrightarrow> hex_val (hex_digit k) = Some k"
  by (cases "k < 10") (simp_all add: hex_val_def hex_digit_def is_digit_def Let_def)

lemma hex4_control: "n < 32 \<Longrightarrow> hex4 (CHR ''0'') (CHR ''0'') (hex_digit (n div 16)) (hex_digit (n mod 16)) = Some (char_of n)"
proof -
  assume n: "n < 32"
  then have "hex_val (hex_digit (n div 16)) = Some (n div 16)" "hex_val (hex_digit (n mod 16)) = Some (n mod 16)" "hex_val (CHR ''0'') = Some 0"
    by (simp_all add: hex_val_digit) (simp add: hex_val_def is_digit_def)
  then show ?thesis using n by (simp add: hex4_def Let_def)
qed

lemma json_string_escaped: "json_string (concat (map escaped_char s) @ dquote # r) = Some (s, r)"
proof (induction s)
  case (Cons c s)
  have c: "char_of (code_of c :: nat) = c" by simp
  show ?case using Cons hex4_control [of "code_of c"] c by (auto simp: escaped_char_def simple_escape_def)
qed simp

lemma digits_val_append: "digits_val a (xs @ ys) = digits_val (digits_val a xs) ys"
  by (induction xs arbitrary: a) auto

lemma digit_char: "n < 10 \<Longrightarrow> is_digit (char_of (48 + n)) \<and> code_of (char_of (48 + n)) = (48 + n :: nat)"
  by (simp add: is_digit_def Let_def)

lemma str_of_nat_digits: "list_all is_digit (str_of_nat n) \<and> digits_val 0 (str_of_nat n) = n"
proof (induction n rule: str_of_nat.induct)
  case (1 n)
  show ?case
  proof (cases "n < 10")
    case True
    then show ?thesis using digit_char [of n] by (simp add: str_of_nat.simps [of n])
  next
    case False
    then show ?thesis using 1 digit_char [of "n mod 10"]
      by (subst (1 2) str_of_nat.simps) (simp add: digits_val_append)
  qed
qed

lemma str_of_nat_head: "n \<noteq> 0 \<Longrightarrow> hd (str_of_nat n) \<noteq> CHR ''0''"
proof (induction n rule: str_of_nat.induct)
  case (1 n)
  show ?case
  proof (cases "n < 10")
    case True
    have "char_of (48 + n) \<noteq> CHR ''0''"
    proof
      assume "char_of (48 + n) = CHR ''0''"
      then have "code_of (char_of (48 + n)) = (code_of (CHR ''0'') :: nat)" by simp
      then show False using True "1.prems" digit_char [of n] by simp
    qed
    then show ?thesis using True by (simp add: str_of_nat.simps [of n])
  next
    case False
    then have "n div 10 \<noteq> 0" by simp
    from 1(1) [OF False this] show ?thesis using False length_str_of_nat_pos [of "n div 10"]
      by (subst str_of_nat.simps) (simp add: hd_append)
  qed
qed

lemma ends_cases: "ends r \<Longrightarrow> r = [] \<or> (\<exists>c q. r = c # q \<and> \<not> is_digit c \<and> c \<notin> {CHR ''.'', CHR ''e'', CHR ''E''})"
  by (cases r) (auto simp: ends_def is_digit_def)

lemma digits_stop: "list_all is_digit ds \<Longrightarrow> ends r \<Longrightarrow> takeWhile is_digit (ds @ r) = ds"
  by (induction ds) (auto dest: ends_cases)

lemma str_of_nat_0: "str_of_nat 0 = ''0''"
  by code_simp

lemma str_of_nat_Cons: "\<exists>c cs. str_of_nat n = c # cs \<and> is_digit c \<and> list_all is_digit cs"
  using length_str_of_nat_pos [of n] str_of_nat_digits [of n] by (cases "str_of_nat n") auto

lemma str_of_int_Cons: "\<exists>c cs. str_of_int i = c # cs \<and> (is_digit c \<or> c = CHR ''-'')"
  using str_of_nat_Cons [of "nat i"] by (cases "i < 0") (auto simp: str_of_int_def)

lemma json_number_plain:
  assumes "(s \<noteq> [] \<and> hd s = CHR ''-'') = neg" "(if neg then tl s else s) = s1"
    and "(if s1 \<noteq> [] \<and> hd s1 = CHR ''0'' then ''0'' else takeWhile is_digit s1) = ip" "drop (length ip) s1 = r"
    and "ip \<noteq> []" "r = [] \<or> hd r \<notin> {CHR ''.'', CHR ''e'', CHR ''E''}"
  shows "json_number s = Some (JInt ((if neg then - 1 else 1) * int (digits_val 0 ip)), r)"
proof -
  consider "r = []" | e q where "r = e # q" "e \<noteq> CHR ''.''" "e \<noteq> CHR ''e''" "e \<noteq> CHR ''E''" using assms(6) by (cases r) auto
  then show ?thesis
  proof cases
    case 1
    show ?thesis
      unfolding json_number_def Let_def assms(1) assms(2) assms(3) unfolding assms(4) 1
      by (simp only: simp_thms if_False list.size append_Nil2 assms(5) if_True)
  next
    case 2
    show ?thesis
      unfolding json_number_def Let_def assms(1) assms(2) assms(3) unfolding assms(4) 2(1)
      by (simp only: simp_thms if_False if_True list.sel insert_iff empty_iff 2(2-4) list.size append_Nil2 assms(5))
  qed
qed

lemma json_number_digits:
  assumes "ends r" "list_all is_digit (c # cs)" "c = CHR ''0'' \<Longrightarrow> cs = []"
  shows "json_number (c # cs @ r) = Some (JInt (int (digits_val 0 (c # cs))), r)"
    and "json_number (CHR ''-'' # c # cs @ r) = Some (JInt (- int (digits_val 0 (c # cs))), r)"
proof -
  have c: "is_digit c" "c \<noteq> CHR ''-''" using assms(2) by (auto simp: is_digit_def)
  have tw: "takeWhile is_digit (cs @ r) = cs" using digits_stop [of cs r] assms(1,2) by simp
  have ip: "(if c # cs @ r \<noteq> [] \<and> hd (c # cs @ r) = CHR ''0'' then ''0'' else takeWhile is_digit (c # cs @ r)) = c # cs"
    using assms(3) tw c by auto
  have r: "r = [] \<or> hd r \<notin> {CHR ''.'', CHR ''e'', CHR ''E''}" using ends_cases [OF assms(1)] by auto
  show "json_number (c # cs @ r) = Some (JInt (int (digits_val 0 (c # cs))), r)"
    using json_number_plain [of "c # cs @ r" False "c # cs @ r" "c # cs" r] ip c(2) r by simp
  show "json_number (CHR ''-'' # c # cs @ r) = Some (JInt (- int (digits_val 0 (c # cs))), r)"
    using json_number_plain [of "CHR ''-'' # c # cs @ r" True "c # cs @ r" "c # cs" r] ip r by simp
qed

lemma json_number_int:
  assumes "ends r"
  shows "json_number (str_of_nat n @ r) = Some (JInt (int n), r)" "json_number (CHR ''-'' # str_of_nat n @ r) = Some (JInt (- int n), r)"
proof -
  obtain c cs where c: "str_of_nat n = c # cs" using str_of_nat_Cons by blast
  have z: "c = CHR ''0'' \<Longrightarrow> cs = []" using str_of_nat_head [of n] c by (cases "n = 0") (auto simp: str_of_nat_0)
  note d = json_number_digits [OF assms _ z] and v = str_of_nat_digits [of n]
  show "json_number (str_of_nat n @ r) = Some (JInt (int n), r)" "json_number (CHR ''-'' # str_of_nat n @ r) = Some (JInt (- int n), r)"
    using d v unfolding c by simp_all
qed

lemma json_lit_int:
  assumes "ends r"
  shows "json_lit (str_of_int i @ r) = Some (JInt i, r)"
proof -
  obtain c cs where c: "str_of_int i @ r = c # cs" "is_digit c \<or> c = CHR ''-''"
    using str_of_int_Cons [of i] by auto
  then have "c \<notin> {CHR ''n'', CHR ''t'', CHR ''f''}" by (auto simp: is_digit_def)
  then have "json_lit (str_of_int i @ r) = json_number (str_of_int i @ r)" using c by (simp add: json_lit_def)
  then show ?thesis using json_number_int [OF assms] by (simp add: str_of_int_def)
qed

text \<open>The first character of what is written decides the branch of the scanner.\<close>

lemma dumps_head: "exact v \<Longrightarrow> \<exists>c cs. json_dumps v = c # cs \<and> c \<notin> {CHR '' '', tab, nl, CHR 0x0D, CHR '']'', CHR ''}''}"
proof (cases v)
  case (JInt i)
  obtain c cs where c: "str_of_int i = c # cs" "is_digit c \<or> c = CHR ''-''" using str_of_int_Cons [of i] by blast
  then show ?thesis using JInt by (auto simp: is_digit_def)
qed (auto simp: dumped_str_def)

lemma ws_dumps: "exact v \<Longrightarrow> json_ws (json_dumps v @ r) = json_dumps v @ r"
  using dumps_head [of v] by (auto simp: json_ws_def)

lemma ws_ends: "ends r \<Longrightarrow> json_ws r = r"
  by (cases r) (auto simp: ends_def json_ws_def)

text \<open>One value is read back, given what its parts need of fuel.\<close>

definition reads :: "json \<Rightarrow> bool" where
  "reads v \<longleftrightarrow> (\<forall>n r. ends r \<longrightarrow> 2 * length (json_dumps v) \<le> n \<longrightarrow> json_value n (json_dumps v @ r) = Some (v, r))"

lemma readsD: "reads v \<Longrightarrow> ends r \<Longrightarrow> 2 * length (json_dumps v) \<le> n \<Longrightarrow> json_value n (json_dumps v @ r) = Some (v, r)"
  by (simp add: reads_def)

lemma ends_simps [simp]: "ends []" "ends (CHR '','' # r)" "ends (CHR '']'' # r)" "ends (CHR ''}'' # r)"
  by (simp_all add: ends_def)

lemma ws_simps [simp]: "json_ws (CHR '','' # r) = CHR '','' # r" "json_ws (CHR '']'' # r) = CHR '']'' # r" "json_ws (CHR ''}'' # r) = CHR ''}'' # r"
    "json_ws (CHR '' '' # r) = json_ws r" "json_ws (dquote # r) = dquote # r" "json_ws (CHR '':'' # r) = CHR '':'' # r"
  by (simp_all add: json_ws_def)

lemma join_head: "xs \<noteq> [] \<Longrightarrow> \<exists>t. join sep (x # xs) = x @ sep @ t \<and> t = join sep xs"
  by (cases xs) auto

lemma ws_elems: "exact v \<Longrightarrow> json_ws (join '', '' (map json_dumps (v # vs)) @ r) = join '', '' (map json_dumps (v # vs)) @ r"
  using ws_dumps [of v] by (cases vs) simp_all

lemma json_elems_dumps:
  "xs \<noteq> [] \<Longrightarrow> list_all (\<lambda>x. exact x \<and> reads x) xs \<Longrightarrow> 2 * length (join '', '' (map json_dumps xs)) + 1 \<le> n \<Longrightarrow>
     json_elems n (join '', '' (map json_dumps xs) @ CHR '']'' # r) = Some (xs, r)"
proof (induction xs arbitrary: n)
  case (Cons v vs)
  then obtain m where n: "n = Suc m" by (cases n) auto
  show ?case
  proof (cases vs)
    case Nil
    then show ?thesis using Cons.prems n readsD [of v "CHR '']'' # r" m] by simp
  next
    case (Cons w ws)
    let ?t = "join '', '' (map json_dumps vs)"
    have j: "join '', '' (map json_dumps (v # vs)) = json_dumps v @ '', '' @ ?t" using Cons by (simp add: join_Cons)
    have v: "json_value m (json_dumps v @ '', '' @ ?t @ CHR '']'' # r) = Some (v, '', '' @ ?t @ CHR '']'' # r)"
      using readsD [of v "'', '' @ ?t @ CHR '']'' # r" m] Cons.prems n unfolding j by simp
    have "json_elems m (?t @ CHR '']'' # r) = Some (vs, r)"
      using Cons.IH [of m] Cons.prems n Cons unfolding j by simp
    moreover have "json_ws (?t @ CHR '']'' # r) = ?t @ CHR '']'' # r" using ws_elems [of w ws] Cons Cons.prems by simp
    ultimately show ?thesis unfolding n j using v by simp
  qed
qed simp

definition dumped_member :: "string \<times> json \<Rightarrow> string" where
  "dumped_member kv = dumped_str (fst kv) @ '': '' @ json_dumps (snd kv)"

lemma json_dumps_obj: "json_dumps (JObj d) = ''{'' @ join '', '' (map dumped_member d) @ ''}''"
  by (simp add: dumped_member_def split_beta' cong: map_cong)

lemma ws_members: "json_ws (join '', '' (map dumped_member (v # vs)) @ r) = join '', '' (map dumped_member (v # vs)) @ r"
  by (cases vs) (simp_all add: dumped_member_def dumped_str_def)

lemma json_members_dumps:
  "d \<noteq> [] \<Longrightarrow> list_all (\<lambda>kv. exact (snd kv) \<and> reads (snd kv)) d \<Longrightarrow> 2 * length (join '', '' (map dumped_member d)) + 1 \<le> n \<Longrightarrow>
     json_members n (join '', '' (map dumped_member d) @ CHR ''}'' # r) = Some (d, r)"
proof (induction d arbitrary: n)
  case (Cons kv d)
  then obtain m where n: "n = Suc m" by (cases n) auto
  obtain k v where kv: "kv = (k, v)" by (cases kv)
  have key: "json_string (concat (map escaped_char k) @ dquote # q) = Some (k, q)" for q by (rule json_string_escaped)
  have ws: "json_ws (json_dumps v @ q) = json_dumps v @ q" for q using ws_dumps [of v] Cons.prems(2) kv by simp
  show ?case
  proof (cases d)
    case Nil
    have "json_value m (json_dumps v @ CHR ''}'' # r) = Some (v, CHR ''}'' # r)"
      using Cons.prems kv n Nil readsD [of v "CHR ''}'' # r" m] by (simp add: dumped_member_def)
    then show ?thesis using key ws by (simp add: n kv Nil dumped_member_def dumped_str_def)
  next
    case (Cons e es)
    let ?t = "join '', '' (map dumped_member d)"
    have j: "join '', '' (map dumped_member (kv # d)) = dumped_member kv @ '', '' @ ?t" using Cons by (simp add: join_Cons)
    have v: "json_value m (json_dumps v @ '', '' @ ?t @ CHR ''}'' # r) = Some (v, '', '' @ ?t @ CHR ''}'' # r)"
      using readsD [of v "'', '' @ ?t @ CHR ''}'' # r" m] Cons.prems n kv unfolding j by (simp add: dumped_member_def)
    have "json_members m (?t @ CHR ''}'' # r) = Some (d, r)"
      using Cons.IH [of m] Cons.prems n Cons unfolding j by simp
    moreover have "json_ws (?t @ CHR ''}'' # r) = ?t @ CHR ''}'' # r" using ws_members [of e es] Cons by simp
    ultimately show ?thesis unfolding n j using v key ws by (simp add: kv dumped_member_def dumped_str_def)
  qed
qed simp

lemma dset_fresh: "k \<notin> fst ` set d \<Longrightarrow> dset k v d = d @ [(k, v)]"
  by (induction d) auto

lemma fold_dset_fresh: "distinct (map fst (d @ xs)) \<Longrightarrow> fold (\<lambda>(k, v) d. dset k v d) xs d = d @ xs"
proof (induction xs arbitrary: d)
  case (Cons x xs)
  then have "dset (fst x) (snd x) d = d @ [x]" using dset_fresh [of "fst x" d "snd x"] by auto
  then show ?case using Cons.IH [of "d @ [x]"] Cons.prems by (simp add: split_beta)
qed simp

lemma dict_of_distinct: "distinct (map fst d) \<Longrightarrow> dict_of d = d"
  using fold_dset_fresh [of "[]" d] by (simp add: dict_of_def)

lemma readsI:
  "exact v \<Longrightarrow> (\<And>m r. ends r \<Longrightarrow> 2 * length (json_dumps v) \<le> Suc m \<Longrightarrow> json_value (Suc m) (json_dumps v @ r) = Some (v, r)) \<Longrightarrow> reads v"
  unfolding reads_def
proof (intro allI impI)
  fix n r assume v: "exact v" "\<And>m r. ends r \<Longrightarrow> 2 * length (json_dumps v) \<le> Suc m \<Longrightarrow> json_value (Suc m) (json_dumps v @ r) = Some (v, r)"
    and r: "ends r" "2 * length (json_dumps v) \<le> n"
  obtain m where "n = Suc m" using dumps_head [OF v(1)] r(2) by (cases n) auto
  then show "json_value n (json_dumps v @ r) = Some (v, r)" using v(2) r by simp
qed

lemma exact_reads: "exact v \<Longrightarrow> reads v"
proof (induction v)
  case (JInt i)
  show ?case
  proof (rule readsI)
    fix m r assume r: "ends r" "2 * length (json_dumps (JInt i)) \<le> Suc m"
    obtain c cs where c: "str_of_int i = c # cs" "is_digit c \<or> c = CHR ''-''" using str_of_int_Cons [of i] by blast
    then have "c \<notin> {dquote, CHR ''['', CHR ''{''}" by (auto simp: is_digit_def)
    then show "json_value (Suc m) (json_dumps (JInt i) @ r) = Some (JInt i, r)" using json_lit_int [OF r(1), of i] c(1) by simp
  qed (use JInt.prems in simp)
next
  case (JList xs)
  show ?case
  proof (rule readsI)
    fix m r assume r: "ends r" "2 * length (json_dumps (JList xs)) \<le> Suc m"
    show "json_value (Suc m) (json_dumps (JList xs) @ r) = Some (JList xs, r)"
    proof (cases xs)
      case (Cons y ys)
      have all: "list_all (\<lambda>x. exact x \<and> reads x) xs" using JList by (simp add: list_all_iff)
      let ?j = "join '', '' (map json_dumps xs) @ CHR '']'' # r"
      have "json_elems m ?j = Some (xs, r)" by (rule json_elems_dumps [OF _ all]) (use r Cons in simp_all)
      moreover have "json_ws ?j = ?j" using ws_elems [of y ys] Cons JList.prems by simp
      moreover have "?j \<noteq> [] \<and> hd ?j \<noteq> CHR '']''" using dumps_head [of y] Cons JList.prems by (cases ys) auto
      ultimately show ?thesis by simp
    qed simp
  qed (use JList.prems in simp)
next
  case (JObj d)
  show ?case
  proof (rule readsI)
    fix m r assume r: "ends r" "2 * length (json_dumps (JObj d)) \<le> Suc m"
    show "json_value (Suc m) (json_dumps (JObj d) @ r) = Some (JObj d, r)"
    proof (cases d)
      case (Cons e es)
      have all: "list_all (\<lambda>kv. exact (snd kv) \<and> reads (snd kv)) d"
        using JObj by (force simp: list_all_iff)
      let ?j = "join '', '' (map dumped_member d) @ CHR ''}'' # r"
      have "json_members m ?j = Some (d, r)" by (rule json_members_dumps [OF _ all]) (use r Cons in \<open>simp_all add: json_dumps_obj del: json_dumps.simps\<close>)
      moreover have "json_ws ?j = ?j" using ws_members [of e es] Cons by simp
      moreover have "?j \<noteq> [] \<and> hd ?j \<noteq> CHR ''}''" using Cons by (cases es) (simp_all add: dumped_member_def dumped_str_def)
      moreover have "dict_of d = d" using JObj.prems dict_of_distinct [of d] by simp
      ultimately show ?thesis unfolding json_dumps_obj by simp
    qed simp
  qed (use JObj.prems in simp)
next
  case (JStr s)
  show ?case
  proof (rule readsI)
    fix m r assume r: "ends r" "2 * length (json_dumps (JStr s)) \<le> Suc m"
    show "json_value (Suc m) (json_dumps (JStr s) @ r) = Some (JStr s, r)" by (simp add: dumped_str_def json_string_escaped)
  qed (use JStr.prems in simp)
next
  case (JBool b)
  show ?case
  proof (rule readsI)
    fix m r assume r: "ends r" "2 * length (json_dumps (JBool b)) \<le> Suc m"
    show "json_value (Suc m) (json_dumps (JBool b) @ r) = Some (JBool b, r)" by (simp add: json_lit_def)
  qed (use JBool.prems in simp)
next
  case JNull
  show ?case
  proof (rule readsI)
    fix m r assume r: "ends r" "2 * length (json_dumps JNull) \<le> Suc m"
    show "json_value (Suc m) (json_dumps JNull @ r) = Some (JNull, r)" by (simp add: json_lit_def)
  qed simp
qed simp

lemma json_loads_dumps: "exact v \<Longrightarrow> json_loads (json_dumps v) = Some v"
  using readsD [OF exact_reads, of v "[]" "2 * length (json_dumps v) + 2"] ws_dumps [of v "[]"]
  by (simp add: json_loads_def) (simp add: json_ws_def)

end
