(* ===== verification/Adapters.thy ===== *)
theory Adapters
  imports Router Json_Dumps
begin

text \<open>
  \<^verbatim>\<open>core/llm/providers/\<close>: the translation between the neutral request and reply of theory \<open>Registry\<close> and the
  three wire formats. The vendor's library is a parameter: a function from the parameters of the call
  to what it streams and how the stream ends. The chunks handed to \<open>on_token\<close> come first in the result.
\<close>

definition parse_arguments :: "json \<Rightarrow> jobj" where
  "parse_arguments raw = (
     if raw = JNull \<or> raw = JStr [] then []
     else case raw of
       JObj d \<Rightarrow> d
     | JStr s \<Rightarrow> (case json_loads s of Some (JObj d) \<Rightarrow> d | _ \<Rightarrow> [])
     | _ \<Rightarrow> [])"

definition or_zero :: "int option \<Rightarrow> int" where
  "or_zero v = (case v of None \<Rightarrow> 0 | Some n \<Rightarrow> n)"

text \<open>How a call fails: the answers of the library's error classes, and whatever else it raises.\<close>

datatype sdk_failure =
    RateLimited string
  | StatusError int string string
  | ConnectionLost string
  | SdkOther exn

subsection \<open>Anthropic\<close>

definition to_anthropic :: "message \<Rightarrow> json" where
  "to_anthropic m = (
     if msg_tool_results m \<noteq> [] then
       JObj [(''role'', JStr ''user''), (''content'', JList (map (\<lambda>r. JObj [(''type'', JStr ''tool_result''),
         (''tool_use_id'', JStr (trp_tool_call_id r)), (''content'', JStr (trp_content r)), (''is_error'', JBool (trp_is_error r))])
         (msg_tool_results m)))]
     else if msg_tool_calls m \<noteq> [] then
       JObj [(''role'', JStr ''assistant''), (''content'', JList (
         (if msg_content m \<noteq> [] then [JObj [(''type'', JStr ''text''), (''text'', JStr (msg_content m))]] else []) @
         map (\<lambda>c. JObj [(''type'', JStr ''tool_use''), (''id'', JStr (tcr_id c)), (''name'', JStr (tcr_name c)),
           (''input'', JObj (tcr_arguments c))]) (msg_tool_calls m)))]
     else JObj [(''role'', JStr (msg_role m)), (''content'', JStr (msg_content m))])"

definition anthropic_params :: "completion_request \<Rightarrow> jobj" where
  "anthropic_params rq = (let spec = cr_spec rq in
     [(''model'', JStr (ms_id spec)), (''max_tokens'', JInt (min (cr_max_tokens rq) (ms_max_output_tokens spec))),
      (''messages'', JList (map to_anthropic (cr_messages rq)))] @
     (if cr_system rq \<noteq> [] then [(''system'', JList [JObj ([(''type'', JStr ''text''), (''text'', JStr (cr_system rq))] @
        (if ms_supports_prompt_cache spec \<and> cr_cache_system_prompt rq then [(''cache_control'', JObj [(''type'', JStr ''ephemeral'')])] else []))])]
      else []) @
     (if cr_tools rq \<noteq> [] then [(''tools'', JList (map (\<lambda>t. JObj [(''name'', JStr (ts_name t)), (''description'', JStr (ts_description t)),
        (''input_schema'', ts_parameters t)]) (cr_tools rq)))] else []) @
     (if ms_effort_style spec = EffortAnthropic then [(''thinking'', JObj [(''type'', JStr ''adaptive'')]),
        (''output_config'', JObj [(''effort'', JStr (cr_effort rq))])] else []))"

datatype content_block = TextBlock string | ToolUseBlock string string json | OtherBlock

record anthropic_message =
  anm_content :: "content_block list"
  anm_stop_reason :: "string option"
  anm_stop_details :: "(string option \<times> string option) option"
  anm_input_tokens :: int
  anm_output_tokens :: int
  anm_cache_read :: "int option"
  anm_cache_creation :: "int option"

definition anthropic_error :: "sdk_failure \<Rightarrow> exn" where
  "anthropic_error f = (case f of
     RateLimited s \<Rightarrow> RetryableLLMError (''anthropic rate limit: '' @ s)
   | StatusError code shown msg \<Rightarrow>
       if code \<ge> 500 then RetryableLLMError (''anthropic server error '' @ str_of_int code)
       else if contains ''context'' (lower shown) \<and> (contains ''long'' (lower shown) \<or> contains ''window'' (lower shown))
         then ContextWindowExceeded shown
       else LLMError (''anthropic error '' @ str_of_int code @ '': '' @ msg)
   | ConnectionLost s \<Rightarrow> RetryableLLMError (''anthropic connection error: '' @ s)
   | SdkOther e \<Rightarrow> e)"

definition block_texts :: "content_block list \<Rightarrow> string list" where
  "block_texts bs = concat (map (\<lambda>b. case b of TextBlock t \<Rightarrow> [t] | _ \<Rightarrow> []) bs)"

definition block_calls :: "content_block list \<Rightarrow> tool_call_request list" where
  "block_calls bs = concat (map (\<lambda>b. case b of
     ToolUseBlock i n input \<Rightarrow> [\<lparr>tcr_id = i, tcr_name = n, tcr_arguments = parse_arguments input\<rparr>] | _ \<Rightarrow> []) bs)"

definition anthropic_reply :: "model_spec \<Rightarrow> anthropic_message \<Rightarrow> llm_result res" where
  "anthropic_reply spec m = (
     if anm_stop_reason m = Some ''refusal'' then
       Inl (case anm_stop_details m of None \<Rightarrow> RefusalError None None | Some (c, x) \<Rightarrow> RefusalError c x)
     else if anm_stop_reason m = Some ''model_context_window_exceeded'' then
       Inl (ContextWindowExceeded ''conversation exceeded the model context window'')
     else let cache_read = or_zero (anm_cache_read m); cache_write = or_zero (anm_cache_creation m) in
       Inr \<lparr>lr_text = concat (block_texts (anm_content m)), lr_model = ms_id spec, lr_provider = ''anthropic'',
         lr_usage = \<lparr>us_input_tokens = anm_input_tokens m + cache_read + cache_write, us_output_tokens = anm_output_tokens m,
           us_cached_input_tokens = cache_read, us_reasoning_tokens = 0\<rparr>,
         lr_stop_reason = anm_stop_reason m, lr_tool_calls = block_calls (anm_content m)\<rparr>)"

type_synonym anthropic_sdk = "jobj \<Rightarrow> rat \<Rightarrow> string list \<times> (sdk_failure + anthropic_message)"

definition anthropic_complete :: "anthropic_sdk \<Rightarrow> completion_request \<Rightarrow> string list \<times> llm_result res" where
  "anthropic_complete sdk rq = (let (chunks, outcome) = sdk (anthropic_params rq) (cr_timeout_seconds rq) in
     (chunks, case outcome of Inl f \<Rightarrow> Inl (anthropic_error f) | Inr m \<Rightarrow> anthropic_reply (cr_spec rq) m))"

subsection \<open>Chat Completions: OpenAI, xAI, OpenRouter\<close>

definition BASE_URLS :: "(provider, string option) dict" where
  "BASE_URLS = [(OpenAI, None), (XAI, Some ''https://api.x.ai/v1''), (OpenRouter, Some ''https://openrouter.ai/api/v1'')]"

definition base_url :: "provider \<Rightarrow> string option" where
  "base_url p = (case dget BASE_URLS p of Some u \<Rightarrow> u | None \<Rightarrow> None)"

definition to_openai :: "message \<Rightarrow> json list" where
  "to_openai m = (
     if msg_tool_results m \<noteq> [] then map (\<lambda>r. JObj [(''role'', JStr ''tool''), (''tool_call_id'', JStr (trp_tool_call_id r)),
         (''content'', JStr (trp_content r))]) (msg_tool_results m)
     else if msg_tool_calls m \<noteq> [] then
       [JObj [(''role'', JStr ''assistant''), (''content'', if msg_content m \<noteq> [] then JStr (msg_content m) else JNull),
         (''tool_calls'', JList (map (\<lambda>c. JObj [(''id'', JStr (tcr_id c)), (''type'', JStr ''function''),
            (''function'', JObj [(''name'', JStr (tcr_name c)), (''arguments'', JStr (json_dumps (JObj (tcr_arguments c))))])])
          (msg_tool_calls m)))]]
     else [JObj [(''role'', JStr (msg_role m)), (''content'', JStr (msg_content m))]])"

definition openai_params :: "completion_request \<Rightarrow> jobj res" where
  "openai_params rq = (let spec = cr_spec rq in
     rbind (if ms_effort_style spec = EffortOpenAI then
         (case dget OPENAI_EFFORT (cr_effort rq) of None \<Rightarrow> Inl KeyError | Some e \<Rightarrow> Inr [(''reasoning_effort'', JStr e)]) else Inr [])
       (\<lambda>effort. Inr (
     [(''model'', JStr (ms_id spec)),
      (''messages'', JList ((if cr_system rq \<noteq> [] then [JObj [(''role'', JStr ''system''), (''content'', JStr (cr_system rq))]] else []) @
         concat (map to_openai (cr_messages rq)))),
      (''max_completion_tokens'', JInt (min (cr_max_tokens rq) (ms_max_output_tokens spec))), (''stream'', JBool True),
      (''stream_options'', JObj [(''include_usage'', JBool True)]), (''timeout'', jfloat (cr_timeout_seconds rq))] @ effort @
     (if cr_tools rq \<noteq> [] then [(''tools'', JList (map (\<lambda>t. JObj [(''type'', JStr ''function''), (''function'', JObj [
          (''name'', JStr (ts_name t)), (''description'', JStr (ts_description t)), (''parameters'', ts_parameters t)])]) (cr_tools rq)))]
      else if cr_json_mode rq \<and> ms_supports_json_mode spec then [(''response_format'', JObj [(''type'', JStr ''json_object'')])] else []))))"

text \<open>A fragment of a tool call, a choice of an event and an event; an absent attribute is \<open>None\<close>.\<close>

record fragment =
  fgm_index :: int
  fgm_id :: "string option"
  fgm_function :: "(string option \<times> string option) option"

record delta_choice =
  dch_finish_reason :: "string option"
  dch_content :: "string option"
  dch_tool_calls :: "fragment list"

record chat_usage =
  chu_prompt_tokens :: "int option"
  chu_completion_tokens :: "int option"
  chu_cached_tokens :: "int option"
  chu_reasoning_tokens :: "int option"

record chat_event =
  che_usage :: "chat_usage option"
  che_choices :: "delta_choice list"

record call_slot =
  psl_id :: string
  psl_name :: string
  psl_arguments :: string

record chat_state =
  chs_parts :: "string list"
  chs_usage :: usage
  chs_stop_reason :: "string option"
  chs_pending :: "(int, call_slot) dict"

definition no_usage :: usage where
  "no_usage = \<lparr>us_input_tokens = 0, us_output_tokens = 0, us_cached_input_tokens = 0, us_reasoning_tokens = 0\<rparr>"

definition new_chat :: chat_state where
  "new_chat = \<lparr>chs_parts = [], chs_usage = no_usage, chs_stop_reason = None, chs_pending = []\<rparr>"

definition chat_read_usage :: "chat_usage \<Rightarrow> usage" where
  "chat_read_usage raw = \<lparr>us_input_tokens = or_zero (chu_prompt_tokens raw), us_output_tokens = or_zero (chu_completion_tokens raw),
     us_cached_input_tokens = or_zero (chu_cached_tokens raw), us_reasoning_tokens = or_zero (chu_reasoning_tokens raw)\<rparr>"

text \<open>\<open>if v:\<close> on an optional text: the text, if there is one and it is not empty.\<close>

definition given :: "string option \<Rightarrow> string option" where
  "given v = (case v of Some s \<Rightarrow> if s \<noteq> [] then Some s else None | None \<Rightarrow> None)"

definition given_or :: "string option \<Rightarrow> string \<Rightarrow> string" where
  "given_or v s = (case given v of Some t \<Rightarrow> t | None \<Rightarrow> s)"

definition extend_slot :: "fragment \<Rightarrow> call_slot \<Rightarrow> call_slot" where
  "extend_slot f slot = (let slot = slot\<lparr>psl_id := given_or (fgm_id f) (psl_id slot)\<rparr> in
     case fgm_function f of
       None \<Rightarrow> slot
     | Some (n, a) \<Rightarrow> slot\<lparr>psl_name := given_or n (psl_name slot), psl_arguments := psl_arguments slot @ given_or a []\<rparr>)"

definition empty_slot :: call_slot where
  "empty_slot = \<lparr>psl_id = [], psl_name = [], psl_arguments = []\<rparr>"

definition take_fragment :: "fragment \<Rightarrow> (int, call_slot) dict \<Rightarrow> (int, call_slot) dict" where
  "take_fragment f pending = dset (fgm_index f) (extend_slot f (dget_or pending (fgm_index f) empty_slot)) pending"

definition take_choice :: "delta_choice \<Rightarrow> chat_state \<Rightarrow> chat_state" where
  "take_choice c st = (
     let st = (case given (dch_finish_reason c) of Some r \<Rightarrow> st\<lparr>chs_stop_reason := Some r\<rparr> | None \<Rightarrow> st);
         st = (case given (dch_content c) of Some t \<Rightarrow> st\<lparr>chs_parts := chs_parts st @ [t]\<rparr> | None \<Rightarrow> st)
     in st\<lparr>chs_pending := fold take_fragment (dch_tool_calls c) (chs_pending st)\<rparr>)"

definition take_event :: "chat_event \<Rightarrow> chat_state \<Rightarrow> chat_state" where
  "take_event e st = fold take_choice (che_choices e)
     (case che_usage e of Some u \<Rightarrow> st\<lparr>chs_usage := chat_read_usage u\<rparr> | None \<Rightarrow> st)"

definition openai_error :: "string \<Rightarrow> sdk_failure \<Rightarrow> exn" where
  "openai_error name f = (case f of
     RateLimited s \<Rightarrow> RetryableLLMError (name @ '' rate limit: '' @ s)
   | StatusError code shown _ \<Rightarrow>
       if code \<ge> 500 then RetryableLLMError (name @ '' server error '' @ str_of_int code)
       else if contains ''context'' (lower shown) \<and> (contains ''length'' (lower shown) \<or> contains ''window'' (lower shown))
         then ContextWindowExceeded shown
       else LLMError (name @ '' error '' @ str_of_int code @ '': '' @ shown)
   | ConnectionLost s \<Rightarrow> RetryableLLMError (name @ '' connection error: '' @ s)
   | SdkOther e \<Rightarrow> e)"

definition pending_calls :: "(int, call_slot) dict \<Rightarrow> tool_call_request list" where
  "pending_calls pending = map (\<lambda>(i, slot). \<lparr>tcr_id = (if psl_id slot \<noteq> [] then psl_id slot else ''call_'' @ str_of_int i),
       tcr_name = psl_name slot, tcr_arguments = parse_arguments (JStr (psl_arguments slot))\<rparr>)
     (filter (\<lambda>(i, slot). psl_name slot \<noteq> []) (sort_key fst pending))"

definition openai_reply :: "string \<Rightarrow> model_spec \<Rightarrow> chat_state \<Rightarrow> llm_result res" where
  "openai_reply name spec st = (
     if chs_stop_reason st = Some ''content_filter'' then
       Inl (RefusalError (Some ''content_filter'') (Some ''provider content filter blocked the response''))
     else Inr \<lparr>lr_text = concat (chs_parts st), lr_model = ms_id spec, lr_provider = name, lr_usage = chs_usage st,
       lr_stop_reason = chs_stop_reason st, lr_tool_calls = pending_calls (chs_pending st)\<rparr>)"

text \<open>The events that came, and the failure that ended them, if any.\<close>

type_synonym openai_sdk = "string option \<Rightarrow> jobj \<Rightarrow> chat_event list \<times> sdk_failure option"

definition openai_complete :: "openai_sdk \<Rightarrow> provider \<Rightarrow> completion_request \<Rightarrow> string list \<times> llm_result res" where
  "openai_complete sdk p rq = (case openai_params rq of
     Inl e \<Rightarrow> ([], Inl e)
   | Inr params \<Rightarrow>
       (let (events, failure) = sdk (base_url p) params; st = fold take_event events new_chat in
        (chs_parts st, case failure of Some f \<Rightarrow> Inl (openai_error (provider_value p) f)
           | None \<Rightarrow> openai_reply (provider_value p) (cr_spec rq) st)))"

subsection \<open>Gemini\<close>

definition BLOCKED :: "string list" where
  "BLOCKED = [''SAFETY'', ''PROHIBITED_CONTENT'', ''BLOCKLIST'', ''SPII'', ''IMAGE_SAFETY'']"

text \<open>The content objects of the vendor's library.\<close>

datatype google_part = TextPart string | CallPart string jobj | ResponsePart string jobj

record google_content =
  gco_role :: string
  gco_parts :: "google_part list"

definition to_google :: "message \<Rightarrow> google_content" where
  "to_google m = (
     if msg_tool_results m \<noteq> [] then \<lparr>gco_role = ''user'', gco_parts = map (\<lambda>r. ResponsePart (trp_name r)
         [(if trp_is_error r then ''error'' else ''result'', JStr (trp_content r))]) (msg_tool_results m)\<rparr>
     else if msg_tool_calls m \<noteq> [] then \<lparr>gco_role = ''model'', gco_parts =
         (if msg_content m \<noteq> [] then [TextPart (msg_content m)] else []) @
         map (\<lambda>c. CallPart (tcr_name c) (tcr_arguments c)) (msg_tool_calls m)\<rparr>
     else \<lparr>gco_role = (if msg_role m = ''assistant'' then ''model'' else ''user''), gco_parts = [TextPart (msg_content m)]\<rparr>)"

definition UNSUPPORTED_SCHEMA_KEYS :: "string list" where
  "UNSUPPORTED_SCHEMA_KEYS = [''additionalProperties'', ''$schema'', ''$id'', ''definitions'', ''$defs'', ''examples'']"

definition is_dict :: "json \<Rightarrow> bool" where
  "is_dict v = (case v of JObj _ \<Rightarrow> True | _ \<Rightarrow> False)"

fun clean_value :: "json \<Rightarrow> json" where
  "clean_value (JObj d) = JObj (concat (map (\<lambda>(k, v). if k \<in> set UNSUPPORTED_SCHEMA_KEYS then [] else [(k, clean_value v)]) d))"
| "clean_value (JList xs) = JList (map (\<lambda>v. if is_dict v then clean_value v else v) xs)"
| "clean_value v = v"

record google_config =
  gcf_max_output_tokens :: int
  gcf_system_instruction :: "string option"
  gcf_thinking_budget :: "int option"
  gcf_tools :: "(string \<times> string \<times> json) list option"
  gcf_response_mime_type :: "string option"

definition google_config_of :: "completion_request \<Rightarrow> google_config res" where
  "google_config_of rq = (let spec = cr_spec rq in
     rbind (if ms_effort_style spec = EffortGoogle then
         (case dget GOOGLE_THINKING_BUDGET (cr_effort rq) of None \<Rightarrow> Inl KeyError | Some b \<Rightarrow> Inr (Some b)) else Inr None)
       (\<lambda>budget. Inr \<lparr>gcf_max_output_tokens = min (cr_max_tokens rq) (ms_max_output_tokens spec),
         gcf_system_instruction = (if cr_system rq \<noteq> [] then Some (cr_system rq) else None), gcf_thinking_budget = budget,
         gcf_tools = (if cr_tools rq \<noteq> [] then Some (map (\<lambda>t. (ts_name t, ts_description t, clean_value (ts_parameters t))) (cr_tools rq)) else None),
         gcf_response_mime_type = (if cr_tools rq = [] \<and> cr_json_mode rq \<and> ms_supports_json_mode spec then Some ''application/json'' else None)\<rparr>))"

text \<open>A call of a part is its id, name and arguments.\<close>

record google_reply_part =
  gpt_call :: "(string option \<times> string option \<times> jobj option) option"
  gpt_text :: "string option"

record google_usage =
  gum_prompt :: "int option"
  gum_cached :: "int option"
  gum_candidates :: "int option"
  gum_thoughts :: "int option"

record google_chunk =
  gch_candidates :: "(string option \<times> google_reply_part list) list"
  gch_usage :: "google_usage option"

record google_state =
  gst_parts :: "string list"
  gst_calls :: "tool_call_request list"
  gst_usage :: usage
  gst_stop_reason :: "string option"
  gst_minted :: nat

definition new_google :: google_state where
  "new_google = \<lparr>gst_parts = [], gst_calls = [], gst_usage = no_usage, gst_stop_reason = None, gst_minted = 0\<rparr>"

definition google_read_usage :: "google_usage \<Rightarrow> usage" where
  "google_read_usage m = \<lparr>us_input_tokens = or_zero (gum_prompt m), us_output_tokens = or_zero (gum_candidates m) + or_zero (gum_thoughts m),
     us_cached_input_tokens = or_zero (gum_cached m), us_reasoning_tokens = or_zero (gum_thoughts m)\<rparr>"

text \<open>\<open>mint n\<close> is the \<open>n\<close>-th random text of the process.\<close>

definition take_part :: "(nat \<Rightarrow> string) \<Rightarrow> google_reply_part \<Rightarrow> google_state \<Rightarrow> google_state" where
  "take_part mint p st = (
     let text_of = (case given (gpt_text p) of Some t \<Rightarrow> st\<lparr>gst_parts := gst_parts st @ [t]\<rparr> | None \<Rightarrow> st) in
     case gpt_call p of
       None \<Rightarrow> text_of
     | Some (i, n, a) \<Rightarrow>
        (case given n of
           None \<Rightarrow> text_of
         | Some name \<Rightarrow>
             let args = parse_arguments (JObj (case a of Some d \<Rightarrow> d | None \<Rightarrow> [])) in
             (case given i of
                Some j \<Rightarrow> st\<lparr>gst_calls := gst_calls st @ [\<lparr>tcr_id = j, tcr_name = name, tcr_arguments = args\<rparr>]\<rparr>
              | None \<Rightarrow> st\<lparr>gst_calls := gst_calls st @ [\<lparr>tcr_id = ''gem_'' @ take 12 (mint (gst_minted st)), tcr_name = name, tcr_arguments = args\<rparr>],
                  gst_minted := Suc (gst_minted st)\<rparr>)))"

definition take_candidate :: "(nat \<Rightarrow> string) \<Rightarrow> string option \<times> google_reply_part list \<Rightarrow> google_state \<Rightarrow> google_state" where
  "take_candidate mint c st = fold (take_part mint) (snd c)
     (case fst c of Some r \<Rightarrow> st\<lparr>gst_stop_reason := Some r\<rparr> | None \<Rightarrow> st)"

definition take_chunk :: "(nat \<Rightarrow> string) \<Rightarrow> google_chunk \<Rightarrow> google_state \<Rightarrow> google_state" where
  "take_chunk mint c st = (let st = fold (take_candidate mint) (gch_candidates c) st in
     case gch_usage c of Some u \<Rightarrow> st\<lparr>gst_usage := google_read_usage u\<rparr> | None \<Rightarrow> st)"

datatype google_failure = ClientError int string | ServerError string | GoogleOther exn

definition google_error :: "google_failure \<Rightarrow> exn" where
  "google_error f = (case f of
     ClientError code shown \<Rightarrow>
       if code = 429 then RetryableLLMError (''google rate limit: '' @ shown)
       else if contains ''token'' (lower shown) \<and> contains ''exceed'' (lower shown) then ContextWindowExceeded shown
       else LLMError (''google error '' @ str_of_int code @ '': '' @ shown)
   | ServerError shown \<Rightarrow> RetryableLLMError (''google server error: '' @ shown)
   | GoogleOther e \<Rightarrow> e)"

text \<open>\<open>upper()\<close> of a finish reason, which is the name of a member of an enumeration.\<close>

definition upper_ascii :: "string \<Rightarrow> string" where
  "upper_ascii s = map (\<lambda>c. if is_lower c then char_of (code_of c - 32 :: nat) else c) s"

definition google_reply :: "model_spec \<Rightarrow> google_state \<Rightarrow> llm_result res" where
  "google_reply spec st = (
     if (case given (gst_stop_reason st) of Some r \<Rightarrow> list_ex (\<lambda>flag. contains flag (upper_ascii r)) BLOCKED | None \<Rightarrow> False)
       then Inl (RefusalError (gst_stop_reason st) (Some ''Gemini safety filter blocked the response''))
     else Inr \<lparr>lr_text = concat (gst_parts st), lr_model = ms_id spec, lr_provider = ''google'', lr_usage = gst_usage st,
       lr_stop_reason = gst_stop_reason st, lr_tool_calls = gst_calls st\<rparr>)"

type_synonym google_sdk = "string \<Rightarrow> google_content list \<Rightarrow> google_config \<Rightarrow> google_chunk list \<times> google_failure option"

definition google_complete :: "google_sdk \<Rightarrow> (nat \<Rightarrow> string) \<Rightarrow> completion_request \<Rightarrow> string list \<times> llm_result res" where
  "google_complete sdk mint rq = (case google_config_of rq of
     Inl e \<Rightarrow> ([], Inl e)
   | Inr config \<Rightarrow>
       (let (chunks, failure) = sdk (ms_id (cr_spec rq)) (map to_google (cr_messages rq)) config; st = fold (take_chunk mint) chunks new_google in
        (gst_parts st, case failure of Some f \<Rightarrow> Inl (google_error f) | None \<Rightarrow> google_reply (cr_spec rq) st)))"

subsection \<open>The adapter of a call\<close>

text \<open>The libraries, per tick and attempt of the call and for the credential the adapter holds.\<close>

record vendors =
  vnd_anthropic :: "nat \<Rightarrow> nat \<Rightarrow> string \<Rightarrow> anthropic_sdk"
  vnd_openai :: "nat \<Rightarrow> nat \<Rightarrow> string \<Rightarrow> openai_sdk"
  vnd_google :: "nat \<Rightarrow> nat \<Rightarrow> string \<Rightarrow> google_sdk"
  vnd_mint :: "nat \<Rightarrow> nat \<Rightarrow> nat \<Rightarrow> string"

definition vendor_provider :: "vendors \<Rightarrow> nat \<Rightarrow> nat \<Rightarrow> provider \<Rightarrow> string \<Rightarrow> completion_request \<Rightarrow> string list \<times> llm_result res" where
  "vendor_provider vn t a p key rq = (
     if p = Anthropic then anthropic_complete (vnd_anthropic vn t a key) rq
     else if p = Google then google_complete (vnd_google vn t a key) (vnd_mint vn t a) rq
     else openai_complete (vnd_openai vn t a key) p rq)"

end
