(* ===== verification/Adapter_Facts.thy ===== *)
theory Adapter_Facts
  imports Adapters
begin

text \<open>
  What the adapters guarantee whatever the vendors answer: tool calls are assembled by index, the wire
  formats lose nothing that is needed to answer a call, and a reply or an error is one that the engine knows.
\<close>

subsection \<open>Tool calls of a stream\<close>

definition fragments_of :: "chat_event list \<Rightarrow> fragment list" where
  "fragments_of events = concat (map dch_tool_calls (concat (map che_choices events)))"

definition of_index :: "int \<Rightarrow> fragment list \<Rightarrow> fragment list" where
  "of_index i fs = filter (\<lambda>f. fgm_index f = i) fs"

definition last_given :: "string option list \<Rightarrow> string" where
  "last_given vs = (let ts = filter (\<lambda>t. t \<noteq> []) (map (\<lambda>v. given_or v []) vs) in if ts = [] then [] else last ts)"

text \<open>The call of an index: its last id, its last name, and the arguments pieced together in order.\<close>

definition assembled_call :: "int \<Rightarrow> fragment list \<Rightarrow> tool_call_request" where
  "assembled_call i fs = (let i' = last_given (map fgm_id fs) in
     \<lparr>tcr_id = (if i' \<noteq> [] then i' else ''call_'' @ str_of_int i),
      tcr_name = last_given (map (\<lambda>f. case fgm_function f of Some (n, _) \<Rightarrow> n | None \<Rightarrow> None) fs),
      tcr_arguments = parse_arguments (JStr (concat (map (\<lambda>f. case fgm_function f of Some (_, a) \<Rightarrow> given_or a [] | None \<Rightarrow> []) fs)))\<rparr>)"

definition assembled_calls :: "fragment list \<Rightarrow> tool_call_request list" where
  "assembled_calls fs = filter (\<lambda>c. tcr_name c \<noteq> []) (map (\<lambda>i. assembled_call i (of_index i fs)) (sort (remdups (map fgm_index fs))))"

lemma choices_pending: "chs_pending (fold take_choice cs st) = fold take_fragment (concat (map dch_tool_calls cs)) (chs_pending st)"
  by (induction cs arbitrary: st) (auto simp: take_choice_def Let_def split: option.splits)

lemma events_pending: "chs_pending (fold take_event es st) = fold take_fragment (fragments_of es) (chs_pending st)"
  by (induction es arbitrary: st) (auto simp: take_event_def fragments_of_def choices_pending split: option.splits)

lemma dget_fragments:
  "dget (fold take_fragment fs d) i = (if of_index i fs = [] then dget d i else Some (fold extend_slot (of_index i fs) (dget_or d i empty_slot)))"
  by (induction fs arbitrary: d) (auto simp: of_index_def take_fragment_def dget_or_def)

lemma keys_fragments: "fst ` set (fold take_fragment fs d) = fst ` set d \<union> fgm_index ` set fs"
proof (induction fs arbitrary: d)
  case (Cons f fs)
  have "fst ` set (take_fragment f d) = insert (fgm_index f) (fst ` set d)"
    using dkeys_dset [of "fgm_index f" _ d] by (simp add: take_fragment_def dkeys_def)
  then show ?case using Cons by simp
qed simp

lemma distinct_fragments: "distinct (map fst d) \<Longrightarrow> distinct (map fst (fold take_fragment fs d))"
  by (induction fs arbitrary: d) (auto simp: take_fragment_def distinct_dset)

lemma last_given_snoc: "last_given (vs @ [v]) = given_or v (last_given vs)"
  by (auto simp: last_given_def given_or_def given_def Let_def split: option.splits)

lemma slot_of_fragments:
  "fold extend_slot fs empty_slot = \<lparr>psl_id = last_given (map fgm_id fs),
     psl_name = last_given (map (\<lambda>f. case fgm_function f of Some (n, _) \<Rightarrow> n | None \<Rightarrow> None) fs),
     psl_arguments = concat (map (\<lambda>f. case fgm_function f of Some (_, a) \<Rightarrow> given_or a [] | None \<Rightarrow> []) fs)\<rparr>"
proof (induction fs rule: rev_induct)
  case (snoc f fs)
  have "given_or None t = t" for t by (simp add: given_or_def given_def)
  then show ?case using snoc by (auto simp: extend_slot_def last_given_snoc Let_def split: option.splits)
qed (simp add: empty_slot_def last_given_def)

lemma sort_dict: "distinct (map fst d) \<Longrightarrow> sort_key fst d = map (\<lambda>i. (i, the (dget d i))) (sort (map fst d))"
proof -
  assume d: "distinct (map fst d)"
  have "map fst (sort_key fst d) = sort (map fst d)"
    by (intro sorted_distinct_set_unique) (use d in \<open>simp_all add: distinct_map\<close>)
  moreover have "the (dget d (fst kv)) = snd kv" if "kv \<in> set (sort_key fst d)" for kv
  proof -
    have "(fst kv, snd kv) \<in> set d" using that by simp
    from map_of_is_SomeI [OF d this] show ?thesis by simp
  qed
  ultimately show ?thesis by (metis (no_types, lifting) map_idI map_map comp_apply prod.collapse map_cong)
qed

text \<open>C35. The tool calls read from a stream are those of its fragments taken index by index: the last id and name that were
  given, and the arguments pieced together in order. Neither the split into events nor the interleaving of the indices matters.\<close>

theorem tool_calls_by_index:
  "pending_calls (chs_pending (fold take_event events new_chat)) = assembled_calls (fragments_of events)"
proof -
  let ?fs = "fragments_of events"
  let ?d = "fold take_fragment ?fs []"
  have keys: "sort (map fst ?d) = sort (remdups (map fgm_index ?fs))"
    by (intro sorted_distinct_set_unique) (use distinct_fragments [of "[]" ?fs] keys_fragments [of ?fs "[]"] in simp_all)
  have slot: "the (dget ?d i) = fold extend_slot (of_index i ?fs) empty_slot" if "i \<in> fgm_index ` set ?fs" for i
    using dget_fragments [of ?fs "[]" i] that by (auto simp: of_index_def filter_empty_conv)
  have "sort_key fst ?d = map (\<lambda>i. (i, fold extend_slot (of_index i ?fs) empty_slot)) (sort (remdups (map fgm_index ?fs)))"
    using slot distinct_fragments [of "[]" ?fs] by (simp add: sort_dict keys)
  then show ?thesis
    by (simp add: events_pending new_chat_def pending_calls_def assembled_calls_def filter_map comp_def
      slot_of_fragments assembled_call_def Let_def)
qed

subsection \<open>Nothing is lost\<close>

text \<open>A turn as the engine builds them: text, calls with or without text, or the results of calls.\<close>

definition valid_message :: "message \<Rightarrow> bool" where
  "valid_message m \<longleftrightarrow> msg_role m \<in> {''user'', ''assistant''} \<and>
     (msg_tool_results m \<noteq> [] \<longrightarrow> msg_role m = ''user'' \<and> msg_content m = [] \<and> msg_tool_calls m = []) \<and>
     (msg_tool_calls m \<noteq> [] \<longrightarrow> msg_role m = ''assistant'' \<and> list_all (\<lambda>c. exact (JObj (tcr_arguments c))) (msg_tool_calls m))"

lemma parse_dumps: "exact (JObj d) \<Longrightarrow> parse_arguments (JStr (json_dumps (JObj d))) = d"
  using json_loads_dumps [of "JObj d"] by (simp add: parse_arguments_def del: json_dumps.simps) (simp add: json_loads_def json_ws_def)

text \<open>The three forms of a turn.\<close>

lemma message_forms:
  assumes "valid_message m"
  obtains (results) "msg_tool_results m \<noteq> []" "msg_role m = ''user''" "msg_content m = []" "msg_tool_calls m = []"
    | (calls) "msg_tool_results m = []" "msg_tool_calls m \<noteq> []" "msg_role m = ''assistant''"
        "list_all (\<lambda>c. exact (JObj (tcr_arguments c))) (msg_tool_calls m)"
    | (plain) "msg_tool_results m = []" "msg_tool_calls m = []" "msg_role m \<in> {''user'', ''assistant''}"
  using assms unfolding valid_message_def by (cases "msg_tool_results m"; cases "msg_tool_calls m") auto

text \<open>Readers of the wire formats.\<close>

definition text_at :: "string \<Rightarrow> json \<Rightarrow> string" where
  "text_at k v = (case v of JObj d \<Rightarrow> (case jget d k of JStr s \<Rightarrow> s | _ \<Rightarrow> []) | _ \<Rightarrow> [])"

definition at_key :: "string \<Rightarrow> json \<Rightarrow> json" where
  "at_key k v = (case v of JObj d \<Rightarrow> jget d k | _ \<Rightarrow> JNull)"

definition items_at :: "string \<Rightarrow> json \<Rightarrow> json list" where
  "items_at k v = (case at_key k v of JList xs \<Rightarrow> xs | _ \<Rightarrow> [])"

definition from_anthropic :: "json \<Rightarrow> message" where
  "from_anthropic v = (let blocks = items_at ''content'' v; of_type = (\<lambda>t. filter (\<lambda>b. text_at ''type'' b = t) blocks) in
     \<lparr>msg_role = text_at ''role'' v, msg_content = text_at ''content'' v @ concat (map (text_at ''text'') (of_type ''text'')),
      msg_tool_calls = map (\<lambda>b. \<lparr>tcr_id = text_at ''id'' b, tcr_name = text_at ''name'' b,
        tcr_arguments = parse_arguments (at_key ''input'' b)\<rparr>) (of_type ''tool_use''),
      msg_tool_results = map (\<lambda>b. \<lparr>trp_tool_call_id = text_at ''tool_use_id'' b, trp_name = [],
        trp_content = text_at ''content'' b, trp_is_error = (at_key ''is_error'' b = JBool True)\<rparr>) (of_type ''tool_result'')\<rparr>)"

definition from_openai :: "json list \<Rightarrow> message" where
  "from_openai vs = (
     if text_at ''role'' (hd vs) = ''tool'' then \<lparr>msg_role = ''user'', msg_content = [], msg_tool_calls = [],
       msg_tool_results = map (\<lambda>v. \<lparr>trp_tool_call_id = text_at ''tool_call_id'' v, trp_name = [], trp_content = text_at ''content'' v,
         trp_is_error = False\<rparr>) vs\<rparr>
     else \<lparr>msg_role = text_at ''role'' (hd vs), msg_content = text_at ''content'' (hd vs),
       msg_tool_calls = map (\<lambda>v. let f = at_key ''function'' v in \<lparr>tcr_id = text_at ''id'' v, tcr_name = text_at ''name'' f,
         tcr_arguments = parse_arguments (at_key ''arguments'' f)\<rparr>) (items_at ''tool_calls'' (hd vs)), msg_tool_results = []\<rparr>)"

definition from_google :: "google_content \<Rightarrow> message" where
  "from_google g = \<lparr>msg_role = (if gco_role g = ''model'' then ''assistant'' else ''user''),
     msg_content = concat (map (\<lambda>p. case p of TextPart t \<Rightarrow> t | _ \<Rightarrow> []) (gco_parts g)),
     msg_tool_calls = concat (map (\<lambda>p. case p of CallPart n a \<Rightarrow> [\<lparr>tcr_id = [], tcr_name = n, tcr_arguments = a\<rparr>] | _ \<Rightarrow> []) (gco_parts g)),
     msg_tool_results = concat (map (\<lambda>p. case p of ResponsePart n d \<Rightarrow> [\<lparr>trp_tool_call_id = [], trp_name = n,
       trp_content = text_at (if jget d ''error'' = JNull then ''result'' else ''error'') (JObj d), trp_is_error = (jget d ''error'' \<noteq> JNull)\<rparr>] | _ \<Rightarrow> []) (gco_parts g))\<rparr>"

lemmas reader_defs = text_at_def at_key_def items_at_def jget_def Let_def

lemma parse_object [simp]: "parse_arguments (JObj d) = d"
  by (simp add: parse_arguments_def)

lemma call_eta [simp]: "\<lparr>tcr_id = tcr_id c, tcr_name = tcr_name c, tcr_arguments = tcr_arguments c\<rparr> = c"
  by simp

lemma from_to_anthropic:
  assumes "valid_message m"
  shows "from_anthropic (to_anthropic m) = m\<lparr>msg_tool_results := map (\<lambda>r. r\<lparr>trp_name := []\<rparr>) (msg_tool_results m)\<rparr>"
  using assms
proof (cases rule: message_forms)
  case results
  then show ?thesis
    by (intro message.equality) (simp_all add: to_anthropic_def from_anthropic_def reader_defs comp_def filter_map)
next
  case calls
  then show ?thesis
    by (intro message.equality) (simp_all add: to_anthropic_def from_anthropic_def reader_defs comp_def filter_map)
next
  case plain
  then show ?thesis
    by (intro message.equality) (simp_all add: to_anthropic_def from_anthropic_def reader_defs)
qed

lemma from_to_openai:
  assumes "valid_message m"
  shows "from_openai (to_openai m) = m\<lparr>msg_tool_results := map (\<lambda>r. r\<lparr>trp_name := [], trp_is_error := False\<rparr>) (msg_tool_results m)\<rparr>"
  using assms
proof (cases rule: message_forms)
  case results
  then show ?thesis
    by (intro message.equality; cases "msg_tool_results m")
      (simp_all add: to_openai_def from_openai_def reader_defs comp_def)
next
  case calls
  have "map (\<lambda>c. \<lparr>tcr_id = tcr_id c, tcr_name = tcr_name c, tcr_arguments = parse_arguments (JStr (json_dumps (JObj (tcr_arguments c))))\<rparr>)
      (msg_tool_calls m) = msg_tool_calls m"
    by (rule map_idI) (use calls(4) parse_dumps in \<open>simp add: list_all_iff del: json_dumps.simps exact.simps\<close>)
  then show ?thesis using calls
    by (intro message.equality) (simp_all add: to_openai_def from_openai_def reader_defs comp_def del: json_dumps.simps)
next
  case plain
  then show ?thesis
    by (intro message.equality) (auto simp: to_openai_def from_openai_def reader_defs)
qed

lemma from_to_google:
  assumes "valid_message m"
  shows "from_google (to_google m) = m\<lparr>msg_tool_calls := map (\<lambda>c. c\<lparr>tcr_id := []\<rparr>) (msg_tool_calls m),
     msg_tool_results := map (\<lambda>r. r\<lparr>trp_tool_call_id := []\<rparr>) (msg_tool_results m)\<rparr>"
  using assms
proof (cases rule: message_forms)
  case results
  then show ?thesis
    by (intro message.equality) (simp_all add: to_google_def from_google_def reader_defs comp_def)
next
  case calls
  then show ?thesis
    by (intro message.equality) (simp_all add: to_google_def from_google_def comp_def)
next
  case plain
  then show ?thesis
    by (intro message.equality) (auto simp: to_google_def from_google_def)
qed

text \<open>C36. Every vendor's form of a turn can be read back: Anthropic loses only the names of results, which are the ids' of their calls,
  Chat Completions also whether a result is an error, and Gemini the ids, which it does not have. Arguments keep their
  values through the text they are sent as. A whole conversation is read back turn by turn.\<close>

theorem wire_formats_are_lossless:
  assumes "list_all valid_message ms"
  shows "map from_anthropic (map to_anthropic ms) =
      map (\<lambda>m. m\<lparr>msg_tool_results := map (\<lambda>r. r\<lparr>trp_name := []\<rparr>) (msg_tool_results m)\<rparr>) ms \<and>
    map from_openai (map to_openai ms) =
      map (\<lambda>m. m\<lparr>msg_tool_results := map (\<lambda>r. r\<lparr>trp_name := [], trp_is_error := False\<rparr>) (msg_tool_results m)\<rparr>) ms \<and>
    map from_google (map to_google ms) = map (\<lambda>m. m\<lparr>msg_tool_calls := map (\<lambda>c. c\<lparr>tcr_id := []\<rparr>) (msg_tool_calls m),
      msg_tool_results := map (\<lambda>r. r\<lparr>trp_tool_call_id := []\<rparr>) (msg_tool_results m)\<rparr>) ms"
  using assms from_to_anthropic from_to_openai from_to_google by (simp add: list_all_iff)

theorem wire_formats_are_lossless_witness:
  "let m = \<lparr>msg_role = ''assistant'', msg_content = ''on it'', msg_tool_calls = [\<lparr>tcr_id = ''c1'', tcr_name = ''read'',
       tcr_arguments = [(''path'', JStr [dquote, nl]), (''line'', JInt (- 7))]\<rparr>], msg_tool_results = []\<rparr>
   in from_openai (to_openai m) = m"
proof -
  let ?m = "\<lparr>msg_role = ''assistant'', msg_content = ''on it'', msg_tool_calls = [\<lparr>tcr_id = ''c1'', tcr_name = ''read'',
       tcr_arguments = [(''path'', JStr [dquote, nl]), (''line'', JInt (- 7))]\<rparr>], msg_tool_results = []\<rparr>"
  have "list_all valid_message [?m]" by (simp add: valid_message_def)
  from wire_formats_are_lossless [OF this] show ?thesis by (simp add: Let_def)
qed

subsection \<open>Replies and errors\<close>

text \<open>The library itself raised \<open>e\<close>, which is none of its error classes that the adapter knows.\<close>

definition sdk_raised :: "vendors \<Rightarrow> nat \<Rightarrow> nat \<Rightarrow> provider \<Rightarrow> string \<Rightarrow> completion_request \<Rightarrow> exn \<Rightarrow> bool" where
  "sdk_raised vn t a p key rq e \<longleftrightarrow> (
     if p = Anthropic then snd (vnd_anthropic vn t a key (anthropic_params rq) (cr_timeout_seconds rq)) = Inl (SdkOther e)
     else if p = Google then (\<exists>cfg. google_config_of rq = Inr cfg \<and>
       snd (vnd_google vn t a key (ms_id (cr_spec rq)) (map to_google (cr_messages rq)) cfg) = Some (GoogleOther e))
     else (\<exists>ps. openai_params rq = Inr ps \<and> snd (vnd_openai vn t a key (base_url p) ps) = Some (SdkOther e)))"

definition complete_call :: "tool_call_request \<Rightarrow> bool" where
  "complete_call c \<longleftrightarrow> tcr_id c \<noteq> [] \<and> tcr_name c \<noteq> []"

lemma effort_known: "dget OPENAI_EFFORT (normalise_effort e) \<noteq> None" "dget GOOGLE_THINKING_BUDGET (normalise_effort e) \<noteq> None"
  by (auto simp: normalise_effort_def EFFORT_LEVELS_def OPENAI_EFFORT_def GOOGLE_THINKING_BUDGET_def)

lemma params_total: "\<exists>ps. openai_params (request_of c spec) = Inr ps" "\<exists>cfg. google_config_of (request_of c spec) = Inr cfg"
  using effort_known [of "lc_effort c"]
  by (auto simp: openai_params_def google_config_of_def request_of_def Let_def split: option.splits)

lemma pending_complete: "list_all complete_call (pending_calls pending)"
  by (auto simp: pending_calls_def complete_call_def list_all_iff)

lemma part_complete: "list_all complete_call (gst_calls st) \<Longrightarrow> list_all complete_call (gst_calls (take_part mint p st))"
  by (auto simp: take_part_def complete_call_def given_def Let_def split: option.splits if_splits prod.splits)

lemma parts_complete: "list_all complete_call (gst_calls st) \<Longrightarrow> list_all complete_call (gst_calls (fold (take_part mint) ps st))"
  by (induction ps arbitrary: st) (simp_all add: part_complete)

lemma candidates_complete: "list_all complete_call (gst_calls st) \<Longrightarrow> list_all complete_call (gst_calls (fold (take_candidate mint) cs st))"
  by (induction cs arbitrary: st) (auto simp: take_candidate_def parts_complete split: option.splits)

lemma chunks_complete: "list_all complete_call (gst_calls st) \<Longrightarrow> list_all complete_call (gst_calls (fold (take_chunk mint) cs st))"
  by (induction cs arbitrary: st) (auto simp: take_chunk_def candidates_complete Let_def split: option.splits)


text \<open>A stream of some text and one tool call in two fragments.\<close>

definition sample_stream :: "chat_event list" where
  "sample_stream = [\<lparr>che_usage = None, che_choices = [\<lparr>dch_finish_reason = None, dch_content = Some ''hi'', dch_tool_calls = []\<rparr>]\<rparr>,
     \<lparr>che_usage = None, che_choices = [\<lparr>dch_finish_reason = Some ''tool_calls'', dch_content = None, dch_tool_calls =
       [\<lparr>fgm_index = 0, fgm_id = Some ''c1'', fgm_function = Some (Some ''read'', Some [CHR ''{''])\<rparr>,
        \<lparr>fgm_index = 0, fgm_id = None, fgm_function = Some (None, Some [CHR ''}''])\<rparr>]\<rparr>]\<rparr>]"

definition sample_vendors :: vendors where
  "sample_vendors = \<lparr>vnd_anthropic = (\<lambda>_ _ _ _ _. ([], Inl (RateLimited []))), vnd_openai = (\<lambda>_ _ _ _ _. (sample_stream, None)),
     vnd_google = (\<lambda>_ _ _ _ _ _. ([], None)), vnd_mint = (\<lambda>_ _ _. [])\<rparr>"

definition sample_call_spec :: model_spec where
  "sample_call_spec = mk_spec ''gpt-5'' OpenAI ''GPT-5'' 1 1 1000 1000 EffortOpenAI None True"

definition sample_llm_call :: llm_call where
  "sample_llm_call = \<lparr>lc_model = ''gpt-5'', lc_system = [], lc_messages = [], lc_max_tokens = 100, lc_effort = ''medium'', lc_json_mode = False,
     lc_timeout_seconds = 10, lc_tools = [], lc_on_token = True\<rparr>"

lemma sample_streamed:
  "\<exists>l. vendor_provider sample_vendors 0 1 OpenAI ''k'' (request_of sample_llm_call sample_call_spec) = ([''hi''], Inr l)"
proof -
  obtain ps where ps: "openai_params (request_of sample_llm_call sample_call_spec) = Inr ps" using params_total by blast
  have "chs_parts (fold take_event sample_stream new_chat) = [''hi''] \<and> chs_stop_reason (fold take_event sample_stream new_chat) = Some ''tool_calls''"
    by code_simp
  then show ?thesis by (simp add: vendor_provider_def openai_complete_def ps sample_vendors_def openai_reply_def)
qed


subsection \<open>Schemas\<close>

text \<open>No keyword that Gemini rejects, in the places the cleaning visits.\<close>

fun supported :: "json \<Rightarrow> bool" where
  "supported (JObj d) = list_all (\<lambda>(k, v). k \<notin> set UNSUPPORTED_SCHEMA_KEYS \<and> supported v) d"
| "supported (JList xs) = list_all (\<lambda>v. is_dict v \<longrightarrow> supported v) xs"
| "supported v = True"

lemma is_dict_clean [simp]: "is_dict (clean_value v) = is_dict v"
  by (cases v) (simp_all add: is_dict_def)

lemma clean_supported: "supported (clean_value v)"
  by (induction v rule: clean_value.induct) (auto simp: list_all_iff split: if_splits)

lemma supported_clean: "supported v \<Longrightarrow> clean_value v = v"
proof (induction v rule: clean_value.induct)
  case (1 d)
  have "concat (map (\<lambda>(k, v). if k \<in> set UNSUPPORTED_SCHEMA_KEYS then [] else [(k, clean_value v)]) d) = concat (map (\<lambda>kv. [kv]) d)"
    by (rule arg_cong [where f = concat], rule map_cong) (use 1 in \<open>auto simp: list_all_iff\<close>)
  then show ?case by simp
next
  case (2 xs)
  then show ?case by (auto simp: list_all_iff intro!: map_idI)
qed simp_all

end
