(* ===== verification/Scripts.thy ===== *)
theory Scripts
  imports Saved_Work
begin

text \<open>
  The operator scripts \<^verbatim>\<open>scripts/seed.py\<close> and \<^verbatim>\<open>scripts/create_superuser.py\<close> (key rotation is in theory \<open>Crypto\<close>).
  What they print is not modelled; \<open>ids\<close> is the random source of the process.
\<close>

definition select_txn :: "(db \<Rightarrow> 'r list) \<Rightarrow> ('r \<Rightarrow> bool) \<Rightarrow> 'r option txn" where
  "select_txn rows p = (\<lambda>d. (one_or_none (filter p (rows d)), d))"

subsection \<open>The demo organisation\<close>

definition seed_user :: "web \<Rightarrow> (nat \<Rightarrow> string) \<Rightarrow> string \<Rightarrow> string \<Rightarrow> user_row txn" where
  "seed_user wb ids email password = ebind (select_txn db_users (\<lambda>u. u_email u = email)) (\<lambda>found. case found of
     Some user \<Rightarrow> eret user
   | None \<Rightarrow> (case hash_password wb password of
       Inl m \<Rightarrow> eraise (ValueError m)
     | Inr hash \<Rightarrow> let user = \<lparr>u_id = ids 0, u_email = email, u_password_hash = hash, u_name = Some ''Owner'', u_is_active = True,
           u_is_superuser = False, u_last_login_at = None, u_token_epoch = 0\<rparr>
         in ethen (add_user user) (eret user)))"

definition seed_org :: "web \<Rightarrow> (nat \<Rightarrow> string) \<Rightarrow> user_row \<Rightarrow> string \<Rightarrow> int \<Rightarrow> string txn" where
  "seed_org wb ids user org_name credits_cents = ebind (select_txn db_memberships (\<lambda>m. mb_user_id m = u_id user)) (\<lambda>membership. case membership of
     None \<Rightarrow> let org = \<lparr>o_id = ids 1, o_name = org_name, o_slug = ''demo-'' @ ids 2, o_key_mode = ''managed'', o_credits_cents = 0, o_is_active = True\<rparr> in
       ethen (add_org org)
       (ethen (add_membership \<lparr>mb_id = ids 3, mb_user_id = u_id user, mb_org_id = o_id org, mb_role = ''owner''\<rparr>)
       (ethen (grant [] (ids 4) (ids 5) (o_id org) credits_cents ''bonus'' ''seed credits'' (Some (''seed:'' @ o_id org)) None)
       (eret (o_id org))))
   | Some m \<Rightarrow> ebind (eget (\<lambda>d. get_org d (mb_org_id m))) (\<lambda>org. case org of
       None \<Rightarrow> eraise (OtherError ''AssertionError'') | Some o1 \<Rightarrow> eret (o_id o1)))"

definition seed_agent :: "string \<Rightarrow> string \<Rightarrow> string \<Rightarrow> string \<Rightarrow> string \<Rightarrow> string \<Rightarrow> int \<Rightarrow> string list \<Rightarrow> string \<Rightarrow> agent_row" where
  "seed_agent i org_id name role model effort max_tokens tools prompt = \<lparr>ag_id = i, ag_org_id = org_id, ag_name = name, ag_role = role,
     ag_system_prompt = prompt, ag_model = model, ag_effort = effort, ag_max_tokens = max_tokens, ag_tools = map JStr tools,
     ag_is_active = True, ag_created_by = None\<rparr>"

definition seed_agents :: "(nat \<Rightarrow> string) \<Rightarrow> string \<Rightarrow> agent_row list" where
  "seed_agents ids org_id = [
     seed_agent (ids 6) org_id ''Nadia'' ''product manager'' ''claude-sonnet-5'' ''medium'' 8000 []
       (''Turn the request into a short, concrete spec: the goal, what is in '' @ ''and out of scope, and 3-6 acceptance criteria a reviewer could check. ''
         @ ''No implementation detail.''),
     seed_agent (ids 7) org_id ''Ravi'' ''developer'' ''claude-opus-5'' ''high'' 32000
       [''list_artifacts'', ''read_artifact'', ''write_artifact'', ''edit_artifact'']
       (''Implement the spec. Write complete, runnable code with no '' @ ''placeholders or TODOs. Explain non-obvious decisions in two ''
         @ ''sentences at most.''),
     seed_agent (ids 8) org_id ''Mei'' ''reviewer'' ''gpt-5'' ''high'' 16000 [''list_artifacts'', ''read_artifact'', ''edit_artifact'']
       (''Review the implementation against the spec. Read the files before '' @ ''judging them. Report every issue you find with a severity and your ''
         @ ''confidence, including ones you are unsure about '' @ [sub_char] @ '' a later pass '' @ ''filters them. Fix what you find with targeted edits.''),
     seed_agent (ids 9) org_id ''Tomas'' ''researcher'' ''gemini-2.5-flash'' ''medium'' 8000 [''web_search'', ''web_fetch'', ''list_artifacts'']
       (''Gather and organise the background the team needs. Be concrete: '' @ ''name specific approaches, trade-offs and failure modes rather than ''
         @ ''listing general considerations.''),
     seed_agent (ids 10) org_id ''Iris'' ''skeptic'' ''grok-4'' ''high'' 8000 []
       (''Argue the strongest case against the proposal on the board. Attack '' @ ''only points you can actually justify; concede the rest explicitly.'')]"

definition seed_flow :: "string \<Rightarrow> string \<Rightarrow> string \<Rightarrow> string \<Rightarrow> string \<Rightarrow> jobj \<Rightarrow> workflow_row" where
  "seed_flow i org_id name description preset graph = \<lparr>wf_id = i, wf_org_id = org_id, wf_name = name, wf_description = description,
     wf_preset = preset, wf_graph = graph, wf_is_active = True, wf_created_by = None\<rparr>"

definition seed_flows :: "(nat \<Rightarrow> string) \<Rightarrow> string \<Rightarrow> workflow_row list" where
  "seed_flows ids org_id = (let pm = JStr (ids 6); dev = JStr (ids 7); reviewer = JStr (ids 8); researcher = JStr (ids 9); skeptic = JStr (ids 10) in [
     seed_flow (ids 11) org_id (''Spec '' @ [sub_char] @ '' Build '' @ [sub_char] @ '' Review'') ''Linear delivery pipeline across three vendors.'' ''pipeline''
       [(''nodes'', JList [JObj [(''agent_id'', pm)], JObj [(''agent_id'', dev)], JObj [(''agent_id'', reviewer)]]),
        (''max_steps'', JInt 6), (''max_cost_cents'', JInt 150)],
     seed_flow (ids 12) org_id ''Managed delivery'' ''A manager delegates to the team until the job is done.'' ''supervisor''
       [(''supervisor_agent_id'', pm), (''workers'', JList [researcher, dev, reviewer]), (''max_rounds'', JInt 6),
        (''max_steps'', JInt 16), (''max_cost_cents'', JInt 300)],
     seed_flow (ids 13) org_id ''Decision debate'' ''Two models argue, a third rules.'' ''debate''
       [(''debaters'', JList [researcher, skeptic]), (''judge_agent_id'', reviewer), (''rounds'', JInt 2),
        (''max_steps'', JInt 8), (''max_cost_cents'', JInt 200)]])"

fun add_all :: "('r \<Rightarrow> unit txn) \<Rightarrow> 'r list \<Rightarrow> unit txn" where
  "add_all add [] = eret ()"
| "add_all add (r # rs) = ethen (add r) (add_all add rs)"

definition seed :: "web \<Rightarrow> (nat \<Rightarrow> string) \<Rightarrow> string \<Rightarrow> string \<Rightarrow> string \<Rightarrow> int \<Rightarrow> string txn" where
  "seed wb ids email password org_name credits_cents =
     ebind (seed_user wb ids (lower email) password) (\<lambda>user.
     ebind (seed_org wb ids user org_name credits_cents) (\<lambda>org_id.
     ebind (eget (\<lambda>d. filter (\<lambda>r. ag_org_id r = org_id) (db_agents d))) (\<lambda>existing.
     if existing \<noteq> [] then eret org_id
     else ethen (add_all add_agent (seed_agents ids org_id))
         (ethen (add_all add_workflow (seed_flows ids org_id)) (eret org_id)))))"

subsection \<open>Superusers\<close>

definition promote :: "string \<Rightarrow> bool \<Rightarrow> unit txn" where
  "promote email revoke = ebind (select_txn db_users (\<lambda>u. u_email u = lower email)) (\<lambda>found. case found of
     None \<Rightarrow> eraise (OtherError ''SystemExit'')
   | Some user \<Rightarrow> emod (set_user (u_id user) (\<lambda>u. u\<lparr>u_is_superuser := \<not> revoke, u_token_epoch := u_token_epoch u + 1\<rparr>)))"

subsection \<open>What seeding leaves\<close>

lemma seeded_agent_ok: "r \<in> set (seed_agents ids org_id) \<Longrightarrow> agent_ok r"
proof -
  have models: "list_all (\<lambda>m. case get_spec m of Inr _ \<Rightarrow> True | Inl _ \<Rightarrow> False)
      [''claude-sonnet-5'', ''claude-opus-5'', ''gpt-5'', ''gemini-2.5-flash'', ''grok-4'']" by code_simp
  have tools: "{''list_artifacts'', ''read_artifact'', ''write_artifact'', ''edit_artifact'', ''web_search'', ''web_fetch''} \<subseteq> known_names"
    by code_simp
  have ok: "agent_ok (seed_agent i org_id name role model effort max_tokens ts prompt)"
    if "non_empty_str name" "sized 1 100 role" "sized 0 100000 prompt" "case get_spec model of Inr _ \<Rightarrow> True | Inl _ \<Rightarrow> False"
      "effort \<in> set EFFORTS" "max_tokens_ok max_tokens" "distinct ts" "set ts \<subseteq> known_names"
    for i name role model effort max_tokens ts prompt
    using that by (auto simp: agent_ok_def seed_agent_def split: sum.splits)
  show "r \<in> set (seed_agents ids org_id) \<Longrightarrow> agent_ok r"
    unfolding seed_agents_def using models tools
    by (auto intro!: ok simp: non_empty_str_def sized_def EFFORTS_def max_tokens_ok_def)
qed

lemmas graph_checks = validate_graph_def VALIDATORS_def validate_pipeline_def validate_supervisor_def validate_team_def validate_debate_def
  require_key_def bounded_def jget_def as_obj_def Let_def

lemma pipeline_graph:
  "a \<noteq> [] \<Longrightarrow> b \<noteq> [] \<Longrightarrow> c \<noteq> [] \<Longrightarrow> validate_graph ''pipeline'' [(''nodes'', JList [JObj [(''agent_id'', JStr a)], JObj [(''agent_id'', JStr b)],
     JObj [(''agent_id'', JStr c)]]), (''max_steps'', JInt 6), (''max_cost_cents'', JInt 150)] = Inr [JStr a, JStr b, JStr c]"
  by (simp add: graph_checks)

lemma supervisor_graph:
  "a \<noteq> [] \<Longrightarrow> validate_graph ''supervisor'' [(''supervisor_agent_id'', JStr a), (''workers'', JList [x, y, z]), (''max_rounds'', JInt 6),
     (''max_steps'', JInt 16), (''max_cost_cents'', JInt 300)] = Inr [JStr a, x, y, z]"
  by (simp add: graph_checks)

lemma debate_graph:
  "a \<noteq> [] \<Longrightarrow> validate_graph ''debate'' [(''debaters'', JList [x, y]), (''judge_agent_id'', JStr a), (''rounds'', JInt 2),
     (''max_steps'', JInt 8), (''max_cost_cents'', JInt 200)] = Inr [x, y, JStr a]"
  by (simp add: graph_checks)

lemma seeded_flow:
  assumes "\<forall>n. ids n \<noteq> []" "w \<in> set (seed_flows ids org_id)"
  shows "wf_org_id w = org_id \<and> (\<exists>ags. validate_graph (wf_preset w) (wf_graph w) = Inr ags \<and>
     set ags \<subseteq> (\<lambda>r. JStr (ag_id r)) ` set (seed_agents ids org_id))"
  using assms pipeline_graph [of "ids 6" "ids 7" "ids 8"] supervisor_graph [of "ids 6" "JStr (ids 9)" "JStr (ids 7)" "JStr (ids 8)"]
    debate_graph [of "ids 8" "JStr (ids 9)" "JStr (ids 10)"]
  by (auto simp: seed_flows_def seed_flow_def seed_agents_def seed_agent_def Let_def)

lemma one_or_none_Inr [simp]: "one_or_none xs = Inr None \<longleftrightarrow> xs = []" "one_or_none xs = Inr (Some r) \<longleftrightarrow> xs = [r]"
  by (cases xs rule: one_or_none.cases; simp)+

lemma select_txn_Inr: "select_txn rows p d = (Inr found, d') \<longleftrightarrow> d' = d \<and> filter p (rows d) = (case found of None \<Rightarrow> [] | Some r \<Rightarrow> [r])"
  by (cases found) (auto simp: select_txn_def)

lemma seed_user_Inr:
  assumes "seed_user wb ids email password d = (Inr user, d1)"
  shows "filter (\<lambda>u. u_email u = email) (db_users d1) = [user] \<and> db_agents d1 = db_agents d \<and> db_workflows d1 = db_workflows d"
  using assms
  by (auto simp: seed_user_def ebind_eq_Inr ethen_eq_Inr select_txn_Inr eret_def eraise_def add_user_def insert_row_Inr Let_def
      split: option.splits sum.splits)

lemma seed_user_again:
  "filter (\<lambda>u. u_email u = email) (db_users d) = [user] \<Longrightarrow> seed_user wb ids email password d = (Inr user, d)"
  by (simp add: seed_user_def ebind_def select_txn_def eret_def)

lemma post_entry_orgs:
  "post_entry [] i p d = (r, d') \<Longrightarrow> map o_id (db_orgs d') = map o_id (db_orgs d) \<and> db_memberships d' = db_memberships d \<and>
     db_users d' = db_users d \<and> db_agents d' = db_agents d \<and> db_workflows d' = db_workflows d"
  by (subst (asm) post_entry.simps) (auto simp: Let_def set_credits_def row_set_def split: option.splits sum.splits)

lemma org_exists: "i \<in> set (map o_id (db_orgs d)) \<Longrightarrow> \<exists>o1. get_org d i = Some o1 \<and> o_id o1 = i"
  by (cases "get_org d i") (auto simp: get_org_def row_get_def find_None_iff dest: row_get_Some [unfolded row_get_def])

lemma added_org_Inr: "add_org o1 d = (Inr u, d') \<Longrightarrow> d' = d\<lparr>db_orgs := db_orgs d @ [o1]\<rparr>"
  by (auto simp: add_org_def insert_row_Inr split: sum.splits)

lemma added_membership_Inr: "add_membership m d = (Inr u, d') \<Longrightarrow> d' = d\<lparr>db_memberships := db_memberships d @ [m]\<rparr>"
  by (auto simp: add_membership_def insert_row_Inr split: sum.splits)

lemma seed_org_Inr:
  assumes "seed_org wb ids user name cents d = (Inr org_id, d1)"
  shows "\<exists>m o1. filter (\<lambda>m. mb_user_id m = u_id user) (db_memberships d1) = [m] \<and> get_org d1 (mb_org_id m) = Some o1 \<and> o_id o1 = org_id \<and>
    db_users d1 = db_users d \<and> db_agents d1 = db_agents d \<and> db_workflows d1 = db_workflows d"
proof -
  obtain found where f: "filter (\<lambda>m. mb_user_id m = u_id user) (db_memberships d) = (case found of None \<Rightarrow> [] | Some r \<Rightarrow> [r])"
    and rest: "(case found of
     None \<Rightarrow> let org = \<lparr>o_id = ids 1, o_name = name, o_slug = ''demo-'' @ ids 2, o_key_mode = ''managed'', o_credits_cents = 0, o_is_active = True\<rparr> in
       ethen (add_org org)
       (ethen (add_membership \<lparr>mb_id = ids 3, mb_user_id = u_id user, mb_org_id = o_id org, mb_role = ''owner''\<rparr>)
       (ethen (grant [] (ids 4) (ids 5) (o_id org) cents ''bonus'' ''seed credits'' (Some (''seed:'' @ o_id org)) None)
       (eret (o_id org))))
   | Some m \<Rightarrow> ebind (eget (\<lambda>d. get_org d (mb_org_id m))) (\<lambda>org. case org of
       None \<Rightarrow> eraise (OtherError ''AssertionError'') | Some o1 \<Rightarrow> eret (o_id o1))) d = (Inr org_id, d1)"
    using assms by (auto simp: seed_org_def ebind_eq_Inr select_txn_Inr)
  show ?thesis
  proof (cases found)
    case (Some m)
    then show ?thesis using f rest by (auto simp: ebind_eq_Inr eget_def eret_def eraise_def split: option.splits)
  next
    case None
    define org where "org = \<lparr>o_id = ids 1, o_name = name, o_slug = ''demo-'' @ ids 2, o_key_mode = ''managed'', o_credits_cents = 0, o_is_active = True\<rparr>"
    define mem where "mem = \<lparr>mb_id = ids 3, mb_user_id = u_id user, mb_org_id = o_id org, mb_role = ''owner''\<rparr>"
    have oid: "o_id org = ids 1" by (simp add: org_def)
    obtain a0 b0 r s1 d2 where st: "add_org org d = (Inr a0, s1)" "add_membership mem s1 = (Inr b0, d2)"
      and g: "grant [] (ids 4) (ids 5) (o_id org) cents ''bonus'' ''seed credits'' (Some (''seed:'' @ o_id org)) None d2 = (Inr r, d1)"
      and i: "org_id = o_id org"
      using rest unfolding None Let_def org_def [symmetric] mem_def [symmetric] by (auto simp: ethen_eq_Inr eret_def)
    have d2: "d2 = d\<lparr>db_orgs := db_orgs d @ [org], db_memberships := db_memberships d @ [mem]\<rparr>"
      using added_org_Inr [OF st(1)] added_membership_Inr [OF st(2)] by simp
    have d1: "map o_id (db_orgs d1) = map o_id (db_orgs d2) \<and> db_memberships d1 = db_memberships d2 \<and> db_users d1 = db_users d2 \<and>
        db_agents d1 = db_agents d2 \<and> db_workflows d1 = db_workflows d2"
    proof -
      obtain p where "post_entry [] (ids 4) p d2 = (Inr r, d1)" using g by (auto simp: grant_def eraise_def split: if_splits)
      then show ?thesis by (rule post_entry_orgs)
    qed
    have "mb_user_id mem = u_id user" "mb_org_id mem = o_id org" by (simp_all add: mem_def)
    then show ?thesis using f None org_exists [of "o_id org" d1] d1 by (auto simp: d2 i)
  qed
qed

lemma seed_org_again:
  "filter (\<lambda>m. mb_user_id m = u_id user) (db_memberships d) = [m] \<Longrightarrow> get_org d (mb_org_id m) = Some o1 \<Longrightarrow>
     seed_org wb ids user name cents d = (Inr (o_id o1), d)"
  by (simp add: seed_org_def ebind_def select_txn_def eret_def eget_def)

lemma add_agent_Inr: "add_agent r d = (Inr u, d') \<longleftrightarrow> list_all (\<lambda>x. ag_id r \<noteq> ag_id x) (db_agents d) \<and> d' = d\<lparr>db_agents := db_agents d @ [r]\<rparr>"
  by (auto simp: add_agent_def insert_row_def list_ex_iff list_all_iff)

lemma add_workflow_Inr:
  "add_workflow w d = (Inr u, d') \<longleftrightarrow> list_all (\<lambda>x. wf_id w \<noteq> wf_id x) (db_workflows d) \<and> d' = d\<lparr>db_workflows := db_workflows d @ [w]\<rparr>"
  by (auto simp: add_workflow_def insert_row_def list_ex_iff list_all_iff)

lemma add_agents_Inr: "add_all add_agent rs d = (Inr u, d') \<Longrightarrow> d' = d\<lparr>db_agents := db_agents d @ rs\<rparr>"
proof (induction rs arbitrary: d)
  case (Cons r rs)
  then have "add_all add_agent rs (d\<lparr>db_agents := db_agents d @ [r]\<rparr>) = (Inr u, d')"
    by (auto simp: ethen_eq_Inr add_agent_Inr)
  from Cons.IH [OF this] show ?case by simp
qed (simp add: eret_def)

lemma add_workflows_Inr:
  "add_all add_workflow ws d = (Inr u, d') \<Longrightarrow> distinct (map wf_id (db_workflows d)) \<Longrightarrow>
     d' = d\<lparr>db_workflows := db_workflows d @ ws\<rparr> \<and> distinct (map wf_id (db_workflows d'))"
proof (induction ws arbitrary: d)
  case (Cons w ws)
  then have "add_all add_workflow ws (d\<lparr>db_workflows := db_workflows d @ [w]\<rparr>) = (Inr u, d')"
    and fresh: "list_all (\<lambda>x. wf_id w \<noteq> wf_id x) (db_workflows d)"
    by (auto simp: ethen_eq_Inr add_workflow_Inr)
  moreover have "distinct (map wf_id (db_workflows (d\<lparr>db_workflows := db_workflows d @ [w]\<rparr>)))"
    using Cons.prems(2) fresh by (auto simp: list_all_iff)
  ultimately show ?case using Cons.IH by fastforce
qed (simp add: eret_def)

text \<open>An agent of the team resolves once the team is stored.\<close>

lemma agent_resolves:
  assumes "r \<in> set (db_agents d)" "ag_org_id r = org_id" "ag_is_active r"
  shows "resolves d org_id (JStr (ag_id r))"
  using load_agents_get [OF assms] by (auto simp: resolves_def find_agent_def)

definition office_runs :: "db \<Rightarrow> string \<Rightarrow> workflow_row \<Rightarrow> bool" where
  "office_runs d org_id w \<longleftrightarrow> w \<in> set (db_workflows d) \<and> wf_org_id w = org_id \<and>
     (\<exists>ags. validate_graph (wf_preset w) (wf_graph w) = Inr ags \<and> list_all (resolves d org_id) ags)"

text \<open>C40. Seeding is repeatable: running the script again for the same address, with whatever other arguments, returns the same
  organisation and changes nothing. It keeps the stored agents and workflows well formed, and in an organisation that had no agents
  it leaves the three workflows valid, with every agent they refer to resolving.\<close>

theorem seeding_is_repeatable:
  assumes "session_scope (seed wb ids email password name cents) d = (Inr org_id, d')" "\<forall>n. ids n \<noteq> []" "config_ok d"
  shows "session_scope (seed wb' ids' email password' name' cents') d' = (Inr org_id, d') \<and> config_ok d' \<and>
    (filter (\<lambda>r. ag_org_id r = org_id) (db_agents d) = [] \<longrightarrow> list_all (office_runs d' org_id) (seed_flows ids org_id))"
proof -
  have run: "seed wb ids email password name cents d = (Inr org_id, d')"
    using assms(1) by (auto simp: session_scope_def split: prod.splits sum.splits)
  obtain user d1 where u: "seed_user wb ids (lower email) password d = (Inr user, d1)"
    and r1: "ebind (seed_org wb ids user name cents) (\<lambda>org_id. ebind (eget (\<lambda>d. filter (\<lambda>r. ag_org_id r = org_id) (db_agents d))) (\<lambda>existing.
     if existing \<noteq> [] then eret org_id
     else ethen (add_all add_agent (seed_agents ids org_id)) (ethen (add_all add_workflow (seed_flows ids org_id)) (eret org_id)))) d1 = (Inr org_id, d')"
    using run unfolding seed_def ebind_eq_Inr by blast
  obtain d2 where o: "seed_org wb ids user name cents d1 = (Inr org_id, d2)"
    and r2: "(if filter (\<lambda>r. ag_org_id r = org_id) (db_agents d2) \<noteq> [] then eret org_id
     else ethen (add_all add_agent (seed_agents ids org_id)) (ethen (add_all add_workflow (seed_flows ids org_id)) (eret org_id))) d2 = (Inr org_id, d')"
    using r1 by (auto simp: ebind_eq_Inr ethen_eq_Inr eget_def eret_def split: if_splits)
  note user = seed_user_Inr [OF u]
  obtain m o1 where mem: "filter (\<lambda>m. mb_user_id m = u_id user) (db_memberships d2) = [m]" "get_org d2 (mb_org_id m) = Some o1" "o_id o1 = org_id"
    and same: "db_users d2 = db_users d1" "db_agents d2 = db_agents d1" "db_workflows d2 = db_workflows d1" using seed_org_Inr [OF o] by blast
  have d1: "db_agents d1 = db_agents d" "db_workflows d1 = db_workflows d" using user by blast+
  let ?new = "filter (\<lambda>r. ag_org_id r = org_id) (db_agents d) = []"
  have d': "d' = (if ?new then d2\<lparr>db_agents := db_agents d @ seed_agents ids org_id, db_workflows := db_workflows d @ seed_flows ids org_id\<rparr> else d2) \<and>
      distinct (map wf_id (db_workflows d'))"
  proof (cases ?new)
    case True
    then obtain a b s1 where s1: "add_all add_agent (seed_agents ids org_id) d2 = (Inr a, s1)" "add_all add_workflow (seed_flows ids org_id) s1 = (Inr b, d')"
      using r2 by (auto simp: same d1 ethen_eq_Inr eret_def)
    have s1': "s1 = d2\<lparr>db_agents := db_agents d @ seed_agents ids org_id\<rparr>" using add_agents_Inr [OF s1(1)] by (simp add: same d1)
    have "distinct (map wf_id (db_workflows s1))" using assms(3) by (simp add: s1' same d1 config_ok_def)
    note w = add_workflows_Inr [OF s1(2) this]
    have "d' = d2\<lparr>db_agents := db_agents d @ seed_agents ids org_id, db_workflows := db_workflows d @ seed_flows ids org_id\<rparr>"
      using conjunct1 [OF w] by (simp add: s1' same d1)
    then show ?thesis unfolding if_P [OF True] using conjunct2 [OF w] by blast
  next
    case False
    then have "d2 = d'" using r2 by (simp add: same d1 eret_def)
    moreover have "distinct (map wf_id (db_workflows d2))" using assms(3) by (simp add: same d1 config_ok_def)
    ultimately show ?thesis using False by simp
  qed
  have keep: "db_users d' = db_users d1" "db_memberships d' = db_memberships d2" "db_orgs d' = db_orgs d2"
    using d' same by (simp_all split: if_splits)
  have rows: "db_agents d' = (if ?new then db_agents d @ seed_agents ids org_id else db_agents d)"
    "db_workflows d' = (if ?new then db_workflows d @ seed_flows ids org_id else db_workflows d)"
    using d' same d1 by (simp_all split: if_splits)
  have some: "filter (\<lambda>r. ag_org_id r = org_id) (db_agents d') \<noteq> []"
    by (simp add: rows(1) seed_agents_def seed_agent_def)
  have "seed_user wb' ids' (lower email) password' d' = (Inr user, d')" using user keep by (intro seed_user_again) simp
  moreover have "seed_org wb' ids' user name' cents' d' = (Inr org_id, d')"
    using seed_org_again [of user d' m o1] mem keep by (simp add: get_org_def)
  ultimately have again: "seed wb' ids' email password' name' cents' d' = (Inr org_id, d')"
    using some by (simp add: seed_def ebind_def eget_def eret_def)
  have "flow_ok w" if "w \<in> set (seed_flows ids org_id)" for w
    using seeded_flow [OF assms(2) that] by (auto simp: flow_ok_def)
  then have "list_all flow_ok (db_workflows d')" using assms(3) unfolding rows(2) by (auto simp: config_ok_def list_all_iff)
  moreover have "agents_ok d'" using assms(3) seeded_agent_ok by (auto simp: config_ok_def agents_ok_def rows(1) list_all_iff)
  ultimately have "config_ok d'" using conjunct2 [OF d'] by (simp add: config_ok_def)
  moreover have "office_runs d' org_id w" if w: "w \<in> set (seed_flows ids org_id)" ?new for w
  proof -
    have "resolves d' org_id (JStr (ag_id r))" if "r \<in> set (seed_agents ids org_id)" for r
      by (rule agent_resolves) (use that w(2) rows(1) in \<open>auto simp: seed_agents_def seed_agent_def\<close>)
    then have team: "v \<in> (\<lambda>r. JStr (ag_id r)) ` set (seed_agents ids org_id) \<Longrightarrow> resolves d' org_id v" for v by blast
    obtain ags where ags: "wf_org_id w = org_id" "validate_graph (wf_preset w) (wf_graph w) = Inr ags"
      "set ags \<subseteq> (\<lambda>r. JStr (ag_id r)) ` set (seed_agents ids org_id)" using seeded_flow [OF assms(2) w(1)] by blast
    have "list_all (resolves d' org_id) ags" unfolding list_all_iff using team ags(3) by blast
    then show ?thesis using ags(1,2) w rows(2) by (simp add: office_runs_def)
  qed
  ultimately show ?thesis using again by (simp add: session_scope_def list_all_iff)
qed

text \<open>Seeding for the owner of an organisation without agents.\<close>

lemma add_agents_fresh:
  "distinct (map ag_id rs) \<Longrightarrow> ag_id ` set rs \<inter> ag_id ` set (db_agents d) = {} \<Longrightarrow>
     add_all add_agent rs d = (Inr (), d\<lparr>db_agents := db_agents d @ rs\<rparr>)"
proof (induction rs arbitrary: d)
  case (Cons r rs)
  then have "add_agent r d = (Inr (), d\<lparr>db_agents := db_agents d @ [r]\<rparr>)" by (auto simp: add_agent_Inr list_all_iff)
  then show ?case using Cons by (simp add: ethen_def ebind_def)
qed (simp add: eret_def)

lemma add_workflows_fresh:
  "distinct (map wf_id ws) \<Longrightarrow> wf_id ` set ws \<inter> wf_id ` set (db_workflows d) = {} \<Longrightarrow>
     add_all add_workflow ws d = (Inr (), d\<lparr>db_workflows := db_workflows d @ ws\<rparr>)"
proof (induction ws arbitrary: d)
  case (Cons w ws)
  then have "add_workflow w d = (Inr (), d\<lparr>db_workflows := db_workflows d @ [w]\<rparr>)" by (auto simp: add_workflow_Inr list_all_iff)
  then show ?case using Cons by (simp add: ethen_def ebind_def)
qed (simp add: eret_def)

definition seed_ids :: "nat \<Rightarrow> string" where
  "seed_ids n = replicate (Suc n) (CHR ''i'')"

lemma seed_ids_eq [simp]: "seed_ids m = seed_ids n \<longleftrightarrow> m = n" "seed_ids n \<noteq> []" "seed_ids n \<noteq> ''w1''"
  by (auto simp: seed_ids_def)

definition unstaffed :: db where
  "unstaffed = (sv_db sample_server)\<lparr>db_agents := []\<rparr>"

lemma sample_seeds: "\<exists>d'. session_scope (seed sample_web seed_ids ''@u1'' [] [] 0) unstaffed = (Inr ''o1'', d')"
proof -
  let ?d = unstaffed
  have l: "lower ''@u1'' = ''@u1''" by code_simp
  have d: "db_users ?d = [sample_user ''u1'', sample_user ''u2'']" "db_memberships ?d = [sample_owner]" "db_orgs ?d = [sample_org]"
    "db_agents ?d = []" "db_workflows ?d = [sample_workflow]" "wf_id sample_workflow = ''w1''" "o_id sample_org = ''o1''"
    by (simp_all add: unstaffed_def sample_defs)
  have u: "seed_user sample_web seed_ids ''@u1'' [] ?d = (Inr (sample_user ''u1''), ?d)"
    by (rule seed_user_again) (simp add: d sample_user_def)
  have o: "seed_org sample_web seed_ids (sample_user ''u1'') [] 0 ?d = (Inr (o_id sample_org), ?d)"
    by (rule seed_org_again [of _ _ sample_owner]) (simp_all add: d sample_owner_def sample_user_def get_org_def row_get_def)
  have a: "add_all add_agent (seed_agents seed_ids ''o1'') ?d = (Inr (), ?d\<lparr>db_agents := seed_agents seed_ids ''o1''\<rparr>)"
    by (subst add_agents_fresh) (simp_all add: d seed_agents_def seed_agent_def)
  have w: "add_all add_workflow (seed_flows seed_ids ''o1'') (?d\<lparr>db_agents := seed_agents seed_ids ''o1''\<rparr>) =
      (Inr (), ?d\<lparr>db_agents := seed_agents seed_ids ''o1'', db_workflows := db_workflows ?d @ seed_flows seed_ids ''o1''\<rparr>)"
    by (subst add_workflows_fresh) (simp_all add: d seed_flows_def seed_flow_def Let_def)
  show ?thesis by (simp add: session_scope_def seed_def ebind_def ethen_def eret_def eget_def l u o a w d)
qed

theorem seeding_is_repeatable_witness:
  "\<exists>d'. session_scope (seed sample_web seed_ids ''@u1'' [] [] 0) unstaffed = (Inr ''o1'', d') \<and>
     session_scope (seed sample_web (\<lambda>n. ''x'') ''@u1'' ''other'' ''Other'' 1) d' = (Inr ''o1'', d') \<and>
     list_all (office_runs d' ''o1'') (seed_flows seed_ids ''o1'')"
proof -
  obtain d' where s: "session_scope (seed sample_web seed_ids ''@u1'' [] [] 0) unstaffed = (Inr ''o1'', d')"
    using sample_seeds by blast
  have "config_ok unstaffed" using sample_office_ok by (simp add: config_ok_def agents_ok_def sample_office_def unstaffed_def)
  moreover have "db_agents unstaffed = []" by (simp add: unstaffed_def)
  moreover have "\<forall>n. seed_ids n \<noteq> []" by simp
  ultimately show ?thesis using seeding_is_repeatable [OF s] s by auto
qed

end
