(* ===== verification/Migrations.thy ===== *)
theory Migrations
  imports Json_Loads
begin

text \<open>
  \<^verbatim>\<open>migrations/versions/\<close> over a database with rows, and the tables that the classes of \<^verbatim>\<open>core/models.py\<close> declare.
  The operations are those of the migration tool on the production database: each fails where the database
  refuses it. A migration is the list of its operations; \<open>run_ops\<close> is its transaction.
\<close>

subsection \<open>Databases and operations\<close>

datatype coltype = TString nat | TText | TInteger | TBigInteger | TBoolean | TFloat | TJson | TDateTime

text \<open>A server default is the literal the database puts into a new column.\<close>

record column =
  cl_name :: string
  cl_type :: coltype
  cl_nullable :: bool
  cl_default :: "string option"

text \<open>A foreign key names its targets as \<open>table.column\<close> and what a deletion does; a check has its text.\<close>

datatype tb_constraint =
    PrimaryKeyC "string list"
  | ForeignKeyC "string list" "string list" string
  | UniqueC "string list" "string option"
  | CheckC "string option" string

record tb_index =
  ix_name :: string
  ix_columns :: "string list"
  ix_unique :: bool
  ix_where :: "string option"

record db_table =
  tb_name :: string
  tb_columns :: "column list"
  tb_constraints :: "tb_constraint list"
  tb_indexes :: "tb_index list"
  tb_rows :: "jobj list"

type_synonym database = "db_table list"
type_synonym migration = "(database \<Rightarrow> database option) list"

definition col :: "string \<Rightarrow> coltype \<Rightarrow> bool \<Rightarrow> column" where
  "col name ty nullable = \<lparr>cl_name = name, cl_type = ty, cl_nullable = nullable, cl_default = None\<rparr>"

definition col_default :: "string \<Rightarrow> string \<Rightarrow> coltype \<Rightarrow> bool \<Rightarrow> column" where
  "col_default lit name ty nullable = \<lparr>cl_name = name, cl_type = ty, cl_nullable = nullable, cl_default = Some lit\<rparr>"

definition index_def :: "string \<Rightarrow> string list \<Rightarrow> bool \<Rightarrow> string option \<Rightarrow> tb_index" where
  "index_def name cols uniq cond = \<lparr>ix_name = name, ix_columns = cols, ix_unique = uniq, ix_where = cond\<rparr>"

definition one_of :: "string \<Rightarrow> string list \<Rightarrow> string" where
  "one_of name vs = name @ '' in ('' @ join '','' (map (\<lambda>v. [squote] @ v @ [squote]) vs) @ '')''"

definition names :: "db_table \<Rightarrow> string list" where
  "names t = map cl_name (tb_columns t)"

text \<open>The columns of its own table, and the columns of other tables, that a constraint refers to.\<close>

fun own_columns :: "tb_constraint \<Rightarrow> string list" where
  "own_columns (PrimaryKeyC cs) = cs"
| "own_columns (ForeignKeyC cs _ _) = cs"
| "own_columns (UniqueC cs _) = cs"
| "own_columns (CheckC _ _) = []"

fun targets_of :: "tb_constraint \<Rightarrow> string list" where
  "targets_of (ForeignKeyC _ ts _) = ts"
| "targets_of _ = []"

definition references :: "db_table \<Rightarrow> string list" where
  "references t = concat (map targets_of (tb_constraints t))"

definition column_paths :: "db_table \<Rightarrow> string list" where
  "column_paths t = map (\<lambda>c. tb_name t @ ''.'' @ c) (names t)"

definition create_table :: "string \<Rightarrow> column list \<Rightarrow> tb_constraint list \<Rightarrow> database \<Rightarrow> database option" where
  "create_table name cols cons s = (let t = \<lparr>tb_name = name, tb_columns = cols, tb_constraints = cons, tb_indexes = [], tb_rows = []\<rparr> in
     if name \<in> set (map tb_name s) \<or> \<not> distinct (names t) \<or> \<not> set (concat (map own_columns cons)) \<subseteq> set (names t) \<or>
        \<not> set (references t) \<subseteq> set (concat (map column_paths (s @ [t])))
     then None else Some (s @ [t]))"

text \<open>An operation on one table: refused unless there is such a table and it satisfies \<open>p\<close>.\<close>

definition alter :: "string \<Rightarrow> (db_table \<Rightarrow> bool) \<Rightarrow> (db_table \<Rightarrow> db_table) \<Rightarrow> database \<Rightarrow> database option" where
  "alter name p f s = (if list_ex (\<lambda>t. tb_name t = name \<and> p t) s then Some (map (\<lambda>t. if tb_name t = name then f t else t) s) else None)"

text \<open>Index names are unique in the database. A unique index over rows that exist is refused if two agree on its
  columns; rows with a null there do not count (nor does the condition of a partial index, which only excludes such rows).\<close>

definition create_index :: "string \<Rightarrow> tb_index \<Rightarrow> database \<Rightarrow> database option" where
  "create_index name ix s = (if ix_name ix \<in> set (concat (map (\<lambda>t. map ix_name (tb_indexes t)) s)) then None
     else alter name (\<lambda>t. set (ix_columns ix) \<subseteq> set (names t) \<and>
        (ix_unique ix \<longrightarrow> distinct (filter (\<lambda>vs. Some JNull \<notin> set vs) (map (\<lambda>r. map (dget r) (ix_columns ix)) (tb_rows t)))))
       (\<lambda>t. t\<lparr>tb_indexes := tb_indexes t @ [ix]\<rparr>) s)"

definition drop_index :: "string \<Rightarrow> string \<Rightarrow> database \<Rightarrow> database option" where
  "drop_index name i = alter name (\<lambda>t. i \<in> set (map ix_name (tb_indexes t))) (\<lambda>t. t\<lparr>tb_indexes := filter (\<lambda>ix. ix_name ix \<noteq> i) (tb_indexes t)\<rparr>)"

definition drop_table :: "string \<Rightarrow> database \<Rightarrow> database option" where
  "drop_table name s = (case filter (\<lambda>t. tb_name t = name) s of
     [] \<Rightarrow> None
   | t # _ \<Rightarrow> let rest = filter (\<lambda>u. tb_name u \<noteq> name) s in
       if set (concat (map references rest)) \<inter> set (column_paths t) \<noteq> {} then None else Some rest)"

text \<open>The value of a new column in the rows that exist; a column without server default is null there.\<close>

definition initial_value :: "column \<Rightarrow> json" where
  "initial_value c = (case cl_default c of None \<Rightarrow> JNull | Some lit \<Rightarrow> (case json_loads lit of Some v \<Rightarrow> v | None \<Rightarrow> JNull))"

definition add_column :: "string \<Rightarrow> column \<Rightarrow> database \<Rightarrow> database option" where
  "add_column name c = alter name
     (\<lambda>t. cl_name c \<notin> set (names t) \<and> (cl_nullable c \<or> cl_default c \<noteq> None \<or> tb_rows t = []))
     (\<lambda>t. t\<lparr>tb_columns := tb_columns t @ [c], tb_rows := map (\<lambda>r. r @ [(cl_name c, initial_value c)]) (tb_rows t)\<rparr>)"

text \<open>Dropping a column also drops the constraints and indexes of the table that involve it.\<close>

definition drop_column :: "string \<Rightarrow> string \<Rightarrow> database \<Rightarrow> database option" where
  "drop_column name c s = (if name @ ''.'' @ c \<in> set (concat (map references s)) then None
     else alter name (\<lambda>t. c \<in> set (names t))
       (\<lambda>t. t\<lparr>tb_columns := filter (\<lambda>k. cl_name k \<noteq> c) (tb_columns t),
           tb_constraints := filter (\<lambda>k. c \<notin> set (own_columns k)) (tb_constraints t),
           tb_indexes := filter (\<lambda>ix. c \<notin> set (ix_columns ix)) (tb_indexes t),
           tb_rows := map (filter (\<lambda>(k, v). k \<noteq> c)) (tb_rows t)\<rparr>) s)"

definition drop_default :: "string \<Rightarrow> string \<Rightarrow> database \<Rightarrow> database option" where
  "drop_default name c = alter name (\<lambda>t. c \<in> set (names t))
     (\<lambda>t. t\<lparr>tb_columns := map (\<lambda>k. if cl_name k = c then k\<lparr>cl_default := None\<rparr> else k) (tb_columns t)\<rparr>)"

fun run_ops :: "migration \<Rightarrow> database \<Rightarrow> database option" where
  "run_ops [] s = Some s"
| "run_ops (f # fs) s = (case f s of None \<Rightarrow> None | Some s' \<Rightarrow> run_ops fs s')"

lemma run_ops_append: "run_ops (fs @ gs) s = (case run_ops fs s of None \<Rightarrow> None | Some s' \<Rightarrow> run_ops gs s')"
  by (induction fs arbitrary: s) (auto split: option.splits)

subsection \<open>The two migrations\<close>

definition audit_log_0001 :: "migration" where
  "audit_log_0001 = [
     create_table ''audit_log'' [
       col ''id'' (TString 36) False, col ''created_at'' TDateTime False, col ''org_id'' (TString 36) True,
       col ''actor_user_id'' (TString 36) True, col ''action'' (TString 80) False, col ''target_type'' (TString 60) True,
       col ''target_id'' (TString 64) True, col ''ip_address'' (TString 64) True, col ''user_agent'' (TString 400) True,
       col ''detail'' TJson False]
      [PrimaryKeyC [''id'']],
     create_index ''audit_log'' (index_def ''ix_audit_org_created'' [''org_id'', ''created_at''] False None)]"

definition model_prices_0001 :: "migration" where
  "model_prices_0001 = [
     create_table ''model_prices'' [
       col ''model'' (TString 80) False, col ''input_per_mtok'' TFloat False, col ''output_per_mtok'' TFloat False,
       col ''cached_input_per_mtok'' TFloat True, col ''note'' (TString 300) False, col ''updated_by'' (TString 36) True,
       col ''created_at'' TDateTime False, col ''updated_at'' TDateTime False]
      [PrimaryKeyC [''model'']]]"

definition orgs_0001 :: "migration" where
  "orgs_0001 = [
     create_table ''orgs'' [
       col ''id'' (TString 36) False, col ''name'' (TString 200) False, col ''slug'' (TString 80) False,
       col ''key_mode'' (TString 16) False, col ''credits_cents'' TBigInteger False, col ''is_active'' TBoolean False,
       col ''created_at'' TDateTime False, col ''updated_at'' TDateTime False]
      [CheckC None (one_of ''key_mode'' [''managed'', ''byok'', ''hybrid'']), PrimaryKeyC [''id''], UniqueC [''slug''] None]]"

definition users_0001 :: "migration" where
  "users_0001 = [
     create_table ''users'' [
       col ''id'' (TString 36) False, col ''email'' (TString 320) False, col ''password_hash'' TText False,
       col ''name'' (TString 200) True, col ''is_active'' TBoolean False, col ''is_superuser'' TBoolean False,
       col ''last_login_at'' TDateTime True, col ''token_epoch'' TInteger False, col ''created_at'' TDateTime False,
       col ''updated_at'' TDateTime False]
      [PrimaryKeyC [''id'']],
     create_index ''users'' (index_def ''ix_users_email'' [''email''] True None)]"

definition agents_0001 :: "migration" where
  "agents_0001 = [
     create_table ''agents'' [
       col ''id'' (TString 36) False, col ''org_id'' (TString 36) False, col ''name'' (TString 200) False,
       col ''role'' (TString 100) False, col ''system_prompt'' TText False, col ''model'' (TString 80) False,
       col ''effort'' (TString 16) False, col ''max_tokens'' TInteger False, col ''tools'' TJson False, col ''is_active'' TBoolean False,
       col ''created_by'' (TString 36) True, col ''created_at'' TDateTime False, col ''updated_at'' TDateTime False]
      [CheckC None (one_of ''effort'' [''low'', ''medium'', ''high'', ''xhigh'', ''max'']),
       ForeignKeyC [''org_id''] [''orgs.id''] ''CASCADE'', PrimaryKeyC [''id'']],
     create_index ''agents'' (index_def ''ix_agents_org_active'' [''org_id'', ''is_active''] False None)]"

definition api_keys_0001 :: "migration" where
  "api_keys_0001 = [
     create_table ''api_keys'' [
       col ''id'' (TString 36) False, col ''org_id'' (TString 36) False, col ''provider'' (TString 32) False,
       col ''ciphertext'' TText False, col ''mask'' (TString 64) False, col ''fingerprint'' (TString 32) False,
       col ''is_active'' TBoolean False, col ''last_used_at'' TDateTime True, col ''last_error'' TText True,
       col ''created_by'' (TString 36) True, col ''created_at'' TDateTime False, col ''updated_at'' TDateTime False]
      [CheckC None (one_of ''provider'' [''anthropic'', ''openai'', ''xai'', ''google'', ''openrouter'']),
       ForeignKeyC [''org_id''] [''orgs.id''] ''CASCADE'', PrimaryKeyC [''id''],
       UniqueC [''org_id'', ''provider''] (Some ''uq_api_key_org_provider'')],
     create_index ''api_keys'' (index_def ''ix_api_keys_org_id'' [''org_id''] False None)]"

definition credit_ledger_0001 :: "migration" where
  "credit_ledger_0001 = [
     create_table ''credit_ledger'' [
       col ''id'' (TString 36) False, col ''org_id'' (TString 36) False, col ''kind'' (TString 20) False,
       col ''amount_cents'' TBigInteger False, col ''balance_after_cents'' TBigInteger False, col ''run_id'' (TString 36) True,
       col ''description'' (TString 400) False, col ''idempotency_key'' (TString 128) False, col ''created_by'' (TString 36) True,
       col ''created_at'' TDateTime False, col ''updated_at'' TDateTime False]
      [CheckC None (one_of ''kind'' [''topup'', ''debit'', ''refund'', ''bonus'', ''adjustment'']),
       ForeignKeyC [''org_id''] [''orgs.id''] ''CASCADE'', PrimaryKeyC [''id''],
       UniqueC [''org_id'', ''idempotency_key''] (Some ''uq_ledger_idempotency'')],
     create_index ''credit_ledger'' (index_def ''ix_credit_ledger_run_id'' [''run_id''] False None),
     create_index ''credit_ledger'' (index_def ''ix_ledger_org_created'' [''org_id'', ''created_at''] False None)]"

definition memberships_0001 :: "migration" where
  "memberships_0001 = [
     create_table ''memberships'' [
       col ''id'' (TString 36) False, col ''user_id'' (TString 36) False, col ''org_id'' (TString 36) False,
       col ''role'' (TString 20) False, col ''created_at'' TDateTime False, col ''updated_at'' TDateTime False]
      [CheckC None (one_of ''role'' [''owner'', ''admin'', ''member'', ''viewer'']), ForeignKeyC [''org_id''] [''orgs.id''] ''CASCADE'',
       ForeignKeyC [''user_id''] [''users.id''] ''CASCADE'', PrimaryKeyC [''id''],
       UniqueC [''user_id'', ''org_id''] (Some ''uq_membership_user_org'')],
     create_index ''memberships'' (index_def ''ix_memberships_org_id'' [''org_id''] False None),
     create_index ''memberships'' (index_def ''ix_memberships_user_id'' [''user_id''] False None)]"

definition refresh_tokens_0001 :: "migration" where
  "refresh_tokens_0001 = [
     create_table ''refresh_tokens'' [
       col ''id'' (TString 36) False, col ''user_id'' (TString 36) False, col ''token_hash'' (TString 64) False,
       col ''family_id'' (TString 36) False, col ''expires_at'' TDateTime False, col ''used_at'' TDateTime True,
       col ''revoked_at'' TDateTime True, col ''user_agent'' (TString 400) True, col ''ip_address'' (TString 64) True,
       col ''created_at'' TDateTime False, col ''updated_at'' TDateTime False]
      [ForeignKeyC [''user_id''] [''users.id''] ''CASCADE'', PrimaryKeyC [''id'']],
     create_index ''refresh_tokens'' (index_def ''ix_refresh_tokens_family_id'' [''family_id''] False None),
     create_index ''refresh_tokens'' (index_def ''ix_refresh_tokens_token_hash'' [''token_hash''] True None),
     create_index ''refresh_tokens'' (index_def ''ix_refresh_tokens_user_id'' [''user_id''] False None)]"

definition workflows_0001 :: "migration" where
  "workflows_0001 = [
     create_table ''workflows'' [
       col ''id'' (TString 36) False, col ''org_id'' (TString 36) False, col ''name'' (TString 200) False,
       col ''description'' TText False, col ''preset'' (TString 32) False, col ''graph'' TJson False, col ''is_active'' TBoolean False,
       col ''created_by'' (TString 36) True, col ''created_at'' TDateTime False, col ''updated_at'' TDateTime False]
      [ForeignKeyC [''org_id''] [''orgs.id''] ''CASCADE'', PrimaryKeyC [''id'']],
     create_index ''workflows'' (index_def ''ix_workflows_org'' [''org_id''] False None)]"

definition runs_0001 :: "migration" where
  "runs_0001 = [
     create_table ''runs'' [
       col ''id'' (TString 36) False, col ''org_id'' (TString 36) False, col ''workflow_id'' (TString 36) False,
       col ''created_by'' (TString 36) True, col ''status'' (TString 24) False, col ''input'' TText False, col ''output'' TText True,
       col ''error'' TText True, col ''key_mode'' (TString 16) False, col ''cost_microcents'' TBigInteger False,
       col ''cost_cents'' TInteger False, col ''billable_microcents'' TBigInteger False, col ''tokens_in'' TBigInteger False,
       col ''tokens_out'' TBigInteger False, col ''steps_used'' TInteger False, col ''max_steps'' TInteger False,
       col ''max_cost_cents'' TInteger False, col ''cancel_requested'' TBoolean False, col ''idempotency_key'' (TString 128) True,
       col ''started_at'' TDateTime True, col ''finished_at'' TDateTime True, col ''created_at'' TDateTime False,
       col ''updated_at'' TDateTime False]
      [CheckC None (one_of ''status'' [''queued'', ''running'', ''succeeded'', ''failed'', ''cancelled'', ''budget_exceeded'', ''timed_out'']),
       ForeignKeyC [''org_id''] [''orgs.id''] ''CASCADE'', ForeignKeyC [''workflow_id''] [''workflows.id''] ''CASCADE'',
       PrimaryKeyC [''id'']],
     create_index ''runs'' (index_def ''ix_runs_org_created'' [''org_id'', ''created_at''] False None),
     create_index ''runs'' (index_def ''ix_runs_status'' [''status''] False None),
     create_index ''runs'' (index_def ''uq_runs_idempotency'' [''org_id'', ''idempotency_key''] True (Some ''idempotency_key IS NOT NULL''))]"

definition artifacts_0001 :: "migration" where
  "artifacts_0001 = [
     create_table ''artifacts'' [
       col ''id'' (TString 36) False, col ''run_id'' (TString 36) False, col ''org_id'' (TString 36) False,
       col ''path'' (TString 400) False, col ''kind'' (TString 40) False, col ''language'' (TString 40) True,
       col ''content'' TText False, col ''size_bytes'' TInteger False, col ''version'' TInteger False,
       col ''produced_by_step'' TInteger True, col ''produced_by_agent'' (TString 200) True, col ''created_at'' TDateTime False,
       col ''updated_at'' TDateTime False]
      [ForeignKeyC [''run_id''] [''runs.id''] ''CASCADE'', PrimaryKeyC [''id''],
       UniqueC [''run_id'', ''path'', ''version''] (Some ''uq_artifact_version'')],
     create_index ''artifacts'' (index_def ''ix_artifacts_org_id'' [''org_id''] False None),
     create_index ''artifacts'' (index_def ''ix_artifacts_run_path'' [''run_id'', ''path''] False None)]"

definition run_steps_0001 :: "migration" where
  "run_steps_0001 = [
     create_table ''run_steps'' [
       col ''id'' (TString 36) False, col ''run_id'' (TString 36) False, col ''index'' TInteger False,
       col ''agent_id'' (TString 36) True, col ''agent_name'' (TString 200) False, col ''role'' (TString 100) False,
       col ''model'' (TString 80) False, col ''provider'' (TString 32) False, col ''input'' TText False, col ''output'' TText False,
       col ''stop_reason'' (TString 48) True, col ''tokens_in'' TInteger False, col ''tokens_out'' TInteger False,
       col ''cached_tokens'' TInteger False, col ''reasoning_tokens'' TInteger False, col ''cost_microcents'' TBigInteger False,
       col ''latency_ms'' TInteger False, col ''attempts'' TInteger False, col ''created_at'' TDateTime False,
       col ''updated_at'' TDateTime False]
      [ForeignKeyC [''run_id''] [''runs.id''] ''CASCADE'', PrimaryKeyC [''id''],
       UniqueC [''run_id'', ''index''] (Some ''uq_run_step_index'')],
     create_index ''run_steps'' (index_def ''ix_run_steps_run_id'' [''run_id''] False None)]"

definition upgrade_0001 :: "migration" where
  "upgrade_0001 = audit_log_0001 @ model_prices_0001 @ orgs_0001 @ users_0001 @ agents_0001 @ api_keys_0001 @ credit_ledger_0001 @ memberships_0001 @ refresh_tokens_0001 @ workflows_0001 @ runs_0001 @ artifacts_0001 @ run_steps_0001"

definition downgrade_0001 :: "migration" where
  "downgrade_0001 = [
     drop_index ''run_steps'' ''ix_run_steps_run_id'', drop_table ''run_steps'', drop_index ''artifacts'' ''ix_artifacts_run_path'',
     drop_index ''artifacts'' ''ix_artifacts_org_id'', drop_table ''artifacts'', drop_index ''runs'' ''uq_runs_idempotency'',
     drop_index ''runs'' ''ix_runs_status'', drop_index ''runs'' ''ix_runs_org_created'', drop_table ''runs'',
     drop_index ''workflows'' ''ix_workflows_org'', drop_table ''workflows'',
     drop_index ''refresh_tokens'' ''ix_refresh_tokens_user_id'', drop_index ''refresh_tokens'' ''ix_refresh_tokens_token_hash'',
     drop_index ''refresh_tokens'' ''ix_refresh_tokens_family_id'', drop_table ''refresh_tokens'',
     drop_index ''memberships'' ''ix_memberships_user_id'', drop_index ''memberships'' ''ix_memberships_org_id'',
     drop_table ''memberships'', drop_index ''credit_ledger'' ''ix_ledger_org_created'',
     drop_index ''credit_ledger'' ''ix_credit_ledger_run_id'', drop_table ''credit_ledger'',
     drop_index ''api_keys'' ''ix_api_keys_org_id'', drop_table ''api_keys'', drop_index ''agents'' ''ix_agents_org_active'',
     drop_table ''agents'', drop_index ''users'' ''ix_users_email'', drop_table ''users'', drop_table ''orgs'',
     drop_table ''model_prices'', drop_index ''audit_log'' ''ix_audit_org_created'', drop_table ''audit_log'']"

definition tool_calls_0002 :: "migration" where
  "tool_calls_0002 = [
     create_table ''tool_calls'' [
       col ''id'' (TString 36) False, col ''run_id'' (TString 36) False, col ''step_index'' TInteger False,
       col ''call_index'' TInteger False, col ''agent_id'' (TString 36) True, col ''agent_name'' (TString 200) False,
       col ''tool'' (TString 80) False, col ''arguments'' TJson False, col ''result'' TText False, col ''is_error'' TBoolean False,
       col ''latency_ms'' TInteger False, col ''meta'' TJson False, col ''created_at'' TDateTime False,
       col ''updated_at'' TDateTime False]
      [ForeignKeyC [''run_id''] [''runs.id''] ''CASCADE'', PrimaryKeyC [''id''],
       UniqueC [''run_id'', ''step_index'', ''call_index''] (Some ''uq_tool_call_index'')],
     create_index ''tool_calls'' (index_def ''ix_tool_calls_run'' [''run_id''] False None)]"

definition run_steps_0002 :: "migration" where
  "run_steps_0002 = [
     add_column ''run_steps'' (col_default ''1'' ''model_calls'' TInteger False),
     add_column ''run_steps'' (col_default ''0'' ''tool_calls'' TInteger False),
     drop_default ''run_steps'' ''model_calls'',
     drop_default ''run_steps'' ''tool_calls'']"

definition upgrade_0002 :: "migration" where
  "upgrade_0002 = tool_calls_0002 @ run_steps_0002"

definition downgrade_0002 :: "migration" where
  "downgrade_0002 = [
     drop_column ''run_steps'' ''tool_calls'', drop_column ''run_steps'' ''model_calls'',
     drop_index ''tool_calls'' ''ix_tool_calls_run'', drop_table ''tool_calls'']"

text \<open>The revisions in the order of their chain, and \<^verbatim>\<open>alembic upgrade head\<close> and \<^verbatim>\<open>alembic downgrade -1\<close> along it, from a recorded version.\<close>

record revision =
  rv_id :: string
  rv_down_revision :: "string option"
  rv_upgrade :: migration
  rv_downgrade :: migration

definition revision_0001 :: revision where
  "revision_0001 = \<lparr>rv_id = ''0001_initial'', rv_down_revision = None, rv_upgrade = upgrade_0001, rv_downgrade = downgrade_0001\<rparr>"

definition revision_0002 :: revision where
  "revision_0002 = \<lparr>rv_id = ''0002_tool_calls'', rv_down_revision = Some ''0001_initial'', rv_upgrade = upgrade_0002, rv_downgrade = downgrade_0002\<rparr>"

definition REVISIONS :: "revision list" where
  "REVISIONS = [revision_0001, revision_0002]"

fun upgrade_head :: "revision list \<Rightarrow> string option \<Rightarrow> database \<Rightarrow> (string option \<times> database) option" where
  "upgrade_head [] version s = Some (version, s)"
| "upgrade_head (r # rs) version s = (if rv_down_revision r = version
     then (case run_ops (rv_upgrade r) s of None \<Rightarrow> None | Some s' \<Rightarrow> upgrade_head rs (Some (rv_id r)) s')
     else upgrade_head rs version s)"

definition downgrade_one :: "revision list \<Rightarrow> string option \<Rightarrow> database \<Rightarrow> (string option \<times> database) option" where
  "downgrade_one rs version s = (case find (\<lambda>r. Some (rv_id r) = version) rs of
     None \<Rightarrow> None
   | Some r \<Rightarrow> map_option (Pair (rv_down_revision r)) (run_ops (rv_downgrade r) s))"

subsection \<open>The declared tables\<close>

text \<open>
  A class of the models: columns with their type, whether they accept null (\<open>nullable\<close>, or the annotation
  where the argument is absent) and their keywords; a \<open>Reference\<close> is a foreign key to a column and has the type of that column.
\<close>

datatype keyword = PrimaryKey | Unique | Indexed
datatype declared = Mapped string coltype bool "keyword list" | Reference string string string bool "keyword list"
datatype table_arg = TableConstraint tb_constraint | TableIndex tb_index

record model_class =
  mc_table :: string
  mc_columns :: "declared list"
  mc_args :: "table_arg list"

fun declared_name :: "declared \<Rightarrow> string" where
  "declared_name (Mapped n _ _ _) = n"
| "declared_name (Reference n _ _ _ _) = n"

fun declared_keywords :: "declared \<Rightarrow> keyword list" where
  "declared_keywords (Mapped _ _ _ ks) = ks"
| "declared_keywords (Reference _ _ _ _ ks) = ks"

definition mapped_types :: "model_class list \<Rightarrow> (string, coltype) dict" where
  "mapped_types ms = concat (map (\<lambda>m. concat (map (\<lambda>d. case d of
     Mapped n ty _ _ \<Rightarrow> [(mc_table m @ ''.'' @ n, ty)] | Reference _ _ _ _ _ \<Rightarrow> []) (mc_columns m))) ms)"

definition declared_column :: "model_class list \<Rightarrow> declared \<Rightarrow> column" where
  "declared_column ms d = (case d of
     Mapped n ty nullable _ \<Rightarrow> col n ty nullable
   | Reference n target _ nullable _ \<Rightarrow> col n (case dget (mapped_types ms) target of Some ty \<Rightarrow> ty | None \<Rightarrow> TText) nullable)"

text \<open>
  The table of a class: the primary key, a foreign key per reference, a unique constraint for a unique
  column that is not indexed, and an index \<open>ix_table_column\<close> for an indexed one, unique if the column is.
\<close>

definition keyed :: "keyword \<Rightarrow> declared \<Rightarrow> bool" where
  "keyed k d \<longleftrightarrow> k \<in> set (declared_keywords d)"

definition declared_table :: "model_class list \<Rightarrow> model_class \<Rightarrow> db_table" where
  "declared_table ms m = (let ds = mc_columns m in
     \<lparr>tb_name = mc_table m, tb_columns = map (declared_column ms) ds,
      tb_constraints = PrimaryKeyC (map declared_name (filter (keyed PrimaryKey) ds)) #
        concat (map (\<lambda>d. case d of Reference n t on_delete _ _ \<Rightarrow> [ForeignKeyC [n] [t] on_delete] | Mapped _ _ _ _ \<Rightarrow> []) ds) @
        map (\<lambda>d. UniqueC [declared_name d] None) (filter (\<lambda>d. keyed Unique d \<and> \<not> keyed Indexed d) ds) @
        concat (map (\<lambda>a. case a of TableConstraint k \<Rightarrow> [k] | TableIndex _ \<Rightarrow> []) (mc_args m)),
      tb_indexes = map (\<lambda>d. index_def (''ix_'' @ mc_table m @ ''_'' @ declared_name d) [declared_name d] (keyed Unique d) None) (filter (keyed Indexed) ds) @
        concat (map (\<lambda>a. case a of TableIndex ix \<Rightarrow> [ix] | TableConstraint _ \<Rightarrow> []) (mc_args m)),
      tb_rows = []\<rparr>)"

definition timestamps :: "declared list" where
  "timestamps = [Mapped ''created_at'' TDateTime False [], Mapped ''updated_at'' TDateTime False []]"

definition org_class :: model_class where
  "org_class = \<lparr>mc_table = ''orgs'',
     mc_columns = [
       Mapped ''id'' (TString 36) False [PrimaryKey], Mapped ''name'' (TString 200) False [],
       Mapped ''slug'' (TString 80) False [Unique], Mapped ''key_mode'' (TString 16) False [],
       Mapped ''credits_cents'' TBigInteger False [], Mapped ''is_active'' TBoolean False []] @ timestamps,
     mc_args = [TableConstraint (CheckC (Some ''orgs_key_mode_check'') (one_of ''key_mode'' [''managed'', ''byok'', ''hybrid'']))]\<rparr>"

definition user_class :: model_class where
  "user_class = \<lparr>mc_table = ''users'',
     mc_columns = [
       Mapped ''id'' (TString 36) False [PrimaryKey], Mapped ''email'' (TString 320) False [Unique, Indexed],
       Mapped ''password_hash'' TText False [], Mapped ''name'' (TString 200) True [], Mapped ''is_active'' TBoolean False [],
       Mapped ''is_superuser'' TBoolean False [], Mapped ''last_login_at'' TDateTime True [], Mapped ''token_epoch'' TInteger False []] @ timestamps,
     mc_args = []\<rparr>"

definition membership_class :: model_class where
  "membership_class = \<lparr>mc_table = ''memberships'',
     mc_columns = [
       Mapped ''id'' (TString 36) False [PrimaryKey], Reference ''user_id'' ''users.id'' ''CASCADE'' False [Indexed],
       Reference ''org_id'' ''orgs.id'' ''CASCADE'' False [Indexed], Mapped ''role'' (TString 20) False []] @ timestamps,
     mc_args = [TableConstraint (UniqueC [''user_id'', ''org_id''] (Some ''uq_membership_user_org'')),
       TableConstraint (CheckC (Some ''memberships_role_check'') (one_of ''role'' [''owner'', ''admin'', ''member'', ''viewer'']))]\<rparr>"

definition refresh_token_class :: model_class where
  "refresh_token_class = \<lparr>mc_table = ''refresh_tokens'',
     mc_columns = [
       Mapped ''id'' (TString 36) False [PrimaryKey], Reference ''user_id'' ''users.id'' ''CASCADE'' False [Indexed],
       Mapped ''token_hash'' (TString 64) False [Unique, Indexed], Mapped ''family_id'' (TString 36) False [Indexed],
       Mapped ''expires_at'' TDateTime False [], Mapped ''used_at'' TDateTime True [], Mapped ''revoked_at'' TDateTime True [],
       Mapped ''user_agent'' (TString 400) True [], Mapped ''ip_address'' (TString 64) True []] @ timestamps,
     mc_args = []\<rparr>"

definition api_key_class :: model_class where
  "api_key_class = \<lparr>mc_table = ''api_keys'',
     mc_columns = [
       Mapped ''id'' (TString 36) False [PrimaryKey], Reference ''org_id'' ''orgs.id'' ''CASCADE'' False [Indexed],
       Mapped ''provider'' (TString 32) False [], Mapped ''ciphertext'' TText False [], Mapped ''mask'' (TString 64) False [],
       Mapped ''fingerprint'' (TString 32) False [], Mapped ''is_active'' TBoolean False [], Mapped ''last_used_at'' TDateTime True [],
       Mapped ''last_error'' TText True [], Mapped ''created_by'' (TString 36) True []] @ timestamps,
     mc_args = [TableConstraint (UniqueC [''org_id'', ''provider''] (Some ''uq_api_key_org_provider'')),
       TableConstraint (CheckC (Some ''api_keys_provider_check'') (one_of ''provider'' [''anthropic'', ''openai'', ''xai'', ''google'', ''openrouter'']))]\<rparr>"

definition agent_class :: model_class where
  "agent_class = \<lparr>mc_table = ''agents'',
     mc_columns = [
       Mapped ''id'' (TString 36) False [PrimaryKey], Reference ''org_id'' ''orgs.id'' ''CASCADE'' False [],
       Mapped ''name'' (TString 200) False [], Mapped ''role'' (TString 100) False [], Mapped ''system_prompt'' TText False [],
       Mapped ''model'' (TString 80) False [], Mapped ''effort'' (TString 16) False [], Mapped ''max_tokens'' TInteger False [],
       Mapped ''tools'' TJson False [], Mapped ''is_active'' TBoolean False [], Mapped ''created_by'' (TString 36) True []] @ timestamps,
     mc_args = [TableIndex (index_def ''ix_agents_org_active'' [''org_id'', ''is_active''] False None),
       TableConstraint (CheckC (Some ''agents_effort_check'') (one_of ''effort'' [''low'', ''medium'', ''high'', ''xhigh'', ''max'']))]\<rparr>"

definition workflow_class :: model_class where
  "workflow_class = \<lparr>mc_table = ''workflows'',
     mc_columns = [
       Mapped ''id'' (TString 36) False [PrimaryKey], Reference ''org_id'' ''orgs.id'' ''CASCADE'' False [],
       Mapped ''name'' (TString 200) False [], Mapped ''description'' TText False [], Mapped ''preset'' (TString 32) False [],
       Mapped ''graph'' TJson False [], Mapped ''is_active'' TBoolean False [], Mapped ''created_by'' (TString 36) True []] @ timestamps,
     mc_args = [TableIndex (index_def ''ix_workflows_org'' [''org_id''] False None)]\<rparr>"

definition run_class :: model_class where
  "run_class = \<lparr>mc_table = ''runs'',
     mc_columns = [
       Mapped ''id'' (TString 36) False [PrimaryKey], Reference ''org_id'' ''orgs.id'' ''CASCADE'' False [],
       Reference ''workflow_id'' ''workflows.id'' ''CASCADE'' False [], Mapped ''created_by'' (TString 36) True [],
       Mapped ''status'' (TString 24) False [], Mapped ''input'' TText False [], Mapped ''output'' TText True [],
       Mapped ''error'' TText True [], Mapped ''key_mode'' (TString 16) False [], Mapped ''cost_microcents'' TBigInteger False [],
       Mapped ''cost_cents'' TInteger False [], Mapped ''billable_microcents'' TBigInteger False [],
       Mapped ''tokens_in'' TBigInteger False [], Mapped ''tokens_out'' TBigInteger False [], Mapped ''steps_used'' TInteger False [],
       Mapped ''max_steps'' TInteger False [], Mapped ''max_cost_cents'' TInteger False [],
       Mapped ''cancel_requested'' TBoolean False [], Mapped ''idempotency_key'' (TString 128) True [],
       Mapped ''started_at'' TDateTime True [], Mapped ''finished_at'' TDateTime True []] @ timestamps,
     mc_args = [TableIndex (index_def ''ix_runs_org_created'' [''org_id'', ''created_at''] False None),
       TableIndex (index_def ''ix_runs_status'' [''status''] False None),
       TableConstraint (CheckC (Some ''runs_status_check'') (one_of ''status'' [''queued'', ''running'', ''succeeded'', ''failed'', ''cancelled'', ''budget_exceeded'', ''timed_out''])),
       TableIndex (index_def ''uq_runs_idempotency'' [''org_id'', ''idempotency_key''] True (Some ''idempotency_key IS NOT NULL''))]\<rparr>"

definition run_step_class :: model_class where
  "run_step_class = \<lparr>mc_table = ''run_steps'',
     mc_columns = [
       Mapped ''id'' (TString 36) False [PrimaryKey], Reference ''run_id'' ''runs.id'' ''CASCADE'' False [Indexed],
       Mapped ''index'' TInteger False [], Mapped ''agent_id'' (TString 36) True [], Mapped ''agent_name'' (TString 200) False [],
       Mapped ''role'' (TString 100) False [], Mapped ''model'' (TString 80) False [], Mapped ''provider'' (TString 32) False [],
       Mapped ''input'' TText False [], Mapped ''output'' TText False [], Mapped ''stop_reason'' (TString 48) True [],
       Mapped ''tokens_in'' TInteger False [], Mapped ''tokens_out'' TInteger False [], Mapped ''cached_tokens'' TInteger False [],
       Mapped ''reasoning_tokens'' TInteger False [], Mapped ''cost_microcents'' TBigInteger False [],
       Mapped ''latency_ms'' TInteger False [], Mapped ''attempts'' TInteger False [], Mapped ''model_calls'' TInteger False [],
       Mapped ''tool_calls'' TInteger False []] @ timestamps,
     mc_args = [TableConstraint (UniqueC [''run_id'', ''index''] (Some ''uq_run_step_index''))]\<rparr>"

definition artifact_class :: model_class where
  "artifact_class = \<lparr>mc_table = ''artifacts'',
     mc_columns = [
       Mapped ''id'' (TString 36) False [PrimaryKey], Reference ''run_id'' ''runs.id'' ''CASCADE'' False [],
       Mapped ''org_id'' (TString 36) False [Indexed], Mapped ''path'' (TString 400) False [], Mapped ''kind'' (TString 40) False [],
       Mapped ''language'' (TString 40) True [], Mapped ''content'' TText False [], Mapped ''size_bytes'' TInteger False [],
       Mapped ''version'' TInteger False [], Mapped ''produced_by_step'' TInteger True [],
       Mapped ''produced_by_agent'' (TString 200) True []] @ timestamps,
     mc_args = [TableConstraint (UniqueC [''run_id'', ''path'', ''version''] (Some ''uq_artifact_version'')),
       TableIndex (index_def ''ix_artifacts_run_path'' [''run_id'', ''path''] False None)]\<rparr>"

definition tool_call_log_class :: model_class where
  "tool_call_log_class = \<lparr>mc_table = ''tool_calls'',
     mc_columns = [
       Mapped ''id'' (TString 36) False [PrimaryKey], Reference ''run_id'' ''runs.id'' ''CASCADE'' False [],
       Mapped ''step_index'' TInteger False [], Mapped ''call_index'' TInteger False [], Mapped ''agent_id'' (TString 36) True [],
       Mapped ''agent_name'' (TString 200) False [], Mapped ''tool'' (TString 80) False [], Mapped ''arguments'' TJson False [],
       Mapped ''result'' TText False [], Mapped ''is_error'' TBoolean False [], Mapped ''latency_ms'' TInteger False [],
       Mapped ''meta'' TJson False []] @ timestamps,
     mc_args = [TableConstraint (UniqueC [''run_id'', ''step_index'', ''call_index''] (Some ''uq_tool_call_index'')),
       TableIndex (index_def ''ix_tool_calls_run'' [''run_id''] False None)]\<rparr>"

definition credit_ledger_class :: model_class where
  "credit_ledger_class = \<lparr>mc_table = ''credit_ledger'',
     mc_columns = [
       Mapped ''id'' (TString 36) False [PrimaryKey], Reference ''org_id'' ''orgs.id'' ''CASCADE'' False [],
       Mapped ''kind'' (TString 20) False [], Mapped ''amount_cents'' TBigInteger False [],
       Mapped ''balance_after_cents'' TBigInteger False [], Mapped ''run_id'' (TString 36) True [Indexed],
       Mapped ''description'' (TString 400) False [], Mapped ''idempotency_key'' (TString 128) False [],
       Mapped ''created_by'' (TString 36) True []] @ timestamps,
     mc_args = [TableIndex (index_def ''ix_ledger_org_created'' [''org_id'', ''created_at''] False None),
       TableConstraint (UniqueC [''org_id'', ''idempotency_key''] (Some ''uq_ledger_idempotency'')),
       TableConstraint (CheckC (Some ''credit_ledger_kind_check'') (one_of ''kind'' [''topup'', ''debit'', ''refund'', ''bonus'', ''adjustment'']))]\<rparr>"

definition model_price_class :: model_class where
  "model_price_class = \<lparr>mc_table = ''model_prices'',
     mc_columns = [
       Mapped ''model'' (TString 80) False [PrimaryKey], Mapped ''input_per_mtok'' TFloat False [],
       Mapped ''output_per_mtok'' TFloat False [], Mapped ''cached_input_per_mtok'' TFloat True [],
       Mapped ''note'' (TString 300) False [], Mapped ''updated_by'' (TString 36) True []] @ timestamps,
     mc_args = []\<rparr>"

definition audit_log_class :: model_class where
  "audit_log_class = \<lparr>mc_table = ''audit_log'',
     mc_columns = [
       Mapped ''id'' (TString 36) False [PrimaryKey], Mapped ''created_at'' TDateTime False [], Mapped ''org_id'' (TString 36) True [],
       Mapped ''actor_user_id'' (TString 36) True [], Mapped ''action'' (TString 80) False [],
       Mapped ''target_type'' (TString 60) True [], Mapped ''target_id'' (TString 64) True [],
       Mapped ''ip_address'' (TString 64) True [], Mapped ''user_agent'' (TString 400) True [], Mapped ''detail'' TJson False []],
     mc_args = [TableIndex (index_def ''ix_audit_org_created'' [''org_id'', ''created_at''] False None)]\<rparr>"

definition METADATA :: "model_class list" where
  "METADATA = [org_class, user_class, membership_class, refresh_token_class, api_key_class, agent_class, workflow_class, run_class,
     run_step_class, artifact_class, tool_call_log_class, credit_ledger_class, model_price_class, audit_log_class]"

definition declared_tables :: database where
  "declared_tables = map (declared_table METADATA) METADATA"

subsection \<open>The schema of the migrations is the schema of the models\<close>

definition unnamed :: "tb_constraint \<Rightarrow> tb_constraint" where
  "unnamed k = (case k of CheckC _ s \<Rightarrow> CheckC None s | _ \<Rightarrow> k)"

text \<open>Tables that differ at most in the order of columns, constraints and indexes and in the names of checks.\<close>

definition same_table :: "db_table \<Rightarrow> db_table \<Rightarrow> bool" where
  "same_table t u \<longleftrightarrow> tb_name t = tb_name u \<and> set (tb_columns t) = set (tb_columns u) \<and>
     set (map unnamed (tb_constraints t)) = set (map unnamed (tb_constraints u)) \<and> set (tb_indexes t) = set (tb_indexes u) \<and>
     tb_rows t = tb_rows u"

definition same_tables :: "database \<Rightarrow> database \<Rightarrow> bool" where
  "same_tables s r \<longleftrightarrow> length s = length r \<and> list_all (\<lambda>t. list_ex (same_table t) r) s \<and> list_all (\<lambda>u. list_ex (same_table u) s) r"

definition schema_0001 :: database where
  "schema_0001 = (case run_ops upgrade_0001 [] of Some s \<Rightarrow> s | None \<Rightarrow> [])"

definition schema_0002 :: database where
  "schema_0002 = (case run_ops upgrade_0002 schema_0001 of Some s \<Rightarrow> s | None \<Rightarrow> [])"

text \<open>What the second migration needs of the first.\<close>

definition foreign_targets :: "string list" where
  "foreign_targets = [''orgs.id'', ''users.id'', ''workflows.id'', ''runs.id'']"

definition before_0002 :: "database \<Rightarrow> bool" where
  "before_0002 s \<longleftrightarrow> ''tool_calls'' \<notin> set (map tb_name s) \<and> ''run_steps'' \<in> set (map tb_name s) \<and>
     ''runs.id'' \<in> set (concat (map column_paths s)) \<and> ''ix_tool_calls_run'' \<notin> set (concat (map (\<lambda>t. map ix_name (tb_indexes t)) s)) \<and>
     list_all (\<lambda>r. r \<in> set foreign_targets) (concat (map references s)) \<and>
     list_all (\<lambda>t. tb_name t = ''run_steps'' \<longrightarrow> list_all (\<lambda>c. c \<notin> set (names t) \<and> c \<notin> set (concat (map own_columns (tb_constraints t))) \<and>
        c \<notin> set (concat (map ix_columns (tb_indexes t)))) [''model_calls'', ''tool_calls'']) s"

lemma run_0001:
  "run_ops upgrade_0001 [] = Some schema_0001 \<and> run_ops downgrade_0001 schema_0001 = Some [] \<and> before_0002 schema_0001 \<and>
     list_all (\<lambda>t. tb_rows t = []) schema_0001 \<and> length (filter (\<lambda>t. tb_name t = ''run_steps'') schema_0001) = 1"
  by code_simp

lemma run_0002: "run_ops upgrade_0002 schema_0001 = Some schema_0002 \<and> same_tables schema_0002 declared_tables"
  by code_simp

subsection \<open>The second migration over data\<close>

text \<open>Altering the tables of a name; a chain of alterations is one alteration.\<close>

definition on_table :: "string \<Rightarrow> (db_table \<Rightarrow> db_table) \<Rightarrow> database \<Rightarrow> database" where
  "on_table name f s = map (\<lambda>t. if tb_name t = name then f t else t) s"

lemma alter_on:
  "t \<in> set s \<Longrightarrow> tb_name t = name \<Longrightarrow> p (f t) \<Longrightarrow> (\<And>u. tb_name (f u) = tb_name u) \<Longrightarrow>
     alter name p g (on_table name f s @ r) = Some (on_table name (\<lambda>u. g (f u)) s @ on_table name g r)"
  by (auto simp: alter_def on_table_def list_ex_iff)

lemma on_table_other: "name \<notin> set (map tb_name s) \<Longrightarrow> on_table name f s = s"
  by (induction s) (auto simp: on_table_def)

lemma on_table_same: "(\<And>t. t \<in> set s \<Longrightarrow> tb_name t = name \<Longrightarrow> f t = t) \<Longrightarrow> on_table name f s = s"
  by (induction s) (auto simp: on_table_def)

lemma on_table_cong: "(\<And>t. t \<in> set s \<Longrightarrow> tb_name t = name \<Longrightarrow> f t = g t) \<Longrightarrow> on_table name f s = on_table name g s"
  by (induction s) (auto simp: on_table_def)

lemma on_table_id [simp]: "on_table name (\<lambda>t. t) s = s"
  by (simp add: on_table_def cong: if_cong)

text \<open>A database without its rows, and rows that have the columns of their table.\<close>

definition emptied :: "db_table \<Rightarrow> db_table" where
  "emptied t = t\<lparr>tb_rows := []\<rparr>"

definition rows_fit :: "db_table \<Rightarrow> bool" where
  "rows_fit t \<longleftrightarrow> list_all (\<lambda>r. map fst r = names t) (tb_rows t)"

lemma emptied_simps [simp]: "tb_name (emptied t) = tb_name t" "tb_columns (emptied t) = tb_columns t" "names (emptied t) = names t"
  "tb_constraints (emptied t) = tb_constraints t" "tb_indexes (emptied t) = tb_indexes t" "references (emptied t) = references t"
  "column_paths (emptied t) = column_paths t" "tb_rows (emptied t) = []"
  by (simp_all add: emptied_def names_def references_def column_paths_def)

lemma before_emptied: "before_0002 (map emptied s) = before_0002 s"
  by (simp add: before_0002_def comp_def list_all_iff)

definition counted :: "jobj \<Rightarrow> jobj" where
  "counted r = r @ [(''model_calls'', JInt 1), (''tool_calls'', JInt 0)]"

definition counting :: "db_table \<Rightarrow> db_table" where
  "counting t = t\<lparr>tb_columns := tb_columns t @ [col ''model_calls'' TInteger False, col ''tool_calls'' TInteger False],
     tb_rows := map counted (tb_rows t)\<rparr>"

definition tool_calls_table :: db_table where
  "tool_calls_table = \<lparr>tb_name = ''tool_calls'', tb_columns = [
       col ''id'' (TString 36) False, col ''run_id'' (TString 36) False, col ''step_index'' TInteger False,
       col ''call_index'' TInteger False, col ''agent_id'' (TString 36) True, col ''agent_name'' (TString 200) False,
       col ''tool'' (TString 80) False, col ''arguments'' TJson False, col ''result'' TText False, col ''is_error'' TBoolean False,
       col ''latency_ms'' TInteger False, col ''meta'' TJson False, col ''created_at'' TDateTime False,
       col ''updated_at'' TDateTime False],
     tb_constraints = [ForeignKeyC [''run_id''] [''runs.id''] ''CASCADE'', PrimaryKeyC [''id''],
       UniqueC [''run_id'', ''step_index'', ''call_index''] (Some ''uq_tool_call_index'')],
     tb_indexes = [index_def ''ix_tool_calls_run'' [''run_id''] False None], tb_rows = []\<rparr>"

lemma literals: "json_loads ''1'' = Some (JInt 1)" "json_loads ''0'' = Some (JInt 0)"
  by code_simp+

lemma before_0002D:
  assumes "before_0002 s"
  shows "''tool_calls'' \<notin> set (map tb_name s)" "\<exists>t \<in> set s. tb_name t = ''run_steps''" "\<exists>t \<in> set s. ''runs.id'' \<in> set (column_paths t)"
    "t \<in> set s \<Longrightarrow> ''ix_tool_calls_run'' \<notin> ix_name ` set (tb_indexes t)" "t \<in> set s \<Longrightarrow> set (references t) \<subseteq> set foreign_targets"
    "t \<in> set s \<Longrightarrow> tb_name t = ''run_steps'' \<Longrightarrow> c = ''model_calls'' \<or> c = ''tool_calls'' \<Longrightarrow> c \<notin> set (names t) \<and>
       (\<forall>k \<in> set (tb_constraints t). c \<notin> set (own_columns k)) \<and> (\<forall>ix \<in> set (tb_indexes t). c \<notin> set (ix_columns ix))"
  using assms by (auto simp: before_0002_def list_all_iff)

lemma upgrade_0002_before:
  assumes "before_0002 s"
  shows "run_ops upgrade_0002 s = Some (on_table ''run_steps'' counting s @ [tool_calls_table])"
proof -
  note d = before_0002D [OF assms]
  let ?ix = "index_def ''ix_tool_calls_run'' [''run_id''] False None"
  let ?tc = "tool_calls_table\<lparr>tb_indexes := []\<rparr>"
  obtain t where t: "t \<in> set s" "tb_name t = ''run_steps''" using d(2) by blast
  have fresh: "''model_calls'' \<notin> cl_name ` set (tb_columns t)" "''tool_calls'' \<notin> cl_name ` set (tb_columns t)"
    using d(6) [OF t] by (auto simp: names_def)
  have table: "create_table ''tool_calls'' (tb_columns ?tc) (tb_constraints ?tc) s = Some (s @ [?tc])"
    using d(1,3) by (auto simp: create_table_def Let_def tool_calls_table_def names_def references_def col_def)
  have "create_index ''tool_calls'' ?ix (s @ [?tc]) = Some (on_table ''tool_calls'' (\<lambda>t. t\<lparr>tb_indexes := tb_indexes t @ [?ix]\<rparr>) (s @ [?tc]))"
    using d(4) by (auto simp: create_index_def alter_def on_table_def index_def_def names_def tool_calls_table_def col_def)
  also have "\<dots> = Some (s @ [tool_calls_table])"
    using on_table_other [OF d(1)] by (simp add: on_table_def tool_calls_table_def)
  finally have index: "create_index ''tool_calls'' ?ix (s @ [?tc]) = Some (s @ [tool_calls_table])" .
  have other: "on_table ''run_steps'' f [tool_calls_table] = [tool_calls_table]" for f
    by (simp add: on_table_def tool_calls_table_def)
  have plain: "map ((\<lambda>k. if cl_name k = c then k\<lparr>cl_default := None\<rparr> else k) \<circ> (\<lambda>k. if cl_name k = e then k\<lparr>cl_default := None\<rparr> else k)) ks = ks"
    if "c \<notin> cl_name ` set ks" "e \<notin> cl_name ` set ks" for c e ks
    using that by (auto intro!: map_idI)
  have steps: "on_table ''run_steps'' f s = on_table ''run_steps'' counting s" if "\<And>u. ''model_calls'' \<notin> set (names u) \<Longrightarrow>
      ''tool_calls'' \<notin> set (names u) \<Longrightarrow> f u = counting u" for f
  proof (rule on_table_cong)
    fix u assume "u \<in> set s" "tb_name u = ''run_steps''"
    from d(6) [OF this] show "f u = counting u" by (intro that) simp_all
  qed
  have "run_ops run_steps_0002 (on_table ''run_steps'' (\<lambda>t. t) s @ [tool_calls_table]) = Some (on_table ''run_steps'' counting s @ [tool_calls_table])"
    unfolding run_steps_0002_def run_ops.simps add_column_def drop_default_def
    by (simp add: alter_on [OF t] other fresh names_def col_default_def del: on_table_id)
      (rule steps, rule db_table.equality, simp_all add: counting_def counted_def names_def col_def initial_value_def literals
        comp_def plain [unfolded comp_def])
  then show ?thesis using table index
    by (simp add: upgrade_0002_def run_ops_append tool_calls_0002_def) (simp add: tool_calls_table_def)
qed

lemma downgrade_0002_before:
  assumes "before_0002 s" "list_all rows_fit s"
  shows "run_ops downgrade_0002 (on_table ''run_steps'' counting s @ [tool_calls_table]) = Some s"
proof -
  note d = before_0002D [OF assms(1)]
  obtain t where t: "t \<in> set s" "tb_name t = ''run_steps''" using d(2) by blast
  let ?drop = "\<lambda>c t. t\<lparr>tb_columns := filter (\<lambda>k. cl_name k \<noteq> c) (tb_columns t),
     tb_constraints := filter (\<lambda>k. c \<notin> set (own_columns k)) (tb_constraints t),
     tb_indexes := filter (\<lambda>ix. c \<notin> set (ix_columns ix)) (tb_indexes t), tb_rows := map (filter (\<lambda>(k, v). k \<noteq> c)) (tb_rows t)\<rparr>"
  have other: "on_table ''run_steps'' f [tool_calls_table] = [tool_calls_table]" for f
    by (simp add: on_table_def tool_calls_table_def)
  have restored: "on_table ''run_steps'' (\<lambda>u. ?drop ''model_calls'' (?drop ''tool_calls'' (counting u))) s = s"
  proof (rule on_table_same)
    fix u assume u: "u \<in> set s" "tb_name u = ''run_steps''"
    then have fit: "\<And>r. r \<in> set (tb_rows u) \<Longrightarrow> map fst r = names u" using assms(2) by (simp add: rows_fit_def list_all_iff)
    have gone: "filter (\<lambda>(k, v). k \<noteq> ''model_calls'') (filter (\<lambda>(k, v). k \<noteq> ''tool_calls'') (counted r)) = r" if "r \<in> set (tb_rows u)" for r
    proof -
      have "\<forall>kv \<in> set r. fst kv \<noteq> ''model_calls'' \<and> fst kv \<noteq> ''tool_calls''"
        using d(6) [OF u] fit [OF that] by (metis (no_types, lifting) image_eqI list.set_map)
      then show ?thesis by (simp add: counted_def case_prod_unfold filter_id_conv)
    qed
    have cols: "\<forall>k \<in> set (tb_columns u). cl_name k \<noteq> ''model_calls'' \<and> cl_name k \<noteq> ''tool_calls''" using d(6) [OF u] by (auto simp: names_def)
    show "?drop ''model_calls'' (?drop ''tool_calls'' (counting u)) = u"
      using d(6) [OF u] cols gone by (intro db_table.equality) (simp_all add: counting_def col_def filter_id_conv map_idI)
  qed
  have no_ref: "''run_steps'' @ ''.'' @ c \<notin> set (concat (map references (on_table ''run_steps'' f s @ [tool_calls_table])))"
    if "\<And>u. set (references (f u)) \<subseteq> set (references u)" for c f
    using that d(5) by (fastforce simp: on_table_def foreign_targets_def references_def tool_calls_table_def split: if_splits)
  have drop: "drop_column ''run_steps'' c (on_table ''run_steps'' f s @ [tool_calls_table]) =
      Some (on_table ''run_steps'' (\<lambda>u. ?drop c (f u)) s @ [tool_calls_table])"
    if "\<And>u. set (references (f u)) \<subseteq> set (references u)" "\<And>u. tb_name (f u) = tb_name u" "c \<in> set (names (f t))" for c f
    by (simp only: drop_column_def no_ref [OF that(1)] if_False alter_on [OF t] that(2,3) other)
  have one: "drop_column ''run_steps'' ''tool_calls'' (on_table ''run_steps'' counting s @ [tool_calls_table]) =
      Some (on_table ''run_steps'' (\<lambda>u. ?drop ''tool_calls'' (counting u)) s @ [tool_calls_table])"
    by (rule drop) (simp_all add: counting_def names_def references_def col_def)
  have two: "drop_column ''run_steps'' ''model_calls'' (on_table ''run_steps'' (\<lambda>u. ?drop ''tool_calls'' (counting u)) s @ [tool_calls_table]) =
      Some (s @ [tool_calls_table])"
    using drop [of "\<lambda>u. ?drop ''tool_calls'' (counting u)" "''model_calls''"] restored
    by (auto simp: counting_def names_def references_def col_def)
  have three: "drop_index ''tool_calls'' ''ix_tool_calls_run'' (s @ [tool_calls_table]) = Some (s @ [tool_calls_table\<lparr>tb_indexes := []\<rparr>])"
    using on_table_other [OF d(1)] by (simp add: drop_index_def alter_def on_table_def tool_calls_table_def index_def_def)
  have four: "drop_table ''tool_calls'' (s @ [tool_calls_table\<lparr>tb_indexes := []\<rparr>]) = Some s"
  proof -
    have "filter (\<lambda>u. tb_name u \<noteq> ''tool_calls'') s = s" "filter (\<lambda>u. tb_name u = ''tool_calls'') s = []"
      using d(1) by (force simp: filter_id_conv filter_empty_conv)+
    moreover have "set (concat (map references s)) \<inter> set (column_paths (tool_calls_table\<lparr>tb_indexes := []\<rparr>)) = {}"
    proof -
      have "set foreign_targets \<inter> set (column_paths (tool_calls_table\<lparr>tb_indexes := []\<rparr>)) = {}"
        by (simp add: foreign_targets_def column_paths_def names_def tool_calls_table_def)
      then show ?thesis using d(5) by fastforce
    qed
    ultimately show ?thesis by (simp add: drop_table_def tool_calls_table_def)
  qed
  show ?thesis by (simp add: downgrade_0002_def one two three four)
qed

lemma emptied_counting: "map emptied (on_table ''run_steps'' counting s) = on_table ''run_steps'' counting (map emptied s)"
  by (auto simp: on_table_def emptied_def counting_def)

lemma revisions_from:
  "upgrade_head REVISIONS None s = (case run_ops upgrade_0001 s of None \<Rightarrow> None | Some s' \<Rightarrow> upgrade_head REVISIONS (Some ''0001_initial'') s')"
  "upgrade_head REVISIONS (Some ''0001_initial'') s = map_option (Pair (Some ''0002_tool_calls'')) (run_ops upgrade_0002 s)"
  "downgrade_one REVISIONS (Some ''0001_initial'') s = map_option (Pair None) (run_ops downgrade_0001 s)"
  "downgrade_one REVISIONS (Some ''0002_tool_calls'') s = map_option (Pair (Some ''0001_initial'')) (run_ops downgrade_0002 s)"
  by (auto simp: REVISIONS_def revision_0001_def revision_0002_def downgrade_one_def split: option.splits)

lemma schema_0002_is: "schema_0002 = on_table ''run_steps'' counting schema_0001 @ [tool_calls_table]"
  using upgrade_0002_before run_0001 run_0002 by simp

text \<open>C38. The migrations and the models agree: upgrading an empty database to the head runs without error and leaves exactly the
  tables that the classes declare, with the same columns (types, nullability, no server default), keys, foreign keys, uniqueness and
  check texts, and indexes; only the names of the checks differ. Downgrading twice leaves the empty database.\<close>

theorem migrations_build_the_models:
  "\<exists>s t. upgrade_head REVISIONS None [] = Some (Some ''0002_tool_calls'', s) \<and> same_tables s declared_tables \<and>
     downgrade_one REVISIONS (Some ''0002_tool_calls'') s = Some (Some ''0001_initial'', t) \<and>
     downgrade_one REVISIONS (Some ''0001_initial'') t = Some (None, [])"
  using run_0001 run_0002 downgrade_0002_before [of schema_0001]
  by (simp add: revisions_from schema_0002_is rows_fit_def list_all_iff)

definition table_rows :: "string \<Rightarrow> database \<Rightarrow> jobj list" where
  "table_rows name s = concat (map tb_rows (filter (\<lambda>t. tb_name t = name) s))"

lemma table_rows_counting:
  "table_rows ''run_steps'' (on_table ''run_steps'' counting s @ [tool_calls_table]) = map counted (table_rows ''run_steps'' s)"
  by (induction s) (auto simp: table_rows_def on_table_def counting_def tool_calls_table_def)

lemma fit_counting: "list_all rows_fit s \<Longrightarrow> list_all rows_fit (on_table ''run_steps'' counting s @ [tool_calls_table])"
  by (auto simp: list_all_iff rows_fit_def on_table_def counting_def counted_def names_def col_def tool_calls_table_def)

text \<open>C39. The second migration keeps data: on any database of the first revision, however filled, it runs without error and leaves the
  schema of a freshly built database; every other table keeps its rows, the step rows are kept with one model call and no tool call,
  and downgrading restores the database it started from, rows included.\<close>

theorem second_migration_keeps_data:
  assumes "map emptied d = schema_0001" "list_all rows_fit d"
  shows "\<exists>d'. upgrade_head REVISIONS (Some ''0001_initial'') d = Some (Some ''0002_tool_calls'', d') \<and>
     map emptied d' = schema_0002 \<and> list_all rows_fit d' \<and> (\<forall>t \<in> set d. tb_name t \<noteq> ''run_steps'' \<longrightarrow> t \<in> set d') \<and>
     table_rows ''run_steps'' d' = map counted (table_rows ''run_steps'' d) \<and>
     downgrade_one REVISIONS (Some ''0002_tool_calls'') d' = Some (Some ''0001_initial'', d)"
proof -
  have b: "before_0002 d" using run_0001 before_emptied [of d] assms(1) by simp
  have schema: "map emptied (on_table ''run_steps'' counting d @ [tool_calls_table]) = schema_0002"
    by (simp add: emptied_counting assms(1) schema_0002_is) (simp add: emptied_def tool_calls_table_def)
  have others: "\<forall>t \<in> set d. tb_name t \<noteq> ''run_steps'' \<longrightarrow> t \<in> set (on_table ''run_steps'' counting d @ [tool_calls_table])"
    by (auto simp: on_table_def)
  show ?thesis
    by (intro exI [of _ "on_table ''run_steps'' counting d @ [tool_calls_table]"] conjI schema others fit_counting assms(2) table_rows_counting)
      (simp_all only: revisions_from upgrade_0002_before [OF b] downgrade_0002_before [OF b assms(2)] option.map)
qed

definition filled :: "db_table \<Rightarrow> db_table" where
  "filled t = t\<lparr>tb_rows := [map (\<lambda>c. (c, JNull)) (names t)]\<rparr>"

theorem second_migration_keeps_data_witness:
  "\<exists>d'. upgrade_head REVISIONS (Some ''0001_initial'') (map filled schema_0001) = Some (Some ''0002_tool_calls'', d') \<and>
     map emptied d' = schema_0002 \<and> length (table_rows ''run_steps'' d') = 1 \<and>
     downgrade_one REVISIONS (Some ''0002_tool_calls'') d' = Some (Some ''0001_initial'', map filled schema_0001)"
proof -
  have e: "map emptied (map filled schema_0001) = schema_0001" and f: "list_all rows_fit (map filled schema_0001)"
    using run_0001 by (auto simp: filled_def emptied_def rows_fit_def names_def list_all_iff comp_def intro!: map_idI)
  have "length (table_rows ''run_steps'' (map filled schema_0001)) = 1"
    using run_0001 by (simp add: table_rows_def filter_map comp_def filled_def)
  then show ?thesis using second_migration_keeps_data [OF e f] by auto
qed

end
