(* ===== verification/Spec2Isabelle.thy ===== *)
theory Spec2Isabelle
  imports Samples Json_Loads Config Service Secrets Saved_Work Admin_Api Shell Web_Guard Adapter_Facts Scripts Migrations
begin

text \<open>
  A verification library for llm\_office, a service in which teams of language-model agents work on
  a task. It models the program's own logic; the sources are under \<^verbatim>\<open>src/\<close>.

  \<^bold>\<open>The program.\<close> Accounts belong to organisations and sign in with rotating tokens
  (\<^verbatim>\<open>api/routers/auth.py\<close>, \<^verbatim>\<open>core/security.py\<close>). An organisation configures agents and workflows
  (\<^verbatim>\<open>api/routers/agents.py\<close>, \<^verbatim>\<open>workflows.py\<close>), stores provider keys that are encrypted under a master key
  (\<^verbatim>\<open>keys.py\<close>, \<^verbatim>\<open>core/crypto.py\<close>), and submits a run of a workflow (\<^verbatim>\<open>api/routers/runs.py\<close>); a worker
  (\<^verbatim>\<open>worker/main.py\<close>) claims it under a ceiling of concurrent runs (\<^verbatim>\<open>core/ratelimit.py\<close>)
  and executes it in one transaction (\<^verbatim>\<open>core/runner.py\<close>). The workflow names one of six topologies
  (\<^verbatim>\<open>core/orchestration/presets.py\<close>), which decide which agent takes the next turn. A turn
  (\<^verbatim>\<open>core/orchestration/engine.py\<close>) checks the budget, builds a prompt from the shared board, calls a
  model through the router (\<^verbatim>\<open>core/llm\<close>), runs the tools it asks for (\<^verbatim>\<open>core/tools\<close>), captures the files
  in its answer and hands records to the database. Every step is an event on a bus
  (\<^verbatim>\<open>core/events.py\<close>) that clients follow. At the end the organisation is charged on an append-only
  ledger (\<^verbatim>\<open>core/billing.py\<close>).

  \<^bold>\<open>Theories of a run.\<close>
  \<^item> \<open>Prelude\<close>: dictionaries, the effect type (mutation kept by an exception), loops, the frame calculus.
  \<^item> \<open>Py_String\<close>, \<open>Json\<close>, \<open>Json_Loads\<close>, \<open>Regex\<close>, \<open>Float64\<close>: what the code uses of Python's strings, JSON,
    regular expressions and doubles, all executable. \<open>Errors\<close>: the exceptions as values.
  \<^item> \<open>Artifacts\<close>, \<open>Run_State\<close>, \<open>Budget\<close>, \<open>Events\<close>, \<open>Config\<close>, \<open>Registry\<close>, \<open>Pricing\<close>, \<open>Models\<close>, \<open>Router\<close>,
    \<open>Tools\<close>, \<open>Billing\<close>, \<open>Audit_Log\<close>: one component each, named after its module.
  \<^item> \<open>Engine\<close> and \<open>Presets\<close>: the turn and the topologies. \<open>Engine_Frames\<close>: the contracts
    \<open>engine_core\<close>, \<open>engine_frame\<close> and \<open>topology_frame\<close> - what a relation on states owes the primitive
    steps so that whole turns and whole topologies keep it. \<open>Engine_Invariants\<close>: their interpretations
    (store, bus, ceilings, growth, turn numbers) and the interpretation of the tools' \<open>artifact_store\<close>
    on the engine's writer. \<open>Topologies\<close>: turn bounds, task order, reachability in custom graphs.
  \<^item> \<open>Web\<close>: \<^verbatim>\<open>core/tools/web.py\<close> with the parts of \<open>urlparse\<close> and \<open>ipaddress\<close> it depends on; \<open>Web_Guard\<close>: what
    the guard against forged requests lets through.
  \<^item> \<open>Runner\<close>: claim, execution, settlement, orphan sweep. \<open>Samples\<close>: inputs of the witnesses.

  \<^bold>\<open>Theories of the service.\<close>
  \<^item> \<open>Ratelimit\<close>: sliding window, concurrency slots and their interleavings. \<open>Http\<close>: sessions, handlers, commit and rollback,
    the dependencies of the routes (\<^verbatim>\<open>api/deps.py\<close>). \<open>Worker\<close>: the job and its sweeps.
  \<^item> \<open>Auth\<close>, \<open>Auth_Facts\<close>: registration, sign-in, refresh, sign-out, and the tokens they leave. \<open>Orgs\<close>: settings,
    members, roles and credit. \<open>Runs_Api\<close>: submission, cancellation, reading.
  \<^item> \<open>Crypto\<close>: base 64, the envelope around an AEAD cipher and the rotation of master keys (also
    \<^verbatim>\<open>scripts/rotate_keys.py\<close>). \<open>Keys_Api\<close>, \<open>Agents_Api\<close>, \<open>Workflows_Api\<close>, \<open>Admin_Api\<close>: the other routers with their
    request schemas (\<^verbatim>\<open>api/schemas.py\<close>). \<open>Shell\<close>: exception handlers, middleware and health of the application.
  \<^item> \<open>Api_Samples\<close>: a server for witnesses. \<open>Service\<close>, \<open>Secrets\<close>, \<open>Saved_Work\<close>: the properties of accounts,
    organisations, runs and slots; of stored keys; of saved agents and workflows.

  \<^bold>\<open>Conventions.\<close> The outside is an argument: the vendor's replies, clocks, cancellation flag, faults of
  the database and the bus, the scheduler of concurrent tool calls and decryption are functions of a
  tick counter, so the theorems hold for all of them. Money is \<open>int\<close> (Python's integers) in
  microcents; prices go through \<open>fl\<close>, rounding to 53 bits. Points in time are integer microseconds.
  Errors are \<open>Inl\<close> values. Loops are structural on a number of remaining rounds taken from the
  graph; the interpreter of regular expressions and the JSON parser have fuel linear in the text
  (\<open>2 * length + 2\<close> for JSON), which every step consumes less of than it consumes of the text.
  A handler is a function on a session of the database and the server: \<open>serve\<close> commits what it did when it returns
  and rolls the rows back when it raises, unless it committed earlier; what Redis and the queue were given stays. Clocks, random
  text, password hashing, signing and digests of the API are fields of \<open>web\<close>, the cipher and its random source of
  \<open>cipher\<close>, resolver, HTTP client, byte decoder and HTML tokens of \<open>network\<close>; what is assumed of them is a
  hypothesis of the theorem that needs it (\<open>aead_ok\<close>, \<open>urandom_ok\<close>).

  \<^bold>\<open>Not modelled.\<close> Vendor adapters translate to and from vendor SDKs; parsing and rendering of requests and responses
  and the CORS and trusted-host middleware are the framework's; columns, indexes and migrations are scripts
  for the database; logging, metrics and process configuration are output. Of the operator scripts only
  key rotation is modelled. Two requests to the API are interleaved only where the
  code shares state outside the database (limits and slots); a request is otherwise one step.
\<close>

section \<open>Runs\<close>

text \<open>C1. A queued run whose execution returns ends in a terminal status, finished, with the totals of
  exactly the steps that execution persisted, and an audit entry of the same status. Without a lost
  race on the ledger.\<close>

theorem run_ends_terminal:
  assumes "get_run_row d i = Some r0" "rn_status r0 = ''queued''" "xo_races xo = []"
    and "execute_run xo i (d, bus) = (Inr u, d', bus')"
  shows "\<exists>r new. get_run_row d' i = Some r \<and> is_terminal (rn_status r) \<and>
     rn_finished_at r = Some (xo_finished_at xo) \<and>
     db_run_steps d' = db_run_steps d @ new \<and> (\<forall>s \<in> set new. rs_run_id s = i) \<and>
     rn_tokens_in r = sum_list (map rs_tokens_in new) \<and> rn_tokens_out r = sum_list (map rs_tokens_out new) \<and>
     (\<exists>a. last (db_audit d') = a \<and> au_action a = ''run.finished'' \<and> au_target_id a = Some i \<and>
        dget (au_detail a) ''status'' = Some (JStr (rn_status r)))"
proof -
  obtain b :: budget_guard and s st err e d1 d2 where st: "is_terminal st"
    and row: "get_run_row d1 i = Some (finished_run xo s st err (r0\<lparr>rn_status := ''running'',
           rn_started_at := Some (xo_started_at xo), rn_max_steps := max_steps b,
           rn_max_cost_cents := max_cost_microcents b div 1000000\<rparr>))"
    and steps: "db_run_steps d1 = db_run_steps d @ map (step_row i) (es_steps s)"
    and ch: "charge_run (xo_settings xo) [] (xo_ledger_id xo) (rn_org_id r0) i (total_of sr_billable_microcents s) d1 = (Inr e, d2)"
    and d': "d' = audit_record (finished_audit r0 s st) d2"
    by (rule execute_run_settled [OF assms(4,1,2,3)]) (rule that)
  note w = charge_same_work [OF ch]
  have "get_run_row d' i = get_run_row d1 i" "db_run_steps d' = db_run_steps d1"
    using w by (simp_all add: d' same_work_def get_run_row_def audit_record_def)
  moreover have "rn_id r0 = i" using assms(1) row_get_Some [of rn_id i] by (auto simp: get_run_row_def)
  ultimately show ?thesis using row steps st
    by (simp add: finished_run_def total_of_def step_row_def comp_def d' audit_record_def finished_audit_def audit_keys_plain)
qed

theorem run_ends_terminal_witness:
  "\<exists>d' bus' r. execute_run sample_outside ''r1'' (stale_db, new_bus ''r1'') = (Inr (), d', bus') \<and>
     get_run_row d' ''r1'' = Some r \<and> is_terminal (rn_status r)"
proof -
  obtain d' bus' where "execute_run sample_outside ''r1'' (stale_db, new_bus ''r1'') = (Inr (), d', bus')"
    using stale_run_settles by (metis prod.collapse)
  with run_ends_terminal [OF stale_run_queued this] show ?thesis by blast
qed

text \<open>C2. A settled run is charged exactly once for what its persisted steps cost the organisation: the
  balance falls by the billable amount of the row rounded up to whole cents, the ledger gains at most
  one entry, keyed by the run, and the ledger invariant holds again.\<close>

theorem run_charged_once:
  assumes "get_run_row d i = Some r0" "rn_status r0 = ''queued''" "xo_races xo = []" "ledger_ok d"
    and "find_entry d (rn_org_id r0) (''run:'' @ i) = None" "cfg_billing_enabled (xo_settings xo)"
    and "execute_run xo i (d, bus) = (Inr u, d', bus')"
  shows "\<exists>r. get_run_row d' i = Some r \<and> ledger_ok d' \<and>
     balance d' (rn_org_id r0) = balance d (rn_org_id r0) - microcents_to_cents (rn_billable_microcents r) \<and>
     length (db_ledger d') \<le> Suc (length (db_ledger d)) \<and>
     (0 < rn_billable_microcents r \<longrightarrow> (\<exists>e. find_entry d' (rn_org_id r0) (''run:'' @ i) = Some e \<and>
        lg_amount_cents e = - microcents_to_cents (rn_billable_microcents r)))"
proof -
  obtain b :: budget_guard and s st err e d1 d2 where
    row: "get_run_row d1 i = Some (finished_run xo s st err (r0\<lparr>rn_status := ''running'',
           rn_started_at := Some (xo_started_at xo), rn_max_steps := max_steps b,
           rn_max_cost_cents := max_cost_microcents b div 1000000\<rparr>))"
    and same: "db_ledger d1 = db_ledger d" "db_orgs d1 = db_orgs d"
    and ch: "charge_run (xo_settings xo) [] (xo_ledger_id xo) (rn_org_id r0) i (total_of sr_billable_microcents s) d1 = (Inr e, d2)"
    and d': "d' = audit_record (finished_audit r0 s st) d2"
    by (rule execute_run_settled [OF assms(7,1,2,3)]) (rule that)
  let ?org = "rn_org_id r0" let ?m = "total_of sr_billable_microcents s"
  have ok1: "ledger_ok d1" using assms(4) same by (simp add: ledger_ok_def entries_def ledger_sum_def)
  have none: "find_entry d1 ?org (''run:'' @ i) = None" using assms(5) same by (simp add: find_entry_def)
  have bal: "balance d1 ?org = balance d ?org" using same by (simp add: balance_def get_org_def)
  have lift: "ledger_ok d' = ledger_ok d2" "balance d' ?org = balance d2 ?org" "db_ledger d' = db_ledger d2"
    "find_entry d' ?org k = find_entry d2 ?org k" "get_run_row d' i = get_run_row d1 i" for k
    using charge_same_work [OF ch] by (simp_all add: d' audit_record_def ledger_ok_def entries_def ledger_sum_def balance_def
        get_org_def find_entry_def same_work_def get_run_row_def)
  from charge_outcome [OF ch assms(6) ok1 none] show ?thesis
    using row unfolding lift by (simp add: finished_run_def bal same(1) [symmetric])
qed

theorem run_charged_once_witness:
  "\<exists>d' bus' r. execute_run sample_outside ''r1'' (stale_db, new_bus ''r1'') = (Inr (), d', bus') \<and>
     get_run_row d' ''r1'' = Some r \<and> ledger_ok d'"
proof -
  obtain d' bus' where "execute_run sample_outside ''r1'' (stale_db, new_bus ''r1'') = (Inr (), d', bus')"
    using stale_run_settles by (metis prod.collapse)
  with run_charged_once [OF stale_run_queued sample_ledger_ok _ _ this] show ?thesis
    by (auto simp: find_entry_def stale_db_def sample_db_def sample_grant_def sample_run_def sample_outside_def
        sample_settings_def default_settings_def)
qed

text \<open>A delivery of a run that is not queued changes
  nothing, neither in the database nor on the bus.\<close>

theorem duplicate_delivery_is_noop:
  assumes "get_run_row d i = Some r0" "rn_status r0 \<noteq> ''queued''"
  shows "execute_run xo i (d, bus) = (Inr (), d, bus)"
  using assms by (simp add: execute_run_def claim_def)

theorem duplicate_delivery_is_noop_witness:
  "execute_run sample_outside ''r1'' (set_run_row ''r1'' (\<lambda>r. r\<lparr>rn_status := ''running''\<rparr>) stale_db, new_bus ''r1'')
     = (Inr (), set_run_row ''r1'' (\<lambda>r. r\<lparr>rn_status := ''running''\<rparr>) stale_db, new_bus ''r1'')"
  by (rule duplicate_delivery_is_noop [of _ _ "sample_run\<lparr>rn_status := ''running''\<rparr>"])
    (simp_all add: get_run_set stale_run_queued(1))

text \<open>An execution that raises leaves the database as it found it: no half-written run, no charge.\<close>

theorem failed_execution_rolls_back:
  assumes "execute_run xo i (d, bus) = (Inl e, d', bus')"
  shows "d' = d"
  using assms by (auto simp: execute_run_def claim_def Let_def split: option.splits if_splits sum.splits prod.splits)

theorem failed_execution_rolls_back_witness:
  "fst (snd (execute_run sample_outside ''r9'' (stale_db, new_bus ''r9''))) = stale_db"
proof -
  have "execute_run sample_outside ''r9'' (stale_db, new_bus ''r9'')
      = (Inl (ValueError ''run r9 not found''), stale_db, new_bus ''r9'')"
    by (simp add: execute_run_def claim_def get_run_row_def row_get_def stale_db_def sample_db_def sample_run_def)
  from failed_execution_rolls_back [OF this] this show ?thesis by simp
qed



text \<open>Orphan sweep: exactly the running rows started at or before the cutoff (or never) become
  \<open>timed_out\<close>, one terminal event each; every other row is untouched, so no running row older than
  the cutoff is left.\<close>

theorem orphan_sweep:
  assumes "mark_orphaned_runs now secs d = ((n, evs), d')"
  shows "n = length evs \<and> n = length (filter (orphaned (now - secs * 1000000)) (db_runs d)) \<and>
    list_all2 (\<lambda>r r'. rn_id r' = rn_id r \<and> (if orphaned (now - secs * 1000000) r
        then is_terminal (rn_status r') \<and> rn_finished_at r' = Some now \<and> rn_id r \<in> fst ` set evs else r' = r))
      (db_runs d) (db_runs d') \<and>
    (\<forall>r \<in> set (db_runs d'). \<not> orphaned (now - secs * 1000000) r)"
  using assms
  by (auto simp: mark_orphaned_runs_def Let_def orphaned_def is_terminal_def TERMINAL_STATUSES_def
      list_all2_conv_all_nth image_image)

theorem orphan_sweep_witness:
  "let d = stale_db\<lparr>db_runs := [sample_run\<lparr>rn_status := ''running'', rn_started_at := Some 5\<rparr>]\<rparr> in
   let d' = snd (mark_orphaned_runs 9000000 1 d) in
   map rn_status (db_runs d') = [''timed_out''] \<and> (\<forall>r \<in> set (db_runs d'). \<not> orphaned 8000000 r)"
proof -
  let ?d = "stale_db\<lparr>db_runs := [sample_run\<lparr>rn_status := ''running'', rn_started_at := Some 5\<rparr>]\<rparr>"
  obtain n evs d' where r: "mark_orphaned_runs 9000000 1 ?d = ((n, evs), d')" by (metis prod.collapse)
  have "map rn_status (db_runs d') = [''timed_out'']"
    using r by (auto simp: mark_orphaned_runs_def Let_def orphaned_def)
  with orphan_sweep [OF r] r show ?thesis by (simp add: Let_def)
qed

section \<open>What every run keeps\<close>

text \<open>C4. Whatever topology a run names and whatever the model, the tools and the outside do, the artifact
  store stays consistent: the versions of a path count its log entries 1, 2, \<dots>, contents exist
  exactly for the paths that have a version, the logged size is that of the content held, and the
  rows handed to the database mirror the log.\<close>

theorem run_keeps_store:
  "saved_ok eng (snd (run_preset name eng graph agents (start_state run b bus kr)))"
proof -
  have "saved_ok eng (start_state run b bus kr)"
    by (simp add: saved_ok_def start_state_def new_run_state_def artifacts_ok_def log_of_def)
  then show ?thesis by (rule always_keepsD [OF store.topo.run_preset_frame])
qed

text \<open>C5. A run never takes more steps than its limit, and never spends more than its ceiling plus one
  call: \<open>C\<close> bounds the price of a single model call.\<close>

theorem run_within_budget:
  assumes "capped eng C"
  shows "(let g = es_budget (snd (run_preset name eng graph agents
              (start_state run (new_budget steps cost secs cc now) bus kr))) in
     steps_used g \<le> max 0 steps \<and> spent_microcents g \<le> max 0 (cost - 1 + C))"
proof -
  let ?s = "start_state run (new_budget steps cost secs cc now) bus kr"
  let ?t = "snd (run_preset name eng graph agents ?s)"
  have "under_ceiling eng C ?s ?t"
    using ceiling.topo.run_preset_frame unfolding always_def by blast
  moreover have b: "es_budget ?s = new_budget steps cost secs cc now" by (simp add: start_state_def)
  ultimately have "max_steps (es_budget ?t) = steps" "max_cost_microcents (es_budget ?t) = cost"
    and "within_ceiling C (es_budget ?t)"
    using assms within_ceiling_new by (simp_all add: under_ceiling_def same_limits_def b) (simp_all add: new_budget_def)
  then show ?thesis by (simp add: Let_def within_ceiling_def)
qed

theorem run_within_budget_witness:
  "let g = es_budget (snd (run_preset ''pipeline'' sample_engine sample_graph (load_agents sample_db ''o1'')
              (start_state sample_run (new_budget 40 100000000 3600 True 0) (new_bus ''r1'') (ro_resolver (es_router sample_start))))) in
     steps_used g \<le> 40 \<and> spent_microcents g \<le> 600000000"
  using run_within_budget [OF sample_capped, of "''pipeline''" sample_graph "load_agents sample_db ''o1''" sample_run 40 100000000
    3600 True 0 "new_bus ''r1''" "ro_resolver (es_router sample_start)"]
  by (simp add: Let_def)


text \<open>A run only ever appends: board, artifact log, persisted steps, tool calls, artifacts and published
  events before a run are a prefix of those after it.\<close>

theorem run_only_appends:
  "grows s (snd (run_preset name eng graph agents s))"
  using growth.topo.run_preset_frame unfolding always_def by blast

section \<open>Topologies\<close>

text \<open>C7. Bounds on the number of agent turns: a supervisor with \<open>n\<close> rounds left starts at most
  \<open>3 n + 1\<close> turns, a swarm with \<open>n\<close> hops left at most \<open>2 n + 1\<close>, a custom graph with \<open>n\<close> visits left
  at most \<open>2 n\<close>; retries of malformed replies included.\<close>

theorem turn_bounds:
  "step_index (es_run (snd (supervisor_loop eng mgr workers n s))) \<le> step_index (es_run s) + (3 * n + 1) \<and>
   step_index (es_run (snd (swarm_loop eng swarm n current visits s))) \<le> step_index (es_run s) + (2 * n + 1) \<and>
   step_index (es_run (snd (custom_loop eng g agents n here path s))) \<le> step_index (es_run s) + 2 * n"
  using supervisor_turns [of n eng mgr workers] swarm_turns [of n eng swarm current visits] custom_turns [of n eng g agents here path]
  unfolding turns_def always_def by blast

text \<open>C8. The blackboard loop is the plan: it runs every task of the list exactly once, one after the
  other, in an order that depends on nothing but the list; with an acyclic list (a rank that every
  dependency lowers) no task runs before one it depends on.\<close>

theorem blackboard_runs_plan:
  assumes "ranked r [] tasks" "distinct tasks"
  shows "\<exists>order. blackboard_loop eng workers [] tasks = efor order (run_task eng workers) \<and>
     mset order = mset tasks \<and>
     (\<forall>xs t ys. order = xs @ t # ys \<longrightarrow> set (tk_depends_on t) \<subseteq> tk_id ` set xs)"
  using blackboard_is_plan [of eng workers "[]" tasks] plan_order_mset [of "[]" tasks] plan_order_respects [OF assms]
  by (intro exI [of _ "plan_order [] tasks"]) simp

theorem blackboard_runs_plan_witness:
  "let t1 = \<lparr>tk_id = ''t1'', tk_title = ''a'', tk_worker = ''w'', tk_depends_on = [''t2'']\<rparr>;
       t2 = \<lparr>tk_id = ''t2'', tk_title = ''b'', tk_worker = ''w'', tk_depends_on = []\<rparr> in
   \<exists>order. blackboard_loop sample_engine (load_agents sample_db ''o1'') [] [t1, t2] = efor order (run_task sample_engine (load_agents sample_db ''o1'')) \<and> mset order = {#t1, t2#} \<and>
     (\<forall>xs t ys. order = xs @ t # ys \<longrightarrow> set (tk_depends_on t) \<subseteq> tk_id ` set xs)"
proof -
  let ?t1 = "\<lparr>tk_id = ''t1'', tk_title = ''a'', tk_worker = ''w'', tk_depends_on = [''t2'']\<rparr>"
  let ?t2 = "\<lparr>tk_id = ''t2'', tk_title = ''b'', tk_worker = ''w'', tk_depends_on = []\<rparr>"
  have "ranked (\<lambda>t. length (tk_depends_on t)) [] [?t1, ?t2]" by (simp add: ranked_def)
  from blackboard_runs_plan [OF this, of sample_engine "load_agents sample_db ''o1''"] show ?thesis by (simp add: Let_def)
qed

text \<open>C9. A plan written by a model is normalised into a well-formed task list: distinct ids, known workers,
  dependencies only on other tasks of the list, and never more tasks than asked for.\<close>

theorem plan_normalised:
  assumes "normalise_tasks raw workers n = Inr ts" "0 \<le> n"
  shows "tasks_ok workers ts \<and> int (length ts) \<le> n"
  by (rule normalise_tasks_ok [OF assms])

theorem plan_normalised_witness:
  "\<exists>ts. normalise_tasks (JList [JObj [(''id'', JStr ''t1''), (''depends_on'', JList [JStr ''t1'', JStr ''t9''])], JNull])
      (load_agents sample_db ''o1'') 8 = Inr ts \<and> tasks_ok (load_agents sample_db ''o1'') ts \<and> length ts = 1"
proof -
  let ?raw = "JList [JObj [(''id'', JStr ''t1''), (''depends_on'', JList [JStr ''t1'', JStr ''t9''])], JNull]"
  let ?ws = "load_agents sample_db ''o1''"
  have "(case normalise_tasks ?raw ?ws 8 of Inr ts \<Rightarrow> length ts = 1 | Inl _ \<Rightarrow> False)" by code_simp
  then obtain ts where "normalise_tasks ?raw ?ws 8 = Inr ts" "length ts = 1"
    by (auto split: sum.splits)
  with plan_normalised [OF this(1)] show ?thesis by auto
qed

text \<open>C10. A custom graph that passes validation can always be loaded, and no run of it leaves the graph:
  every position reachable from the start is a node or the end, and each visit moves along an edge
  or to the end.\<close>

theorem validated_graph_stays_on_graph:
  assumes "validate_custom graph = Inr aids"
  shows "\<exists>g start. load_graph graph = Inr g \<and> require_key graph ''start'' = Inr start \<and>
     (\<forall>v. reached g (JStr (j_str start)) v \<longrightarrow> on_graph g v) \<and>
     (\<forall>eng agents v node w s s'. custom_visit eng g agents v node s = (Inr (Some w), s') \<longrightarrow> moves g v w)"
proof -
  obtain g start where g: "load_graph graph = Inr g" "require_key graph ''start'' = Inr start"
    "closed g" "on_graph g (JStr (j_str start))"
    by (rule validated_closed [OF assms])
  moreover have "\<forall>v. reached g (JStr (j_str start)) v \<longrightarrow> on_graph g v"
    using reached_on_graph [OF _ g(3,4)] by blast
  ultimately show ?thesis using visit_moves by blast
qed

theorem validated_graph_stays_on_graph_witness:
  "let graph = [(''nodes'', JList [JObj [(''id'', JStr ''n1''), (''agent_id'', JStr ''a1'')]]), (''start'', JStr ''n1''),
       (''edges'', JList [JObj [(''from'', JStr ''n1''), (''to'', JStr ''n1'')]])] in
   \<exists>g. load_graph graph = Inr g \<and> (\<forall>v. reached g (JStr ''n1'') v \<longrightarrow> on_graph g v)"
proof -
  let ?graph = "[(''nodes'', JList [JObj [(''id'', JStr ''n1''), (''agent_id'', JStr ''a1'')]]), (''start'', JStr ''n1''),
       (''edges'', JList [JObj [(''from'', JStr ''n1''), (''to'', JStr ''n1'')]])]"
  have "validate_custom ?graph = Inr [JStr ''a1'']" by code_simp
  from validated_graph_stays_on_graph [OF this] show ?thesis by (auto simp: Let_def require_key_def jget_def)
qed

section \<open>Tools and artifacts\<close>

text \<open>C11. The results of a turn's tool calls answer the requests one by one, in the order the model asked,
  whatever order the event loop ran the calls in.\<close>

theorem tool_results_in_order:
  assumes "run_tools eng calls tools agent step offset s = (Inr parts, s')"
  shows "map (\<lambda>p. (trp_tool_call_id p, trp_name p)) parts = map (\<lambda>c. (tcr_id c, tcr_name c)) calls"
  by (rule run_tools_answers [OF assms])

theorem tool_results_in_order_witness:
  "\<exists>parts s'. run_tools sample_engine [\<lparr>tcr_id = ''c1'', tcr_name = ''rm'', tcr_arguments = []\<rparr>] [] (to_spec (sample_agent ''a1''))
      1 0 sample_start = (Inr parts, s') \<and> map trp_tool_call_id parts = [''c1'']"
proof -
  let ?m = "run_tools sample_engine [\<lparr>tcr_id = ''c1'', tcr_name = ''rm'', tcr_arguments = []\<rparr>] []
     (to_spec (sample_agent ''a1'')) 1 0"
  have "\<exists>ps. fst (?m sample_start) = Inr ps"
    by (simp add: run_tools_def mutating_def make_context_def Let_def unfinished_def eff_defs tick_def
        numeral_eq_Suc emit_event_def await_point_def sample_engine_def engine_for_def sample_outside_def run_call_def no_such_tool_def
        sink_tool_call_def)
  then obtain ps s' where r: "?m sample_start = (Inr ps, s')" by (metis prod.collapse)
  from arg_cong [OF tool_results_in_order [OF r], of "map fst"] r show ?thesis by (auto simp: comp_def)
qed




text \<open>A file read back after a successful write, without a line range, is the content written.\<close>

theorem read_returns_what_was_written:
  assumes "write_artifact_run args (make_context eng agent step s0) s = (Inr r, s')"
    and "jget args ''content'' = JStr c" "jget args' ''path'' = jget args ''path''"
    and "dget args' ''start_line'' = None" "dget args' ''line_count'' = None"
  shows "\<exists>r'. read_artifact_run args' (make_context eng agent step s0) s' = (Inr r', s') \<and> tr_content r' = c"
  using live.read_after_write [OF assms(1-3)] assms(4,5) by (fastforce simp: has_arg_def)

theorem read_returns_what_was_written_witness:
  "let ctx = make_context sample_engine (to_spec (sample_agent ''a1'')) 1 sample_start;
       args = [(''path'', JStr ''a.md''), (''content'', JStr ''one two'')] in
   \<exists>r s' r'. write_artifact_run args ctx sample_start = (Inr r, s') \<and>
     read_artifact_run [(''path'', JStr ''a.md'')] ctx s' = (Inr r', s') \<and> tr_content r' = ''one two''"
proof -
  let ?ctx = "make_context sample_engine (to_spec (sample_agent ''a1'')) 1 sample_start"
  let ?args = "[(''path'', JStr ''a.md''), (''content'', JStr ''one two'')]"
  obtain r s' where w: "write_artifact_run ?args ?ctx sample_start = (Inr r, s')" using sample_write by blast
  have "\<exists>r'. read_artifact_run [(''path'', JStr ''a.md'')] ?ctx s' = (Inr r', s') \<and> tr_content r' = ''one two''"
    by (rule read_returns_what_was_written [OF w]) (simp_all add: jget_def)
  with w show ?thesis by (simp add: Let_def)
qed



section \<open>Prompts\<close>

text \<open>C15. Confidentiality of the board: two boards that show an agent the same entries give it the same
  prompt, so nothing of an entry hidden from an agent reaches its model.\<close>

theorem hidden_entries_do_not_leak:
  assumes "visible_board (es_run s) (as_id agent) = visible_board (es_run s') (as_id agent)" "as_id agent \<noteq> []"
    and "user_input (es_run s) = user_input (es_run s')" "artifacts (es_run s) = artifacts (es_run s')"
    and "artifact_versions (es_run s) = artifact_versions (es_run s')"
  shows "fst (user_message eng agent ins mc s) = fst (user_message eng agent ins mc s')"
proof -
  have "transcript (es_run s) (Some (as_id agent)) m k = transcript (es_run s') (Some (as_id agent)) m k" for m k
    using assms(1,2) by (simp add: transcript_def)
  moreover have "artifact_index (es_run s) = artifact_index (es_run s')" using assms(4,5) by (simp add: artifact_index_def)
  ultimately show ?thesis using assms(3)
    by (cases "artifact_index (es_run s')") (simp_all add: user_message_def Let_def)
qed

theorem hidden_entries_do_not_leak_witness:
  "fst (user_message sample_engine (to_spec (sample_agent ''a1'')) (JStr ''go'') None sample_start)
   = fst (user_message sample_engine (to_spec (sample_agent ''a1'')) (JStr ''go'') None
       (sample_start\<lparr>es_run := append_entry (es_run sample_start) (to_spec (sample_agent ''a2'')) ''secret'' (Some [''a2''])\<rparr>))"
  by (rule hidden_entries_do_not_leak)
    (simp_all add: visible_board_def append_entry_def is_visible_to_def to_spec_def sample_agent_def)

text \<open>The transcript stays within its limit: when no entry's header and headline exceed \<open>H\<close>, it is at
  most \<open>H\<close>, one marker and the separators longer than the limit.\<close>

theorem transcript_bounded:
  assumes "\<And>e. e \<in> set (board st) \<Longrightarrow> length (entry_header e) + length (headline (be_content e) 600) \<le> H"
    and "0 \<le> m"
  shows "int (length (transcript st aid m k)) \<le> m + int H + 80 + 2 * int (length (board st))"
proof -
  define es where "es = (case aid of Some i \<Rightarrow> if i \<noteq> [] then visible_board st i else board st | None \<Rightarrow> board st)"
  have sub: "set es \<subseteq> set (board st)" and len: "length es \<le> length (board st)"
    by (auto simp: es_def visible_board_def split: option.splits)
  let ?blocks = "render_blocks k m 0 0 (rev es)"
  have "0 + int (sum_list (map length ?blocks)) \<le> m + int H + 1 + int (length omitted_marker)"
  proof (rule render_blocks_bound)
    fix e assume "e \<in> set (rev es)"
    then have "length (entry_header e) + length (headline (be_content e) 600) \<le> H" using assms(1) sub by auto
    then show "length (entry_header e) + length (headline (be_content e) 600) \<le> H" "length (entry_header e) \<le> H" by linarith+
  qed (use assms(2) in simp)
  moreover have "length ?blocks \<le> Suc (length (board st))" using length_render_blocks [of k m 0 0 "rev es"] len by simp
  moreover have "length (join [nl, nl] (rev ?blocks)) \<le> sum_list (map length ?blocks) + length ?blocks * 2"
    using length_join [of "[nl, nl]" "rev ?blocks"] by (simp add: rev_map [symmetric] sum_list_rev)
  moreover have "length omitted_marker \<le> 77" by (simp add: omitted_marker_def)
  moreover have "transcript st aid m k = (if es = [] then ''(no prior contributions)'' else join [nl, nl] (rev ?blocks))"
    by (simp add: transcript_def es_def Let_def)
  ultimately show ?thesis using assms(2) by (auto split: if_splits)
qed

theorem transcript_bounded_witness:
  "let st = (new_run_state ''go'')\<lparr>board := [\<lparr>be_agent_id = ''a'', be_agent_name = ''Ann'', be_role = ''w'', be_content = ''hi'',
       be_step_index = 1, be_visible_to = None\<rparr>]\<rparr> in
   int (length (transcript st None 100 6)) \<le> 282"
proof -
  let ?e = "\<lparr>be_agent_id = ''a'', be_agent_name = ''Ann'', be_role = ''w'', be_content = ''hi'',
       be_step_index = 1, be_visible_to = None\<rparr>"
  have "length (entry_header ?e) + length (headline (be_content ?e) 600) \<le> 100" by code_simp
  then show ?thesis
    using transcript_bounded [of "(new_run_state ''go'')\<lparr>board := [?e]\<rparr>" 100 100 None 6] by simp
qed

section \<open>Models, keys and money\<close>

text \<open>C16. A model call is answered within \<open>MAX_ATTEMPTS\<close> attempts, is priced from its own usage, and is
  billed to the platform exactly when the organisation's key mode says so for that model.\<close>

theorem call_billed_and_bounded:
  assumes "router_complete env t c ro = ((chunks, Inr rr), ro')"
  shows "rr_billed_to_platform rr = uses_platform (kr_mode (ro_resolver ro)) (lc_model c) \<and>
     1 \<le> rr_attempts rr \<and> rr_attempts rr \<le> MAX_ATTEMPTS \<and>
     cost_microcents (re_price_book env) (lc_model c) (lr_usage (rr_result rr)) = Inr (rr_cost_microcents rr)"
  using router_complete_ok [OF assms] by simp

theorem call_billed_and_bounded_witness:
  "\<exists>ch rr ro'. router_complete (en_router sample_engine) 1 sample_call (es_router sample_start) = ((ch, Inr rr), ro') \<and>
     rr_billed_to_platform rr \<and> rr_attempts rr \<le> MAX_ATTEMPTS"
proof -
  obtain ch rr ro' where r: "router_complete (en_router sample_engine) 1 sample_call (es_router sample_start) = ((ch, Inr rr), ro')"
    using sample_completes by blast
  from call_billed_and_bounded [OF r] r show ?thesis
    by (auto simp: uses_platform_def sample_start_def start_state_def)
qed

text \<open>An amount is charged in whole cents, rounded up: never less than it is worth, by less than a
  cent more.\<close>

theorem charge_rounds_up:
  assumes "0 < m"
  shows "microcents_to_cents m = \<lceil>rat_of_int m / rat_of_int MICROCENTS_PER_CENT\<rceil> \<and> 0 < microcents_to_cents m \<and>
     m \<le> cents_to_microcents (microcents_to_cents m) \<and>
     cents_to_microcents (microcents_to_cents m) < m + MICROCENTS_PER_CENT"
  using cents_ceiling [OF assms] cents_pos [OF assms] cents_bounds [OF assms] by simp

theorem charge_rounds_up_witness:
  "microcents_to_cents 1000001 = 2 \<and> 0 < microcents_to_cents 1000001"
  using charge_rounds_up [of 1000001] by (simp add: microcents_to_cents_def MICROCENTS_PER_CENT_def)

text \<open>C17. Every operation on the ledger keeps its invariant: balances are the sums of their entries,
  running balances add up, and an idempotency key names at most one entry of an organisation.\<close>

theorem ledger_kept:
  assumes "ledger_ok d" "\<forall>c \<in> set races. ledger_ok c"
  shows "ledger_ok (snd (post_entry races i p d)) \<and> ledger_ok (snd (charge_run cfg races i org run m d)) \<and>
     ledger_ok (snd (grant races i new_uuid org amount kind descr key creator d)) \<and> ledger_ok (snd (reconcile org d))"
proof -
  have post: "ledger_ok (snd (post_entry races i p d))" for p
    using post_entry_ok [OF assms] by (metis prod.collapse)
  moreover have "ledger_ok (snd (charge_run cfg races i org run m d))" using charge_ok [OF _ assms] by (metis prod.collapse)
  moreover have "ledger_ok (snd (grant races i new_uuid org amount kind descr key creator d))"
    using post assms by (simp add: grant_def)
  moreover have "ledger_ok (snd (reconcile org d))"
  proof (cases "get_org d org")
    case None
    then show ?thesis using assms(1) by (simp add: reconcile_def locked_org_def)
  next
    case (Some o1)
    then show ?thesis using reconcile_ok [OF assms(1)] by blast
  qed
  ultimately show ?thesis by blast
qed

theorem ledger_kept_witness:
  "ledger_ok (snd (grant [] ''l2'' ''u1'' ''o1'' 100 ''topup'' [] None None stale_db))"
  using ledger_kept [OF sample_ledger_ok, of "[]"] by simp

text \<open>Posting is idempotent: after a successful post, posting anything under the same key again, with
  whatever races, returns the recorded entry and changes nothing.\<close>

theorem posting_is_idempotent:
  assumes "post_entry races i p d = (Inr e, d')"
    and "po_org_id q = po_org_id p" "po_idempotency_key q = po_idempotency_key p"
  shows "post_entry races' j q d' = (Inr e, d')"
  using post_entry_found [OF assms(1)] assms(2,3) post_replayed [of d' q] by auto

theorem posting_is_idempotent_witness:
  "let p = \<lparr>po_org_id = ''o1'', po_kind = ''topup'', po_amount_cents = 7, po_idempotency_key = ''k1'', po_description = [],
       po_run_id = None, po_created_by = None\<rparr> in
   \<exists>e d'. post_entry [] ''l2'' p stale_db = (Inr e, d') \<and> post_entry [] ''l3'' (p\<lparr>po_amount_cents := 9\<rparr>) d' = (Inr e, d')"
proof -
  let ?p = "\<lparr>po_org_id = ''o1'', po_kind = ''topup'', po_amount_cents = 7, po_idempotency_key = ''k1'', po_description = [],
       po_run_id = None, po_created_by = None\<rparr>"
  have "\<exists>e d'. post_entry [] ''l2'' ?p stale_db = (Inr e, d')"
    by (subst post_entry.simps)
      (simp add: find_entry_def stale_db_def sample_db_def sample_grant_def locked_org_def get_org_def row_get_def sample_org_def Let_def)
  then obtain e d' where r: "post_entry [] ''l2'' ?p stale_db = (Inr e, d')" by blast
  from posting_is_idempotent [OF r, of "?p\<lparr>po_amount_cents := 9\<rparr>"] r show ?thesis by (auto simp: Let_def)
qed

section \<open>Events\<close>



text \<open>Streaming loses no text: after any number of pushes and a final flush, the token events published
  spell exactly the chunks pushed, in order, and between pushes the buffer holds less than its
  threshold.\<close>

theorem tokens_streamed_exactly:
  "(let (tb, b') = fold (\<lambda>c (tb, b). tb_push tb b ts c) chunks (new_token_buffer step, b) in
    concat (map token_text (bus_published (snd (tb_flush tb b' ts)))) =
      concat (map token_text (bus_published b)) @ concat chunks \<and> tb_ok tb)"
proof -
  obtain tb b' where f: "fold (\<lambda>c (tb, b). tb_push tb b ts c) chunks (new_token_buffer step, b) = (tb, b')"
    by (metis prod.collapse)
  have "tb_ok (new_token_buffer step)" by (simp add: tb_ok_def new_token_buffer_def)
  from pushes_streamed [OF this f] f show ?thesis by (simp add: streamed_def new_token_buffer_def)
qed

section \<open>Audit and configuration\<close>

text \<open>What is written to the audit log has no value left under a sensitive key, at any depth of nested
  objects, and keeps all its keys; scrubbing twice is scrubbing once.\<close>

theorem audit_is_scrubbed:
  "(let row = last (db_audit (audit_record e d)) in
    masked (au_detail row) \<and> map fst (au_detail row) = map fst (au_detail e) \<and> scrub (au_detail row) = au_detail row)"
  by (simp add: audit_record_def masked_scrub scrub_keys scrub_idem)

end
